(* ===== verification/Prelude.thy ===== *)
theory Prelude
  imports Main
begin

text \<open>
  Shared vocabulary of the development: the exceptions the services throw, the
  state-and-exception monad in which the service methods are written, the table
  primitives behind the ORM calls, and the generic contracts (a table of
  tenant-owned rows, a finite status machine) that the components instantiate.
\<close>

section \<open>Automation\<close>

named_theorems op_defs \<open>unfolding rules of the monadic combinators\<close>
named_theorems op_iffs \<open>when a monadic step returns, and when it throws\<close>
named_theorems frame \<open>parts of the state an operation leaves alone\<close>

section \<open>Exceptions\<close>

text \<open>
  The NestJS exceptions of the services carry their message. \<open>DecimalError\<close> is what
  the constructor of decimal.js throws on a text that is no number, \<open>DatabaseError\<close> a
  statement refused by the database, and \<open>TypeError\<close> the property access of an
  undefined value. Messages are written as in the source; the few that are not in
  ASCII are given in English.
\<close>

datatype exn =
    NotFoundException string
  | BadRequestException string
  | ConflictException string
  | ForbiddenException string
  | UnprocessableEntityException string
  | RangeError
  | Error string
  | DecimalError
  | DatabaseError
  | TypeError

type_synonym 'a result = "exn + 'a"
type_synonym uuid = string
type_synonym date = string
type_synonym millis = int

section \<open>Events and the world\<close>

text \<open>
  \<open>WebhookService.emit\<close> publishes a payload and appends an audit row through its own
  connection, outside any transaction of the caller: the log of emitted events is a part
  of the world that no rollback touches.
\<close>

record event =
  ev_name :: string
  ev_entityType :: string
  ev_entityId :: uuid
  ev_propertyId :: "uuid option"
  ev_data :: "(string \<times> string option) list"

record 'db world =
  wdb :: 'db
  wevents :: "event list"

type_synonym ('db, 'a) op = "'db world \<Rightarrow> 'a result \<times> 'db world"

definition returnS :: "'a \<Rightarrow> ('db, 'a) op" where
  "returnS a = (\<lambda>w. (Inr a, w))"

definition throwS :: "exn \<Rightarrow> ('db, 'a) op" where
  "throwS e = (\<lambda>w. (Inl e, w))"

definition bindS :: "('db, 'a) op \<Rightarrow> ('a \<Rightarrow> ('db, 'b) op) \<Rightarrow> ('db, 'b) op" where
  "bindS m f = (\<lambda>w. case m w of (Inl e, w') \<Rightarrow> (Inl e, w') | (Inr a, w') \<Rightarrow> f a w')"

definition liftS :: "'a result \<Rightarrow> ('db, 'a) op" where
  "liftS r = (\<lambda>w. (r, w))"

definition getS :: "('db \<Rightarrow> 'a) \<Rightarrow> ('db, 'a) op" where
  "getS f = (\<lambda>w. (Inr (f (wdb w)), w))"

definition modifyS :: "('db \<Rightarrow> 'db) \<Rightarrow> ('db, unit) op" where
  "modifyS f = (\<lambda>w. (Inr (), w\<lparr>wdb := f (wdb w)\<rparr>))"

definition whenS :: "bool \<Rightarrow> ('db, unit) op \<Rightarrow> ('db, unit) op" where
  "whenS b m = (if b then m else returnS ())"

definition guardS :: "bool \<Rightarrow> exn \<Rightarrow> ('db, unit) op" where
  "guardS b e = (if b then returnS () else throwS e)"

definition someS :: "'a option \<Rightarrow> exn \<Rightarrow> ('db, 'a) op" where
  "someS x e = (case x of Some a \<Rightarrow> returnS a | None \<Rightarrow> throwS e)"

text \<open>\<open>WebhookService.emit\<close>: the payload is recorded in the audit trail.\<close>

definition emit :: "string \<Rightarrow> string \<Rightarrow> uuid \<Rightarrow> (string \<times> string option) list \<Rightarrow> uuid option
    \<Rightarrow> ('db, unit) op" where
  "emit name entityType entityId payload propertyId = (\<lambda>w. (Inr (), w\<lparr>wevents := wevents w @
     [\<lparr>ev_name = name, ev_entityType = entityType, ev_entityId = entityId,
       ev_propertyId = propertyId, ev_data = payload\<rparr>]\<rparr>))"

text \<open>
  \<open>db.transaction(f)\<close>: when the body throws, the database is rolled back; what was
  emitted stays emitted.
\<close>

definition transactionS :: "('db, 'a) op \<Rightarrow> ('db, 'a) op" where
  "transactionS m = (\<lambda>w. case m w of
     (Inl e, w') \<Rightarrow> (Inl e, w'\<lparr>wdb := wdb w\<rparr>) | (Inr a, w') \<Rightarrow> (Inr a, w'))"

text \<open>
  \<open>try { m } catch { h }\<close>, and a loop over an array whose body may throw.
\<close>

definition catchS :: "('db, 'a) op \<Rightarrow> (exn \<Rightarrow> ('db, 'a) op) \<Rightarrow> ('db, 'a) op" where
  "catchS m h = (\<lambda>w. case m w of (Inl e, w') \<Rightarrow> h e w' | (Inr a, w') \<Rightarrow> (Inr a, w'))"

fun mapS :: "('a \<Rightarrow> ('db, 'b) op) \<Rightarrow> 'a list \<Rightarrow> ('db, 'b list) op" where
  "mapS f [] = returnS []"
| "mapS f (x # xs) = bindS (f x) (\<lambda>y. bindS (mapS f xs) (\<lambda>ys. returnS (y # ys)))"

fun foldS :: "('a \<Rightarrow> 's \<Rightarrow> ('db, 's) op) \<Rightarrow> 'a list \<Rightarrow> 's \<Rightarrow> ('db, 's) op" where
  "foldS f [] s = returnS s"
| "foldS f (x # xs) s = bindS (f x s) (\<lambda>s'. foldS f xs s')"

lemmas [op_defs] = returnS_def throwS_def bindS_def liftS_def getS_def modifyS_def whenS_def
  guardS_def someS_def emit_def Let_def

subsection \<open>When a step returns\<close>

lemma returnS_iff [op_iffs]: "returnS a w = (r, w') \<longleftrightarrow> r = Inr a \<and> w' = w"
  by (auto simp: returnS_def)

lemma throwS_iff [op_iffs]: "throwS e w = (r, w') \<longleftrightarrow> r = Inl e \<and> w' = w"
  by (auto simp: throwS_def)

lemma bindS_Inr_iff [op_iffs]:
  "bindS m f w = (Inr b, w'') \<longleftrightarrow> (\<exists>a w'. m w = (Inr a, w') \<and> f a w' = (Inr b, w''))"
  by (auto simp: bindS_def split: prod.splits sum.splits)

lemma bindS_Inl_iff [op_iffs]:
  "bindS m f w = (Inl e, w'') \<longleftrightarrow>
     m w = (Inl e, w'') \<or> (\<exists>a w'. m w = (Inr a, w') \<and> f a w' = (Inl e, w''))"
  by (auto simp: bindS_def split: prod.splits sum.splits)

lemma liftS_iff [op_iffs]: "liftS x w = (r, w') \<longleftrightarrow> x = r \<and> w' = w"
  by (auto simp: liftS_def)

lemma getS_iff [op_iffs]: "getS f w = (r, w') \<longleftrightarrow> r = Inr (f (wdb w)) \<and> w' = w"
  by (auto simp: getS_def)

lemma modifyS_iff [op_iffs]:
  "modifyS f w = (r, w') \<longleftrightarrow> r = Inr () \<and> w' = w\<lparr>wdb := f (wdb w)\<rparr>"
  by (auto simp: modifyS_def)

lemma guardS_Inr_iff [op_iffs]: "guardS b e w = (Inr u, w') \<longleftrightarrow> b \<and> w' = w"
  by (auto simp: guardS_def returnS_def throwS_def)

lemma guardS_Inl_iff [op_iffs]: "guardS b e w = (Inl e', w') \<longleftrightarrow> \<not> b \<and> e' = e \<and> w' = w"
  by (auto simp: guardS_def returnS_def throwS_def)

lemma someS_Inr_iff [op_iffs]: "someS x e w = (Inr a, w') \<longleftrightarrow> x = Some a \<and> w' = w"
  by (auto simp: someS_def returnS_def throwS_def split: option.splits)

lemma someS_Inl_iff [op_iffs]: "someS x e w = (Inl e', w') \<longleftrightarrow> x = None \<and> e' = e \<and> w' = w"
  by (auto simp: someS_def returnS_def throwS_def split: option.splits)

lemma whenS_Inr_iff [op_iffs]:
  "whenS b m w = (Inr u, w') \<longleftrightarrow> (if b then m w = (Inr u, w') else w' = w)"
  by (auto simp: whenS_def returnS_def)

lemma whenS_Inl_iff [op_iffs]: "whenS b m w = (Inl e, w') \<longleftrightarrow> b \<and> m w = (Inl e, w')"
  by (auto simp: whenS_def returnS_def)

lemma emit_iff [op_iffs]:
  "emit n t i d p w = (r, w') \<longleftrightarrow> r = Inr () \<and> w' = w\<lparr>wevents := wevents w @
     [\<lparr>ev_name = n, ev_entityType = t, ev_entityId = i, ev_propertyId = p, ev_data = d\<rparr>]\<rparr>"
  by (auto simp: emit_def)

lemma transactionS_Inr_iff [op_iffs]:
  "transactionS m w = (Inr a, w') \<longleftrightarrow> m w = (Inr a, w')"
  by (auto simp: transactionS_def split: prod.splits sum.splits)

lemma transactionS_rollback:
  "transactionS m w = (Inl e, w') \<Longrightarrow> wdb w' = wdb w"
  by (auto simp: transactionS_def split: prod.splits sum.splits)

lemma catchS_Inr_iff [op_iffs]:
  "catchS m h w = (Inr a, w'') \<longleftrightarrow>
     m w = (Inr a, w'') \<or> (\<exists>e w'. m w = (Inl e, w') \<and> h e w' = (Inr a, w''))"
  by (auto simp: catchS_def split: prod.splits sum.splits)

text \<open>Step-by-step evaluation of a method whose steps are known.\<close>

lemma bindS_return [simp]: "bindS (returnS a) f = f a"
  by (simp add: bindS_def returnS_def)

lemma bindS_throw [simp]: "bindS (throwS e) f = throwS e"
  by (simp add: bindS_def throwS_def)

lemma bindS_assoc: "bindS (bindS m f) g = bindS m (\<lambda>a. bindS (f a) g)"
  by (auto simp: bindS_def fun_eq_iff split: prod.splits sum.splits)

lemma guardS_simps [simp]: "guardS True e = returnS ()" "guardS False e = throwS e"
  by (simp_all add: guardS_def)

lemma someS_simps [simp]: "someS (Some a) e = returnS a" "someS None e = throwS e"
  by (simp_all add: someS_def)

text \<open>The same for computations without state.\<close>

definition bindR :: "'a result \<Rightarrow> ('a \<Rightarrow> 'b result) \<Rightarrow> 'b result" where
  "bindR m f = (case m of Inl e \<Rightarrow> Inl e | Inr a \<Rightarrow> f a)"

lemma bindR_simps [simp]: "bindR (Inl e) f = Inl e" "bindR (Inr a) f = f a"
  by (simp_all add: bindR_def)

lemma bindR_Inr_iff [op_iffs]: "bindR m f = Inr b \<longleftrightarrow> (\<exists>a. m = Inr a \<and> f a = Inr b)"
  by (auto simp: bindR_def split: sum.splits)

section \<open>Optional values\<close>

text \<open>\<open>x ?? d\<close>, and the truth of an optional string: a missing and an empty one are false.\<close>

definition nvl :: "'a option \<Rightarrow> 'a \<Rightarrow> 'a" where
  "nvl x d = (case x of None \<Rightarrow> d | Some a \<Rightarrow> a)"

lemma nvl_simps [simp]: "nvl None d = d" "nvl (Some a) d = a"
  by (simp_all add: nvl_def)

definition present :: "string option \<Rightarrow> bool" where
  "present x \<longleftrightarrow> (case x of None \<Rightarrow> False | Some s \<Rightarrow> s \<noteq> [])"

lemma present_simps [simp]: "\<not> present None" "present (Some s) \<longleftrightarrow> s \<noteq> []"
  by (simp_all add: present_def)

text \<open>A text between single quotes, and \<open>xs.join(sep)\<close>.\<close>

definition quoted :: "string \<Rightarrow> string" where
  "quoted s = CHR 0x27 # s @ [CHR 0x27]"

fun joinWith :: "string \<Rightarrow> string list \<Rightarrow> string" where
  "joinWith sep [] = []"
| "joinWith sep [x] = x"
| "joinWith sep (x # xs) = x @ sep @ joinWith sep xs"

section \<open>Tables\<close>

text \<open>
  A table is the list of its rows. \<open>const [row] = await db.select().where(p)\<close> is the
  first matching row, \<open>update().set(f).where(p)\<close> rewrites the matching rows.
\<close>

abbreviation sel1 :: "('r \<Rightarrow> bool) \<Rightarrow> 'r list \<Rightarrow> 'r option" where
  "sel1 p rows \<equiv> List.find p rows"

text \<open>\<open>const [row] = rows\<close>\<close>

fun firstRow :: "'r list \<Rightarrow> 'r option" where
  "firstRow [] = None"
| "firstRow (r # _) = Some r"

lemma firstRow_Some: "firstRow rs = Some r \<longleftrightarrow> (\<exists>t. rs = r # t)"
  by (cases rs) auto

lemma firstRow_None: "firstRow rs = None \<longleftrightarrow> rs = []"
  by (cases rs) auto

definition upd :: "('r \<Rightarrow> bool) \<Rightarrow> ('r \<Rightarrow> 'r) \<Rightarrow> 'r list \<Rightarrow> 'r list" where
  "upd p f rows = map (\<lambda>r. if p r then f r else r) rows"

lemma upd_Nil [simp]: "upd p f [] = []"
  by (simp add: upd_def)

lemma upd_Cons [simp]: "upd p f (r # rows) = (if p r then f r else r) # upd p f rows"
  by (simp add: upd_def)

lemma upd_append [simp]: "upd p f (xs @ ys) = upd p f xs @ upd p f ys"
  by (simp add: upd_def)

lemma length_upd [simp]: "length (upd p f rows) = length rows"
  by (simp add: upd_def)

lemma upd_idle: "(\<And>r. r \<in> set rows \<Longrightarrow> \<not> p r) \<Longrightarrow> upd p f rows = rows"
  by (induction rows) auto

lemma set_upd: "set (upd p f rows) = (\<lambda>r. if p r then f r else r) ` set rows"
  by (simp add: upd_def)

lemma list_all_upd: "list_all P (upd p f rows) \<longleftrightarrow> (\<forall>r\<in>set rows. P (if p r then f r else r))"
  unfolding upd_def list_all_iff set_map by (rule ball_simps(9))

lemma map_upd_same: "(\<And>r. p r \<Longrightarrow> g (f r) = g r) \<Longrightarrow> map g (upd p f rows) = map g rows"
  by (induction rows) auto

lemma filter_upd_disjoint:
  "(\<And>r. p r \<Longrightarrow> \<not> q r \<and> \<not> q (f r)) \<Longrightarrow> filter q (upd p f rows) = filter q rows"
  by (induction rows) auto

lemma filter_upd_out:
  "(\<And>r. \<not> q (f r)) \<Longrightarrow> filter q (upd p f rows) = filter (\<lambda>r. \<not> p r) (filter q rows)"
  by (induction rows) auto

lemma find_upd:
  "(\<And>r. p r \<Longrightarrow> q (f r) = q r) \<Longrightarrow>
   List.find q (upd p f rows) = map_option (\<lambda>r. if p r then f r else r) (List.find q rows)"
  by (induction rows) auto

lemma find_upd_same: "(\<And>r. p r \<Longrightarrow> p (f r)) \<Longrightarrow>
   List.find p (upd p f rows) = map_option f (List.find p rows)"
  by (induction rows) auto

lemma find_SomeD: "List.find p rows = Some r \<Longrightarrow> r \<in> set rows \<and> p r"
  by (induction rows) (auto split: if_splits)

lemma find_strengthen:
  "List.find p rows = Some r \<Longrightarrow> q r \<Longrightarrow> List.find (\<lambda>x. p x \<and> q x) rows = Some r"
  by (induction rows) (auto split: if_splits)

lemma find_of_filter: "filter p rows = r # rs \<Longrightarrow> List.find p rows = Some r"
  by (induction rows) (auto split: if_splits)

lemma find_NoneD: "List.find p rows = None \<Longrightarrow> r \<in> set rows \<Longrightarrow> \<not> p r"
  by (induction rows) (auto split: if_splits)

lemma find_append: "List.find p (xs @ ys) =
    (case List.find p xs of None \<Rightarrow> List.find p ys | Some x \<Rightarrow> Some x)"
  by (induction xs) auto

lemma find_cong': "(\<And>r. r \<in> set rows \<Longrightarrow> p r = q r) \<Longrightarrow> List.find p rows = List.find q rows"
  by (induction rows) auto

lemma find_key:
  assumes "distinct (map k rows)" and "r \<in> set rows" and "p r" and "\<And>x. p x \<Longrightarrow> k x = k r"
  shows "List.find p rows = Some r"
proof (cases "List.find p rows")
  case None
  with assms(2,3) show ?thesis by (auto dest: find_NoneD)
next
  case (Some x)
  with find_SomeD [OF this] assms(4) have "x \<in> set rows" and "k x = k r" by auto
  with assms(1,2) have "x = r" by (simp add: distinct_map inj_on_def)
  with Some show ?thesis by simp
qed

section \<open>Contract: a table of tenant-owned rows\<close>

text \<open>
  Every service addresses a row by its id and the id of the property (the tenant) that
  owns it: \<open>and(eq(t.id, id), eq(t.propertyId, propertyId))\<close>. The contract names the two
  columns; what follows from it is proved once and used by every component.
\<close>

locale tenant_table =
  fixes rid :: "'r \<Rightarrow> uuid" and rprop :: "'r \<Rightarrow> uuid"
begin

definition owned :: "uuid \<Rightarrow> uuid \<Rightarrow> 'r \<Rightarrow> bool" where
  "owned i p r \<longleftrightarrow> rid r = i \<and> rprop r = p"

lemma upd_other_tenant:
  assumes "\<And>r. rprop (f r) = rprop r" and "p \<noteq> q"
  shows "filter (\<lambda>r. rprop r = q) (upd (\<lambda>r. rid r = i \<and> rprop r = p) f rows)
       = filter (\<lambda>r. rprop r = q) rows"
  using assms by (intro filter_upd_disjoint) auto

lemma upd_ids:
  assumes "\<And>r. rid (f r) = rid r"
  shows "map rid (upd g f rows) = map rid rows"
  using assms by (intro map_upd_same) auto

lemma find_owned:
  assumes "List.find (\<lambda>r. rid r = i \<and> rprop r = p) rows = Some r"
  shows "r \<in> set rows" and "rid r = i" and "rprop r = p"
  using find_SomeD [OF assms] by auto

lemma find_after_upd:
  assumes "\<And>r. rid (f r) = rid r" and "\<And>r. rprop (f r) = rprop r"
  shows "List.find (\<lambda>r. rid r = j \<and> rprop r = q) (upd (\<lambda>r. rid r = i \<and> rprop r = p) f rows)
       = (if i = j \<and> p = q then map_option f (List.find (\<lambda>r. rid r = j \<and> rprop r = q) rows)
          else List.find (\<lambda>r. rid r = j \<and> rprop r = q) rows)"
  using assms by (induction rows) auto

lemma find_fresh:
  assumes "rid r \<notin> rid ` set rows" and "rprop r = q"
  shows "List.find (\<lambda>x. rid x = rid r \<and> rprop x = q) (rows @ [r]) = Some r"
proof -
  have "List.find (\<lambda>x. rid x = rid r \<and> rprop x = q) rows = None"
    using assms(1) by (induction rows) auto
  with assms(2) show ?thesis by (simp add: find_append)
qed

lemma find_append_other:
  assumes "rid r \<noteq> i"
  shows "List.find (\<lambda>x. rid x = i \<and> rprop x = q) (rows @ [r])
       = List.find (\<lambda>x. rid x = i \<and> rprop x = q) rows"
  using assms by (auto simp: find_append split: option.splits)

end

section \<open>Contract: a status machine\<close>

text \<open>
  Several components keep a status column and a table \<open>VALID_TRANSITIONS\<close> of the
  statuses that may follow each status. The contract: \<open>step\<close> moves exactly along the
  table. A status whose entry is empty is terminal.
\<close>

locale status_machine =
  fixes allowed :: "'s \<Rightarrow> 's list" and rank :: "'s \<Rightarrow> nat"
begin

definition step :: "'s \<Rightarrow> 's \<Rightarrow> bool" where
  "step a b \<longleftrightarrow> b \<in> set (allowed a)"

definition terminal :: "'s \<Rightarrow> bool" where
  "terminal a \<longleftrightarrow> allowed a = []"

fun path :: "'s \<Rightarrow> 's list \<Rightarrow> bool" where
  "path a [] = True"
| "path a (b # bs) = (step a b \<and> path b bs)"

lemma terminal_no_step: "terminal a \<Longrightarrow> \<not> step a b"
  by (simp add: step_def terminal_def)

lemma terminal_path: "terminal a \<Longrightarrow> path a bs \<Longrightarrow> bs = []"
  by (cases bs) (auto simp: step_def terminal_def)

lemma path_append: "path a (bs @ cs) \<longleftrightarrow> path a bs \<and> path (last (a # bs)) cs"
  by (induction bs arbitrary: a) auto

lemma path_closed:
  assumes "\<And>x y. P x \<Longrightarrow> step x y \<Longrightarrow> P y" and "P a" and "path a bs"
  shows "P (last (a # bs))"
  using assms(2,3) by (induction bs arbitrary: a) (auto dest: assms(1))

end

text \<open>A machine whose every move lowers a rank runs out of moves: its lives are bounded.\<close>

locale ranked_status_machine = status_machine +
  assumes rank_down: "b \<in> set (allowed a) \<Longrightarrow> rank b < rank a"
begin

lemma path_bounded: "path a bs \<Longrightarrow> rank (last (a # bs)) + length bs \<le> rank a"
proof (induction bs arbitrary: a)
  case Nil
  then show ?case by simp
next
  case (Cons b bs)
  then have "rank b < rank a" and "rank (last (b # bs)) + length bs \<le> rank b"
    by (auto simp: step_def dest: rank_down)
  then show ?case by simp
qed

lemma path_length: "path a bs \<Longrightarrow> length bs \<le> rank a"
  using path_bounded [of a bs] by simp

lemma path_distinct: "path a bs \<Longrightarrow> distinct (a # bs)"
proof (induction bs arbitrary: a)
  case Nil
  then show ?case by simp
next
  case (Cons b bs)
  have below: "\<And>x. x \<in> set bs \<Longrightarrow> path b bs \<Longrightarrow> rank x < rank b" for b bs
  proof -
    fix x b bs assume "x \<in> set bs" and "path b bs"
    then show "rank x < rank b"
      by (induction bs arbitrary: b) (auto simp: step_def dest!: rank_down intro: less_trans)
  qed
  from Cons.prems have "rank b < rank a" and pb: "path b bs"
    by (auto simp: step_def dest: rank_down)
  moreover have "\<forall>x\<in>set bs. rank x < rank b" using below pb by blast
  ultimately show ?case using Cons.IH [OF pb] by auto
qed

end

end
