(* ===== verification/Numerics.thy ===== *)
theory Numerics
  imports Complex_Main Prelude
begin

text \<open>
  Money. The services keep amounts as decimal texts (PostgreSQL \<open>numeric(12,2)\<close>
  columns read as strings) and compute on them with decimal.js. Neither library is part
  of the repository: both enter the model as the record \<open>ext\<close> of the operations the
  code calls, and the locale \<open>numerics\<close> states what their documentation promises. The
  interpretation at the end shows on a reference implementation that the promises can
  be met together.
\<close>

section \<open>Decimal texts and their values\<close>

definition is_digit :: "char \<Rightarrow> bool" where
  "is_digit c \<longleftrightarrow> 48 \<le> (of_char c :: nat) \<and> (of_char c :: nat) \<le> 57"

definition digit_val :: "char \<Rightarrow> nat" where
  "digit_val c = of_char c - 48"

definition digit_char :: "nat \<Rightarrow> char" where
  "digit_char d = char_of (48 + d)"

definition digits_val :: "string \<Rightarrow> nat" where
  "digits_val = foldl (\<lambda>n c. 10 * n + digit_val c) 0"

definition all_digits :: "string \<Rightarrow> bool" where
  "all_digits s \<longleftrightarrow> s \<noteq> [] \<and> list_all is_digit s"

text \<open>A plain literal without sign: digits, or digits, a point and digits.\<close>

definition unsigned_text :: "string \<Rightarrow> rat option" where
  "unsigned_text s =
     (let ip = takeWhile (\<lambda>c. c \<noteq> CHR ''.'') s; rest = dropWhile (\<lambda>c. c \<noteq> CHR ''.'') s
      in if \<not> all_digits ip then None
         else case rest of
                [] \<Rightarrow> Some (of_nat (digits_val ip))
              | _ # fp \<Rightarrow>
                  (if all_digits fp
                   then Some (of_nat (digits_val ip) + of_nat (digits_val fp) / 10 ^ length fp)
                   else None))"

definition decimal_text :: "string \<Rightarrow> rat option" where
  "decimal_text s =
     (case s of c # cs \<Rightarrow> (if c = CHR ''-'' then map_option uminus (unsigned_text cs)
                           else unsigned_text s)
              | [] \<Rightarrow> None)"

section \<open>Rounding\<close>

text \<open>ROUND\_HALF\_UP of decimal.js, and the rounding of a numeric cast: ties go away from zero.\<close>

definition round_half_up :: "rat \<Rightarrow> int" where
  "round_half_up x = (if x < 0 then - \<lfloor>1 / 2 - x\<rfloor> else \<lfloor>x + 1 / 2\<rfloor>)"

definition round_dp :: "nat \<Rightarrow> rat \<Rightarrow> rat" where
  "round_dp n x = of_int (round_half_up (x * 10 ^ n)) / 10 ^ n"

definition scaled :: "nat \<Rightarrow> rat \<Rightarrow> bool" where
  "scaled n x \<longleftrightarrow> x * 10 ^ n \<in> \<int>"

lemma round_half_up_of_int [simp]: "round_half_up (of_int n) = n"
proof (cases "n < 0")
  case True
  have "\<lfloor>1 / 2 - rat_of_int n\<rfloor> = - n"
    by (rule floor_unique) auto
  with True show ?thesis by (simp add: round_half_up_def)
next
  case False
  have "\<lfloor>rat_of_int n + 1 / 2\<rfloor> = n"
    by (rule floor_unique) auto
  with False show ?thesis by (simp add: round_half_up_def)
qed

lemma round_half_up_literal [simp]:
  "round_half_up (numeral k) = numeral k" "round_half_up (- numeral k) = - numeral k"
  "round_half_up 0 = 0" "round_half_up 1 = 1" "round_half_up (- 1) = - 1"
  using round_half_up_of_int [of "numeral k"] round_half_up_of_int [of "- numeral k"]
    round_half_up_of_int [of 0] round_half_up_of_int [of 1] round_half_up_of_int [of "- 1"]
  by simp_all

lemma round_half_up_near: "\<bar>of_int (round_half_up x) - x\<bar> \<le> 1 / 2"
proof -
  have "of_int \<lfloor>y\<rfloor> \<le> y" and "y < of_int \<lfloor>y\<rfloor> + 1" for y :: rat
    by linarith+
  from this [of "1 / 2 - x"] this [of "x + 1 / 2"] show ?thesis
    unfolding round_half_up_def abs_le_iff by (auto simp del: of_int_floor_le)
qed

lemma round_half_up_minus [simp]: "round_half_up (- x) = - round_half_up x"
proof -
  have "\<lfloor>1 / 2 :: rat\<rfloor> = 0" by (rule floor_unique) auto
  then show ?thesis by (cases "x = 0") (auto simp: round_half_up_def add.commute)
qed

lemma round_half_up_mono: "x \<le> y \<Longrightarrow> round_half_up x \<le> round_half_up y"
proof -
  assume le: "x \<le> y"
  consider "y < 0" | "x < 0" "0 \<le> y" | "0 \<le> x" by linarith
  then show ?thesis
  proof cases
    case 1
    with le have "\<lfloor>1 / 2 - y\<rfloor> \<le> \<lfloor>1 / 2 - x\<rfloor>" by (intro floor_mono) simp
    with 1 le show ?thesis by (simp add: round_half_up_def)
  next
    case 2
    have "0 \<le> \<lfloor>1 / 2 - x\<rfloor>" and "0 \<le> \<lfloor>y + 1 / 2\<rfloor>" using 2 by simp_all
    then have "- \<lfloor>1 / 2 - x\<rfloor> \<le> \<lfloor>y + 1 / 2\<rfloor>" by linarith
    with 2 show ?thesis by (simp add: round_half_up_def)
  next
    case 3
    with le have "\<lfloor>x + 1 / 2\<rfloor> \<le> \<lfloor>y + 1 / 2\<rfloor>" by (intro floor_mono) simp
    with 3 le show ?thesis by (simp add: round_half_up_def)
  qed
qed

lemma round_dp_scaled: "scaled n x \<Longrightarrow> round_dp n x = x"
proof -
  assume "scaled n x"
  then obtain z where z: "x * 10 ^ n = of_int z" by (auto simp: scaled_def elim!: Ints_cases)
  then have "round_dp n x = of_int z / 10 ^ n" by (simp add: round_dp_def)
  also have "\<dots> = x" by (simp flip: z)
  finally show ?thesis .
qed

lemma scaled_round_dp: "scaled n (round_dp n x)"
  by (simp add: scaled_def round_dp_def)

lemma round_dp_idem [simp]: "round_dp n (round_dp n x) = round_dp n x"
  by (rule round_dp_scaled) (rule scaled_round_dp)

lemma round_dp_mono: "x \<le> y \<Longrightarrow> round_dp n x \<le> round_dp n y"
  by (simp add: round_dp_def round_half_up_mono divide_right_mono)

lemma round_dp_minus [simp]: "round_dp n (- x) = - round_dp n x"
  by (simp add: round_dp_def)

lemma round_dp_0 [simp]: "round_dp n 0 = 0"
  using round_half_up_of_int [of 0] by (simp add: round_dp_def)

lemma round_dp_nonneg: "0 \<le> x \<Longrightarrow> 0 \<le> round_dp n x"
  using round_dp_mono [of 0 x n] by simp

lemma round_dp_near: "\<bar>round_dp n x - x\<bar> \<le> 1 / (2 * 10 ^ n)"
proof -
  have "round_dp n x - x = (of_int (round_half_up (x * 10 ^ n)) - x * 10 ^ n) / 10 ^ n"
    by (simp add: round_dp_def field_simps)
  then have "\<bar>round_dp n x - x\<bar> = \<bar>of_int (round_half_up (x * 10 ^ n)) - x * 10 ^ n\<bar> / 10 ^ n"
    by simp
  also have "\<dots> \<le> (1 / 2) / 10 ^ n"
    by (intro divide_right_mono round_half_up_near) simp
  finally show ?thesis by simp
qed

lemma scaled_0 [simp]: "scaled n 0"
  by (simp add: scaled_def)

lemma scaled_add: "scaled n x \<Longrightarrow> scaled n y \<Longrightarrow> scaled n (x + y)"
  by (simp add: scaled_def distrib_right)

lemma scaled_minus: "scaled n x \<Longrightarrow> scaled n (- x)"
  by (simp add: scaled_def)

lemma scaled_diff: "scaled n x \<Longrightarrow> scaled n y \<Longrightarrow> scaled n (x - y)"
  by (simp add: scaled_def left_diff_distrib)

lemma scaled_mult: "scaled m x \<Longrightarrow> scaled n y \<Longrightarrow> scaled (m + n) (x * y)"
proof -
  assume "scaled m x" and "scaled n y"
  then have "(x * 10 ^ m) * (y * 10 ^ n) \<in> \<int>" by (simp add: scaled_def)
  then show ?thesis by (simp add: scaled_def power_add ac_simps)
qed

lemma scaled_of_int [simp]: "scaled n (of_int k)"
  by (simp add: scaled_def)

lemma scaled_sum_list: "(\<And>x. x \<in> set xs \<Longrightarrow> scaled n x) \<Longrightarrow> scaled n (sum_list xs)"
  by (induction xs) (auto intro: scaled_add)

lemma abs_sum_list_bound:
  fixes xs :: "rat list"
  assumes "\<And>x. x \<in> set xs \<Longrightarrow> \<bar>x\<bar> \<le> b"
  shows "\<bar>sum_list xs\<bar> \<le> of_nat (length xs) * b"
  using assms
proof (induction xs)
  case Nil
  then show ?case by simp
next
  case (Cons x xs)
  have "\<bar>x + sum_list xs\<bar> \<le> \<bar>x\<bar> + \<bar>sum_list xs\<bar>" by (rule abs_triangle_ineq)
  also have "\<dots> \<le> b + of_nat (length xs) * b"
    using Cons by (intro add_mono) auto
  finally show ?case by (simp add: algebra_simps)
qed

section \<open>Printing with a fixed number of decimals\<close>

fun frac_digits :: "nat \<Rightarrow> nat \<Rightarrow> string" where
  "frac_digits 0 m = []"
| "frac_digits (Suc n) m = frac_digits n (m div 10) @ [digit_char (m mod 10)]"

fun show_nat :: "nat \<Rightarrow> string" where
  "show_nat m = (if m < 10 then [digit_char m] else show_nat (m div 10) @ [digit_char (m mod 10)])"

declare show_nat.simps [simp del]

definition show_fixed :: "nat \<Rightarrow> rat \<Rightarrow> string" where
  "show_fixed n x =
     (let c = round_half_up (x * 10 ^ n); m = nat \<bar>c\<bar>;
          body = show_nat (m div 10 ^ n) @ (if n = 0 then [] else CHR ''.'' # frac_digits n m)
      in if c < 0 then CHR ''-'' # body else body)"

lemma digit_char_props:
  assumes "d < 10"
  shows "is_digit (digit_char d)" and "digit_val (digit_char d) = d"
    and "digit_char d \<noteq> CHR ''.''" and "digit_char d \<noteq> CHR ''-''"
proof -
  have v: "(of_char (digit_char d) :: nat) = 48 + d"
    using assms by (simp add: digit_char_def)
  then show "is_digit (digit_char d)" and "digit_val (digit_char d) = d"
    using assms by (simp_all add: is_digit_def digit_val_def)
  have "(of_char (digit_char d) :: nat) \<noteq> of_char (CHR ''.'')"
    and "(of_char (digit_char d) :: nat) \<noteq> of_char (CHR ''-'')"
    by (simp_all add: v)
  then show "digit_char d \<noteq> CHR ''.''" and "digit_char d \<noteq> CHR ''-''" by metis+
qed

lemma digits_val_snoc: "digits_val (s @ [c]) = 10 * digits_val s + digit_val c"
  by (simp add: digits_val_def)

lemma length_frac_digits [simp]: "length (frac_digits n m) = n"
  by (induction n arbitrary: m) auto

lemma frac_digits_digits: "list_all is_digit (frac_digits n m)"
  by (induction n arbitrary: m) (auto simp: digit_char_props)

lemma digits_val_frac: "digits_val (frac_digits n m) = m mod 10 ^ n"
proof (induction n arbitrary: m)
  case 0
  then show ?case by (simp add: digits_val_def)
next
  case (Suc n)
  have "m mod 10 ^ Suc n = 10 * (m div 10 mod 10 ^ n) + m mod 10"
    using mod_mult2_eq [of m 10 "10 ^ n"] by simp
  with Suc show ?case by (simp add: digits_val_snoc digit_char_props)
qed

lemma show_nat_digits: "all_digits (show_nat m)"
  by (induction m rule: show_nat.induct)
     (subst show_nat.simps, auto simp: all_digits_def digit_char_props)

lemma digits_val_show_nat: "digits_val (show_nat m) = m"
proof (induction m rule: show_nat.induct)
  case (1 m)
  then show ?case
    by (subst show_nat.simps)
       (auto simp: digits_val_snoc digit_char_props digits_val_def)
qed

lemma digit_not_point: "is_digit c \<Longrightarrow> c \<noteq> CHR ''.'' \<and> c \<noteq> CHR ''-''"
  by (auto simp: is_digit_def)

lemma digits_no_point: "list_all is_digit s \<Longrightarrow> c \<in> set s \<Longrightarrow> c \<noteq> CHR ''.''"
  by (auto simp: list_all_iff dest: digit_not_point)

lemma takeWhile_digits:
  assumes "list_all is_digit s"
  shows "takeWhile (\<lambda>c. c \<noteq> CHR ''.'') (s @ CHR ''.'' # t) = s"
    and "dropWhile (\<lambda>c. c \<noteq> CHR ''.'') (s @ CHR ''.'' # t) = CHR ''.'' # t"
    and "takeWhile (\<lambda>c. c \<noteq> CHR ''.'') s = s"
    and "dropWhile (\<lambda>c. c \<noteq> CHR ''.'') s = []"
  using assms by (induction s) (auto dest: digit_not_point)

lemma unsigned_text_body:
  "unsigned_text (show_nat (m div 10 ^ n) @ (if n = 0 then [] else CHR ''.'' # frac_digits n m))
   = Some (of_nat m / 10 ^ n)"
proof -
  have d: "list_all is_digit (show_nat k)" "show_nat k \<noteq> []" for k
    using show_nat_digits [of k] by (auto simp: all_digits_def)
  show ?thesis
  proof (cases "n = 0")
    case True
    then show ?thesis
      by (simp add: unsigned_text_def Let_def takeWhile_digits d show_nat_digits
          digits_val_show_nat)
  next
    case False
    have "rat_of_nat m = of_nat (m div 10 ^ n * 10 ^ n + m mod 10 ^ n)"
      by (simp only: div_mult_mod_eq)
    also have "\<dots> = of_nat (m div 10 ^ n) * 10 ^ n + of_nat (m mod 10 ^ n)"
      by (simp only: of_nat_add of_nat_mult of_nat_power of_nat_numeral)
    finally have "rat_of_nat m / 10 ^ n = of_nat (m div 10 ^ n) + of_nat (m mod 10 ^ n) / 10 ^ n"
      by (simp add: add_divide_distrib)
    moreover have "all_digits (frac_digits n m)"
      using False frac_digits_digits [of n m] length_frac_digits [of n m]
      by (auto simp: all_digits_def simp del: length_frac_digits)
    ultimately show ?thesis using False
      by (simp add: unsigned_text_def Let_def takeWhile_digits d show_nat_digits
          digits_val_show_nat digits_val_frac)
  qed
qed

lemma decimal_text_body: "s \<noteq> [] \<Longrightarrow> is_digit (hd s) \<Longrightarrow> decimal_text s = unsigned_text s"
  by (cases s) (auto simp: decimal_text_def dest: digit_not_point)

text \<open>Reading back a printed amount gives the rounded amount.\<close>

lemma decimal_text_show_fixed [simp]: "decimal_text (show_fixed n x) = Some (round_dp n x)"
proof -
  define c where "c = round_half_up (x * 10 ^ n)"
  define m where "m = nat \<bar>c\<bar>"
  define body where "body = show_nat (m div 10 ^ n) @
    (if n = 0 then [] else CHR ''.'' # frac_digits n m)"
  have u: "unsigned_text body = Some (of_nat m / 10 ^ n)"
    unfolding body_def by (rule unsigned_text_body)
  have hd: "body \<noteq> []" "is_digit (hd body)"
    using show_nat_digits [of "m div 10 ^ n"]
    by (auto simp: body_def all_digits_def list_all_iff hd_append)
  have s: "show_fixed n x = (if c < 0 then CHR ''-'' # body else body)"
    by (simp add: show_fixed_def Let_def c_def m_def body_def)
  have "decimal_text (show_fixed n x) =
      Some ((if c < 0 then - of_nat m else of_nat m) / 10 ^ n)"
    using u hd by (auto simp: s decimal_text_body) (simp add: decimal_text_def)
  also have "(if c < 0 then - rat_of_nat m else of_nat m) = of_int c"
    by (auto simp: m_def)
  finally show ?thesis by (simp add: round_dp_def c_def)
qed

section \<open>The operations of decimal.js and of the numeric columns\<close>

text \<open>
  The calls the services make. \<open>dec_new\<close> is the constructor on a text (\<open>None\<close>: it throws),
  \<open>dec_int\<close> the constructor on an integral number. \<open>pg_numeric p s\<close> stores a text into a
  column \<open>numeric(p,s)\<close> and gives the text the column then reads as (\<open>None\<close>: the statement
  is refused), and \<open>pg_sum\<close> is \<open>coalesce(sum(x::numeric), 0)\<close> over amounts of scale two.
\<close>

record 'd numlib =
  dec_new :: "string \<Rightarrow> 'd option"
  dec_int :: "int \<Rightarrow> 'd"
  dec_plus :: "'d \<Rightarrow> 'd \<Rightarrow> 'd"
  dec_minus :: "'d \<Rightarrow> 'd \<Rightarrow> 'd"
  dec_times :: "'d \<Rightarrow> 'd \<Rightarrow> 'd"
  dec_div :: "'d \<Rightarrow> 'd \<Rightarrow> 'd"
  dec_abs :: "'d \<Rightarrow> 'd"
  dec_neg :: "'d \<Rightarrow> 'd"
  dec_lt :: "'d \<Rightarrow> 'd \<Rightarrow> bool"
  dec_lte :: "'d \<Rightarrow> 'd \<Rightarrow> bool"
  dec_eq :: "'d \<Rightarrow> 'd \<Rightarrow> bool"
  dec_isFinite :: "'d \<Rightarrow> bool"
  dec_isNegative :: "'d \<Rightarrow> bool"
  dec_isInteger :: "'d \<Rightarrow> bool"
  dec_toDecimalPlaces :: "nat \<Rightarrow> 'd \<Rightarrow> 'd"
  dec_toFixed :: "nat \<Rightarrow> 'd \<Rightarrow> string"
  pg_numeric :: "nat \<Rightarrow> nat \<Rightarrow> string \<Rightarrow> string option"
  pg_sum :: "string list \<Rightarrow> string"

abbreviation dec_gt :: "'d numlib \<Rightarrow> 'd \<Rightarrow> 'd \<Rightarrow> bool" where
  "dec_gt L a b \<equiv> dec_lt L b a"

abbreviation dec_gte :: "'d numlib \<Rightarrow> 'd \<Rightarrow> 'd \<Rightarrow> bool" where
  "dec_gte L a b \<equiv> dec_lte L b a"

text \<open>\<open>new Decimal(text)\<close> and a store into a \<open>numeric(12,2)\<close> column, as steps that may throw.\<close>

definition newDecimal :: "'d numlib \<Rightarrow> string \<Rightarrow> 'd result" where
  "newDecimal L s = (case dec_new L s of None \<Rightarrow> Inl DecimalError | Some d \<Rightarrow> Inr d)"

definition numeric12_2 :: "'d numlib \<Rightarrow> string \<Rightarrow> string result" where
  "numeric12_2 L s = (case pg_numeric L 12 2 s of None \<Rightarrow> Inl DatabaseError | Some t \<Rightarrow> Inr t)"

text \<open>\<open>new Decimal(text).toFixed(2)\<close>, the form most amounts take before they are stored.\<close>

definition fixed2 :: "'d numlib \<Rightarrow> string \<Rightarrow> string result" where
  "fixed2 L s = (case newDecimal L s of Inl e \<Rightarrow> Inl e | Inr d \<Rightarrow> Inr (dec_toFixed L 2 d))"

text \<open>What a \<open>numeric(12,2)\<close> column holds: a plain literal of scale two below \<open>10 ^ 10\<close>.\<close>

definition text_val :: "string \<Rightarrow> rat" where
  "text_val s = (case decimal_text s of None \<Rightarrow> 0 | Some x \<Rightarrow> x)"

definition money_text :: "string \<Rightarrow> bool" where
  "money_text s \<longleftrightarrow> (case decimal_text s of None \<Rightarrow> False
     | Some x \<Rightarrow> round_dp 2 x = x \<and> \<bar>x\<bar> < 10 ^ 10)"

lemma money_text_iff: "money_text s \<longleftrightarrow>
    (\<exists>x. decimal_text s = Some x \<and> text_val s = x \<and> scaled 2 x \<and> \<bar>x\<bar> < 10 ^ 10)"
proof -
  have "round_dp 2 x = x \<longleftrightarrow> scaled 2 x" for x
    using round_dp_scaled scaled_round_dp by metis
  then show ?thesis by (auto simp: money_text_def text_val_def split: option.splits)
qed

lemma money_textI: "decimal_text s = Some x \<Longrightarrow> scaled 2 x \<Longrightarrow> \<bar>x\<bar> < 10 ^ 10 \<Longrightarrow> money_text s"
  by (simp add: money_text_def round_dp_scaled)

lemma text_val_Some: "decimal_text s = Some x \<Longrightarrow> text_val s = x"
  by (simp add: text_val_def)

lemma money_textD:
  assumes "money_text s"
  shows "decimal_text s = Some (text_val s)" and "scaled 2 (text_val s)"
    and "\<bar>text_val s\<bar> < 10 ^ 10"
  using assms unfolding money_text_iff by auto

text \<open>
  decimal.js works with 20 significant digits (its default \<open>precision\<close>, which the
  repository never changes): a result of at most 20 digits is exact.
\<close>

definition digits20 :: "rat \<Rightarrow> bool" where
  "digits20 x \<longleftrightarrow> (\<exists>k. scaled k x \<and> \<bar>x\<bar> * 10 ^ k < 10 ^ 20)"

lemma digits20I: "scaled k x \<Longrightarrow> \<bar>x\<bar> * 10 ^ k < 10 ^ 20 \<Longrightarrow> digits20 x"
  by (auto simp: digits20_def)

lemma digits20_cents: "scaled 2 x \<Longrightarrow> \<bar>x\<bar> < 10 ^ 18 \<Longrightarrow> digits20 x"
  by (rule digits20I [of 2]) simp_all

locale numerics =
  fixes L :: "'d numlib" and dval :: "'d \<Rightarrow> rat option"
  assumes new_text: "decimal_text s = Some x \<Longrightarrow> \<exists>d. dec_new L s = Some d \<and> dval d = Some x"
    and int_val: "\<bar>k\<bar> < 2 ^ 53 \<Longrightarrow> dval (dec_int L k) = Some (of_int k)"
    and plus_val: "dval a = Some x \<Longrightarrow> dval b = Some y \<Longrightarrow> digits20 (x + y) \<Longrightarrow>
      dval (dec_plus L a b) = Some (x + y)"
    and minus_val: "dval a = Some x \<Longrightarrow> dval b = Some y \<Longrightarrow> digits20 (x - y) \<Longrightarrow>
      dval (dec_minus L a b) = Some (x - y)"
    and times_val: "dval a = Some x \<Longrightarrow> dval b = Some y \<Longrightarrow> digits20 (x * y) \<Longrightarrow>
      dval (dec_times L a b) = Some (x * y)"
    and div_val: "dval a = Some x \<Longrightarrow> dval b = Some y \<Longrightarrow> y \<noteq> 0 \<Longrightarrow> digits20 (x / y) \<Longrightarrow>
      dval (dec_div L a b) = Some (x / y)"
    and abs_val: "dval a = Some x \<Longrightarrow> dval (dec_abs L a) = Some \<bar>x\<bar>"
    and neg_val: "dval a = Some x \<Longrightarrow> dval (dec_neg L a) = Some (- x)"
    and lt_val: "dval a = Some x \<Longrightarrow> dval b = Some y \<Longrightarrow> dec_lt L a b \<longleftrightarrow> x < y"
    and lte_val: "dval a = Some x \<Longrightarrow> dval b = Some y \<Longrightarrow> dec_lte L a b \<longleftrightarrow> x \<le> y"
    and eq_val: "dval a = Some x \<Longrightarrow> dval b = Some y \<Longrightarrow> dec_eq L a b \<longleftrightarrow> x = y"
    and isFinite_val: "dec_isFinite L a \<longleftrightarrow> dval a \<noteq> None"
    and isNegative_val: "dval a = Some x \<Longrightarrow> x \<noteq> 0 \<Longrightarrow> dec_isNegative L a \<longleftrightarrow> x < 0"
    and toDecimalPlaces_val: "dval a = Some x \<Longrightarrow>
      dval (dec_toDecimalPlaces L n a) = Some (round_dp n x)"
    and toFixed_text: "dval a = Some x \<Longrightarrow> decimal_text (dec_toFixed L n a) = Some (round_dp n x)"
    and numeric_text: "decimal_text s = Some x \<Longrightarrow> \<bar>round_dp c x\<bar> < 10 ^ (p - c) \<Longrightarrow>
      \<exists>t. pg_numeric L p c s = Some t \<and> decimal_text t = Some (round_dp c x)"
    and numeric_overflow: "decimal_text s = Some x \<Longrightarrow> 10 ^ (p - c) \<le> \<bar>round_dp c x\<bar> \<Longrightarrow>
      pg_numeric L p c s = None"
    and sum_text: "map decimal_text ss = map Some xs \<Longrightarrow> list_all (scaled 2) xs \<Longrightarrow>
      decimal_text (pg_sum L ss) = Some (sum_list xs)"
    and isInteger_val: "dval a = Some x \<Longrightarrow> dec_isInteger L a \<longleftrightarrow> scaled 0 x"
begin

lemma newDecimal_text: "decimal_text s = Some x \<Longrightarrow> \<exists>d. newDecimal L s = Inr d \<and> dval d = Some x"
  using new_text by (fastforce simp: newDecimal_def)

lemma newDecimal_eq: "decimal_text s = Some x \<Longrightarrow> newDecimal L s = Inr d \<Longrightarrow> dval d = Some x"
  using newDecimal_text by fastforce

lemma numeric12_2_text:
  "decimal_text s = Some x \<Longrightarrow> \<bar>round_dp 2 x\<bar> < 10 ^ 10 \<Longrightarrow>
   \<exists>t. numeric12_2 L s = Inr t \<and> decimal_text t = Some (round_dp 2 x)"
  using numeric_text [of s x 2 12] by (fastforce simp: numeric12_2_def)

lemma numeric12_2_overflow:
  "decimal_text s = Some x \<Longrightarrow> 10 ^ 10 \<le> \<bar>round_dp 2 x\<bar> \<Longrightarrow> numeric12_2 L s = Inl DatabaseError"
  using numeric_overflow [of s x 12 2] by (simp add: numeric12_2_def)

lemma numeric12_2_eq:
  assumes "decimal_text s = Some x" and "numeric12_2 L s = Inr t"
  shows "decimal_text t = Some (round_dp 2 x)" and "\<bar>round_dp 2 x\<bar> < 10 ^ 10"
proof -
  show b: "\<bar>round_dp 2 x\<bar> < 10 ^ 10"
    using numeric12_2_overflow [OF assms(1)] assms(2) by (cases "\<bar>round_dp 2 x\<bar> < 10 ^ 10") auto
  show "decimal_text t = Some (round_dp 2 x)"
    using numeric12_2_text [OF assms(1) b] assms(2) by auto
qed

lemma fixed2_text: "decimal_text s = Some x \<Longrightarrow>
    \<exists>t. fixed2 L s = Inr t \<and> decimal_text t = Some (round_dp 2 x)"
  using newDecimal_text [of s x] toFixed_text by (fastforce simp: fixed2_def)

lemma fixed2_eq: "decimal_text s = Some x \<Longrightarrow> fixed2 L s = Inr t \<Longrightarrow>
    decimal_text t = Some (round_dp 2 x)"
  using fixed2_text by fastforce

text \<open>An amount that is fixed to two places and then stored reads back as itself, rounded.\<close>

lemma stored_eq:
  assumes "decimal_text s = Some x" and "fixed2 L s = Inr t" and "numeric12_2 L t = Inr u"
  shows "decimal_text u = Some (round_dp 2 x)" and "\<bar>round_dp 2 x\<bar> < 10 ^ 10"
  using numeric12_2_eq [OF fixed2_eq [OF assms(1,2)] assms(3)] by simp_all

lemma numeric12_2_money:
  "decimal_text s \<noteq> None \<Longrightarrow> numeric12_2 L s = Inr t \<Longrightarrow>
   money_text t \<and> text_val t = round_dp 2 (text_val s)"
  using numeric12_2_eq [of s _ t] by (auto intro!: money_textI scaled_round_dp simp: text_val_def)

lemma stored_money:
  "decimal_text s \<noteq> None \<Longrightarrow> fixed2 L s = Inr t \<Longrightarrow> numeric12_2 L t = Inr u \<Longrightarrow>
   money_text u \<and> text_val u = round_dp 2 (text_val s)"
  using stored_eq [of s _ t u] by (auto intro!: money_textI scaled_round_dp simp: text_val_def)

lemma store_fixed:
  "dval a = Some x \<Longrightarrow> \<bar>round_dp 2 x\<bar> < 10 ^ 10 \<Longrightarrow>
   \<exists>t. numeric12_2 L (dec_toFixed L 2 a) = Inr t \<and> decimal_text t = Some (round_dp 2 x)"
  using numeric12_2_text [OF toFixed_text [of a x 2]] by simp

lemma store_cents:
  "dval a = Some x \<Longrightarrow> scaled 2 x \<Longrightarrow> \<bar>x\<bar> < 10 ^ 10 \<Longrightarrow>
   \<exists>t. numeric12_2 L (dec_toFixed L 2 a) = Inr t \<and> decimal_text t = Some x"
  using store_fixed [of a x] by (simp add: round_dp_scaled)

lemma store_fixed_eq:
  "dval a = Some x \<Longrightarrow> numeric12_2 L (dec_toFixed L 2 a) = Inr t \<Longrightarrow>
   decimal_text t = Some (round_dp 2 x) \<and> \<bar>round_dp 2 x\<bar> < 10 ^ 10"
  using numeric12_2_eq [OF toFixed_text [of a x 2]] by simp

lemma sum_money:
  assumes "\<forall>s\<in>set ss. money_text s"
  shows "decimal_text (pg_sum L ss) = Some (sum_list (map text_val ss))"
  using assms by (intro sum_text) (auto simp: list_all_iff money_textD)

lemma plus_cents: "dval a = Some x \<Longrightarrow> dval b = Some y \<Longrightarrow> scaled 2 x \<Longrightarrow> scaled 2 y \<Longrightarrow>
    \<bar>x\<bar> + \<bar>y\<bar> < 10 ^ 18 \<Longrightarrow> dval (dec_plus L a b) = Some (x + y)"
  by (intro plus_val digits20_cents scaled_add) auto

lemma minus_cents: "dval a = Some x \<Longrightarrow> dval b = Some y \<Longrightarrow> scaled 2 x \<Longrightarrow> scaled 2 y \<Longrightarrow>
    \<bar>x\<bar> + \<bar>y\<bar> < 10 ^ 18 \<Longrightarrow> dval (dec_minus L a b) = Some (x - y)"
  by (intro minus_val digits20_cents scaled_diff) auto

lemmas dec_vals = lt_val lte_val eq_val abs_val neg_val toDecimalPlaces_val toFixed_text

end

section \<open>The promises can be kept: a reference implementation\<close>

definition ref_numlib :: "rat numlib" where
  "ref_numlib = \<lparr>
     dec_new = decimal_text, dec_int = of_int,
     dec_plus = (+), dec_minus = (-), dec_times = (*), dec_div = (/),
     dec_abs = abs, dec_neg = uminus,
     dec_lt = (<), dec_lte = (\<le>), dec_eq = (=),
     dec_isFinite = (\<lambda>_. True), dec_isNegative = (\<lambda>x. x < 0),
     dec_isInteger = (\<lambda>x. round_dp 0 x = x),
     dec_toDecimalPlaces = round_dp, dec_toFixed = show_fixed,
     pg_numeric = (\<lambda>p c s. case decimal_text s of None \<Rightarrow> None
       | Some x \<Rightarrow> (if \<bar>round_dp c x\<bar> < 10 ^ (p - c) then Some (show_fixed c x) else None)),
     pg_sum = (\<lambda>ss. show_fixed 2 (sum_list (map (\<lambda>s. case decimal_text s of None \<Rightarrow> 0
       | Some x \<Rightarrow> x) ss)))\<rparr>"

lemma ref_numlib_simps [simp]:
  "dec_new ref_numlib = decimal_text" "dec_int ref_numlib = of_int"
  "dec_plus ref_numlib = (+)" "dec_minus ref_numlib = (-)"
  "dec_times ref_numlib = (*)" "dec_div ref_numlib = (/)"
  "dec_abs ref_numlib = abs" "dec_neg ref_numlib = uminus"
  "dec_lt ref_numlib = (<)" "dec_lte ref_numlib = (\<le>)" "dec_eq ref_numlib = (=)"
  "dec_isFinite ref_numlib = (\<lambda>_. True)" "dec_isNegative ref_numlib = (\<lambda>x. x < 0)"
  "dec_isInteger ref_numlib = (\<lambda>x. round_dp 0 x = x)"
  "dec_toDecimalPlaces ref_numlib = round_dp" "dec_toFixed ref_numlib = show_fixed"
  by (simp_all add: ref_numlib_def)

lemma sum_of_texts: "map decimal_text ss = map Some xs \<Longrightarrow>
    map (\<lambda>s. case decimal_text s of None \<Rightarrow> 0 | Some x \<Rightarrow> x) ss = xs"
proof (induction ss arbitrary: xs)
  case Nil
  then show ?case by simp
next
  case (Cons s ss)
  then show ?case by (cases xs) auto
qed

interpretation ref: numerics ref_numlib Some
proof (unfold_locales, goal_cases)
  case (16 s x c p)
  then show ?case by (simp add: ref_numlib_def)
next
  case (17 s x p c)
  then show ?case by (simp add: ref_numlib_def)
next
  case (18 ss xs)
  then have "scaled 2 (sum_list xs)"
    by (intro scaled_sum_list) (auto simp: list_all_iff)
  with 18 show ?case by (simp add: ref_numlib_def sum_of_texts round_dp_scaled)
next
  case (19 a x)
  then show ?case using round_dp_scaled [of 0 x] scaled_round_dp [of 0 x] by auto
qed auto

text \<open>Evaluation of the reference implementation on literals.\<close>

lemma ref_newDecimal: "decimal_text s = Some x \<Longrightarrow> newDecimal ref_numlib s = Inr x"
  by (simp add: newDecimal_def)

lemma ref_fixed2: "decimal_text s = Some x \<Longrightarrow> fixed2 ref_numlib s = Inr (show_fixed 2 x)"
  by (simp add: fixed2_def ref_newDecimal)

lemma ref_numeric12_2:
  "decimal_text s = Some x \<Longrightarrow> \<bar>round_dp 2 x\<bar> < 10 ^ 10 \<Longrightarrow>
   numeric12_2 ref_numlib s = Inr (show_fixed 2 x)"
  by (simp add: numeric12_2_def ref_numlib_def)

lemma ref_pg_sum: "pg_sum ref_numlib ss = show_fixed 2 (sum_list (map text_val ss))"
  by (simp add: ref_numlib_def text_val_def [abs_def])

lemma frac_digits_2: "frac_digits 2 m = [digit_char (m div 10 mod 10), digit_char (m mod 10)]"
  by (simp add: numeral_2_eq_2)

lemma digit_char_eval:
  "digit_char 0 = CHR ''0''" "digit_char 1 = CHR ''1''" "digit_char (Suc 0) = CHR ''1''"
  "digit_char 2 = CHR ''2''" "digit_char 3 = CHR ''3''" "digit_char 4 = CHR ''4''"
  "digit_char 5 = CHR ''5''" "digit_char 6 = CHR ''6''" "digit_char 7 = CHR ''7''"
  "digit_char 8 = CHR ''8''" "digit_char 9 = CHR ''9''"
  by code_simp+

lemmas show_eval = show_fixed_def show_nat.simps digit_char_eval frac_digits_2
  Let_def

end
