(* ===== verification/Cashier.thy ===== *)
theory Cashier
  imports Numerics
begin

text \<open>
  The cash drawers: \<open>CashierService\<close> of \<open>apps/api/src/modules/cashier/cashier.service.ts\<close>.
  State: the drawers, their sessions (shifts), the cash movements of a session, and the
  reservations a movement may be attributed to. Shown: at close the expected balance is
  the opening float plus payments minus everything paid out, and the variance is counted
  minus expected; a cashier never has two open sessions on one drawer; the books of a
  closed session stay balanced; a property's call leaves other properties' rows alone.
\<close>

section \<open>Data\<close>

datatype cashSessionStatus = SOpen | SClosed

datatype cashMovementType = Payment | Refund | PaidOut | Drop

record cashDrawer =
  dr_id :: uuid
  dr_propertyId :: uuid
  dr_name :: string
  dr_startingFloat :: string
  dr_isActive :: bool

record cashDrawerSession =
  ss_id :: uuid
  ss_propertyId :: uuid
  ss_cashDrawerId :: uuid
  ss_cashierUserId :: uuid
  ss_status :: cashSessionStatus
  ss_openingFloat :: string
  ss_expectedBalance :: "string option"
  ss_countedBalance :: "string option"
  ss_variance :: "string option"
  ss_openedAt :: millis
  ss_closedAt :: "millis option"

record cashMovement =
  mv_id :: uuid
  mv_propertyId :: uuid
  mv_sessionId :: uuid
  mv_type :: cashMovementType
  mv_amount :: string
  mv_reservationId :: "uuid option"
  mv_note :: "string option"
  mv_createdBy :: "uuid option"

text \<open>Of the reservations table the service reads the id and the owning property only.\<close>

record cashier_db =
  cashDrawers :: "cashDrawer list"
  cashDrawerSessions :: "cashDrawerSession list"
  cashMovements :: "cashMovement list"
  reservationKeys :: "(uuid \<times> uuid) list"

record createDrawerDto =
  cd_propertyId :: uuid
  cd_name :: string
  cd_startingFloat :: "string option"
  cd_isActive :: "bool option"

record openSessionDto =
  os_propertyId :: uuid
  os_cashDrawerId :: uuid
  os_cashierUserId :: uuid
  os_openingFloat :: "string option"

record recordMovementDto =
  rm_propertyId :: uuid
  rm_type :: cashMovementType
  rm_amount :: string
  rm_reservationId :: "uuid option"
  rm_note :: "string option"
  rm_createdBy :: "uuid option"

record closeSessionDto =
  cs_propertyId :: uuid
  cs_countedBalance :: string
  cs_dropAmount :: "string option"

fun movementTypeName :: "cashMovementType \<Rightarrow> string" where
  "movementTypeName Payment = ''payment''"
| "movementTypeName Refund = ''refund''"
| "movementTypeName PaidOut = ''paid_out''"
| "movementTypeName Drop = ''drop''"

type_synonym 'a cashier_op = "(cashier_db, 'a) op"

section \<open>Operations\<close>

text \<open>
  Identifiers a database default or \<open>randomUUID\<close> would supply, and the clock, are
  arguments of the operations.
\<close>

definition createDrawer :: "'d numlib \<Rightarrow> uuid \<Rightarrow> createDrawerDto \<Rightarrow> cashDrawer cashier_op" where
  "createDrawer L newId dto =
     bindS (liftS (fixed2 L (nvl (cd_startingFloat dto) ''0''))) (\<lambda>float.
     bindS (liftS (numeric12_2 L float)) (\<lambda>stored.
     let drawer = \<lparr>dr_id = newId, dr_propertyId = cd_propertyId dto, dr_name = cd_name dto,
           dr_startingFloat = stored, dr_isActive = nvl (cd_isActive dto) True\<rparr> in
     bindS (modifyS (\<lambda>db. db\<lparr>cashDrawers := cashDrawers db @ [drawer]\<rparr>)) (\<lambda>_.
     returnS drawer)))"

definition findDrawerById :: "uuid \<Rightarrow> uuid \<Rightarrow> cashDrawer cashier_op" where
  "findDrawerById i p =
     bindS (getS (\<lambda>db. sel1 (\<lambda>d. dr_id d = i \<and> dr_propertyId d = p) (cashDrawers db))) (\<lambda>drawer.
     someS drawer (NotFoundException (''Cash drawer '' @ i @ '' not found'')))"

definition findSessionById :: "uuid \<Rightarrow> uuid \<Rightarrow> cashDrawerSession cashier_op" where
  "findSessionById i p =
     bindS (getS (\<lambda>db. sel1 (\<lambda>s. ss_id s = i \<and> ss_propertyId s = p) (cashDrawerSessions db)))
       (\<lambda>session.
     someS session (NotFoundException (''Cash session '' @ i @ '' not found'')))"

definition openSession :: "'d numlib \<Rightarrow> uuid \<Rightarrow> millis \<Rightarrow> openSessionDto
    \<Rightarrow> cashDrawerSession cashier_op" where
  "openSession L newId now dto =
     bindS (findDrawerById (os_cashDrawerId dto) (os_propertyId dto)) (\<lambda>drawer.
     bindS (getS (\<lambda>db. length (filter (\<lambda>s. ss_propertyId s = os_propertyId dto
           \<and> ss_cashDrawerId s = os_cashDrawerId dto
           \<and> ss_cashierUserId s = os_cashierUserId dto \<and> ss_status s = SOpen)
         (cashDrawerSessions db)))) (\<lambda>existing.
     bindS (guardS (\<not> 0 < existing)
       (BadRequestException ''Cashier already has an open session on this drawer'')) (\<lambda>_.
     bindS (liftS (fixed2 L (nvl (os_openingFloat dto) (dr_startingFloat drawer))))
       (\<lambda>openingFloat.
     bindS (liftS (numeric12_2 L openingFloat)) (\<lambda>stored.
     let session = \<lparr>ss_id = newId, ss_propertyId = os_propertyId dto,
           ss_cashDrawerId = os_cashDrawerId dto, ss_cashierUserId = os_cashierUserId dto,
           ss_status = SOpen, ss_openingFloat = stored, ss_expectedBalance = None,
           ss_countedBalance = None, ss_variance = None, ss_openedAt = now,
           ss_closedAt = None\<rparr> in
     bindS (modifyS (\<lambda>db. db\<lparr>cashDrawerSessions := cashDrawerSessions db @ [session]\<rparr>)) (\<lambda>_.
     bindS (emit ''cashdrawer.session_opened'' ''cash_drawer_session'' (ss_id session)
        [(''cashDrawerId'', Some (ss_cashDrawerId session)),
         (''cashierUserId'', Some (ss_cashierUserId session)),
         (''openingFloat'', Some openingFloat)]
        (Some (ss_propertyId session))) (\<lambda>_.
     returnS session)))))))"

definition recordMovement :: "'d numlib \<Rightarrow> uuid \<Rightarrow> uuid \<Rightarrow> recordMovementDto
    \<Rightarrow> cashMovement cashier_op" where
  "recordMovement L newId sessionId dto =
     bindS (findSessionById sessionId (rm_propertyId dto)) (\<lambda>session.
     bindS (guardS (ss_status session = SOpen)
       (BadRequestException ''Cannot record a movement on a closed session'')) (\<lambda>_.
     bindS (whenS (present (rm_reservationId dto))
        (bindS (getS (\<lambda>db. sel1 (\<lambda>k. k = (the (rm_reservationId dto), rm_propertyId dto))
             (reservationKeys db))) (\<lambda>r.
         guardS (r \<noteq> None) (BadRequestException (''reservation '' @ the (rm_reservationId dto)
            @ '' not found in this property''))))) (\<lambda>_.
     bindS (liftS (fixed2 L (rm_amount dto))) (\<lambda>amount.
     bindS (liftS (numeric12_2 L amount)) (\<lambda>stored.
     let movement = \<lparr>mv_id = newId, mv_propertyId = rm_propertyId dto, mv_sessionId = sessionId,
           mv_type = rm_type dto, mv_amount = stored, mv_reservationId = rm_reservationId dto,
           mv_note = rm_note dto, mv_createdBy = rm_createdBy dto\<rparr> in
     bindS (modifyS (\<lambda>db. db\<lparr>cashMovements := cashMovements db @ [movement]\<rparr>)) (\<lambda>_.
     bindS (emit ''cashdrawer.movement_recorded'' ''cash_movement'' (mv_id movement)
        [(''sessionId'', Some sessionId), (''type'', Some (movementTypeName (mv_type movement))),
         (''amount'', Some (mv_amount movement))]
        (Some (mv_propertyId movement))) (\<lambda>_.
     returnS movement)))))))"

text \<open>
  The grouped query of \<open>computeExpectedBalance\<close>: one row per movement type that occurs,
  with the sum of its amounts.
\<close>

definition movementsOf :: "uuid \<Rightarrow> uuid \<Rightarrow> cashier_db \<Rightarrow> cashMovement list" where
  "movementsOf sessionId p db =
     filter (\<lambda>m. mv_sessionId m = sessionId \<and> mv_propertyId m = p) (cashMovements db)"

definition movementTotals :: "'d numlib \<Rightarrow> cashMovement list
    \<Rightarrow> (cashMovementType \<times> nat \<times> string) list" where
  "movementTotals L ms = map (\<lambda>t. let of_t = filter (\<lambda>m. mv_type m = t) ms
        in (t, length of_t, pg_sum L (map mv_amount of_t)))
     (filter (\<lambda>t. \<exists>m\<in>set ms. mv_type m = t) [Payment, Refund, PaidOut, Drop])"

fun applyTotals :: "'d numlib \<Rightarrow> (cashMovementType \<times> nat \<times> string) list \<Rightarrow> 'd \<Rightarrow> 'd result" where
  "applyTotals L [] expected = Inr expected"
| "applyTotals L ((t, _, tot) # rows) expected =
     (case newDecimal L tot of
        Inl e \<Rightarrow> Inl e
      | Inr amount \<Rightarrow>
          applyTotals L rows (if t = Payment then dec_plus L expected amount
                              else dec_minus L expected amount))"

definition computeExpectedBalance :: "'d numlib \<Rightarrow> cashDrawerSession \<Rightarrow> uuid \<Rightarrow> 'd cashier_op" where
  "computeExpectedBalance L session p =
     bindS (getS (\<lambda>db. movementTotals L (movementsOf (ss_id session) p db))) (\<lambda>rows.
     bindS (liftS (newDecimal L (ss_openingFloat session))) (\<lambda>expected.
     liftS (applyTotals L rows expected)))"

text \<open>The optional final drop of \<open>closeSession\<close>.\<close>

definition dropMovement :: "uuid \<Rightarrow> uuid \<Rightarrow> uuid \<Rightarrow> string \<Rightarrow> cashMovement" where
  "dropMovement dropId p i amount = \<lparr>mv_id = dropId, mv_propertyId = p, mv_sessionId = i,
     mv_type = Drop, mv_amount = amount, mv_reservationId = None,
     mv_note = Some ''Final drop at shift close'', mv_createdBy = None\<rparr>"

definition finalDrop :: "'d numlib \<Rightarrow> uuid \<Rightarrow> uuid \<Rightarrow> closeSessionDto \<Rightarrow> unit cashier_op" where
  "finalDrop L dropId i dto =
     whenS (present (cs_dropAmount dto))
       (bindS (liftS (newDecimal L (the (cs_dropAmount dto)))) (\<lambda>drop.
        whenS (dec_gt L drop (dec_int L 0))
          (bindS (liftS (numeric12_2 L (dec_toFixed L 2 drop))) (\<lambda>stored.
           modifyS (\<lambda>db. db\<lparr>cashMovements := cashMovements db @
             [dropMovement dropId (cs_propertyId dto) i stored]\<rparr>)))))"

definition closeSession :: "'d numlib \<Rightarrow> uuid \<Rightarrow> millis \<Rightarrow> uuid \<Rightarrow> closeSessionDto
    \<Rightarrow> cashDrawerSession cashier_op" where
  "closeSession L dropId now i dto = transactionS
     (bindS (findSessionById i (cs_propertyId dto)) (\<lambda>session.
      bindS (guardS (ss_status session = SOpen)
        (BadRequestException ''Session is already closed'')) (\<lambda>_.
      bindS (finalDrop L dropId i dto) (\<lambda>_.
      bindS (computeExpectedBalance L session (cs_propertyId dto)) (\<lambda>expected.
      bindS (liftS (newDecimal L (cs_countedBalance dto))) (\<lambda>counted.
      let variance = dec_minus L counted expected in
      bindS (liftS (numeric12_2 L (dec_toFixed L 2 expected))) (\<lambda>expected_stored.
      bindS (liftS (numeric12_2 L (dec_toFixed L 2 counted))) (\<lambda>counted_stored.
      bindS (liftS (numeric12_2 L (dec_toFixed L 2 variance))) (\<lambda>variance_stored.
      let close = (\<lambda>s. s\<lparr>ss_status := SClosed, ss_expectedBalance := Some expected_stored,
            ss_countedBalance := Some counted_stored, ss_variance := Some variance_stored,
            ss_closedAt := Some now\<rparr>) in
      bindS (modifyS (\<lambda>db. db\<lparr>cashDrawerSessions :=
          upd (\<lambda>s. ss_id s = i \<and> ss_propertyId s = cs_propertyId dto) close
            (cashDrawerSessions db)\<rparr>)) (\<lambda>_.
      let updated = close session in
      bindS (emit ''cashdrawer.session_closed'' ''cash_drawer_session'' (ss_id updated)
         [(''expectedBalance'', ss_expectedBalance updated),
          (''countedBalance'', ss_countedBalance updated), (''variance'', ss_variance updated)]
         (Some (ss_propertyId updated))) (\<lambda>_.
      returnS updated)))))))))))"

text \<open>\<open>cashierReport\<close>: the movement summary has one entry per type, zero where none occurred.\<close>

record cashierReportResult =
  rep_session :: cashDrawerSession
  rep_openingFloat :: string
  rep_summary :: "cashMovementType \<Rightarrow> nat \<times> string"
  rep_expectedBalance :: string
  rep_countedBalance :: "string option"
  rep_variance :: "string option"

fun summarise :: "'d numlib \<Rightarrow> (cashMovementType \<times> nat \<times> string) list
    \<Rightarrow> (cashMovementType \<Rightarrow> nat \<times> string) \<Rightarrow> (cashMovementType \<Rightarrow> nat \<times> string) result" where
  "summarise L [] m = Inr m"
| "summarise L ((t, count, tot) # rows) m =
     (case fixed2 L tot of Inl e \<Rightarrow> Inl e | Inr s \<Rightarrow> summarise L rows (m(t := (count, s))))"

definition fixed2_opt :: "'d numlib \<Rightarrow> string option \<Rightarrow> string option result" where
  "fixed2_opt L x = (case x of None \<Rightarrow> Inr None
     | Some s \<Rightarrow> (case fixed2 L s of Inl e \<Rightarrow> Inl e | Inr t \<Rightarrow> Inr (Some t)))"

definition cashierReport :: "'d numlib \<Rightarrow> uuid \<Rightarrow> uuid \<Rightarrow> cashierReportResult cashier_op" where
  "cashierReport L i p =
     bindS (findSessionById i p) (\<lambda>session.
     bindS (getS (\<lambda>db. movementTotals L (movementsOf i p db))) (\<lambda>rows.
     bindS (liftS (summarise L rows (\<lambda>_. (0, ''0.00'')))) (\<lambda>summary.
     bindS (if ss_status session = SClosed \<and> ss_expectedBalance session \<noteq> None
            then liftS (newDecimal L (the (ss_expectedBalance session)))
            else computeExpectedBalance L session p) (\<lambda>expected.
     bindS (liftS (fixed2 L (ss_openingFloat session))) (\<lambda>opening.
     bindS (liftS (fixed2_opt L (ss_countedBalance session))) (\<lambda>counted.
     bindS (liftS (fixed2_opt L (ss_variance session))) (\<lambda>variance.
     returnS \<lparr>rep_session = session, rep_openingFloat = opening, rep_summary = summary,
       rep_expectedBalance = dec_toFixed L 2 expected, rep_countedBalance = counted,
       rep_variance = variance\<rparr>)))))))"

interpretation drawers: tenant_table dr_id dr_propertyId .

interpretation sessions: tenant_table ss_id ss_propertyId .

interpretation movements: tenant_table mv_id mv_propertyId .

section \<open>The expected balance\<close>

text \<open>What a movement adds to the drawer: payments come in, everything else goes out.\<close>

definition movement_value :: "cashMovement \<Rightarrow> rat" where
  "movement_value m = (if mv_type m = Payment then text_val (mv_amount m)
                       else - text_val (mv_amount m))"

definition ledger_value :: "uuid \<Rightarrow> uuid \<Rightarrow> cashier_db \<Rightarrow> rat" where
  "ledger_value i p db = sum_list (map movement_value (movementsOf i p db))"

text \<open>The texts in the tables are those of \<open>numeric(12,2)\<close> columns, and no session is so
  long that its sums leave the range in which decimal.js is exact.\<close>

definition amounts_ok :: "cashier_db \<Rightarrow> bool" where
  "amounts_ok db \<longleftrightarrow> list_all (\<lambda>m. money_text (mv_amount m)) (cashMovements db)
     \<and> list_all (\<lambda>s. money_text (ss_openingFloat s)) (cashDrawerSessions db)
     \<and> list_all (\<lambda>d. money_text (dr_startingFloat d)) (cashDrawers db)
     \<and> length (cashMovements db) < 10 ^ 7"

definition type_value :: "cashMovementType \<Rightarrow> cashMovement list \<Rightarrow> rat" where
  "type_value t ms = (let x = sum_list (map text_val (map mv_amount
       (filter (\<lambda>m. mv_type m = t) ms))) in if t = Payment then x else - x)"

lemma type_values_sum:
  "sum_list (map (\<lambda>t. type_value t ms) [Payment, Refund, PaidOut, Drop])
   = sum_list (map movement_value ms)"
proof (induction ms)
  case Nil
  then show ?case by (simp add: type_value_def)
next
  case (Cons m ms)
  then show ?case by (cases "mv_type m") (simp_all add: type_value_def movement_value_def)
qed

lemma type_value_bound:
  assumes "\<forall>m\<in>set ms. money_text (mv_amount m)" and "length ms < 10 ^ 7"
  shows "\<bar>type_value t ms\<bar> \<le> 10 ^ 17" and "scaled 2 (type_value t ms)"
proof -
  let ?xs = "map text_val (map mv_amount (filter (\<lambda>m. mv_type m = t) ms))"
  have each: "\<bar>x\<bar> \<le> 10 ^ 10 \<and> scaled 2 x" if "x \<in> set ?xs" for x
    using that assms(1) by (fastforce dest: money_textD(2,3))
  have "\<bar>sum_list ?xs\<bar> \<le> of_nat (length ?xs) * 10 ^ 10"
    using each by (intro abs_sum_list_bound) auto
  also have "length ?xs \<le> 10 ^ 7"
    using order_trans [OF length_filter_le less_imp_le [OF assms(2)]] by simp
  then have "of_nat (length ?xs) * 10 ^ 10 \<le> of_nat (10 ^ 7) * (10 ^ 10 :: rat)"
    by (intro mult_right_mono of_nat_mono) simp_all
  finally show "\<bar>type_value t ms\<bar> \<le> 10 ^ 17"
    by (cases "t = Payment") (simp_all add: type_value_def Let_def)
  have "scaled 2 (sum_list ?xs)" using each by (blast intro: scaled_sum_list)
  then show "scaled 2 (type_value t ms)"
    by (cases "t = Payment") (simp_all add: type_value_def Let_def scaled_minus)
qed

context numerics
begin

definition row_value :: "cashMovementType \<times> nat \<times> string \<Rightarrow> rat" where
  "row_value r = (if fst r = Payment then text_val (snd (snd r)) else - text_val (snd (snd r)))"

lemma applyTotals_val:
  assumes "dval d = Some x" and "scaled 2 x"
    and "\<forall>r\<in>set rows. decimal_text (snd (snd r)) \<noteq> None \<and> scaled 2 (row_value r)"
    and "\<bar>x\<bar> + sum_list (map (\<lambda>r. \<bar>row_value r\<bar>) rows) < 10 ^ 18"
  shows "\<exists>d'. applyTotals L rows d = Inr d'
       \<and> dval d' = Some (x + sum_list (map row_value rows))"
  using assms
proof (induction rows arbitrary: d x)
  case Nil
  then show ?case by simp
next
  case (Cons r rows)
  obtain t n s where r: "r = (t, n, s)" by (cases r)
  have nn: "0 \<le> sum_list (map (\<lambda>r. \<bar>row_value r\<bar>) rows)" by (rule sum_list_nonneg) auto
  from Cons.prems(3) r obtain v where v: "decimal_text s = Some v" and sv: "scaled 2 v"
    by (cases "t = Payment") (auto simp: row_value_def text_val_def dest: scaled_minus)
  then obtain a where a: "newDecimal L s = Inr a" "dval a = Some v"
    using newDecimal_text by blast
  define d1 where "d1 = (if t = Payment then dec_plus L d a else dec_minus L d a)"
  have rv: "row_value r = (if t = Payment then v else - v)"
    using v r by (simp add: row_value_def text_val_def)
  have "dval d1 = Some (x + row_value r)"
    using plus_cents [OF Cons.prems(1) a(2) Cons.prems(2) sv]
      minus_cents [OF Cons.prems(1) a(2) Cons.prems(2) sv] Cons.prems(4) nn rv
    by (auto simp: d1_def)
  moreover have "\<bar>x + row_value r\<bar> + sum_list (map (\<lambda>r. \<bar>row_value r\<bar>) rows) < 10 ^ 18"
    using Cons.prems(4) abs_triangle_ineq [of x "row_value r"] by simp
  moreover have "scaled 2 (x + row_value r)"
    using Cons.prems(2,3) by (auto intro: scaled_add)
  ultimately obtain d' where "applyTotals L rows d1 = Inr d'"
      "dval d' = Some (x + row_value r + sum_list (map row_value rows))"
    using Cons.IH [of d1 "x + row_value r"] Cons.prems(3) by auto
  with a r show ?case by (auto simp: d1_def add.assoc)
qed

lemma movementTotals_rows:
  assumes "\<forall>m\<in>set ms. money_text (mv_amount m)"
  shows "map row_value (movementTotals L ms) = map (\<lambda>t. type_value t ms)
      (filter (\<lambda>t. \<exists>m\<in>set ms. mv_type m = t) [Payment, Refund, PaidOut, Drop])"
    and "\<forall>r\<in>set (movementTotals L ms). decimal_text (snd (snd r)) \<noteq> None"
proof -
  have s: "decimal_text (pg_sum L (map mv_amount (filter (\<lambda>m. mv_type m = t) ms))) =
      Some (sum_list (map text_val (map mv_amount (filter (\<lambda>m. mv_type m = t) ms))))" for t
    using assms by (intro sum_money) auto
  show "map row_value (movementTotals L ms) = map (\<lambda>t. type_value t ms)
      (filter (\<lambda>t. \<exists>m\<in>set ms. mv_type m = t) [Payment, Refund, PaidOut, Drop])"
    unfolding movementTotals_def map_map
    by (rule map_cong) (simp_all add: row_value_def Let_def type_value_def text_val_Some [OF s])
  show "\<forall>r\<in>set (movementTotals L ms). decimal_text (snd (snd r)) \<noteq> None"
    by (auto simp: movementTotals_def Let_def s)
qed

lemma applyTotals_ledger:
  assumes "\<forall>m\<in>set ms. money_text (mv_amount m)" and "length ms < 10 ^ 7"
    and "dval d = Some x" and "scaled 2 x" and "\<bar>x\<bar> < 10 ^ 10"
  shows "\<exists>d'. applyTotals L (movementTotals L ms) d = Inr d'
       \<and> dval d' = Some (x + sum_list (map movement_value ms))"
proof -
  let ?ts = "[Payment, Refund, PaidOut, Drop]" and ?rows = "movementTotals L ms"
  let ?P = "\<lambda>t. \<exists>m\<in>set ms. mv_type m = t"
  note b = type_value_bound [OF assms(1,2)]
  have zero: "type_value t ms = 0" if "\<not> ?P t" for t
  proof -
    from that have "filter (\<lambda>m. mv_type m = t) ms = []" by (auto simp: filter_empty_conv)
    then show ?thesis by (simp add: type_value_def)
  qed
  have rv: "set (map row_value ?rows) \<subseteq> (\<lambda>t. type_value t ms) ` UNIV"
    unfolding movementTotals_rows(1) [OF assms(1)] by auto
  have "sum_list (map row_value ?rows) = sum_list (map (\<lambda>t. type_value t ms) ?ts)"
    unfolding movementTotals_rows(1) [OF assms(1)]
    by (rule sum_list_map_filter) (use zero in auto)
  then have total: "sum_list (map row_value ?rows) = sum_list (map movement_value ms)"
    by (simp only: type_values_sum)
  have "sum_list (map (\<lambda>r. \<bar>row_value r\<bar>) ?rows) = sum_list (map abs (map row_value ?rows))"
    by (simp add: comp_def)
  also have "\<dots> = sum_list (map (\<lambda>t. \<bar>type_value t ms\<bar>) (filter ?P ?ts))"
    by (simp only: movementTotals_rows(1) [OF assms(1)] map_map comp_def)
  also have "\<dots> = sum_list (map (\<lambda>t. \<bar>type_value t ms\<bar>) ?ts)"
    by (rule sum_list_map_filter) (use zero in auto)
  also have "\<dots> \<le> 4 * 10 ^ 17"
    using b(1) [of Payment] b(1) [of Refund] b(1) [of PaidOut] b(1) [of Drop] by simp
  finally have "\<bar>x\<bar> + sum_list (map (\<lambda>r. \<bar>row_value r\<bar>) ?rows) < 10 ^ 18"
    using assms(5) by simp
  moreover have "\<forall>r\<in>set ?rows. decimal_text (snd (snd r)) \<noteq> None \<and> scaled 2 (row_value r)"
    using movementTotals_rows(2) [OF assms(1)] rv b(2) by fastforce
  ultimately show ?thesis
    using applyTotals_val [OF assms(3,4)] total by metis
qed

lemma computeExpectedBalance_val:
  assumes "amounts_ok (wdb w)" and "money_text (ss_openingFloat s)"
  shows "\<exists>d. computeExpectedBalance L s p w = (Inr d, w)
       \<and> dval d = Some (text_val (ss_openingFloat s) + ledger_value (ss_id s) p (wdb w))"
proof -
  let ?ms = "movementsOf (ss_id s) p (wdb w)"
  have ms: "\<forall>m\<in>set ?ms. money_text (mv_amount m)" "length ?ms < 10 ^ 7"
    using assms(1) le_less_trans [OF length_filter_le]
    by (auto simp: amounts_ok_def movementsOf_def list_all_iff)
  note o = money_textD [OF assms(2)]
  obtain d where d: "newDecimal L (ss_openingFloat s) = Inr d"
      "dval d = Some (text_val (ss_openingFloat s))"
    using newDecimal_text [OF o(1)] by blast
  obtain d' where "applyTotals L (movementTotals L ?ms) d = Inr d'"
      "dval d' = Some (text_val (ss_openingFloat s) + sum_list (map movement_value ?ms))"
    using applyTotals_ledger [OF ms d(2) o(2,3)] by blast
  with d(1) show ?thesis
    by (simp add: computeExpectedBalance_def ledger_value_def bindS_def getS_def liftS_def)
qed

end

section \<open>What each operation does\<close>

text \<open>Whose shift a session is: the property, the drawer and the cashier.\<close>

definition shift :: "cashDrawerSession \<Rightarrow> uuid \<times> uuid \<times> uuid" where
  "shift s = (ss_propertyId s, ss_cashDrawerId s, ss_cashierUserId s)"

lemma findSessionById_iff [op_iffs]:
  "findSessionById i p w = (r, w') \<longleftrightarrow> w' = w \<and>
     r = (case sel1 (\<lambda>s. ss_id s = i \<and> ss_propertyId s = p) (cashDrawerSessions (wdb w)) of
            Some s \<Rightarrow> Inr s | None \<Rightarrow> Inl (NotFoundException (''Cash session '' @ i @ '' not found'')))"
  by (auto simp: findSessionById_def bindS_def getS_def someS_def returnS_def throwS_def
      split: option.splits)

lemma findDrawerById_iff [op_iffs]:
  "findDrawerById i p w = (r, w') \<longleftrightarrow> w' = w \<and>
     r = (case sel1 (\<lambda>d. dr_id d = i \<and> dr_propertyId d = p) (cashDrawers (wdb w)) of
            Some d \<Rightarrow> Inr d | None \<Rightarrow> Inl (NotFoundException (''Cash drawer '' @ i @ '' not found'')))"
  by (auto simp: findDrawerById_def bindS_def getS_def someS_def returnS_def throwS_def
      split: option.splits)

lemma computeExpectedBalance_pure: "snd (computeExpectedBalance L s p w) = w"
  by (auto simp: computeExpectedBalance_def bindS_def getS_def liftS_def split: sum.splits)

lemma openSession_Inl: "openSession L newId now dto w = (Inl e, w') \<Longrightarrow> w' = w"
  by (auto simp: openSession_def Let_def op_iffs split: option.splits if_splits)

lemma openSession_Inr:
  assumes "openSession L newId now dto w = (Inr s, w')"
  obtains drawer float where
    "sel1 (\<lambda>d. dr_id d = os_cashDrawerId dto \<and> dr_propertyId d = os_propertyId dto)
       (cashDrawers (wdb w)) = Some drawer"
    "filter (\<lambda>s. ss_propertyId s = os_propertyId dto \<and> ss_cashDrawerId s = os_cashDrawerId dto
       \<and> ss_cashierUserId s = os_cashierUserId dto \<and> ss_status s = SOpen)
       (cashDrawerSessions (wdb w)) = []"
    "fixed2 L (nvl (os_openingFloat dto) (dr_startingFloat drawer)) = Inr float"
    "numeric12_2 L float = Inr (ss_openingFloat s)"
    "ss_id s = newId" "ss_status s = SOpen" "ss_propertyId s = os_propertyId dto"
    "shift s = (os_propertyId dto, os_cashDrawerId dto, os_cashierUserId dto)"
    "wdb w' = (wdb w)\<lparr>cashDrawerSessions := cashDrawerSessions (wdb w) @ [s]\<rparr>"
  using assms
  by (auto simp: openSession_def Let_def op_iffs shift_def split: option.splits if_splits)

lemma recordMovement_Inl: "recordMovement L newId i dto w = (Inl e, w') \<Longrightarrow> w' = w"
  by (auto simp: recordMovement_def Let_def op_iffs split: option.splits if_splits)

lemma recordMovement_Inr:
  assumes "recordMovement L newId i dto w = (Inr m, w')"
  obtains s amount where
    "sel1 (\<lambda>s. ss_id s = i \<and> ss_propertyId s = rm_propertyId dto) (cashDrawerSessions (wdb w)) = Some s"
    "ss_status s = SOpen"
    "fixed2 L (rm_amount dto) = Inr amount" "numeric12_2 L amount = Inr (mv_amount m)"
    "mv_id m = newId" "mv_propertyId m = rm_propertyId dto" "mv_sessionId m = i" "mv_type m = rm_type dto"
    "wdb w' = (wdb w)\<lparr>cashMovements := cashMovements (wdb w) @ [m]\<rparr>"
  using assms
  by (auto simp: recordMovement_def Let_def op_iffs split: option.splits if_splits)

text \<open>The final drop either leaves the database alone or appends one movement.\<close>

lemma finalDrop_Inr:
  assumes "finalDrop L dropId i dto w = (Inr u, w')"
  shows "w' = w \<or> (\<exists>d t. newDecimal L (the (cs_dropAmount dto)) = Inr d
      \<and> present (cs_dropAmount dto) \<and> numeric12_2 L (dec_toFixed L 2 d) = Inr t
      \<and> w' = w\<lparr>wdb := (wdb w)\<lparr>cashMovements := cashMovements (wdb w) @
            [dropMovement dropId (cs_propertyId dto) i t]\<rparr>\<rparr>)"
  using assms by (auto simp: finalDrop_def op_iffs split: if_splits)

lemma dropMovement_sel [simp]:
  "mv_amount (dropMovement d p i t) = t" "mv_type (dropMovement d p i t) = Drop"
  "mv_sessionId (dropMovement d p i t) = i" "mv_propertyId (dropMovement d p i t) = p"
  by (simp_all add: dropMovement_def)

lemma closeSession_Inl: "closeSession L dropId now i dto w = (Inl e, w') \<Longrightarrow> wdb w' = wdb w"
  unfolding closeSession_def by (rule transactionS_rollback)

lemma closeSession_Inr:
  assumes "closeSession L dropId now i dto w = (Inr s', w')"
  obtains s w1 expected counted e c v where
    "sel1 (\<lambda>s. ss_id s = i \<and> ss_propertyId s = cs_propertyId dto) (cashDrawerSessions (wdb w)) = Some s"
    "ss_status s = SOpen" "finalDrop L dropId i dto w = (Inr (), w1)"
    "computeExpectedBalance L s (cs_propertyId dto) w1 = (Inr expected, w1)"
    "newDecimal L (cs_countedBalance dto) = Inr counted"
    "numeric12_2 L (dec_toFixed L 2 expected) = Inr e"
    "numeric12_2 L (dec_toFixed L 2 counted) = Inr c"
    "numeric12_2 L (dec_toFixed L 2 (dec_minus L counted expected)) = Inr v"
    "s' = s\<lparr>ss_status := SClosed, ss_expectedBalance := Some e, ss_countedBalance := Some c,
            ss_variance := Some v, ss_closedAt := Some now\<rparr>"
    "wdb w' = (wdb w1)\<lparr>cashDrawerSessions :=
        upd (\<lambda>s. ss_id s = i \<and> ss_propertyId s = cs_propertyId dto)
          (\<lambda>s. s\<lparr>ss_status := SClosed, ss_expectedBalance := Some e, ss_countedBalance := Some c,
            ss_variance := Some v, ss_closedAt := Some now\<rparr>) (cashDrawerSessions (wdb w1))\<rparr>"
proof -
  have pure: "w2 = w1" if "computeExpectedBalance L s p w1 = (Inr x, w2)" for s p w1 w2 x
    using computeExpectedBalance_pure [of L s p w1] that by simp
  from assms show thesis
    unfolding closeSession_def
    by (auto simp: Let_def op_iffs split: option.splits if_splits dest: pure intro!: that)
qed

section \<open>Closing a session\<close>

definition plain :: "string option \<Rightarrow> bool" where
  "plain x \<longleftrightarrow> (case x of None \<Rightarrow> True | Some s \<Rightarrow> decimal_text s \<noteq> None)"

definition drop_value :: "closeSessionDto \<Rightarrow> rat" where
  "drop_value dto = (case cs_dropAmount dto of None \<Rightarrow> 0
     | Some s \<Rightarrow> max 0 (round_dp 2 (text_val s)))"

lemma ledger_value_append:
  "ledger_value i p (db\<lparr>cashMovements := cashMovements db @ [m]\<rparr>) =
     ledger_value i p db + (if mv_sessionId m = i \<and> mv_propertyId m = p then movement_value m else 0)"
  by (simp add: ledger_value_def movementsOf_def)

lemma ledger_value_sessions [simp]:
  "ledger_value i p (db\<lparr>cashDrawerSessions := ss\<rparr>) = ledger_value i p db"
  by (simp add: ledger_value_def movementsOf_def)

context numerics
begin

lemma finalDrop_val:
  assumes "plain (cs_dropAmount dto)" and "drop_value dto < 10 ^ 10"
    and "amounts_ok (wdb w)" and "Suc (length (cashMovements (wdb w))) < 10 ^ 7"
  shows "\<exists>w1. finalDrop L dropId i dto w = (Inr (), w1) \<and> amounts_ok (wdb w1)
       \<and> cashDrawerSessions (wdb w1) = cashDrawerSessions (wdb w)
       \<and> ledger_value i (cs_propertyId dto) (wdb w1)
           = ledger_value i (cs_propertyId dto) (wdb w) - drop_value dto"
proof (cases "cs_dropAmount dto")
  case None
  with assms(3) show ?thesis by (simp add: finalDrop_def whenS_def returnS_def drop_value_def)
next
  case (Some s)
  with assms(1) obtain x where x: "decimal_text s = Some x" by (auto simp: plain_def)
  then have tv: "text_val s = x" by (rule text_val_Some)
  from x have ne: "s \<noteq> []" by (auto simp: decimal_text_def)
  obtain d where d: "newDecimal L s = Inr d" "dval d = Some x" using newDecimal_text [OF x] by blast
  have "dval (dec_int L 0) = Some 0" using int_val [of 0] by simp
  then have gt: "dec_gt L d (dec_int L 0) \<longleftrightarrow> 0 < x" using lt_val d(2) by simp
  show ?thesis
  proof (cases "0 < x")
    case False
    then have "round_dp 2 x \<le> 0" using round_dp_mono [of x 0 2] by simp
    with False Some ne d(1) gt tv assms(3) show ?thesis
      by (simp add: finalDrop_def whenS_def bindS_def liftS_def returnS_def drop_value_def)
  next
    case True
    then have nn: "0 \<le> round_dp 2 x" by (simp add: round_dp_nonneg)
    with assms(2) Some tv have "\<bar>round_dp 2 x\<bar> < 10 ^ 10" by (simp add: drop_value_def)
    with store_fixed [OF d(2)] obtain t where
      t: "numeric12_2 L (dec_toFixed L 2 d) = Inr t" "decimal_text t = Some (round_dp 2 x)"
      by blast
    then have "money_text t \<and> text_val t = round_dp 2 x"
      using \<open>\<bar>round_dp 2 x\<bar> < 10 ^ 10\<close> by (auto intro: money_textI scaled_round_dp text_val_Some)
    with True Some ne d(1) gt tv t(1) nn assms(3,4) show ?thesis
      by (simp add: finalDrop_def whenS_def bindS_def liftS_def modifyS_def drop_value_def
          ledger_value_append movement_value_def amounts_ok_def)
  qed
qed

lemma closeSession_val:
  assumes "amounts_ok (wdb w)" and "Suc (length (cashMovements (wdb w))) < 10 ^ 7"
    and "sel1 (\<lambda>s. ss_id s = i \<and> ss_propertyId s = cs_propertyId dto)
           (cashDrawerSessions (wdb w)) = Some s"
    and "ss_status s = SOpen" and "plain (cs_dropAmount dto)" and "drop_value dto < 10 ^ 10"
    and "money_text (cs_countedBalance dto)"
    and E: "E = text_val (ss_openingFloat s)
              + ledger_value i (cs_propertyId dto) (wdb w) - drop_value dto"
    and "\<bar>E\<bar> < 10 ^ 10" and "\<bar>text_val (cs_countedBalance dto) - E\<bar> < 10 ^ 10"
  shows "\<exists>s' w'. closeSession L dropId now i dto w = (Inr s', w') \<and> ss_status s' = SClosed
       \<and> Option.bind (ss_expectedBalance s') decimal_text = Some E
       \<and> Option.bind (ss_countedBalance s') decimal_text = Some (text_val (cs_countedBalance dto))
       \<and> Option.bind (ss_variance s') decimal_text = Some (text_val (cs_countedBalance dto) - E)
       \<and> sel1 (\<lambda>s. ss_id s = i \<and> ss_propertyId s = cs_propertyId dto)
            (cashDrawerSessions (wdb w')) = Some s'
       \<and> ledger_value i (cs_propertyId dto) (wdb w')
            = ledger_value i (cs_propertyId dto) (wdb w) - drop_value dto"
proof -
  note c0 = money_textD [OF assms(7)]
  have sid: "ss_id s = i" and smem: "s \<in> set (cashDrawerSessions (wdb w))"
    using find_SomeD [OF assms(3)] by auto
  obtain w1 where w1: "finalDrop L dropId i dto w = (Inr (), w1)" "amounts_ok (wdb w1)"
      "cashDrawerSessions (wdb w1) = cashDrawerSessions (wdb w)"
      "ledger_value i (cs_propertyId dto) (wdb w1)
         = ledger_value i (cs_propertyId dto) (wdb w) - drop_value dto"
    using finalDrop_val [OF assms(5,6,1,2)] by blast
  have "money_text (ss_openingFloat s)" using assms(1) smem by (auto simp: amounts_ok_def list_all_iff)
  from computeExpectedBalance_val [OF w1(2) this, of "cs_propertyId dto"] obtain d where
    d: "computeExpectedBalance L s (cs_propertyId dto) w1 = (Inr d, w1)" "dval d = Some E"
    using w1(4) sid E by (auto simp: algebra_simps)
  have sE: "scaled 2 E"
  proof -
    have "scaled 2 (ledger_value i (cs_propertyId dto) (wdb w1))"
      unfolding ledger_value_def using w1(2)
      by (intro scaled_sum_list) (auto simp: movement_value_def movementsOf_def amounts_ok_def
        list_all_iff intro!: scaled_minus dest: money_textD(2))
    moreover have "E = text_val (ss_openingFloat s) + ledger_value i (cs_propertyId dto) (wdb w1)"
      using w1(4) E by simp
    ultimately show ?thesis
      using scaled_add money_textD(2) [OF \<open>money_text (ss_openingFloat s)\<close>] by simp
  qed
  obtain k where k: "newDecimal L (cs_countedBalance dto) = Inr k"
      "dval k = Some (text_val (cs_countedBalance dto))"
    using newDecimal_text [OF c0(1)] by blast
  have v: "dval (dec_minus L k d) = Some (text_val (cs_countedBalance dto) - E)"
    using minus_cents [OF k(2) d(2) c0(2) sE] c0(3) assms(9) by simp
  obtain e c u where
    "numeric12_2 L (dec_toFixed L 2 d) = Inr e" "decimal_text e = Some E"
    "numeric12_2 L (dec_toFixed L 2 k) = Inr c"
    "decimal_text c = Some (text_val (cs_countedBalance dto))"
    "numeric12_2 L (dec_toFixed L 2 (dec_minus L k d)) = Inr u"
    "decimal_text u = Some (text_val (cs_countedBalance dto) - E)"
    using store_cents [OF d(2) sE assms(9)] store_cents [OF k(2) c0(2,3)]
      store_cents [OF v scaled_diff [OF c0(2) sE] assms(10)] by blast
  moreover have "findSessionById i (cs_propertyId dto) w = (Inr s, w)"
    using assms(3) by (simp add: findSessionById_iff)
  ultimately show ?thesis
    using assms(3,4) w1 d(1) k(1)
    by (simp add: closeSession_def transactionS_def bindS_def liftS_def modifyS_def emit_def
        returnS_def Let_def sessions.find_after_upd)
qed

end

section \<open>The machine and its invariant\<close>

text \<open>
  Calls in any order, successful or not, with fresh identifiers, decimal texts as
  amounts, and fewer than ten million movements.
\<close>

inductive cashier_step :: "'d numlib \<Rightarrow> cashier_db world \<Rightarrow> cashier_db world \<Rightarrow> bool"
  for L :: "'d numlib" where
  create_: "plain (cd_startingFloat dto) \<Longrightarrow>
     cashier_step L w (snd (createDrawer L newId dto w))"
| open_: "newId \<notin> ss_id ` set (cashDrawerSessions (wdb w)) \<Longrightarrow> plain (os_openingFloat dto) \<Longrightarrow>
     cashier_step L w (snd (openSession L newId now dto w))"
| record_: "plain (Some (rm_amount dto)) \<Longrightarrow> Suc (length (cashMovements (wdb w))) < 10 ^ 7 \<Longrightarrow>
     cashier_step L w (snd (recordMovement L newId i dto w))"
| close_: "plain (cs_dropAmount dto) \<Longrightarrow> Suc (length (cashMovements (wdb w))) < 10 ^ 7 \<Longrightarrow>
     cashier_step L w (snd (closeSession L dropId now i dto w))"

definition no_rows :: "(uuid \<times> uuid) list \<Rightarrow> cashier_db world" where
  "no_rows keys = \<lparr>wdb = \<lparr>cashDrawers = [], cashDrawerSessions = [], cashMovements = [],
     reservationKeys = keys\<rparr>, wevents = []\<rparr>"

inductive cashier_reachable :: "'d numlib \<Rightarrow> cashier_db world \<Rightarrow> bool" for L :: "'d numlib" where
  start: "cashier_reachable L (no_rows keys)"
| step: "cashier_reachable L w \<Longrightarrow> cashier_step L w w' \<Longrightarrow> cashier_reachable L w'"

text \<open>KB 12.5: one open session per cashier and drawer.\<close>

definition one_open :: "cashier_db \<Rightarrow> bool" where
  "one_open db \<longleftrightarrow> distinct (map shift (filter (\<lambda>s. ss_status s = SOpen) (cashDrawerSessions db)))"

text \<open>The stored expected balance of a closed session is the balance of its ledger.\<close>

definition balanced :: "cashier_db \<Rightarrow> cashDrawerSession \<Rightarrow> bool" where
  "balanced db s \<longleftrightarrow> (ss_status s = SClosed \<longrightarrow> Option.bind (ss_expectedBalance s) decimal_text
     = Some (text_val (ss_openingFloat s) + ledger_value (ss_id s) (ss_propertyId s) db))"

definition cashier_inv :: "cashier_db \<Rightarrow> bool" where
  "cashier_inv db \<longleftrightarrow> amounts_ok db \<and> distinct (map ss_id (cashDrawerSessions db)) \<and> one_open db
     \<and> list_all (balanced db) (cashDrawerSessions db)"

lemma balanced_sessions [simp]: "balanced (db\<lparr>cashDrawerSessions := ss\<rparr>) s = balanced db s"
  by (simp add: balanced_def)

lemma balanced_append:
  "mv_sessionId m \<noteq> ss_id s \<or> ss_status s = SOpen \<Longrightarrow>
   balanced (db\<lparr>cashMovements := cashMovements db @ [m]\<rparr>) s = balanced db s"
  by (auto simp: balanced_def ledger_value_append)

lemma one_open_after_close:
  "one_open db \<Longrightarrow> (\<And>s. ss_status (f s) = SClosed) \<Longrightarrow>
   one_open (db\<lparr>cashDrawerSessions := upd p f (cashDrawerSessions db)\<rparr>)"
  by (simp add: one_open_def filter_upd_out distinct_map_filter del: filter_filter)

context numerics
begin

lemma createDrawer_inv:
  assumes "cashier_inv (wdb w)" and "plain (cd_startingFloat dto)"
  shows "cashier_inv (wdb (snd (createDrawer L newId dto w)))"
proof (cases "createDrawer L newId dto w")
  case (Pair r w')
  have z: "decimal_text ''0'' = Some 0"
    by (simp add: decimal_text_def unsigned_text_def all_digits_def is_digit_def digits_val_def
        digit_val_def)
  have p: "decimal_text (nvl (cd_startingFloat dto) ''0'') \<noteq> None"
    using assms(2) z by (auto simp: plain_def split: option.splits)
  show ?thesis
  proof (cases r)
    case (Inl e)
    with Pair have "w' = w" by (auto simp: createDrawer_def Let_def op_iffs)
    with Pair assms(1) show ?thesis by simp
  next
    case (Inr d)
    with Pair obtain t where "fixed2 L (nvl (cd_startingFloat dto) ''0'') = Inr t"
        "numeric12_2 L t = Inr (dr_startingFloat d)"
        "wdb w' = (wdb w)\<lparr>cashDrawers := cashDrawers (wdb w) @ [d]\<rparr>"
      by (auto simp: createDrawer_def Let_def op_iffs)
    with stored_money [OF p] Pair assms(1) show ?thesis
      by (auto simp: cashier_inv_def amounts_ok_def one_open_def balanced_def ledger_value_def
          movementsOf_def list_all_iff)
  qed
qed

lemma openSession_inv:
  assumes inv: "cashier_inv (wdb w)" and fresh: "newId \<notin> ss_id ` set (cashDrawerSessions (wdb w))"
    and p: "plain (os_openingFloat dto)"
  shows "cashier_inv (wdb (snd (openSession L newId now dto w)))"
proof (cases "openSession L newId now dto w")
  case (Pair r w')
  show ?thesis
  proof (cases r)
    case (Inl e)
    with Pair have "w' = w" using openSession_Inl by blast
    with Pair inv show ?thesis by simp
  next
    case (Inr s)
    with Pair have "openSession L newId now dto w = (Inr s, w')" by simp
    then obtain d t where
      d: "sel1 (\<lambda>d. dr_id d = os_cashDrawerId dto \<and> dr_propertyId d = os_propertyId dto)
            (cashDrawers (wdb w)) = Some d"
      and none: "filter (\<lambda>s. ss_propertyId s = os_propertyId dto
          \<and> ss_cashDrawerId s = os_cashDrawerId dto \<and> ss_cashierUserId s = os_cashierUserId dto
          \<and> ss_status s = SOpen) (cashDrawerSessions (wdb w)) = []"
      and t: "fixed2 L (nvl (os_openingFloat dto) (dr_startingFloat d)) = Inr t"
        "numeric12_2 L t = Inr (ss_openingFloat s)"
      and sid: "ss_id s = newId" and st: "ss_status s = SOpen"
      and sh: "shift s = (os_propertyId dto, os_cashDrawerId dto, os_cashierUserId dto)"
      and w': "wdb w' = (wdb w)\<lparr>cashDrawerSessions := cashDrawerSessions (wdb w) @ [s]\<rparr>"
      by (rule openSession_Inr)
    have "money_text (dr_startingFloat d)"
      using inv find_SomeD [OF d] by (auto simp: cashier_inv_def amounts_ok_def list_all_iff)
    then have "decimal_text (nvl (os_openingFloat dto) (dr_startingFloat d)) \<noteq> None"
      using p by (auto simp: plain_def money_text_iff split: option.splits)
    from stored_money [OF this t] have m: "money_text (ss_openingFloat s)" by simp
    from sh none have "shift s \<notin> shift ` set (filter (\<lambda>s. ss_status s = SOpen) (cashDrawerSessions (wdb w)))"
      by (auto simp: shift_def filter_empty_conv)
    moreover have "list_all (balanced (wdb w')) (cashDrawerSessions (wdb w'))"
      using inv st by (simp add: w' cashier_inv_def list_all_iff balanced_def)
    ultimately show ?thesis using st sid m fresh inv Pair w'
      by (auto simp: cashier_inv_def amounts_ok_def one_open_def)
  qed
qed

lemma recordMovement_inv:
  assumes inv: "cashier_inv (wdb w)" and p: "plain (Some (rm_amount dto))"
    and len: "Suc (length (cashMovements (wdb w))) < 10 ^ 7"
  shows "cashier_inv (wdb (snd (recordMovement L newId i dto w)))"
proof (cases "recordMovement L newId i dto w")
  case (Pair r w')
  show ?thesis
  proof (cases r)
    case (Inl e)
    with Pair have "w' = w" using recordMovement_Inl by blast
    with Pair inv show ?thesis by simp
  next
    case (Inr m)
    with Pair have "recordMovement L newId i dto w = (Inr m, w')" by simp
    then obtain s t where
      s: "sel1 (\<lambda>s. ss_id s = i \<and> ss_propertyId s = rm_propertyId dto)
            (cashDrawerSessions (wdb w)) = Some s" "ss_status s = SOpen"
      and t: "fixed2 L (rm_amount dto) = Inr t" "numeric12_2 L t = Inr (mv_amount m)"
      and m: "mv_sessionId m = i"
      and w': "wdb w' = (wdb w)\<lparr>cashMovements := cashMovements (wdb w) @ [m]\<rparr>"
      by (rule recordMovement_Inr)
    have "decimal_text (rm_amount dto) \<noteq> None" using p by (auto simp: plain_def)
    from stored_money [OF this t] have mt: "money_text (mv_amount m)" by simp
    have "mv_sessionId m \<noteq> ss_id x \<or> ss_status x = SOpen" if "x \<in> set (cashDrawerSessions (wdb w))" for x
    proof (cases "ss_id x = i")
      case True
      with that find_SomeD [OF s(1)] inv have "x = s"
        by (auto simp: cashier_inv_def distinct_map inj_on_def)
      with s(2) show ?thesis by simp
    qed (use m in simp)
    with inv have "list_all (balanced (wdb w')) (cashDrawerSessions (wdb w))"
      by (auto simp: cashier_inv_def list_all_iff w' balanced_append)
    with inv w' mt len Pair show ?thesis
      by (simp add: cashier_inv_def amounts_ok_def one_open_def)
  qed
qed

lemma finalDrop_books:
  assumes inv: "cashier_inv (wdb w)" and p: "plain (cs_dropAmount dto)"
    and len: "Suc (length (cashMovements (wdb w))) < 10 ^ 7"
    and fd: "finalDrop L dropId i dto w = (Inr (), w1)"
  shows "amounts_ok (wdb w1)" and "one_open (wdb w1)"
    and "cashDrawerSessions (wdb w1) = cashDrawerSessions (wdb w)"
    and "y \<in> set (cashDrawerSessions (wdb w)) \<Longrightarrow> ss_id y \<noteq> i \<Longrightarrow> balanced (wdb w1) y"
proof -
  have "amounts_ok (wdb w1) \<and> one_open (wdb w1)
      \<and> cashDrawerSessions (wdb w1) = cashDrawerSessions (wdb w)
      \<and> (\<forall>y\<in>set (cashDrawerSessions (wdb w)). ss_id y \<noteq> i \<longrightarrow> balanced (wdb w1) y)"
  proof (cases "w1 = w")
    case True
    with inv show ?thesis by (auto simp: cashier_inv_def list_all_iff)
  next
    case False
    with finalDrop_Inr [OF fd] obtain d t where
      d: "newDecimal L (the (cs_dropAmount dto)) = Inr d" "present (cs_dropAmount dto)"
        "numeric12_2 L (dec_toFixed L 2 d) = Inr t"
      and w1: "w1 = w\<lparr>wdb := (wdb w)\<lparr>cashMovements := cashMovements (wdb w) @
          [dropMovement dropId (cs_propertyId dto) i t]\<rparr>\<rparr>" by blast
    from p d(2) obtain u where "decimal_text (the (cs_dropAmount dto)) = Some u"
      by (auto simp: plain_def split: option.splits)
    with store_fixed_eq [OF newDecimal_eq [OF _ d(1)] d(3)] have "money_text t"
      by (auto intro: money_textI scaled_round_dp)
    moreover have "balanced (wdb w1) y"
      if "y \<in> set (cashDrawerSessions (wdb w))" "ss_id y \<noteq> i" for y
    proof -
      have "balanced (wdb w) y" using that inv by (simp add: cashier_inv_def list_all_iff)
      with that(2) show ?thesis by (simp add: w1 balanced_append)
    qed
    ultimately show ?thesis
      using inv len w1 by (auto simp: cashier_inv_def amounts_ok_def one_open_def)
  qed
  then show "amounts_ok (wdb w1)" and "one_open (wdb w1)"
    and "cashDrawerSessions (wdb w1) = cashDrawerSessions (wdb w)"
    and "y \<in> set (cashDrawerSessions (wdb w)) \<Longrightarrow> ss_id y \<noteq> i \<Longrightarrow> balanced (wdb w1) y"
    by auto
qed

lemma expected_stored:
  assumes "amounts_ok (wdb w)" and "money_text (ss_openingFloat s)"
    and "computeExpectedBalance L s p w = (Inr x, w)"
    and "numeric12_2 L (dec_toFixed L 2 x) = Inr e"
  shows "decimal_text e = Some (text_val (ss_openingFloat s) + ledger_value (ss_id s) p (wdb w))"
    (is "_ = Some ?E")
proof -
  have xv: "dval x = Some ?E"
    using computeExpectedBalance_val [OF assms(1,2), of p] assms(3) by auto
  have "scaled 2 ?E"
    unfolding ledger_value_def using assms(1,2)
    by (intro scaled_add scaled_sum_list) (auto simp: movement_value_def movementsOf_def
      amounts_ok_def list_all_iff intro!: scaled_minus dest: money_textD(2))
  with store_fixed_eq [OF xv assms(4)] show ?thesis by (simp add: round_dp_scaled)
qed

lemma closeSession_inv:
  assumes inv: "cashier_inv (wdb w)" and p: "plain (cs_dropAmount dto)"
    and len: "Suc (length (cashMovements (wdb w))) < 10 ^ 7"
  shows "cashier_inv (wdb (snd (closeSession L dropId now i dto w)))"
proof (cases "closeSession L dropId now i dto w")
  case (Pair r w')
  show ?thesis
  proof (cases r)
    case (Inl e)
    with Pair have "wdb w' = wdb w" using closeSession_Inl by blast
    with Pair inv show ?thesis by simp
  next
    case (Inr s')
    with Pair have "closeSession L dropId now i dto w = (Inr s', w')" by simp
    then obtain s w1 x k e c v where
      s: "sel1 (\<lambda>s. ss_id s = i \<and> ss_propertyId s = cs_propertyId dto)
            (cashDrawerSessions (wdb w)) = Some s" "ss_status s = SOpen"
      and fd: "finalDrop L dropId i dto w = (Inr (), w1)"
      and x: "computeExpectedBalance L s (cs_propertyId dto) w1 = (Inr x, w1)"
      and e: "numeric12_2 L (dec_toFixed L 2 x) = Inr e"
      and w': "wdb w' = (wdb w1)\<lparr>cashDrawerSessions :=
        upd (\<lambda>s. ss_id s = i \<and> ss_propertyId s = cs_propertyId dto)
          (\<lambda>s. s\<lparr>ss_status := SClosed, ss_expectedBalance := Some e, ss_countedBalance := Some c,
            ss_variance := Some v, ss_closedAt := Some now\<rparr>) (cashDrawerSessions (wdb w1))\<rparr>"
      by (rule closeSession_Inr)
    note a1 = finalDrop_books [OF inv p len fd]
    have si: "ss_id s = i" "ss_propertyId s = cs_propertyId dto" "s \<in> set (cashDrawerSessions (wdb w))"
      using find_SomeD [OF s(1)] by auto
    have only: "y = s" if "y \<in> set (cashDrawerSessions (wdb w))" "ss_id y = i" for y
      using that si inv by (auto simp: cashier_inv_def distinct_map inj_on_def)
    have "money_text (ss_openingFloat s)"
      using inv si(3) by (auto simp: cashier_inv_def amounts_ok_def list_all_iff)
    note ev = expected_stored [OF a1(1) this x e]
    have "balanced (wdb w1) (if ss_id y = i \<and> ss_propertyId y = cs_propertyId dto
        then y\<lparr>ss_status := SClosed, ss_expectedBalance := Some e, ss_countedBalance := Some c,
            ss_variance := Some v, ss_closedAt := Some now\<rparr> else y)"
      if "y \<in> set (cashDrawerSessions (wdb w))" for y
      using a1(4) [OF that] only [OF that] si ev by (cases "ss_id y = i") (simp_all add: balanced_def)
    then have "list_all (balanced (wdb w1)) (cashDrawerSessions (wdb w'))"
      unfolding w' by (simp add: a1(3) list_all_upd del: if_split)
    moreover have "one_open (wdb w')" unfolding w' using a1(2) by (intro one_open_after_close) auto
    moreover have "amounts_ok (wdb w')"
      using a1(1) by (auto simp: w' amounts_ok_def list_all_iff set_upd)
    moreover have "map ss_id (cashDrawerSessions (wdb w')) = map ss_id (cashDrawerSessions (wdb w))"
      using a1(3) by (simp add: w' sessions.upd_ids)
    ultimately show ?thesis
      using inv Pair by (simp add: cashier_inv_def w' list_all_iff)
  qed
qed

lemma cashier_step_inv: "cashier_step L w w' \<Longrightarrow> cashier_inv (wdb w) \<Longrightarrow> cashier_inv (wdb w')"
  by (induction rule: cashier_step.induct)
     (auto intro: createDrawer_inv openSession_inv recordMovement_inv closeSession_inv)

lemma cashier_reachable_inv: "cashier_reachable L w \<Longrightarrow> cashier_inv (wdb w)"
proof (induction rule: cashier_reachable.induct)
  case (start keys)
  then show ?case by (simp add: no_rows_def cashier_inv_def amounts_ok_def one_open_def)
next
  case (step w w')
  then show ?case by (blast intro: cashier_step_inv)
qed

end

section \<open>Properties\<close>

text \<open>A drawer with an open session: a float of 100.00, 50.00 taken, 30.00 paid out.\<close>

definition demo_session :: cashDrawerSession where
  "demo_session = \<lparr>ss_id = ''s1'', ss_propertyId = ''p'', ss_cashDrawerId = ''d1'',
     ss_cashierUserId = ''u1'', ss_status = SOpen, ss_openingFloat = ''100.00'',
     ss_expectedBalance = None, ss_countedBalance = None, ss_variance = None, ss_openedAt = 0,
     ss_closedAt = None\<rparr>"

definition demo_movement :: "uuid \<Rightarrow> cashMovementType \<Rightarrow> string \<Rightarrow> cashMovement" where
  "demo_movement i t a = \<lparr>mv_id = i, mv_propertyId = ''p'', mv_sessionId = ''s1'', mv_type = t,
     mv_amount = a, mv_reservationId = None, mv_note = None, mv_createdBy = None\<rparr>"

definition demo_cash :: "cashier_db world" where
  "demo_cash = \<lparr>wdb = \<lparr>cashDrawers = [], cashDrawerSessions = [demo_session],
     cashMovements = [demo_movement ''m1'' Payment ''50.00'', demo_movement ''m2'' PaidOut ''30.00''],
     reservationKeys = []\<rparr>, wevents = []\<rparr>"

text \<open>
  Closing an open session succeeds whenever the amounts fit their columns, and then
  stores as the expected balance exactly the opening float plus the payments minus the
  refunds, paid-outs and drops, the final drop of the request included, stores the counted
  balance, and stores as the variance counted minus expected (KB 12.4).
\<close>

theorem closeSession_total:
  assumes "numerics L dval" and "amounts_ok (wdb w)"
    and "Suc (length (cashMovements (wdb w))) < 10 ^ 7"
    and "sel1 (\<lambda>s. ss_id s = i \<and> ss_propertyId s = cs_propertyId dto)
           (cashDrawerSessions (wdb w)) = Some s"
    and "ss_status s = SOpen" and "plain (cs_dropAmount dto)" and "drop_value dto < 10 ^ 10"
    and "money_text (cs_countedBalance dto)"
    and "E = text_val (ss_openingFloat s)
              + ledger_value i (cs_propertyId dto) (wdb w) - drop_value dto"
    and "\<bar>E\<bar> < 10 ^ 10" and "\<bar>text_val (cs_countedBalance dto) - E\<bar> < 10 ^ 10"
  shows "\<exists>s' w'. closeSession L dropId now i dto w = (Inr s', w') \<and> ss_status s' = SClosed
       \<and> Option.bind (ss_expectedBalance s') decimal_text = Some E
       \<and> Option.bind (ss_countedBalance s') decimal_text = Some (text_val (cs_countedBalance dto))
       \<and> Option.bind (ss_variance s') decimal_text = Some (text_val (cs_countedBalance dto) - E)
       \<and> sel1 (\<lambda>s. ss_id s = i \<and> ss_propertyId s = cs_propertyId dto)
            (cashDrawerSessions (wdb w')) = Some s'
       \<and> ledger_value i (cs_propertyId dto) (wdb w')
            = ledger_value i (cs_propertyId dto) (wdb w) - drop_value dto"
  by (rule numerics.closeSession_val [OF assms])

theorem closeSession_total_witness:
  "\<exists>s' w'. closeSession ref_numlib ''m3'' 9 ''s1'' \<lparr>cs_propertyId = ''p'',
        cs_countedBalance = ''99.50'', cs_dropAmount = Some ''20''\<rparr> demo_cash = (Inr s', w')
      \<and> ss_status s' = SClosed
      \<and> Option.bind (ss_expectedBalance s') decimal_text = Some 100
      \<and> Option.bind (ss_variance s') decimal_text = Some (- 1 / 2)"
proof -
  let ?dto = "\<lparr>cs_propertyId = ''p'', cs_countedBalance = ''99.50'', cs_dropAmount = Some ''20''\<rparr>"
  have e: "100 = text_val (ss_openingFloat demo_session)
      + ledger_value ''s1'' (cs_propertyId ?dto) (wdb demo_cash) - drop_value ?dto"
    by code_simp
  have "text_val (cs_countedBalance ?dto) = 199 / 2" by code_simp
  moreover have "list_all money_text [''50.00'', ''30.00'', ''100.00'']" by code_simp
  then have "amounts_ok (wdb demo_cash)"
    by (simp add: amounts_ok_def demo_cash_def demo_movement_def demo_session_def)
  moreover have "money_text (cs_countedBalance ?dto)" by code_simp
  moreover have "drop_value ?dto < 10 ^ 10" by code_simp
  moreover have "plain (cs_dropAmount ?dto)" by code_simp
  ultimately show ?thesis
    using closeSession_total [OF ref.numerics_axioms, of demo_cash "''s1''" ?dto demo_session 100
        "''m3''" 9] e
    by (auto simp: demo_cash_def demo_session_def)
qed

text \<open>
  C19. However the operations are interleaved, a cashier never has two open sessions on the
  same drawer, and the expected balance stored for a closed session remains the balance of
  its ledger: nothing can be booked on a session after it was closed (KB 12.5, 12.4).
\<close>

theorem cashier_books_stay_balanced:
  assumes "numerics L dval" and "cashier_reachable L w"
  shows "one_open (wdb w) \<and> list_all (balanced (wdb w)) (cashDrawerSessions (wdb w))"
  using numerics.cashier_reachable_inv [OF assms] by (simp add: cashier_inv_def)

definition demo_created :: "cashier_db world" where
  "demo_created = snd (createDrawer ref_numlib ''d1'' \<lparr>cd_propertyId = ''p'', cd_name = ''Bar'',
      cd_startingFloat = Some ''100'', cd_isActive = None\<rparr> (no_rows []))"

definition demo_opened :: "cashier_db world" where
  "demo_opened = snd (openSession ref_numlib ''s1'' 0 \<lparr>os_propertyId = ''p'',
      os_cashDrawerId = ''d1'', os_cashierUserId = ''u1'', os_openingFloat = None\<rparr> demo_created)"

lemma hundred_text:
  "fixed2 ref_numlib ''100'' = Inr ''100.00''" "fixed2 ref_numlib ''100.00'' = Inr ''100.00''"
  "numeric12_2 ref_numlib ''100.00'' = Inr ''100.00''"
proof -
  have d: "decimal_text ''100'' = Some 100" "decimal_text ''100.00'' = Some 100"
    and r: "round_dp 2 100 = 100"
    by code_simp+
  have s: "show_fixed 2 100 = ''100.00''" by (simp add: show_eval)
  show "fixed2 ref_numlib ''100'' = Inr ''100.00''" "fixed2 ref_numlib ''100.00'' = Inr ''100.00''"
    "numeric12_2 ref_numlib ''100.00'' = Inr ''100.00''"
    by (simp_all add: ref_fixed2 [OF d(1)] ref_fixed2 [OF d(2)] ref_numeric12_2 [OF d(2)] s r)
qed

lemma demo_created_db: "wdb demo_created = \<lparr>cashDrawers = [\<lparr>dr_id = ''d1'', dr_propertyId = ''p'',
    dr_name = ''Bar'', dr_startingFloat = ''100.00'', dr_isActive = True\<rparr>],
    cashDrawerSessions = [], cashMovements = [], reservationKeys = []\<rparr>"
  by (simp add: demo_created_def createDrawer_def op_defs hundred_text no_rows_def)

lemma demo_opened_sessions: "cashDrawerSessions (wdb demo_opened) = [demo_session]"
  by (simp add: demo_opened_def openSession_def findDrawerById_def op_defs hundred_text
      demo_created_db demo_session_def)

lemma demo_opened_reachable: "cashier_reachable ref_numlib demo_opened"
proof -
  have "cashier_step ref_numlib (no_rows []) demo_created"
    unfolding demo_created_def by (rule cashier_step.create_) code_simp
  moreover have "cashier_step ref_numlib demo_created demo_opened"
    unfolding demo_opened_def
    by (rule cashier_step.open_) (simp_all add: demo_created_db plain_def)
  ultimately show ?thesis
    by (blast intro: cashier_reachable.intros)
qed

theorem cashier_books_stay_balanced_witness:
  "cashDrawerSessions (wdb demo_opened) = [demo_session] \<and> one_open (wdb demo_opened)
   \<and> list_all (balanced (wdb demo_opened)) (cashDrawerSessions (wdb demo_opened))"
  using cashier_books_stay_balanced [OF ref.numerics_axioms demo_opened_reachable]
  by (simp add: demo_opened_sessions)

text \<open>The rows of one property in the three tables of the cashier.\<close>

definition tenant_rows :: "uuid \<Rightarrow> cashier_db
    \<Rightarrow> cashDrawer list \<times> cashDrawerSession list \<times> cashMovement list" where
  "tenant_rows q db = (filter (\<lambda>d. dr_propertyId d = q) (cashDrawers db),
     filter (\<lambda>s. ss_propertyId s = q) (cashDrawerSessions db),
     filter (\<lambda>m. mv_propertyId m = q) (cashMovements db))"

lemma createDrawer_tenant:
  "cd_propertyId dto \<noteq> q \<Longrightarrow> tenant_rows q (wdb (snd (createDrawer L n dto w))) = tenant_rows q (wdb w)"
  by (auto simp: createDrawer_def bindS_def liftS_def modifyS_def returnS_def tenant_rows_def
      Let_def split: sum.splits)

lemma openSession_tenant:
  assumes "os_propertyId dto \<noteq> q"
  shows "tenant_rows q (wdb (snd (openSession L n now dto w))) = tenant_rows q (wdb w)"
proof (cases "openSession L n now dto w")
  case (Pair r w')
  show ?thesis
  proof (cases r)
    case (Inl e)
    with Pair openSession_Inl show ?thesis by force
  next
    case (Inr s)
    with Pair have "openSession L n now dto w = (Inr s, w')" by simp
    then show ?thesis using assms
      by (elim openSession_Inr) (simp add: Pair tenant_rows_def)
  qed
qed

lemma recordMovement_tenant:
  assumes "rm_propertyId dto \<noteq> q"
  shows "tenant_rows q (wdb (snd (recordMovement L n i dto w))) = tenant_rows q (wdb w)"
proof (cases "recordMovement L n i dto w")
  case (Pair r w')
  show ?thesis
  proof (cases r)
    case (Inl e)
    with Pair recordMovement_Inl show ?thesis by force
  next
    case (Inr s)
    with Pair have "recordMovement L n i dto w = (Inr s, w')" by simp
    then show ?thesis using assms
      by (elim recordMovement_Inr) (simp add: Pair tenant_rows_def)
  qed
qed

lemma closeSession_tenant:
  assumes "cs_propertyId dto \<noteq> q"
  shows "tenant_rows q (wdb (snd (closeSession L n now i dto w))) = tenant_rows q (wdb w)"
proof (cases "closeSession L n now i dto w")
  case (Pair r w')
  show ?thesis
  proof (cases r)
    case (Inl e)
    with Pair closeSession_Inl show ?thesis by force
  next
    case (Inr s)
    with Pair have "closeSession L n now i dto w = (Inr s, w')" by simp
    then show ?thesis
    proof (rule closeSession_Inr)
      fix w1 e c v
      assume fd: "finalDrop L n i dto w = (Inr (), w1)"
        and w': "wdb w' = (wdb w1)\<lparr>cashDrawerSessions :=
          upd (\<lambda>s. ss_id s = i \<and> ss_propertyId s = cs_propertyId dto)
            (\<lambda>s. s\<lparr>ss_status := SClosed, ss_expectedBalance := Some e, ss_countedBalance := Some c,
              ss_variance := Some v, ss_closedAt := Some now\<rparr>) (cashDrawerSessions (wdb w1))\<rparr>"
      have "tenant_rows q (wdb w1) = tenant_rows q (wdb w)"
        using finalDrop_Inr [OF fd] assms by (auto simp: tenant_rows_def)
      moreover have "tenant_rows q (wdb w') = tenant_rows q (wdb w1)"
        using assms by (simp add: w' tenant_rows_def sessions.upd_other_tenant)
      ultimately show ?thesis by (simp add: Pair)
    qed
  qed
qed

text \<open>
  Tenant isolation: an operation called for one property leaves every drawer, session
  and movement of every other property as it was, whether it succeeds or throws.
\<close>

theorem cashier_tenant_isolation:
  assumes "q \<notin> {cd_propertyId a, os_propertyId b, rm_propertyId c, cs_propertyId d}"
  shows "tenant_rows q (wdb (snd (createDrawer L n a w))) = tenant_rows q (wdb w)
    \<and> tenant_rows q (wdb (snd (openSession L n now b w))) = tenant_rows q (wdb w)
    \<and> tenant_rows q (wdb (snd (recordMovement L n i c w))) = tenant_rows q (wdb w)
    \<and> tenant_rows q (wdb (snd (closeSession L n now i d w))) = tenant_rows q (wdb w)"
  using assms
  by (metis (no_types) createDrawer_tenant openSession_tenant recordMovement_tenant closeSession_tenant
      insertI1 insertI2)

theorem cashier_tenant_isolation_witness:
  "tenant_rows ''p'' (wdb (snd (closeSession ref_numlib ''m3'' 9 ''s1'' \<lparr>cs_propertyId = ''q'',
     cs_countedBalance = ''1'', cs_dropAmount = None\<rparr> demo_cash))) = tenant_rows ''p'' (wdb demo_cash)"
  using cashier_tenant_isolation [where q = "''p''" and L = ref_numlib and n = "''m3''" and now = 9
      and i = "''s1''" and w = demo_cash
      and a = "\<lparr>cd_propertyId = ''q'', cd_name = [], cd_startingFloat = None, cd_isActive = None\<rparr>"
         and b = "\<lparr>os_propertyId = ''q'', os_cashDrawerId = [], os_cashierUserId = [], os_openingFloat = None\<rparr>"
         and c = "\<lparr>rm_propertyId = ''q'', rm_type = Drop, rm_amount = [], rm_reservationId = None,
           rm_note = None, rm_createdBy = None\<rparr>"
         and d = "\<lparr>cs_propertyId = ''q'', cs_countedBalance = ''1'', cs_dropAmount = None\<rparr>"]
  by simp

end
