(* ===== verification/Outbox.thy ===== *)
theory Outbox
  imports Prelude
begin

text \<open>
  The transactional outbox: \<open>DomainEventOutboxService\<close> of
  \<open>apps/api/src/modules/webhook/domain-event-outbox.service.ts\<close> and
  \<open>WebhookService.dispatchPersisted\<close>. An operation persists its events in its own
  transaction; they are dispatched after the commit, at least once, and a recovery scan
  retries what a listener refused. Shown: no persisted event is ever lost, none is marked
  delivered without having been dispatched, and a delivery that the listeners accept is
  final.
\<close>

section \<open>Data\<close>

definition WEBHOOK_EVENTS :: "string list" where
  "WEBHOOK_EVENTS =
    [''reservation.created'',
     ''reservation.confirmed'',
     ''reservation.modified'',
     ''reservation.cancelled'',
     ''reservation.checked_in'',
     ''reservation.pre_registered'',
     ''reservation.checked_out'',
     ''reservation.no_show'',
     ''reservation.note_added'',
     ''reservation.message_sent'',
     ''reservation.bulk_action_completed'',
     ''reservation.room_moved'',
     ''reservation.guest_added'',
     ''reservation.guest_removed'',
     ''reservation.guest_moved'',
     ''reservation.split'',
     ''folio.created'',
     ''folio.charge_posted'',
     ''folio.settled'',
     ''payment.received'',
     ''payment.refunded'',
     ''payment.failed'',
     ''booking_request.created'',
     ''booking_request.accepted'',
     ''booking_request.denied'',
     ''invoice.requested'',
     ''invoice.issued'',
     ''invoice.voided'',
     ''room.status_changed'',
     ''room.inventory_block_changed'',
     ''housekeeping.task_assigned'',
     ''housekeeping.task_completed'',
     ''audit.started'',
     ''audit.completed'',
     ''accounting.export.ready'',
     ''staff.notification_created'',
     ''channel.connected'',
     ''channel.disconnected'',
     ''channel.sync_completed'',
     ''channel.sync_failed'',
     ''channel.reservation_received'',
     ''connect.booking_created'',
     ''connect.booking_modified'',
     ''connect.booking_cancelled'',
     ''connect.subscription_created'',
     ''agent.run_completed'',
     ''agent.decision_created'',
     ''agent.decision_executed'',
     ''agent.training_completed'',
     ''agent.cancellation_forecast_updated'',
     ''rate.ai_adjusted'',
     ''housekeeping.ai_assigned'',
     ''operations.task_created'',
     ''operations.task_updated'',
     ''operations.task_completed'',
     ''guest_request.created'',
     ''guest_request.completed'',
     ''maintenance.created'',
     ''maintenance.updated'',
     ''maintenance.completed'',
     ''guest.communication_drafted'',
     ''guest.communication_sent'',
     ''guest.review.ingested'',
     ''guest.review_response_drafted'',
     ''deposit.received'',
     ''deposit.applied'',
     ''deposit.refunded'',
     ''deposit.forfeited'',
     ''ar.ledger_created'',
     ''ar.transfer_created'',
     ''ar.transfer_reversed'',
     ''ar.payment_recorded'',
     ''cashdrawer.session_opened'',
     ''cashdrawer.movement_recorded'',
     ''cashdrawer.session_closed'',
     ''houseaccount.opened'',
     ''houseaccount.closed'',
     ''houseaccount.charge_posted'',
     ''houseaccount.payment_recorded'',
     ''service.created'',
     ''service.updated'',
     ''reservation.service_attached'',
     ''reservation.service_cancelled'',
     ''reservation.service_posted'',
     ''staff_shift.updated'',
     ''housekeeping.task_inspected'',
     ''housekeeping.task_updated'',
     ''service_booking.created'',
     ''service_booking.rescheduled'',
     ''service_booking.cancelled'',
     ''service_booking.completed'',
     ''service_resource.created'',
     ''service_resource.updated'',
     ''service_resource.blocked'',
     ''service_resource.unblocked'',
     ''service_request.created'',
     ''service_request.updated'',
     ''service_request.completed'',
     ''cancellation_policy.created'',
     ''cancellation_policy.updated'',
     ''cancellation_policy.deleted'',
     ''folio.transactions_moved'',
     ''folio.routing_rule_created'',
     ''payment.corrected'',
     ''group.profile_created'',
     ''group.block_created'',
     ''group.inventory_set'',
     ''group.block_released'',
     ''group.rooming_list_imported'',
     ''group.reservation_linked'',
     ''rate_plan.updated'',
     ''rate_plan.created'',
     ''rate_change.submitted'',
     ''rate_change.approved'',
     ''rate_change.rejected'',
     ''rate_change.applied'',
     ''rate_request.closed'',
     ''rate_restriction.created'',
     ''rate_restriction.updated'',
     ''rate_restriction.deleted'',
     ''property.content_updated'',
     ''roomtype.content_updated'',
     ''door.access_granted'',
     ''door.access_revoked'']"

text \<open>\<open>WebhookPayload\<close> as it is persisted: an integration event carries the version of its envelope.\<close>

record payload = event +
  pl_schemaVersion :: "string option"

definition payload_event :: "payload \<Rightarrow> event" where
  "payload_event p = \<lparr>ev_name = ev_name p, ev_entityType = ev_entityType p,
     ev_entityId = ev_entityId p, ev_propertyId = ev_propertyId p, ev_data = ev_data p\<rparr>"

record outboxRow =
  ob_id :: uuid
  ob_propertyId :: uuid
  ob_logicalEventId :: string
  ob_payload :: payload
  ob_attempts :: nat
  ob_availableAt :: millis
  ob_deliveredAt :: "millis option"

text \<open>\<open>auditLogs\<close>: the audit rows written inside a transaction, with their logical event id.\<close>

record outbox_db =
  domainEventOutbox :: "outboxRow list"
  auditLogs :: "(event \<times> string) list"

section \<open>Operations\<close>

text \<open>
  The row is skipped when the unique index on property and logical event id already has it
  (\<open>onConflictDoNothing\<close>); a payload without property violates the \<open>not null\<close> column.
\<close>

definition persist :: "uuid \<Rightarrow> millis \<Rightarrow> payload \<Rightarrow> string
    \<Rightarrow> ('z outbox_db_scheme, unit) op" where
  "persist newId now payload logicalEventId =
     bindS (someS (ev_propertyId payload) DatabaseError) (\<lambda>p.
     bindS (getS (\<lambda>db. sel1 (\<lambda>r. ob_propertyId r = p \<and> ob_logicalEventId r = logicalEventId)
        (domainEventOutbox db))) (\<lambda>conflict.
     bindS (whenS (conflict = None) (modifyS (\<lambda>db. db\<lparr>domainEventOutbox := domainEventOutbox db @
        [\<lparr>ob_id = newId, ob_propertyId = p, ob_logicalEventId = logicalEventId,
          ob_payload = payload, ob_attempts = 0, ob_availableAt = now,
          ob_deliveredAt = None\<rparr>]\<rparr>))) (\<lambda>_.
     modifyS (\<lambda>db. db\<lparr>auditLogs := auditLogs db @ [(payload_event payload, logicalEventId)]\<rparr>))))"

text \<open>
  The listeners registered on the event emitter are a parameter: whether they all accept an
  event. What they accepted is recorded in the world's events.
\<close>

definition dispatchPersisted :: "(event \<Rightarrow> string \<Rightarrow> unit result) \<Rightarrow> payload \<Rightarrow> string
    \<Rightarrow> ('db, unit) op" where
  "dispatchPersisted listeners payload logicalEventId =
     (if ev_name payload \<notin> set WEBHOOK_EVENTS
         \<and> pl_schemaVersion payload \<noteq> Some ''guestra-domain-event-v1''
      then throwS (Error (''Unknown persisted webhook event: '' @ ev_name payload))
      else bindS (liftS (listeners (payload_event payload) logicalEventId)) (\<lambda>_.
        (\<lambda>w. (Inr (), w\<lparr>wevents := wevents w @ [payload_event payload]\<rparr>))))"

definition retryDelay :: "nat \<Rightarrow> millis" where
  "retryDelay attempts = min 300000 (15000 * 2 ^ min attempts 5)"

definition deliver :: "(event \<Rightarrow> string \<Rightarrow> unit result) \<Rightarrow> millis \<Rightarrow> uuid \<Rightarrow> string
    \<Rightarrow> ('z outbox_db_scheme, unit) op" where
  "deliver listeners now p logicalEventId = transactionS
     (bindS (getS (\<lambda>db. sel1 (\<lambda>r. ob_propertyId r = p \<and> ob_logicalEventId r = logicalEventId
          \<and> ob_deliveredAt r = None) (domainEventOutbox db))) (\<lambda>found.
      case found of
        None \<Rightarrow> returnS ()
      | Some row \<Rightarrow>
          catchS
            (bindS (dispatchPersisted listeners (ob_payload row) (ob_logicalEventId row)) (\<lambda>_.
             modifyS (\<lambda>db. db\<lparr>domainEventOutbox := upd (\<lambda>r. ob_id r = ob_id row)
               (\<lambda>r. r\<lparr>ob_deliveredAt := Some now, ob_attempts := ob_attempts row + 1\<rparr>)
               (domainEventOutbox db)\<rparr>)))
            (\<lambda>_. modifyS (\<lambda>db. db\<lparr>domainEventOutbox := upd (\<lambda>r. ob_id r = ob_id row)
               (\<lambda>r. r\<lparr>ob_attempts := ob_attempts row + 1,
                      ob_availableAt := now + retryDelay (ob_attempts row)\<rparr>)
               (domainEventOutbox db)\<rparr>))))"

text \<open>The recovery scan: at most twenty due rows, oldest first; a scan that is running already
  makes a second one return at once.\<close>

definition dueRows :: "millis \<Rightarrow> 'z outbox_db_scheme \<Rightarrow> (uuid \<times> string) list" where
  "dueRows now db = map (\<lambda>r. (ob_propertyId r, ob_logicalEventId r))
     (take 20 (sort_key ob_availableAt
        (filter (\<lambda>r. ob_deliveredAt r = None \<and> ob_availableAt r \<le> now) (domainEventOutbox db))))"

definition recover :: "bool \<Rightarrow> (event \<Rightarrow> string \<Rightarrow> unit result) \<Rightarrow> millis
    \<Rightarrow> ('z outbox_db_scheme, unit) op" where
  "recover scanning listeners now =
     (if scanning then returnS ()
      else catchS
        (bindS (getS (dueRows now)) (\<lambda>rows.
         bindS (mapS (\<lambda>(p, k). deliver listeners now p k) rows) (\<lambda>_. returnS ())))
        (\<lambda>_. returnS ()))"

section \<open>Invariant\<close>

definition outbox_inv :: "'z outbox_db_scheme world \<Rightarrow> bool" where
  "outbox_inv w \<longleftrightarrow>
     distinct (map ob_id (domainEventOutbox (wdb w)))
     \<and> distinct (map (\<lambda>r. (ob_propertyId r, ob_logicalEventId r)) (domainEventOutbox (wdb w)))
     \<and> list_all (\<lambda>r. ob_deliveredAt r \<noteq> None \<longrightarrow> payload_event (ob_payload r) \<in> set (wevents w))
         (domainEventOutbox (wdb w))
     \<and> list_all (\<lambda>(e, k). list_ex (\<lambda>r. ob_logicalEventId r = k \<and> Some (ob_propertyId r) = ev_propertyId e)
         (domainEventOutbox (wdb w))) (auditLogs (wdb w))"

lemma payload_event_property [simp]: "ev_propertyId (payload_event p) = ev_propertyId p"
  by (simp add: payload_event_def)

lemma persist_inv:
  assumes "persist newId now payload k w = (Inr u, w')" and "outbox_inv w"
    and "newId \<notin> ob_id ` set (domainEventOutbox (wdb w))"
  shows "outbox_inv w'"
proof -
  from assms(1) obtain p where p: "ev_propertyId payload = Some p"
    by (auto simp: persist_def op_iffs split: option.splits)
  show ?thesis
  proof (cases "sel1 (\<lambda>r. ob_propertyId r = p \<and> ob_logicalEventId r = k) (domainEventOutbox (wdb w))")
    case None
    with assms p show ?thesis
      by (auto simp: persist_def op_iffs outbox_inv_def list_all_iff list_ex_iff case_prod_unfold
          dest: find_NoneD)
  next
    case (Some r)
    with assms p find_SomeD [OF Some] show ?thesis
      by (auto simp: persist_def op_iffs outbox_inv_def list_all_iff list_ex_iff case_prod_unfold)
  qed
qed

text \<open>Marking or postponing one row keeps the keys; only a dispatched row is marked.\<close>

lemma upd_row_inv:
  assumes "outbox_inv w" and "set (wevents w) \<subseteq> set (wevents w')" and "auditLogs (wdb w') = auditLogs (wdb w)"
    and "domainEventOutbox (wdb w') = upd (\<lambda>r. ob_id r = ob_id row) f (domainEventOutbox (wdb w))"
    and "\<And>r. ob_id (f r) = ob_id r" and "\<And>r. ob_propertyId (f r) = ob_propertyId r"
    and "\<And>r. ob_logicalEventId (f r) = ob_logicalEventId r" and "\<And>r. ob_payload (f r) = ob_payload r"
    and "\<And>r. ob_id r = ob_id row \<Longrightarrow> r \<in> set (domainEventOutbox (wdb w)) \<Longrightarrow>
           ob_deliveredAt (f r) \<noteq> None \<Longrightarrow> payload_event (ob_payload r) \<in> set (wevents w')"
  shows "outbox_inv w'"
proof -
  have ids: "map ob_id (domainEventOutbox (wdb w')) = map ob_id (domainEventOutbox (wdb w))"
    and keys: "map (\<lambda>r. (ob_propertyId r, ob_logicalEventId r)) (domainEventOutbox (wdb w'))
      = map (\<lambda>r. (ob_propertyId r, ob_logicalEventId r)) (domainEventOutbox (wdb w))"
    unfolding assms(4) by (rule map_upd_same, simp add: assms(5-7))+
  have key_ex: "list_ex (\<lambda>r. ob_logicalEventId r = k \<and> Some (ob_propertyId r) = ev_propertyId e) rows
      \<longleftrightarrow> (\<exists>x\<in>set (map (\<lambda>r. (ob_propertyId r, ob_logicalEventId r)) rows).
            snd x = k \<and> Some (fst x) = ev_propertyId e)" for e k rows
    by (simp add: list_ex_iff)
  have ex: "list_ex (\<lambda>r. ob_logicalEventId r = k \<and> Some (ob_propertyId r) = ev_propertyId e)
        (domainEventOutbox (wdb w'))
      \<longleftrightarrow> list_ex (\<lambda>r. ob_logicalEventId r = k \<and> Some (ob_propertyId r) = ev_propertyId e)
        (domainEventOutbox (wdb w))" for e k
    by (simp only: key_ex keys)
  have "list_all (\<lambda>r. ob_deliveredAt r \<noteq> None \<longrightarrow> payload_event (ob_payload r) \<in> set (wevents w'))
      (domainEventOutbox (wdb w'))"
    using assms(1,2,8,9) by (auto simp: outbox_inv_def assms(4) list_all_iff set_upd)
  with assms(1,3) show ?thesis by (simp add: outbox_inv_def ids keys ex)
qed

lemma dispatchPersisted_eq:
  "dispatchPersisted listeners p k w =
     (if ev_name p \<in> set WEBHOOK_EVENTS \<or> pl_schemaVersion p = Some ''guestra-domain-event-v1''
      then case listeners (payload_event p) k of Inl e \<Rightarrow> (Inl e, w)
           | Inr _ \<Rightarrow> (Inr (), w\<lparr>wevents := wevents w @ [payload_event p]\<rparr>)
      else (Inl (Error (''Unknown persisted webhook event: '' @ ev_name p)), w))"
  by (auto simp: dispatchPersisted_def op_defs split: sum.splits)

lemma dispatchPersisted_outcome:
  "(\<exists>e. dispatchPersisted listeners p k w = (Inl e, w))
   \<or> dispatchPersisted listeners p k w = (Inr (), w\<lparr>wevents := wevents w @ [payload_event p]\<rparr>)"
  by (simp add: dispatchPersisted_eq split: sum.splits)

lemma dispatchPersisted_refused:
  "\<not> ((ev_name p \<in> set WEBHOOK_EVENTS \<or> pl_schemaVersion p = Some ''guestra-domain-event-v1'')
      \<and> listeners (payload_event p) k = Inr ()) \<Longrightarrow>
   \<exists>e. dispatchPersisted listeners p k w = (Inl e, w)"
  by (auto simp: dispatchPersisted_eq split: sum.splits)

lemma deliver_cases:
  obtains "sel1 (\<lambda>r. ob_propertyId r = p \<and> ob_logicalEventId r = k \<and> ob_deliveredAt r = None)
        (domainEventOutbox (wdb w)) = None" "deliver listeners now p k w = (Inr (), w)"
  | row where "sel1 (\<lambda>r. ob_propertyId r = p \<and> ob_logicalEventId r = k \<and> ob_deliveredAt r = None)
        (domainEventOutbox (wdb w)) = Some row"
      "dispatchPersisted listeners (ob_payload row) k w
         = (Inr (), w\<lparr>wevents := wevents w @ [payload_event (ob_payload row)]\<rparr>)"
      "deliver listeners now p k w = (Inr (), w\<lparr>wevents := wevents w @ [payload_event (ob_payload row)],
         wdb := (wdb w)\<lparr>domainEventOutbox := upd (\<lambda>r. ob_id r = ob_id row)
           (\<lambda>r. r\<lparr>ob_deliveredAt := Some now, ob_attempts := ob_attempts row + 1\<rparr>)
           (domainEventOutbox (wdb w))\<rparr>\<rparr>)"
  | row e where "sel1 (\<lambda>r. ob_propertyId r = p \<and> ob_logicalEventId r = k \<and> ob_deliveredAt r = None)
        (domainEventOutbox (wdb w)) = Some row"
      "dispatchPersisted listeners (ob_payload row) k w = (Inl e, w)"
      "deliver listeners now p k w = (Inr (), w\<lparr>wdb := (wdb w)\<lparr>domainEventOutbox :=
         upd (\<lambda>r. ob_id r = ob_id row)
           (\<lambda>r. r\<lparr>ob_attempts := ob_attempts row + 1,
                  ob_availableAt := now + retryDelay (ob_attempts row)\<rparr>)
           (domainEventOutbox (wdb w))\<rparr>\<rparr>)"
proof (cases "sel1 (\<lambda>r. ob_propertyId r = p \<and> ob_logicalEventId r = k \<and> ob_deliveredAt r = None)
        (domainEventOutbox (wdb w))")
  case None
  then show ?thesis
    by (intro that(1)) (simp_all add: deliver_def transactionS_def op_defs)
next
  case (Some row)
  then have k: "ob_logicalEventId row = k" using find_SomeD [OF Some] by simp
  consider "dispatchPersisted listeners (ob_payload row) k w
         = (Inr (), w\<lparr>wevents := wevents w @ [payload_event (ob_payload row)]\<rparr>)"
    | e where "dispatchPersisted listeners (ob_payload row) k w = (Inl e, w)"
    using dispatchPersisted_outcome [of listeners "ob_payload row" k w] by blast
  then show ?thesis
  proof cases
    case 1
    then show ?thesis
      using Some k by (intro that(2)) (simp_all add: deliver_def transactionS_def catchS_def op_defs)
  next
    case 2
    then show ?thesis
      using Some k by (intro that(3)) (simp_all add: deliver_def transactionS_def catchS_def op_defs)
  qed
qed

lemma deliver_inv:
  assumes "deliver listeners now p k w = (r, w')" and "outbox_inv w"
  shows "outbox_inv w'"
proof (rule deliver_cases [of p k w listeners now])
  show ?thesis if "deliver listeners now p k w = (Inr (), w)" using that assms by simp
next
  fix row
  assume f: "sel1 (\<lambda>r. ob_propertyId r = p \<and> ob_logicalEventId r = k \<and> ob_deliveredAt r = None)
        (domainEventOutbox (wdb w)) = Some row"
    and d: "deliver listeners now p k w = (Inr (), w\<lparr>wevents := wevents w @ [payload_event (ob_payload row)],
         wdb := (wdb w)\<lparr>domainEventOutbox := upd (\<lambda>r. ob_id r = ob_id row)
           (\<lambda>r. r\<lparr>ob_deliveredAt := Some now, ob_attempts := ob_attempts row + 1\<rparr>)
           (domainEventOutbox (wdb w))\<rparr>\<rparr>)"
  have "x = row" if "ob_id x = ob_id row" "x \<in> set (domainEventOutbox (wdb w))" for x
    using that assms(2) find_SomeD [OF f] by (auto simp: outbox_inv_def distinct_map inj_on_def)
  with d assms show ?thesis
    by (intro upd_row_inv [of w w' row "\<lambda>r. r\<lparr>ob_deliveredAt := Some now,
        ob_attempts := ob_attempts row + 1\<rparr>"]) auto
next
  fix row
  assume f: "sel1 (\<lambda>r. ob_propertyId r = p \<and> ob_logicalEventId r = k \<and> ob_deliveredAt r = None)
        (domainEventOutbox (wdb w)) = Some row"
    and d: "deliver listeners now p k w = (Inr (), w\<lparr>wdb := (wdb w)\<lparr>domainEventOutbox :=
         upd (\<lambda>r. ob_id r = ob_id row)
           (\<lambda>r. r\<lparr>ob_attempts := ob_attempts row + 1,
                  ob_availableAt := now + retryDelay (ob_attempts row)\<rparr>)
           (domainEventOutbox (wdb w))\<rparr>\<rparr>)"
  have "x = row" if "ob_id x = ob_id row" "x \<in> set (domainEventOutbox (wdb w))" for x
    using that assms(2) find_SomeD [OF f] by (auto simp: outbox_inv_def distinct_map inj_on_def)
  then have "ob_deliveredAt x = None" if "ob_id x = ob_id row" "x \<in> set (domainEventOutbox (wdb w))" for x
    using that find_SomeD [OF f] by auto
  with d assms show ?thesis
    by (intro upd_row_inv [of w w' row "\<lambda>r. r\<lparr>ob_attempts := ob_attempts row + 1,
        ob_availableAt := now + retryDelay (ob_attempts row)\<rparr>"]) auto
qed

lemma deliver_returns: "fst (deliver listeners now p k w) = Inr ()"
  by (rule deliver_cases [of p k w listeners now]) simp_all

lemma mapS_deliver_inv:
  assumes "outbox_inv w"
  shows "outbox_inv (snd (mapS (\<lambda>(p, k). deliver listeners now p k) rows w))"
  using assms
proof (induction rows arbitrary: w)
  case Nil
  then show ?case by (simp add: op_defs)
next
  case (Cons x rows)
  obtain p k w1 where x: "x = (p, k)" "deliver listeners now p k w = (Inr (), w1)"
    using deliver_returns [of listeners now "fst x" "snd x" w]
    by (metis prod.collapse)
  with Cons have "outbox_inv (snd (mapS (\<lambda>(p, k). deliver listeners now p k) rows w1))"
    using deliver_inv by blast
  with x show ?case by (auto simp: op_defs split: prod.splits sum.splits)
qed

lemma recover_inv: "outbox_inv w \<Longrightarrow> outbox_inv (snd (recover scanning listeners now w))"
  using mapS_deliver_inv [of w listeners now "dueRows now (wdb w)"]
  by (auto simp: recover_def catchS_def op_defs split: prod.splits sum.splits)

section \<open>Histories\<close>

text \<open>
  Committed \<open>persist\<close> calls, deliveries and recovery scans, in any order and with listeners
  that may change their mind between calls.
\<close>

inductive outbox_step :: "outbox_db world \<Rightarrow> outbox_db world \<Rightarrow> bool" where
  persist_: "persist newId now payload k w = (Inr u, w') \<Longrightarrow>
     newId \<notin> ob_id ` set (domainEventOutbox (wdb w)) \<Longrightarrow> outbox_step w w'"
| deliver_: "deliver listeners now p k w = (r, w') \<Longrightarrow> outbox_step w w'"
| recover_: "recover scanning listeners now w = (r, w') \<Longrightarrow> outbox_step w w'"

inductive outbox_reachable :: "outbox_db world \<Rightarrow> bool" where
  start: "outbox_reachable \<lparr>wdb = \<lparr>domainEventOutbox = [], auditLogs = []\<rparr>, wevents = []\<rparr>"
| step: "outbox_reachable w \<Longrightarrow> outbox_step w w' \<Longrightarrow> outbox_reachable w'"

lemma outbox_step_inv: "outbox_step w w' \<Longrightarrow> outbox_inv w \<Longrightarrow> outbox_inv w'"
proof (induction rule: outbox_step.induct)
  case (recover_ scanning listeners now w r w')
  then show ?case using recover_inv [of w scanning listeners now] by simp
qed (auto intro: persist_inv deliver_inv)

section \<open>Properties\<close>

text \<open>
  C32. No event is lost and none is acknowledged silently: in every reachable state each
  audited event still has its outbox row, a row is marked delivered only if its payload was
  dispatched to the listeners, and no property has two rows for the same logical event.
\<close>

theorem outbox_at_least_once:
  assumes "outbox_reachable w"
  shows "list_all (\<lambda>(e, k). list_ex (\<lambda>r. ob_logicalEventId r = k \<and> Some (ob_propertyId r) = ev_propertyId e)
            (domainEventOutbox (wdb w))) (auditLogs (wdb w))
       \<and> list_all (\<lambda>r. ob_deliveredAt r = None \<or> payload_event (ob_payload r) \<in> set (wevents w))
            (domainEventOutbox (wdb w))
       \<and> distinct (map (\<lambda>r. (ob_propertyId r, ob_logicalEventId r)) (domainEventOutbox (wdb w)))"
proof -
  have "outbox_inv w"
    using assms by induction (auto simp: outbox_inv_def dest: outbox_step_inv)
  then show ?thesis by (auto simp: outbox_inv_def list_all_iff)
qed

definition demo_payload :: payload where
  "demo_payload = \<lparr>ev_name = ''room.status_changed'', ev_entityType = ''room'',
     ev_entityId = ''r1'', ev_propertyId = Some ''p'', ev_data = [], pl_schemaVersion = None\<rparr>"

definition demo_outbox :: "outbox_db world" where
  "demo_outbox = \<lparr>wdb = \<lparr>domainEventOutbox = [\<lparr>ob_id = ''o1'', ob_propertyId = ''p'',
      ob_logicalEventId = ''k1'', ob_payload = demo_payload, ob_attempts = 0, ob_availableAt = 5,
      ob_deliveredAt = None\<rparr>], auditLogs = [(payload_event demo_payload, ''k1'')]\<rparr>, wevents = []\<rparr>"

lemma demo_outbox_reachable: "outbox_reachable demo_outbox"
proof -
  have "persist ''o1'' 5 demo_payload ''k1''
      \<lparr>wdb = \<lparr>domainEventOutbox = [], auditLogs = []\<rparr>, wevents = []\<rparr> = (Inr (), demo_outbox)"
    by (simp add: persist_def op_defs demo_payload_def demo_outbox_def)
  then show ?thesis
    by (rule outbox_reachable.step [OF outbox_reachable.start outbox_step.persist_]) simp
qed

theorem outbox_at_least_once_witness:
  "auditLogs (wdb demo_outbox) = [(payload_event demo_payload, ''k1'')]
   \<and> list_all (\<lambda>(e, k). list_ex (\<lambda>r. ob_logicalEventId r = k \<and> Some (ob_propertyId r) = ev_propertyId e)
            (domainEventOutbox (wdb demo_outbox))) (auditLogs (wdb demo_outbox))"
  using outbox_at_least_once [OF demo_outbox_reachable] by (simp add: demo_outbox_def)

text \<open>
  C34. A delivery attempt on a pending row never throws. If the event is known and the
  listeners accept it, the row becomes delivered and exactly this event is dispatched;
  otherwise the row stays pending, nothing is dispatched, and it is due again after at most
  five minutes.
\<close>

theorem deliver_outcome:
  assumes "outbox_inv w"
    and "row \<in> set (domainEventOutbox (wdb w))" and "ob_deliveredAt row = None"
    and "accepted \<longleftrightarrow> (ev_name (ob_payload row) \<in> set WEBHOOK_EVENTS
           \<or> pl_schemaVersion (ob_payload row) = Some ''guestra-domain-event-v1'')
         \<and> listeners (payload_event (ob_payload row)) (ob_logicalEventId row) = Inr ()"
  shows "\<exists>w' row'. deliver listeners now (ob_propertyId row) (ob_logicalEventId row) w = (Inr (), w')
     \<and> sel1 (\<lambda>r. ob_id r = ob_id row) (domainEventOutbox (wdb w')) = Some row'
     \<and> ob_attempts row' = ob_attempts row + 1 \<and> ob_payload row' = ob_payload row
     \<and> (if accepted then ob_deliveredAt row' = Some now
          \<and> wevents w' = wevents w @ [payload_event (ob_payload row)]
        else ob_deliveredAt row' = None \<and> wevents w' = wevents w
          \<and> now < ob_availableAt row' \<and> ob_availableAt row' \<le> now + 300000)"
proof -
  let ?k = "ob_logicalEventId row" and ?p = "ob_propertyId row"
  have d: "distinct (map ob_id (domainEventOutbox (wdb w)))"
    "distinct (map (\<lambda>r. (ob_propertyId r, ob_logicalEventId r)) (domainEventOutbox (wdb w)))"
    using assms(1) by (auto simp: outbox_inv_def)
  have f: "sel1 (\<lambda>r. ob_propertyId r = ?p \<and> ob_logicalEventId r = ?k \<and> ob_deliveredAt r = None)
      (domainEventOutbox (wdb w)) = Some row"
    by (rule find_key [OF d(2) assms(2)]) (simp_all add: assms(3))
  have g: "sel1 (\<lambda>r. ob_id r = ob_id row) (domainEventOutbox (wdb w)) = Some row"
    by (rule find_key [OF d(1) assms(2)]) simp_all
  have pos: "0 < retryDelay n" "retryDelay n \<le> 300000" for n
    by (simp_all add: retryDelay_def)
  show ?thesis
  proof (cases accepted)
    case True
    with assms(4) f g show ?thesis
      by (simp add: deliver_def dispatchPersisted_eq transactionS_def catchS_def op_defs find_upd)
  next
    case False
    with assms(4) obtain e where "dispatchPersisted listeners (ob_payload row) ?k w = (Inl e, w)"
      using dispatchPersisted_refused [of "ob_payload row" listeners ?k w] by blast
    with False f g pos show ?thesis
      by (simp add: deliver_def transactionS_def catchS_def op_defs find_upd assms(3))
  qed
qed

theorem deliver_outcome_witness:
  "\<exists>w' row'. deliver (\<lambda>_ _. Inr ()) 9 ''p'' ''k1'' demo_outbox = (Inr (), w')
     \<and> sel1 (\<lambda>r. ob_id r = ''o1'') (domainEventOutbox (wdb w')) = Some row'
     \<and> ob_deliveredAt row' = Some 9 \<and> wevents w' = [payload_event demo_payload]"
proof -
  have i: "outbox_inv demo_outbox"
    by (simp add: outbox_inv_def demo_outbox_def demo_payload_def payload_event_def)
  have k: "ev_name demo_payload \<in> set WEBHOOK_EVENTS"
    by (simp add: demo_payload_def WEBHOOK_EVENTS_def)
  show ?thesis
    using deliver_outcome [OF i, where row = "hd (domainEventOutbox (wdb demo_outbox))"
        and accepted = True and listeners = "\<lambda>_ _. Inr ()" and now = 9] k
    by (auto simp: demo_outbox_def)
qed

end
