(* ===== verification/Calendar.thy ===== *)
theory Calendar
  imports Numerics "HOL-Library.Char_ord" "HOL-Library.List_Lexorder"
begin

text \<open>
  Stay dates: \<open>packages/shared/src/stay-dates.ts\<close>,
  \<open>packages/shared/src/canonical-calendar-date.validator.ts\<close> and \<open>dayAfter\<close> of
  \<open>apps/api/src/modules/room/room-inventory-policy.ts\<close>. Dates travel as texts
  \<open>YYYY-MM-DD\<close>; the code turns them into UTC dates and back, and compares the texts
  themselves. Shown: writing and reading a date are inverse, the order of the texts is the
  order of the days, and a stay is enumerated night by night without gap or repetition.
\<close>

section \<open>UTC days of the proleptic Gregorian calendar (ECMAScript Date)\<close>

definition leap :: "nat \<Rightarrow> bool" where
  "leap y \<longleftrightarrow> y mod 4 = 0 \<and> (y mod 100 \<noteq> 0 \<or> y mod 400 = 0)"

text \<open>Days are counted from 0000-01-01; years have four digits.\<close>

definition day_from_year :: "nat \<Rightarrow> nat" where
  "day_from_year y = 365 * y + (y + 3) div 4 + (y + 399) div 400 - (y + 99) div 100"

definition month_start :: "bool \<Rightarrow> nat \<Rightarrow> nat" where
  "month_start l m = [0, 31, 59, 90, 120, 151, 181, 212, 243, 273, 304, 334, 365] ! (m - 1)
     + (if l \<and> 2 < m then 1 else 0)"

fun year_from :: "nat \<Rightarrow> nat \<Rightarrow> nat \<Rightarrow> nat" where
  "year_from 0 y n = y"
| "year_from (Suc k) y n = (if day_from_year (Suc y) \<le> n then year_from k (Suc y) n else y)"

text \<open>
  The year of a day: the search starts at \<open>n div 366\<close>, which is never too late, and the
  largest year below the day is at most \<open>n div 365\<close>.
\<close>

definition year_of_day :: "nat \<Rightarrow> nat" where
  "year_of_day n = year_from (n div 365 - n div 366) (n div 366) n"

definition month_of_day :: "bool \<Rightarrow> nat \<Rightarrow> nat" where
  "month_of_day l doy = length (filter (\<lambda>m. month_start l m \<le> doy) [1, 2, 3, 4, 5, 6, 7, 8, 9, 10, 11, 12])"

definition ymd_of_day :: "nat \<Rightarrow> nat \<times> nat \<times> nat" where
  "ymd_of_day n = (let y = year_of_day n; doy = n - day_from_year y; m = month_of_day (leap y) doy
     in (y, m, doy - month_start (leap y) m + 1))"

definition day_of_ymd :: "nat \<Rightarrow> nat \<Rightarrow> nat \<Rightarrow> nat" where
  "day_of_ymd y m d = day_from_year y + month_start (leap y) m + (d - 1)"

definition days_in_month :: "bool \<Rightarrow> nat \<Rightarrow> nat" where
  "days_in_month l m = month_start l (m + 1) - month_start l m"

definition valid_ymd :: "nat \<Rightarrow> nat \<Rightarrow> nat \<Rightarrow> bool" where
  "valid_ymd y m d \<longleftrightarrow> 1 \<le> m \<and> m \<le> 12 \<and> 1 \<le> d \<and> d \<le> days_in_month (leap y) m"

section \<open>Texts\<close>

text \<open>\<open>toISOString().slice(0, 10)\<close> of a UTC day.\<close>

definition show_date :: "nat \<times> nat \<times> nat \<Rightarrow> date" where
  "show_date ymd = (case ymd of (y, m, d) \<Rightarrow>
     frac_digits 4 y @ ''-'' @ frac_digits 2 m @ ''-'' @ frac_digits 2 d)"

definition iso_of_day :: "nat \<Rightarrow> date" where
  "iso_of_day n = show_date (ymd_of_day n)"

text \<open>The pattern \<open>/^\d{4}-\d{2}-\d{2}$/\<close>.\<close>

definition iso_pattern :: "string \<Rightarrow> bool" where
  "iso_pattern s \<longleftrightarrow> length s = 10 \<and> list_all is_digit (take 4 s) \<and> s ! 4 = CHR ''-''
     \<and> list_all is_digit (take 2 (drop 5 s)) \<and> s ! 7 = CHR ''-'' \<and> list_all is_digit (drop 8 s)"

text \<open>
  \<open>new Date(text + 'T00:00:00.000Z')\<close> for a text of that pattern: \<open>None\<close> is the invalid
  date. A day of the month up to 31 that the month does not have rolls over into the next
  month, or is invalid, depending on the engine; every caller compares the date written
  back with the text and so rejects both.
\<close>

definition parse_utc :: "string \<Rightarrow> nat option" where
  "parse_utc s = (let y = digits_val (take 4 s); m = digits_val (take 2 (drop 5 s));
       d = digits_val (drop 8 s)
     in if 1 \<le> m \<and> m \<le> 12 \<and> 1 \<le> d \<and> d \<le> 31 then Some (day_of_ymd y m d) else None)"

section \<open>Operations\<close>

definition isCanonicalCalendarDate :: "string \<Rightarrow> bool" where
  "isCanonicalCalendarDate s \<longleftrightarrow> iso_pattern s \<and>
     (case parse_utc s of None \<Rightarrow> False | Some n \<Rightarrow> iso_of_day n = s)"

definition assertCanonicalStayDates :: "string \<Rightarrow> string \<Rightarrow> unit result" where
  "assertCanonicalStayDates checkIn checkOut =
     (if \<not> isCanonicalCalendarDate checkIn \<or> \<not> isCanonicalCalendarDate checkOut
      then Inl (BadRequestException ''Check-in and check-out must be valid YYYY-MM-DD dates'')
      else if checkOut \<le> checkIn
      then Inl (BadRequestException ''Check-out must be after check-in'')
      else Inr ())"

text \<open>The loop of \<open>stayDates\<close>: from the start, day by day, while before the end.\<close>

function dates_from :: "nat \<Rightarrow> nat \<Rightarrow> date list" where
  "dates_from n k = (if n < k then iso_of_day n # dates_from (Suc n) k else [])"
  by pat_completeness auto
termination
  by (relation "measure (\<lambda>(n, k). k - n)") auto

declare dates_from.simps [simp del]

definition stayDates :: "string \<Rightarrow> string \<Rightarrow> date list result" where
  "stayDates checkIn checkOut =
     (if \<not> iso_pattern checkIn \<or> \<not> iso_pattern checkOut
      then Inl (BadRequestException ''Stay dates must use YYYY-MM-DD'')
      else case (parse_utc checkIn, parse_utc checkOut) of
        (Some start, Some end) \<Rightarrow>
          (if iso_of_day start \<noteq> checkIn \<or> iso_of_day end \<noteq> checkOut \<or> end \<le> start
           then Inl (BadRequestException ''Check-out must be after check-in'')
           else Inr (dates_from start end))
      | _ \<Rightarrow> Inl (BadRequestException ''Check-out must be after check-in''))"

text \<open>\<open>dayAfter(date)\<close>; the invalid date makes \<open>toISOString\<close> throw.\<close>

definition dayAfter :: "string \<Rightarrow> date option" where
  "dayAfter s = map_option (\<lambda>n. iso_of_day (n + 1)) (parse_utc s)"

section \<open>Days and dates are in bijection\<close>

lemma day_from_year_Suc:
  "day_from_year (Suc y) = day_from_year y + (if leap y then 366 else 365)"
proof -
  have s: "(Suc y + 3) div 4 = (y + 3) div 4 + (if y mod 4 = 0 then 1 else 0)"
      "(Suc y + 99) div 100 = (y + 99) div 100 + (if y mod 100 = 0 then 1 else 0)"
      "(Suc y + 399) div 400 = (y + 399) div 400 + (if y mod 400 = 0 then 1 else 0)"
    using div_Suc [of "y + 3" 4] div_Suc [of "y + 99" 100] div_Suc [of "y + 399" 400] by simp_all
  have "(y + 99) div 100 \<le> 365 * y" by arith
  moreover have "y mod 400 = 0 \<Longrightarrow> y mod 100 = 0" and "y mod 100 = 0 \<Longrightarrow> y mod 4 = 0"
    by presburger+
  ultimately show ?thesis
    unfolding day_from_year_def s leap_def by (auto simp: algebra_simps)
qed

lemma day_from_year_bounds: "365 * y \<le> day_from_year y" "day_from_year y \<le> 366 * y"
  by (induction y) (auto simp: day_from_year_Suc, simp_all add: day_from_year_def)

lemma day_from_year_mono: "y < z \<Longrightarrow> day_from_year y < day_from_year z"
  by (rule lift_Suc_mono_less [of day_from_year]) (simp_all add: day_from_year_Suc)

lemma year_from_eq:
  "y0 \<le> y \<Longrightarrow> y \<le> y0 + k \<Longrightarrow> day_from_year y \<le> n \<Longrightarrow> n < day_from_year (Suc y) \<Longrightarrow>
   year_from k y0 n = y"
proof (induction k arbitrary: y0)
  case 0
  then show ?case by simp
next
  case (Suc k)
  show ?case
  proof (cases "y0 = y")
    case True
    with Suc.prems show ?thesis by simp
  next
    case False
    with Suc.prems have "Suc y0 \<le> y" by simp
    then have "day_from_year (Suc y0) \<le> day_from_year y"
      using day_from_year_mono [of "Suc y0" y] by (cases "Suc y0 = y") auto
    with Suc show ?thesis using \<open>Suc y0 \<le> y\<close> by simp
  qed
qed

lemma year_of_day_eq:
  assumes "day_from_year y \<le> n" and "n < day_from_year (Suc y)"
  shows "year_of_day n = y"
proof -
  have "n < 366 * Suc y" using assms(2) day_from_year_bounds(2) [of "Suc y"] by simp
  then have "n div 366 \<le> y" by (simp add: div_less_iff_less_mult less_Suc_eq_le [symmetric] mult.commute)
  moreover have "y \<le> n div 365"
    using assms(1) day_from_year_bounds(1) [of y]
    by (simp add: less_eq_div_iff_mult_less_eq mult.commute)
  ultimately show ?thesis
    unfolding year_of_day_def using assms by (intro year_from_eq) auto
qed

lemma twelve_cases:
  assumes "1 \<le> m" and "m \<le> (12::nat)"
  obtains "m = 1" | "m = 2" | "m = 3" | "m = 4" | "m = 5" | "m = 6" | "m = 7" | "m = 8"
    | "m = 9" | "m = 10" | "m = 11" | "m = 12"
proof -
  from assms have "m = 1 \<or> m = 2 \<or> m = 3 \<or> m = 4 \<or> m = 5 \<or> m = 6 \<or> m = 7 \<or> m = 8
    \<or> m = 9 \<or> m = 10 \<or> m = 11 \<or> m = 12" by presburger
  then show thesis using that by blast
qed

lemma month_start_eval:
  "month_start l 1 = 0" "month_start l (Suc 0) = 0" "month_start l 2 = 31"
  "month_start l (Suc (Suc 0)) = 31"
  "month_start l 3 = 59 + (if l then 1 else 0)" "month_start l 4 = 90 + (if l then 1 else 0)"
  "month_start l 5 = 120 + (if l then 1 else 0)" "month_start l 6 = 151 + (if l then 1 else 0)"
  "month_start l 7 = 181 + (if l then 1 else 0)" "month_start l 8 = 212 + (if l then 1 else 0)"
  "month_start l 9 = 243 + (if l then 1 else 0)" "month_start l 10 = 273 + (if l then 1 else 0)"
  "month_start l 11 = 304 + (if l then 1 else 0)" "month_start l 12 = 334 + (if l then 1 else 0)"
  "month_start l 13 = 365 + (if l then 1 else 0)"
  by (simp_all add: month_start_def)

lemma month_of_day_eq:
  assumes "1 \<le> m" and "m \<le> 12" and "month_start l m \<le> x" and "x < month_start l (m + 1)"
  shows "month_of_day l x = m"
  using assms(1,2)
  by (rule twelve_cases) (insert assms(3,4), simp_all add: month_of_day_def month_start_eval split: if_splits)

lemma month_exists:
  assumes "x < (if l then 366 else 365)"
  shows "\<exists>m. 1 \<le> m \<and> m \<le> 12 \<and> month_start l m \<le> x \<and> x < month_start l (m + 1)"
proof -
  have "\<exists>m\<in>{1, 2, 3, 4, 5, 6, 7, 8, 9, 10, 11, 12}. month_start l m \<le> x \<and> x < month_start l (m + 1)"
    using assms by (cases l) (simp_all add: month_start_eval, linarith+)
  then obtain m where "m \<in> {1, 2, 3, 4, 5, 6, 7, 8, 9, 10, 11, 12}"
    "month_start l m \<le> x" "x < month_start l (m + 1)" by blast
  then show ?thesis by (intro exI [of _ m]) auto
qed

lemma year_length: "month_start (leap y) 13 = day_from_year (Suc y) - day_from_year y"
  by (simp add: day_from_year_Suc month_start_eval)

lemma day_of_ymd_bounds:
  assumes "valid_ymd y m d"
  shows "day_from_year y \<le> day_of_ymd y m d" and "day_of_ymd y m d < day_from_year (Suc y)"
    and "month_start (leap y) m \<le> day_of_ymd y m d - day_from_year y"
    and "day_of_ymd y m d - day_from_year y < month_start (leap y) (m + 1)"
proof -
  have "month_start l (m + 1) \<le> month_start l 13" if "1 \<le> m" "m \<le> 12" for l
    using that by (rule twelve_cases) (simp_all add: month_start_eval)
  with assms have le: "month_start (leap y) (m + 1) \<le> month_start (leap y) 13"
    by (simp add: valid_ymd_def)
  show "day_from_year y \<le> day_of_ymd y m d"
    and "month_start (leap y) m \<le> day_of_ymd y m d - day_from_year y"
    by (simp_all add: day_of_ymd_def)
  show lt: "day_of_ymd y m d - day_from_year y < month_start (leap y) (m + 1)"
    using assms by (auto simp: day_of_ymd_def valid_ymd_def days_in_month_def)
  with le show "day_of_ymd y m d < day_from_year (Suc y)"
    by (simp add: year_length day_of_ymd_def)
qed

lemma ymd_of_day_of_ymd: "valid_ymd y m d \<Longrightarrow> ymd_of_day (day_of_ymd y m d) = (y, m, d)"
proof -
  assume v: "valid_ymd y m d"
  note b = day_of_ymd_bounds [OF v]
  have "year_of_day (day_of_ymd y m d) = y" using b(1,2) by (rule year_of_day_eq)
  moreover have "month_of_day (leap y) (day_of_ymd y m d - day_from_year y) = m"
    using v b(3,4) by (intro month_of_day_eq) (auto simp: valid_ymd_def)
  ultimately show ?thesis
    using v by (simp add: ymd_of_day_def Let_def day_of_ymd_def valid_ymd_def)
qed

lemma day_has_ymd: "\<exists>y m d. valid_ymd y m d \<and> n = day_of_ymd y m d"
proof -
  have "\<exists>y. day_from_year y \<le> n \<and> n < day_from_year (Suc y)"
  proof (induction n)
    case 0
    have "day_from_year 0 = 0" by (simp add: day_from_year_def)
    then show ?case using day_from_year_Suc [of 0] by (intro exI [of _ 0]) auto
  next
    case (Suc n)
    then obtain y where y: "day_from_year y \<le> n" "n < day_from_year (Suc y)" by blast
    show ?case
    proof (cases "Suc n = day_from_year (Suc y)")
      case True
      then show ?thesis using day_from_year_mono [of "Suc y" "Suc (Suc y)"] by auto
    next
      case False
      with y show ?thesis by (intro exI [of _ y]) auto
    qed
  qed
  then obtain y where y: "day_from_year y \<le> n" "n < day_from_year (Suc y)" by blast
  then have "n - day_from_year y < (if leap y then 366 else 365)"
    by (simp add: day_from_year_Suc split: if_splits)
  then obtain m where m: "1 \<le> m" "m \<le> 12" "month_start (leap y) m \<le> n - day_from_year y"
      "n - day_from_year y < month_start (leap y) (m + 1)"
    using month_exists by blast
  define d where "d = n - day_from_year y - month_start (leap y) m + 1"
  have "valid_ymd y m d" using m by (simp add: valid_ymd_def d_def days_in_month_def)
  moreover have "n = day_of_ymd y m d" using m y(1) by (simp add: day_of_ymd_def d_def)
  ultimately show ?thesis by blast
qed

lemma day_of_ymd_of_day: "case ymd_of_day n of (y, m, d) \<Rightarrow> valid_ymd y m d \<and> day_of_ymd y m d = n"
  using day_has_ymd [of n] ymd_of_day_of_ymd by force

section \<open>Reading what was written\<close>

lemma show_date_sel:
  "length (show_date (y, m, d)) = 10" "take 4 (show_date (y, m, d)) = frac_digits 4 y"
  "show_date (y, m, d) ! 4 = CHR ''-''" "show_date (y, m, d) ! 7 = CHR ''-''"
  "take 2 (drop 5 (show_date (y, m, d))) = frac_digits 2 m"
  "drop 8 (show_date (y, m, d)) = frac_digits 2 d"
  by (simp_all add: show_date_def nth_append)

lemma valid_ymd_small: "valid_ymd y m d \<Longrightarrow> m < 100 \<and> d \<le> 31 \<and> 1 \<le> m \<and> m \<le> 12 \<and> 1 \<le> d"
proof -
  have "days_in_month l m \<le> 31" if "1 \<le> m" "m \<le> 12" for l
    using that by (rule twelve_cases) (simp_all add: days_in_month_def month_start_eval)
  then show "valid_ymd y m d \<Longrightarrow> ?thesis" by (auto simp: valid_ymd_def intro: order_trans)
qed

lemma iso_pattern_show_date: "iso_pattern (show_date (y, m, d))"
  by (simp add: iso_pattern_def show_date_sel frac_digits_digits)

lemma parse_utc_show_date:
  "valid_ymd y m d \<Longrightarrow> y < 10000 \<Longrightarrow> parse_utc (show_date (y, m, d)) = Some (day_of_ymd y m d)"
  using valid_ymd_small [of y m d]
  by (simp add: parse_utc_def show_date_sel digits_val_frac)

text \<open>The last day of the year 9999: what four digits can write.\<close>

definition last_day :: nat where
  "last_day = day_from_year 10000"

lemma year_of_small_day: "n < last_day \<Longrightarrow> fst (ymd_of_day n) < 10000"
proof -
  assume n: "n < last_day"
  obtain y m d where v: "valid_ymd y m d" "n = day_of_ymd y m d" using day_has_ymd by blast
  have "y < 10000"
  proof (rule ccontr)
    assume "\<not> y < 10000"
    then have "day_from_year 10000 \<le> day_from_year y"
      using day_from_year_mono [of 10000 y] by (cases "y = 10000") auto
    with day_of_ymd_bounds(1) [OF v(1)] v(2) n show False by (simp add: last_day_def)
  qed
  with v show ?thesis by (simp add: ymd_of_day_of_ymd)
qed

lemma parse_iso_of_day: "n < last_day \<Longrightarrow> parse_utc (iso_of_day n) = Some n"
  using day_of_ymd_of_day [of n] year_of_small_day [of n]
  by (auto simp: iso_of_day_def parse_utc_show_date split: prod.splits)

lemma iso_pattern_iso_of_day [simp]: "iso_pattern (iso_of_day n)"
  by (cases "ymd_of_day n") (simp add: iso_of_day_def iso_pattern_show_date)

lemma digits_val_bound: "list_all is_digit t \<Longrightarrow> digits_val t < 10 ^ length t"
proof (induction t rule: rev_induct)
  case Nil
  then show ?case by (simp add: digits_val_def)
next
  case (snoc c t)
  have "digit_val c < 10" using snoc.prems by (auto simp: is_digit_def digit_val_def)
  with snoc show ?case by (simp add: digits_val_snoc)
qed

lemma parse_utc_bound: "iso_pattern s \<Longrightarrow> parse_utc s = Some n \<Longrightarrow> n < last_day"
proof -
  assume p: "iso_pattern s" and n: "parse_utc s = Some n"
  define y m d where "y = digits_val (take 4 s)" and "m = digits_val (take 2 (drop 5 s))"
    and "d = digits_val (drop 8 s)"
  from n have n': "n = day_of_ymd y m d" and md: "1 \<le> m" "m \<le> 12" "d \<le> 31"
    by (auto simp: parse_utc_def Let_def y_def m_def d_def split: if_splits)
  have "month_start (leap y) m + (d - 1) < month_start (leap y) 13"
    using md(1,2) by (rule twelve_cases) (insert md(3), simp_all add: month_start_eval)
  then have "n < day_from_year (Suc y)"
    using day_from_year_mono [of y "Suc y"] by (simp add: n' day_of_ymd_def year_length)
  moreover have "Suc y \<le> 10000"
    using digits_val_bound [of "take 4 s"] p by (simp add: iso_pattern_def y_def)
  then have "day_from_year (Suc y) \<le> day_from_year 10000"
    using day_from_year_mono [of "Suc y" 10000] by (cases "Suc y = 10000") auto
  ultimately show ?thesis by (simp add: last_day_def)
qed

text \<open>The canonical texts are exactly the texts of the days of the years 0000 to 9999.\<close>

lemma canonical_iff: "isCanonicalCalendarDate s \<longleftrightarrow> (\<exists>n<last_day. s = iso_of_day n)"
  by (auto simp: isCanonicalCalendarDate_def parse_iso_of_day split: option.splits
      dest: parse_utc_bound)

section \<open>The order of the texts is the order of the days\<close>

lemma append_less_append:
  "length xs = length xs' \<Longrightarrow>
   xs @ ys < xs' @ ys' \<longleftrightarrow> xs < xs' \<or> xs = xs' \<and> ys < (ys' :: 'a :: linorder list)"
  by (induction xs xs' rule: list_induct2) auto

lemma digit_char_less: "a < 10 \<Longrightarrow> b < 10 \<Longrightarrow> digit_char a < digit_char b \<longleftrightarrow> a < b"
  by (simp add: less_char_def digit_char_def)

lemma frac_digits_inj: "frac_digits n a = frac_digits n b \<longleftrightarrow> a mod 10 ^ n = b mod 10 ^ n"
proof
  assume "frac_digits n a = frac_digits n b"
  then have "digits_val (frac_digits n a) = digits_val (frac_digits n b)" by simp
  then show "a mod 10 ^ n = b mod 10 ^ n" by (simp add: digits_val_frac)
next
  show "a mod 10 ^ n = b mod 10 ^ n \<Longrightarrow> frac_digits n a = frac_digits n b"
  proof (induction n arbitrary: a b)
    case (Suc n)
    have s: "x mod 10 ^ Suc n = 10 * (x div 10 mod 10 ^ n) + x mod 10" for x :: nat
      using mod_mult2_eq [of x 10 "10 ^ n"] by simp
    have d: "(x mod 10 ^ Suc n) div 10 = x div 10 mod 10 ^ n" for x :: nat
      unfolding s by simp
    have m: "(x mod 10 ^ Suc n) mod 10 = x mod 10" for x :: nat
      unfolding s by simp
    have "a div 10 mod 10 ^ n = b div 10 mod 10 ^ n"
      using arg_cong [OF Suc.prems, of "\<lambda>x. x div 10"] unfolding d .
    then have "frac_digits n (a div 10) = frac_digits n (b div 10)" by (rule Suc.IH)
    moreover have "a mod 10 = b mod 10"
      using arg_cong [OF Suc.prems, of "\<lambda>x. x mod 10"] unfolding m .
    ultimately show ?case by simp
  qed simp
qed

lemma frac_digits_less: "frac_digits n a < frac_digits n b \<longleftrightarrow> a mod 10 ^ n < b mod 10 ^ n"
proof (induction n arbitrary: a b)
  case 0
  then show ?case by simp
next
  case (Suc n)
  have m: "x mod 10 ^ Suc n = 10 * (x div 10 mod 10 ^ n) + x mod 10" for x :: nat
    using mod_mult2_eq [of x 10 "10 ^ n"] by simp
  have "frac_digits (Suc n) a < frac_digits (Suc n) b \<longleftrightarrow>
      a div 10 mod 10 ^ n < b div 10 mod 10 ^ n
      \<or> a div 10 mod 10 ^ n = b div 10 mod 10 ^ n \<and> a mod 10 < b mod 10"
    by (simp add: append_less_append Suc.IH frac_digits_inj digit_char_less)
  also have "\<dots> \<longleftrightarrow> a mod 10 ^ Suc n < b mod 10 ^ Suc n"
    unfolding m by (auto; presburger)
  finally show ?case .
qed

lemma show_date_less:
  assumes "valid_ymd y m d" "y < 10000" "valid_ymd y' m' d'" "y' < 10000"
  shows "show_date (y, m, d) < show_date (y', m', d') \<longleftrightarrow>
    y < y' \<or> y = y' \<and> (m < m' \<or> m = m' \<and> d < d')"
  using valid_ymd_small [OF assms(1)] valid_ymd_small [OF assms(3)] assms(2,4)
  by (simp add: show_date_def append_less_append frac_digits_less frac_digits_inj)

lemma month_start_mono:
  assumes "1 \<le> m" "m < m'" "m' \<le> 12"
  shows "month_start l (m + 1) \<le> month_start l m'"
proof -
  have "month_start l k \<le> month_start l (k + 1)" if "1 \<le> k" "k \<le> 12" for k
    using that by (rule twelve_cases) (simp_all add: month_start_eval)
  then have "month_start l (m + 1) \<le> month_start l (m + 1 + k)" if "m + 1 + k \<le> 12" for k
    using that assms(1) by (induction k) (auto intro: order_trans)
  from this [of "m' - (m + 1)"] assms show ?thesis by simp
qed

lemma day_of_ymd_less:
  assumes v: "valid_ymd y m d" and v': "valid_ymd y' m' d'"
    and lt: "y < y' \<or> y = y' \<and> (m < m' \<or> m = m' \<and> d < d')"
  shows "day_of_ymd y m d < day_of_ymd y' m' d'"
proof -
  note b = day_of_ymd_bounds [OF v] and b' = day_of_ymd_bounds [OF v']
  consider "y < y'" | "y = y'" "m < m'" | "y = y'" "m = m'" "d < d'" using lt by blast
  then show ?thesis
  proof cases
    case 1
    then have "day_from_year (Suc y) \<le> day_from_year y'"
      using day_from_year_mono [of "Suc y" y'] by (cases "Suc y = y'") auto
    with b(2) b'(1) show ?thesis by simp
  next
    case 2
    have "month_start (leap y) (m + 1) \<le> month_start (leap y) m'"
      using 2 v v' by (intro month_start_mono) (auto simp: valid_ymd_def)
    with b b' 2 show ?thesis by simp
  next
    case 3
    with v v' show ?thesis by (auto simp: day_of_ymd_def valid_ymd_def)
  qed
qed

lemma iso_of_day_less:
  assumes "a < last_day" and "b < last_day"
  shows "iso_of_day a < iso_of_day b \<longleftrightarrow> a < b"
proof -
  obtain y m d where a: "valid_ymd y m d" "a = day_of_ymd y m d" using day_has_ymd by blast
  obtain y' m' d' where b: "valid_ymd y' m' d'" "b = day_of_ymd y' m' d'" using day_has_ymd by blast
  have y: "y < 10000" "y' < 10000"
    using year_of_small_day [OF assms(1)] year_of_small_day [OF assms(2)] a b
    by (simp_all add: ymd_of_day_of_ymd)
  have s: "iso_of_day a < iso_of_day b \<longleftrightarrow> y < y' \<or> y = y' \<and> (m < m' \<or> m = m' \<and> d < d')"
    using a b y by (simp add: iso_of_day_def ymd_of_day_of_ymd show_date_less)
  show ?thesis
  proof
    show "iso_of_day a < iso_of_day b \<Longrightarrow> a < b"
      using s a b by (simp add: day_of_ymd_less)
  next
    assume lt: "a < b"
    show "iso_of_day a < iso_of_day b"
    proof (rule ccontr)
      assume "\<not> iso_of_day a < iso_of_day b"
      with s have "(y', m', d') = (y, m, d) \<or> y' < y \<or> y' = y \<and> (m' < m \<or> m' = m \<and> d' < d)"
        by auto
      then have "b \<le> a" using day_of_ymd_less [OF b(1) a(1)] a(2) b(2) by auto
      with lt show False by simp
    qed
  qed
qed

lemma iso_of_day_inj: "a < last_day \<Longrightarrow> b < last_day \<Longrightarrow> iso_of_day a = iso_of_day b \<longleftrightarrow> a = b"
  using iso_of_day_less [of a b] iso_of_day_less [of b a] by (metis less_irrefl nat_neq_iff)

section \<open>The nights of a stay\<close>

lemma dates_from_upt: "dates_from n k = map iso_of_day [n..<k]"
proof (induction n k rule: dates_from.induct)
  case (1 n k)
  then show ?case
    by (subst dates_from.simps) (auto simp: upt_conv_Cons)
qed

lemma stayDates_days:
  assumes "a < last_day" and "b < last_day"
  shows "stayDates (iso_of_day a) (iso_of_day b) =
    (if b \<le> a then Inl (BadRequestException ''Check-out must be after check-in'')
     else Inr (map iso_of_day [a..<b]))"
  using assms by (simp add: stayDates_def parse_iso_of_day dates_from_upt)

lemma stayDates_not_canonical:
  "\<not> isCanonicalCalendarDate a \<or> \<not> isCanonicalCalendarDate b \<Longrightarrow> \<exists>m. stayDates a b = Inl m"
  by (auto simp: stayDates_def isCanonicalCalendarDate_def split: option.splits)

text \<open>The texts of the nights \<open>[a, b)\<close>, by the order of the texts alone.\<close>

lemma nights_set:
  assumes "a < b" and "b < last_day"
  shows "set (map iso_of_day [a..<b]) =
    {d. isCanonicalCalendarDate d \<and> iso_of_day a \<le> d \<and> d < iso_of_day b}"
proof -
  have ge: "iso_of_day a \<le> iso_of_day n \<longleftrightarrow> a \<le> n" if "n < last_day" for n
    using iso_of_day_less [of n a] that assms by (simp add: not_less [symmetric])
  have lt: "iso_of_day n < iso_of_day b \<longleftrightarrow> n < b" if "n < last_day" for n
    using iso_of_day_less that assms by simp
  show ?thesis
  proof (intro set_eqI iffI)
    fix d assume "d \<in> set (map iso_of_day [a..<b])"
    then obtain n where "d = iso_of_day n" "a \<le> n" "n < b" by auto
    with ge [of n] lt [of n] assms
    show "d \<in> {d. isCanonicalCalendarDate d \<and> iso_of_day a \<le> d \<and> d < iso_of_day b}"
      by (auto simp: canonical_iff intro!: exI [of _ n])
  next
    fix d assume "d \<in> {d. isCanonicalCalendarDate d \<and> iso_of_day a \<le> d \<and> d < iso_of_day b}"
    then obtain n where "n < last_day" "d = iso_of_day n" "iso_of_day a \<le> d" "d < iso_of_day b"
      by (auto simp: canonical_iff)
    with ge lt show "d \<in> set (map iso_of_day [a..<b])" by auto
  qed
qed

lemma nights_sorted:
  assumes "b < last_day"
  shows "sorted_wrt (<) (map iso_of_day [a..<b])"
proof -
  have "sorted_wrt (\<lambda>m n. iso_of_day m < iso_of_day n) [a..<b]"
    by (rule sorted_wrt_mono_rel [OF _ sorted_wrt_upt]) (use assms in \<open>auto simp: iso_of_day_less\<close>)
  then show ?thesis by (simp add: sorted_wrt_map)
qed

section \<open>Properties\<close>

text \<open>
  \<open>stayDates\<close> returns exactly when \<open>assertCanonicalStayDates\<close> accepts the two dates, so
  the two validators of the shared package agree on every pair of texts, although one
  compares the texts and the other the UTC times.
\<close>

theorem stayDates_accepts_iff:
  "(\<exists>ds. stayDates checkIn checkOut = Inr ds) \<longleftrightarrow>
   assertCanonicalStayDates checkIn checkOut = Inr ()"
proof (cases "isCanonicalCalendarDate checkIn \<and> isCanonicalCalendarDate checkOut")
  case True
  then obtain a b where "a < last_day" "b < last_day" "checkIn = iso_of_day a" "checkOut = iso_of_day b"
    by (auto simp: canonical_iff)
  moreover from this have "checkOut \<le> checkIn \<longleftrightarrow> b \<le> a"
    using iso_of_day_less [of a b] by (simp add: not_less [symmetric])
  ultimately show ?thesis
    using True by (auto simp: stayDates_days assertCanonicalStayDates_def)
next
  case False
  then show ?thesis
    using stayDates_not_canonical [of checkIn checkOut] by (auto simp: assertCanonicalStayDates_def)
qed

text \<open>
  The nights of an accepted stay are, in ascending order and without repetition, exactly
  the calendar dates of the half-open interval \<open>[checkIn, checkOut)\<close> in the order of the
  texts, which is the order every query and comparison of the services uses; the first is
  the check-in.
\<close>

theorem stayDates_nights:
  assumes "stayDates checkIn checkOut = Inr ds"
  shows "set ds = {d. isCanonicalCalendarDate d \<and> checkIn \<le> d \<and> d < checkOut}
       \<and> sorted_wrt (<) ds \<and> distinct ds \<and> ds \<noteq> [] \<and> hd ds = checkIn"
proof -
  have "isCanonicalCalendarDate checkIn \<and> isCanonicalCalendarDate checkOut"
    using stayDates_not_canonical [of checkIn checkOut] assms by auto
  then obtain a b where ab: "a < last_day" "b < last_day" "checkIn = iso_of_day a" "checkOut = iso_of_day b"
    by (auto simp: canonical_iff)
  with assms have "a < b" and ds: "ds = map iso_of_day [a..<b]"
    by (auto simp: stayDates_days split: if_splits)
  moreover have "distinct ds"
    using nights_sorted [OF ab(2), of a] ds by (simp add: strict_sorted_iff)
  ultimately show ?thesis
    using nights_set [OF \<open>a < b\<close> ab(2)] nights_sorted [OF ab(2), of a] ab(3,4)
    by (simp add: hd_map)
qed

text \<open>Evaluation of dates on literals.\<close>

lemma frac_digits_4: "frac_digits 4 m = [digit_char (m div 10 div 10 div 10 mod 10),
    digit_char (m div 10 div 10 mod 10), digit_char (m div 10 mod 10), digit_char (m mod 10)]"
proof -
  have "(4::nat) = Suc (Suc (Suc (Suc 0)))" by simp
  then show ?thesis by (simp only: frac_digits.simps append.simps)
qed

lemma iso_of_ymd: "valid_ymd y m d \<Longrightarrow> iso_of_day (day_of_ymd y m d) = show_date (y, m, d)"
  by (simp add: iso_of_day_def ymd_of_day_of_ymd)

lemmas ymd_eval = valid_ymd_def days_in_month_def month_start_def leap_def day_of_ymd_def
  day_from_year_def
lemmas date_eval = show_date_def frac_digits_2 frac_digits_4 digit_char_eval

lemma days_2024:
  "iso_of_day 739309 = ''2024-02-28''" "iso_of_day 739310 = ''2024-02-29''"
  "iso_of_day 739311 = ''2024-03-01''"
  using iso_of_ymd [of 2024 2 28] iso_of_ymd [of 2024 2 29] iso_of_ymd [of 2024 3 1]
  by (simp_all add: ymd_eval date_eval)

lemma last_day_val: "last_day = 3652425"
  by (simp add: last_day_def day_from_year_def)

theorem stayDates_nights_witness:
  "stayDates ''2024-02-28'' ''2024-03-01'' = Inr [''2024-02-28'', ''2024-02-29'']
   \<and> set [''2024-02-28'', ''2024-02-29''] =
       {d. isCanonicalCalendarDate d \<and> ''2024-02-28'' \<le> d \<and> d < ''2024-03-01''}"
proof -
  have "stayDates (iso_of_day 739309) (iso_of_day 739311) = Inr (map iso_of_day [739309..<739311])"
    by (simp add: stayDates_days last_day_val)
  then have s: "stayDates ''2024-02-28'' ''2024-03-01'' = Inr [''2024-02-28'', ''2024-02-29'']"
    by (simp add: days_2024 upt_rec)
  show ?thesis using stayDates_nights [OF s] s by simp
qed

end
