(* ===== verification/Room.thy ===== *)
theory Room
  imports Outbox Calendar
begin

text \<open>
  Physical rooms: \<open>RoomStatusService\<close> of \<open>apps/api/src/modules/room/room-status.service.ts\<close>
  and \<open>apps/api/src/modules/room/room-inventory-policy.ts\<close>. State: the rooms with their
  status, the cleaning tasks, maintenance tickets and planned inventory blocks from which
  readiness is computed. Shown: a status moves only along the table of the source, a room
  becomes occupied only when it is ready, it returns from out of order only when nothing
  blocks it, a dirty room passes through cleaning before it can be occupied, and a call for
  one room leaves every other room alone.
\<close>

section \<open>Data\<close>

datatype RoomStatus = VacantClean | VacantDirty | Clean | Inspected | GuestReady | Occupied
  | OutOfOrder | OutOfService

fun roomStatusName :: "RoomStatus \<Rightarrow> string" where
  "roomStatusName VacantClean = ''vacant_clean''"
| "roomStatusName VacantDirty = ''vacant_dirty''"
| "roomStatusName Clean = ''clean''"
| "roomStatusName Inspected = ''inspected''"
| "roomStatusName GuestReady = ''guest_ready''"
| "roomStatusName Occupied = ''occupied''"
| "roomStatusName OutOfOrder = ''out_of_order''"
| "roomStatusName OutOfService = ''out_of_service''"

fun ROOM_TRANSITIONS :: "RoomStatus \<Rightarrow> RoomStatus list" where
  "ROOM_TRANSITIONS VacantClean = [Occupied, VacantDirty, OutOfOrder, OutOfService]"
| "ROOM_TRANSITIONS VacantDirty = [Clean, OutOfOrder]"
| "ROOM_TRANSITIONS Clean = [Inspected, VacantClean, OutOfOrder]"
| "ROOM_TRANSITIONS Inspected = [GuestReady, OutOfOrder]"
| "ROOM_TRANSITIONS GuestReady = [Occupied, OutOfOrder]"
| "ROOM_TRANSITIONS Occupied = [VacantDirty]"
| "ROOM_TRANSITIONS OutOfOrder = [VacantDirty]"
| "ROOM_TRANSITIONS OutOfService = [VacantDirty]"

text \<open>Of each table the columns that the modelled services read or write.\<close>

record roomType =
  rt_id :: uuid
  rt_propertyId :: uuid
  rt_name :: string
  rt_maxOccupancy :: int
  rt_isActive :: bool

record room =
  ro_id :: uuid
  ro_propertyId :: uuid
  ro_roomTypeId :: uuid
  ro_number :: string
  ro_status :: RoomStatus
  ro_maintenanceNotes :: "string option"
  ro_isActive :: bool

datatype housekeepingTaskStatus = HkPending | HkAssigned | HkInProgress | HkCompleted
  | HkInspected | HkSkipped

datatype housekeepingTaskType = TCheckout | TStayover | TDeepClean | TInspection | TTurndown
  | TMaintenance

record housekeepingTask =
  hk_id :: uuid
  hk_propertyId :: uuid
  hk_roomId :: uuid
  hk_type :: housekeepingTaskType
  hk_status :: housekeepingTaskStatus
  hk_serviceDate :: millis

datatype maintenanceStatus = MOpen | MAssigned | MInProgress | MWaitingParts | MResolved
  | MClosed | MCancelled

record maintenanceTicket =
  mt_id :: uuid
  mt_propertyId :: uuid
  mt_roomId :: "uuid option"
  mt_status :: maintenanceStatus
  mt_blocksInventory :: bool
  mt_returnToServiceRequired :: bool

record roomInventoryBlock =
  ib_id :: uuid
  ib_propertyId :: uuid
  ib_roomId :: uuid
  ib_startDate :: date
  ib_endDate :: date
  ib_kind :: string
  ib_status :: string

text \<open>The fees of \<open>settings\<close> are JSON numbers; kept as the text \<open>String(n)\<close> of the number.\<close>

record property =
  pr_id :: uuid
  pr_timezone :: "string option"
  pr_overbookingPercentage :: int
  pr_guestRegistrationRequired :: bool
  pr_checkInTime :: "string option"
  pr_checkOutTime :: "string option"
  pr_earlyCheckInFee :: "string option"
  pr_lateCheckoutFee :: "string option"
  pr_noShowFeeAmount :: "string option"
  pr_noShowCutoffHour :: "int option"

record inventory_db = outbox_db +
  roomTypes :: "roomType list"
  rooms :: "room list"
  housekeepingTasks :: "housekeepingTask list"
  maintenanceTickets :: "maintenanceTicket list"
  roomInventoryBlocks :: "roomInventoryBlock list"
  properties :: "property list"

text \<open>
  The clock: the current time, the local calendar date of a time zone (\<open>Intl.DateTimeFormat\<close>),
  and whether the local time of day is before or after a wall-clock time \<open>HH:MM\<close>
  (\<open>toLocaleString\<close> and \<open>setHours\<close>). The time-zone database behind them is a parameter.
\<close>

record clock =
  clk_now :: millis
  clk_localDate :: "string \<Rightarrow> date"
  clk_before :: "string \<Rightarrow> string \<Rightarrow> bool"
  clk_after :: "string \<Rightarrow> string \<Rightarrow> bool"

section \<open>Readiness\<close>

definition activeInventoryBlock :: "uuid \<Rightarrow> date \<Rightarrow> uuid list option \<Rightarrow> uuid option
    \<Rightarrow> roomInventoryBlock \<Rightarrow> bool" where
  "activeInventoryBlock p departureExclusive roomIds excludeId b \<longleftrightarrow>
     ib_propertyId b = p \<and> ib_status b = ''active'' \<and> ib_startDate b < departureExclusive
     \<and> (case roomIds of None \<Rightarrow> True | Some ids \<Rightarrow> ib_roomId b \<in> set ids)
     \<and> (if present excludeId then Some (ib_id b) \<noteq> excludeId else True)"

text \<open>The condition on a ticket that keeps its room out of service.\<close>

definition ticketBlocks :: "maintenanceTicket \<Rightarrow> bool" where
  "ticketBlocks t \<longleftrightarrow> mt_returnToServiceRequired t
     \<or> (mt_blocksInventory t \<and> mt_status t \<in> {MOpen, MAssigned, MInProgress, MWaitingParts})"

text \<open>\<open>new Date(serviceDate + 'T23:59:59.999Z')\<close> in milliseconds since 1970-01-01.\<close>

definition endOfDay :: "date \<Rightarrow> millis option" where
  "endOfDay d = map_option (\<lambda>n. (int n - 719528) * 86400000 + 86399999) (parse_utc d)"

record reason =
  re_code :: string
  re_label :: string
  re_entityIds :: "uuid list option"

record RoomReadiness =
  rr_roomId :: uuid
  rr_status :: RoomStatus
  rr_ready :: bool
  rr_operational :: bool
  rr_reasons :: "reason list"

definition plannedReason :: "date \<Rightarrow> roomInventoryBlock list \<Rightarrow> string \<Rightarrow> string \<Rightarrow> reason list" where
  "plannedReason serviceDate blocks kind code =
     (let matching = filter (\<lambda>b. ib_kind b = kind) blocks in
      if matching = [] then []
      else [\<lparr>re_code = code,
             re_label = (if list_ex (\<lambda>b. ib_endDate b \<le> serviceDate) matching
               then kind @ '': block is overdue / confirmation required''
               else kind @ '': confirmed return to service required''),
             re_entityIds = Some (map ib_id matching)\<rparr>])"

definition readinessReasons :: "date \<Rightarrow> room \<Rightarrow> housekeepingTask list \<Rightarrow> maintenanceTicket list
    \<Rightarrow> roomInventoryBlock list \<Rightarrow> reason list" where
  "readinessReasons serviceDate r tasks tickets blocks =
     (if \<not> ro_isActive r then [\<lparr>re_code = ''inactive'', re_label = ''Room is switched off'',
        re_entityIds = None\<rparr>] else [])
     @ (if ro_status r \<in> {OutOfOrder, OutOfService} then [\<lparr>re_code = ''inventory_blocked'',
        re_label = ''Room is out of service'', re_entityIds = None\<rparr>] else [])
     @ (if tickets \<noteq> [] then [\<lparr>re_code = ''maintenance'',
        re_label = ''Repair or return to service not confirmed'',
        re_entityIds = Some (map mt_id tickets)\<rparr>] else [])
     @ (if ro_status r = VacantDirty then [\<lparr>re_code = ''dirty'', re_label = ''Room is dirty'',
        re_entityIds = None\<rparr>] else [])
     @ (if ro_status r \<in> {Clean, Inspected} \<or> list_ex (\<lambda>t. hk_status t = HkCompleted) tasks
        then [\<lparr>re_code = ''inspection'', re_label = ''Inspection not finished'',
        re_entityIds = Some (map hk_id (filter (\<lambda>t. hk_status t = HkCompleted) tasks))\<rparr>] else [])
     @ (if list_ex (\<lambda>t. hk_status t \<noteq> HkCompleted) tasks
        then [\<lparr>re_code = ''blocking_task'', re_label = ''There is an unfinished blocking task'',
        re_entityIds = Some (map hk_id (filter (\<lambda>t. hk_status t \<noteq> HkCompleted) tasks))\<rparr>] else [])
     @ (if ro_status r = Occupied then [\<lparr>re_code = ''occupied'', re_label = ''Room is occupied'',
        re_entityIds = None\<rparr>] else [])
     @ plannedReason serviceDate blocks ''OOO'' ''planned_ooo''
     @ plannedReason serviceDate blocks ''OOS'' ''planned_oos''"

definition cleaningTask :: "uuid \<Rightarrow> millis \<Rightarrow> housekeepingTask \<Rightarrow> bool" where
  "cleaningTask p until t \<longleftrightarrow> hk_propertyId t = p \<and> hk_serviceDate t \<le> until
     \<and> hk_type t \<in> {TCheckout, TDeepClean, TInspection, TMaintenance}
     \<and> hk_status t \<in> {HkPending, HkAssigned, HkInProgress, HkCompleted}"

text \<open>\<open>roomIds ? inArray(column, roomIds) : undefined\<close>; a null column is in no array.\<close>

definition inRooms :: "uuid list option \<Rightarrow> uuid option \<Rightarrow> bool" where
  "inRooms roomIds i \<longleftrightarrow> (case roomIds of None \<Rightarrow> True
     | Some ids \<Rightarrow> (case i of None \<Rightarrow> False | Some j \<Rightarrow> j \<in> set ids))"

text \<open>The projection of one room, from the rows of the four queries that belong to it.\<close>

definition roomReadiness :: "uuid \<Rightarrow> date \<Rightarrow> millis \<Rightarrow> date \<Rightarrow> uuid list option \<Rightarrow> uuid option
    \<Rightarrow> 'z inventory_db_scheme \<Rightarrow> room \<Rightarrow> RoomReadiness" where
  "roomReadiness p serviceDate until after roomIds excludeId db r =
     (let cleaning = filter (\<lambda>t. cleaningTask p until t \<and> inRooms roomIds (Some (hk_roomId t)))
            (housekeepingTasks db);
          repairs = filter (\<lambda>t. mt_propertyId t = p \<and> inRooms roomIds (mt_roomId t) \<and> ticketBlocks t)
            (maintenanceTickets db);
          planned = filter (activeInventoryBlock p after roomIds excludeId) (roomInventoryBlocks db);
          tasks = filter (\<lambda>t. hk_roomId t = ro_id r) cleaning;
          tickets = filter (\<lambda>t. mt_roomId t = Some (ro_id r)) repairs;
          blocks = filter (\<lambda>b. ib_roomId b = ro_id r) planned;
          reasons = readinessReasons serviceDate r tasks tickets blocks
      in \<lparr>rr_roomId = ro_id r, rr_status = ro_status r,
          rr_ready = (ro_status r \<in> {VacantClean, GuestReady} \<and> reasons = []),
          rr_operational = (ro_isActive r \<and> ro_status r \<notin> {OutOfOrder, OutOfService}
            \<and> tickets = [] \<and> blocks = []),
          rr_reasons = reasons\<rparr>)"

definition operationalReadiness :: "uuid \<Rightarrow> date \<Rightarrow> uuid list option \<Rightarrow> uuid option
    \<Rightarrow> ('z inventory_db_scheme, RoomReadiness list) op" where
  "operationalReadiness p serviceDate roomIds excludeInventoryBlockId =
     (if roomIds = Some [] then returnS []
      else bindS (someS (endOfDay serviceDate) RangeError) (\<lambda>until.
        bindS (someS (dayAfter serviceDate) RangeError) (\<lambda>after.
        getS (\<lambda>db. map (roomReadiness p serviceDate until after roomIds excludeInventoryBlockId db)
          (filter (\<lambda>r. ro_propertyId r = p \<and> inRooms roomIds (Some (ro_id r))) (rooms db))))))"

section \<open>Operations\<close>

definition findRoom :: "uuid \<Rightarrow> uuid \<Rightarrow> ('z inventory_db_scheme, room) op" where
  "findRoom i p =
     bindS (getS (\<lambda>db. sel1 (\<lambda>r. ro_id r = i \<and> ro_propertyId r = p) (rooms db))) (\<lambda>r.
     someS r (NotFoundException (''Room '' @ i @ '' not found'')))"

definition lockRoom :: "uuid \<Rightarrow> uuid \<Rightarrow> ('z inventory_db_scheme, room) op" where
  "lockRoom i p =
     bindS (getS (\<lambda>db. sel1 (\<lambda>r. ro_id r = i \<and> ro_propertyId r = p) (rooms db))) (\<lambda>r.
     someS r (NotFoundException ''Room not found in this property''))"

definition lockRoomInventory :: "uuid \<Rightarrow> uuid \<Rightarrow> ('z inventory_db_scheme, room) op" where
  "lockRoomInventory i p =
     bindS (findRoom i p) (\<lambda>r.
     bindS (getS (\<lambda>db. sel1 (\<lambda>t. rt_id t = ro_roomTypeId r \<and> rt_propertyId t = p) (roomTypes db))) (\<lambda>t.
     bindS (someS t (NotFoundException ''Room type not found in this property'')) (\<lambda>_.
     lockRoom i p)))"

definition assertInventoryAvailable :: "uuid \<Rightarrow> uuid \<Rightarrow> date \<Rightarrow> ('z inventory_db_scheme, unit) op" where
  "assertInventoryAvailable i p departureDate =
     bindS (getS (\<lambda>db. filter (activeInventoryBlock p departureDate (Some [i]) None)
        (roomInventoryBlocks db))) (\<lambda>blocks.
     guardS (blocks = [])
       (ConflictException ''ROOM_INVENTORY_BLOCKED: room unavailable until its confirmed return''))"

definition assertReady :: "clock \<Rightarrow> uuid \<Rightarrow> uuid \<Rightarrow> date option \<Rightarrow> date option
    \<Rightarrow> ('z inventory_db_scheme, RoomReadiness) op" where
  "assertReady clk i p serviceDate departureDate =
     bindS (whenS (present departureDate) (assertInventoryAvailable i p (the departureDate))) (\<lambda>_.
     bindS (if present serviceDate then returnS (the serviceDate)
        else bindS (getS (\<lambda>db. sel1 (\<lambda>q. pr_id q = p) (properties db))) (\<lambda>q.
          bindS (someS q (NotFoundException ''Property not found'')) (\<lambda>q.
          returnS (clk_localDate clk (nvl (pr_timezone q) ''UTC''))))) (\<lambda>day.
     bindS (operationalReadiness p day (Some [i]) None) (\<lambda>rs.
     bindS (someS (firstRow rs)
        (NotFoundException ''Room not found in this property'')) (\<lambda>readiness.
     bindS (guardS (rr_ready readiness) (ConflictException (''ROOM_NOT_READY: ''
        @ joinWith ''; '' (map re_label (rr_reasons readiness))))) (\<lambda>_.
     returnS readiness)))))"

text \<open>The columns of the update: the note is written when there is one.\<close>

definition with_status :: "RoomStatus \<Rightarrow> string option \<Rightarrow> room \<Rightarrow> room" where
  "with_status s note r = r\<lparr>ro_status := s,
     ro_maintenanceNotes := (case note of None \<Rightarrow> ro_maintenanceNotes r | Some n \<Rightarrow> Some n)\<rparr>"

text \<open>
  \<open>transitionStatus\<close> with a transaction: the body of every status change. The update is
  conditional on the status that was read.
\<close>

definition transitionStatusTx :: "clock \<Rightarrow> uuid \<Rightarrow> uuid \<Rightarrow> RoomStatus \<Rightarrow> string option
    \<Rightarrow> ('z inventory_db_scheme, room) op" where
  "transitionStatusTx clk i p newStatus note =
     bindS (findRoom i p) (\<lambda>r.
     let currentStatus = ro_status r; allowed = ROOM_TRANSITIONS currentStatus in
     bindS (guardS (newStatus \<in> set allowed)
       (BadRequestException (''Cannot transition room from '' @ quoted (roomStatusName currentStatus)
          @ '' to '' @ quoted (roomStatusName newStatus) @ ''. Valid transitions: ''
          @ (if allowed = [] then ''none'' else joinWith '', '' (map roomStatusName allowed))))) (\<lambda>_.
     bindS (whenS (currentStatus \<in> {OutOfOrder, OutOfService} \<and> newStatus = VacantDirty)
        (bindS (getS (\<lambda>db. sel1 (\<lambda>t. mt_propertyId t = p \<and> mt_roomId t = Some i \<and> ticketBlocks t)
            (maintenanceTickets db))) (\<lambda>blocking.
         guardS (blocking = None) (ConflictException
           ''Return of the room not allowed: confirm all blocking maintenance tickets'')))) (\<lambda>_.
     bindS (whenS (newStatus = Occupied)
        (bindS (assertReady clk i p None None) (\<lambda>_. returnS ()))) (\<lambda>_.
     bindS (getS (\<lambda>db. sel1 (\<lambda>r. ro_id r = i \<and> ro_propertyId r = p \<and> ro_status r = currentStatus)
        (rooms db))) (\<lambda>target.
     bindS (someS target (BadRequestException ''Room status changed concurrently'')) (\<lambda>row.
     bindS (modifyS (\<lambda>db. db\<lparr>rooms := upd (\<lambda>r. ro_id r = i \<and> ro_propertyId r = p
        \<and> ro_status r = currentStatus) (with_status newStatus note) (rooms db)\<rparr>)) (\<lambda>_.
     returnS (with_status newStatus note row))))))))"

text \<open>
  \<open>transitionStatus\<close> without a transaction opens one; the event goes through the outbox
  when the service has one, and is emitted after the commit otherwise.
\<close>

definition statusChanged :: "uuid \<Rightarrow> uuid \<Rightarrow> room \<Rightarrow> RoomStatus \<Rightarrow> payload" where
  "statusChanged i p previous newStatus = \<lparr>ev_name = ''room.status_changed'',
     ev_entityType = ''room'', ev_entityId = i, ev_propertyId = Some p,
     ev_data = [(''previousStatus'', Some (roomStatusName (ro_status previous))),
       (''newStatus'', Some (roomStatusName newStatus)), (''roomNumber'', Some (ro_number previous))],
     pl_schemaVersion = None\<rparr>"

definition transitionStatus :: "bool \<Rightarrow> (event \<Rightarrow> string \<Rightarrow> unit result) \<Rightarrow> clock \<Rightarrow> uuid \<Rightarrow> string
    \<Rightarrow> uuid \<Rightarrow> uuid \<Rightarrow> RoomStatus \<Rightarrow> string option \<Rightarrow> ('z inventory_db_scheme, room) op" where
  "transitionStatus hasOutbox listeners clk rowId eventId i p newStatus note =
     bindS (transactionS
       (bindS (lockRoom i p) (\<lambda>previous.
        bindS (transitionStatusTx clk i p newStatus note) (\<lambda>updated.
        bindS (whenS hasOutbox
          (persist rowId (clk_now clk) (statusChanged i p previous newStatus) eventId)) (\<lambda>_.
        returnS (updated, previous)))))) (\<lambda>(updated, previous).
     bindS (if hasOutbox
        then catchS (deliver listeners (clk_now clk) p eventId) (\<lambda>_. returnS ())
        else emit ''room.status_changed'' ''room'' i
          (ev_data (statusChanged i p previous newStatus)) (Some p)) (\<lambda>_.
     returnS updated))"

definition markOccupied :: "clock \<Rightarrow> uuid \<Rightarrow> uuid \<Rightarrow> ('z inventory_db_scheme, room) op" where
  "markOccupied clk i p = transitionStatusTx clk i p Occupied None"

definition markVacantDirty :: "clock \<Rightarrow> uuid \<Rightarrow> uuid \<Rightarrow> ('z inventory_db_scheme, room) op" where
  "markVacantDirty clk i p = transitionStatusTx clk i p VacantDirty None"

definition markOutOfOrder :: "clock \<Rightarrow> uuid \<Rightarrow> uuid \<Rightarrow> string \<Rightarrow> ('z inventory_db_scheme, room) op" where
  "markOutOfOrder clk i p notes = transitionStatusTx clk i p OutOfOrder (Some notes)"

definition markBackInService :: "bool \<Rightarrow> (event \<Rightarrow> string \<Rightarrow> unit result) \<Rightarrow> clock \<Rightarrow> uuid \<Rightarrow> string
    \<Rightarrow> uuid \<Rightarrow> uuid \<Rightarrow> ('z inventory_db_scheme, room) op" where
  "markBackInService hasOutbox listeners clk rowId eventId i p =
     bindS (findRoom i p) (\<lambda>r.
     bindS (guardS (ro_status r \<in> {OutOfOrder, OutOfService})
       (BadRequestException (''Room is not out of order or out of service (current: ''
          @ roomStatusName (ro_status r) @ '')''))) (\<lambda>_.
     transitionStatus hasOutbox listeners clk rowId eventId i p VacantDirty None))"

definition getRoomStatus :: "uuid \<Rightarrow> uuid \<Rightarrow> ('z inventory_db_scheme, uuid \<times> string \<times> RoomStatus) op" where
  "getRoomStatus i p = bindS (findRoom i p) (\<lambda>r. returnS (ro_id r, ro_number r, ro_status r))"

definition getRoomsByStatus :: "uuid \<Rightarrow> RoomStatus \<Rightarrow> 'z inventory_db_scheme \<Rightarrow> room list" where
  "getRoomsByStatus p s db =
     filter (\<lambda>r. ro_propertyId r = p \<and> ro_status r = s \<and> ro_isActive r) (rooms db)"

definition getPropertyRoomSummary :: "uuid \<Rightarrow> 'z inventory_db_scheme \<Rightarrow> (RoomStatus \<times> nat) list" where
  "getPropertyRoomSummary p db =
     (let active = filter (\<lambda>r. ro_propertyId r = p \<and> ro_isActive r) (rooms db) in
      map (\<lambda>s. (s, length (filter (\<lambda>r. ro_status r = s) active)))
        (remdups (map ro_status active)))"

interpretation rooms: tenant_table ro_id ro_propertyId .

interpretation roomMachine: status_machine ROOM_TRANSITIONS "\<lambda>_. 0" .

section \<open>Lemmas\<close>

lemma findRoom_iff: "findRoom i p w = (Inr r, w') \<longleftrightarrow>
    w' = w \<and> sel1 (\<lambda>r. ro_id r = i \<and> ro_propertyId r = p) (rooms (wdb w)) = Some r"
  by (auto simp: findRoom_def op_iffs split: option.splits)

lemma lockRoom_iff: "lockRoom i p w = (Inr r, w') \<longleftrightarrow>
    w' = w \<and> sel1 (\<lambda>r. ro_id r = i \<and> ro_propertyId r = p) (rooms (wdb w)) = Some r"
  by (auto simp: lockRoom_def op_iffs split: option.splits)

lemma operationalReadiness_world: "operationalReadiness p d ids ex w = (x, w') \<Longrightarrow> w' = w"
  by (auto simp: operationalReadiness_def op_defs split: option.splits if_splits)

lemma assertInventoryAvailable_iff: "assertInventoryAvailable i p d w = (Inr u, w') \<longleftrightarrow>
    w' = w \<and> filter (activeInventoryBlock p d (Some [i]) None) (roomInventoryBlocks (wdb w)) = []"
  by (auto simp: assertInventoryAvailable_def op_iffs)

text \<open>When a room is ready on a day, as the conditions of the source add up.\<close>

definition ready_on :: "uuid \<Rightarrow> uuid \<Rightarrow> date \<Rightarrow> 'z inventory_db_scheme \<Rightarrow> bool" where
  "ready_on i p day db \<longleftrightarrow>
     (\<exists>r until after. sel1 (\<lambda>r. ro_id r = i \<and> ro_propertyId r = p) (rooms db) = Some r
        \<and> endOfDay day = Some until \<and> dayAfter day = Some after
        \<and> ro_isActive r \<and> ro_status r \<in> {VacantClean, GuestReady}
        \<and> (\<forall>t\<in>set (housekeepingTasks db). hk_roomId t = i \<longrightarrow> \<not> cleaningTask p until t)
        \<and> (\<forall>t\<in>set (maintenanceTickets db). mt_propertyId t = p \<and> mt_roomId t = Some i
             \<longrightarrow> \<not> ticketBlocks t)
        \<and> (\<forall>b\<in>set (roomInventoryBlocks db). ib_propertyId b = p \<and> ib_roomId b = i
             \<and> ib_status b = ''active'' \<and> ib_kind b \<in> {''OOO'', ''OOS''} \<longrightarrow> \<not> ib_startDate b < after))"

lemma plannedReason_Nil: "plannedReason d bs k c = [] \<longleftrightarrow> (\<forall>b\<in>set bs. ib_kind b \<noteq> k)"
  by (auto simp: plannedReason_def Let_def filter_empty_conv)

lemma readinessReasons_Nil: "readinessReasons d r tasks tickets blocks = [] \<longleftrightarrow>
    ro_isActive r \<and> ro_status r \<in> {VacantClean, GuestReady} \<and> tickets = [] \<and> tasks = []
    \<and> (\<forall>b\<in>set blocks. ib_kind b \<notin> {''OOO'', ''OOS''})"
  by (cases "ro_status r"; cases tasks)
     (auto simp: readinessReasons_def plannedReason_Nil list_ex_iff split: if_splits)

lemma inRooms_one [simp]: "inRooms (Some [i]) j \<longleftrightarrow> j = Some i"
  by (auto simp: inRooms_def split: option.splits)

lemma roomReadiness_ready:
  assumes "sel1 (\<lambda>r. ro_id r = i \<and> ro_propertyId r = p) (rooms db) = Some r"
    and "endOfDay day = Some until" and "dayAfter day = Some after"
  shows "rr_ready (roomReadiness p day until after (Some [i]) None db r) \<longleftrightarrow> ready_on i p day db"
  using assms find_SomeD [OF assms(1)]
  by (auto simp: roomReadiness_def Let_def readinessReasons_Nil ready_on_def filter_empty_conv
      activeInventoryBlock_def)

lemma readiness_of_room:
  assumes "operationalReadiness p day (Some [i]) None w = (Inr (rd # rest), w')"
  shows "rr_ready rd \<longleftrightarrow> ready_on i p day (wdb w)"
proof -
  from assms obtain until after where u: "endOfDay day = Some until" "dayAfter day = Some after"
    and m: "map (roomReadiness p day until after (Some [i]) None (wdb w))
      (filter (\<lambda>r. ro_propertyId r = p \<and> ro_id r = i) (rooms (wdb w))) = rd # rest"
    by (auto simp: operationalReadiness_def op_iffs)
  from m obtain r rs where f: "filter (\<lambda>r. ro_propertyId r = p \<and> ro_id r = i) (rooms (wdb w)) = r # rs"
    and rd: "rd = roomReadiness p day until after (Some [i]) None (wdb w) r"
    by (auto simp: map_eq_Cons_conv)
  have "sel1 (\<lambda>r. ro_id r = i \<and> ro_propertyId r = p) (rooms (wdb w))
      = sel1 (\<lambda>r. ro_propertyId r = p \<and> ro_id r = i) (rooms (wdb w))"
    by (rule find_cong') auto
  with find_of_filter [OF f] rd u show ?thesis by (simp add: roomReadiness_ready)
qed

lemma assertReady_Inr:
  assumes "assertReady clk i p sd dd w = (Inr rd, w')"
  shows "w' = w"
    and "\<exists>day. ready_on i p day (wdb w) \<and> (if present sd then day = the sd
        else \<exists>q. sel1 (\<lambda>q. pr_id q = p) (properties (wdb w)) = Some q
          \<and> day = clk_localDate clk (nvl (pr_timezone q) ''UTC''))"
    and "present dd \<Longrightarrow>
      filter (activeInventoryBlock p (the dd) (Some [i]) None) (roomInventoryBlocks (wdb w)) = []"
proof -
  from assms obtain day rs where
    d: "present dd \<Longrightarrow>
      filter (activeInventoryBlock p (the dd) (Some [i]) None) (roomInventoryBlocks (wdb w)) = []"
    and day: "if present sd then day = the sd
        else \<exists>q. sel1 (\<lambda>q. pr_id q = p) (properties (wdb w)) = Some q
          \<and> day = clk_localDate clk (nvl (pr_timezone q) ''UTC'')"
    and rs: "operationalReadiness p day (Some [i]) None w = (Inr (rd # rs), w')" "rr_ready rd"
    unfolding assertReady_def
    by (auto simp: op_iffs assertInventoryAvailable_iff firstRow_Some firstRow_None
        split: if_splits option.splits dest: operationalReadiness_world)
  show "w' = w" using operationalReadiness_world [OF rs(1)] .
  show "\<exists>day. ready_on i p day (wdb w) \<and> (if present sd then day = the sd
        else \<exists>q. sel1 (\<lambda>q. pr_id q = p) (properties (wdb w)) = Some q
          \<and> day = clk_localDate clk (nvl (pr_timezone q) ''UTC''))"
    using readiness_of_room [OF rs(1)] rs(2) day by blast
  show "filter (activeInventoryBlock p (the dd) (Some [i]) None) (roomInventoryBlocks (wdb w)) = []"
    if "present dd" using d that .
qed

lemma assertReady_ok:
  assumes "ready_on i p day (wdb w)"
    and "if present sd then day = the sd
        else \<exists>q. sel1 (\<lambda>q. pr_id q = p) (properties (wdb w)) = Some q
          \<and> day = clk_localDate clk (nvl (pr_timezone q) ''UTC'')"
    and "present dd \<Longrightarrow>
      filter (activeInventoryBlock p (the dd) (Some [i]) None) (roomInventoryBlocks (wdb w)) = []"
  shows "\<exists>rd. assertReady clk i p sd dd w = (Inr rd, w)"
proof -
  from assms(1) obtain r until after where
    r: "sel1 (\<lambda>r. ro_id r = i \<and> ro_propertyId r = p) (rooms (wdb w)) = Some r"
    and u: "endOfDay day = Some until" "dayAfter day = Some after"
    by (auto simp: ready_on_def)
  from find_SomeD [OF r] obtain r' rs where
    f: "filter (\<lambda>r. ro_propertyId r = p \<and> ro_id r = i) (rooms (wdb w)) = r' # rs"
    by (cases "filter (\<lambda>r. ro_propertyId r = p \<and> ro_id r = i) (rooms (wdb w))")
       (auto simp: filter_empty_conv)
  then have op: "operationalReadiness p day (Some [i]) None w = (Inr
      (roomReadiness p day until after (Some [i]) None (wdb w) r'
       # map (roomReadiness p day until after (Some [i]) None (wdb w)) rs), w)"
    by (simp add: operationalReadiness_def op_defs u)
  note readiness_of_room [OF op]
  with assms op show ?thesis
    by (auto simp: assertReady_def op_iffs assertInventoryAvailable_iff split: if_splits)
qed

text \<open>What a status change requires, and what it does to the row.\<close>

definition transition_allowed :: "clock \<Rightarrow> uuid \<Rightarrow> uuid \<Rightarrow> RoomStatus \<Rightarrow> 'z inventory_db_scheme
    \<Rightarrow> room \<Rightarrow> bool" where
  "transition_allowed clk i p s db r \<longleftrightarrow>
     sel1 (\<lambda>r. ro_id r = i \<and> ro_propertyId r = p) (rooms db) = Some r
     \<and> s \<in> set (ROOM_TRANSITIONS (ro_status r))
     \<and> (ro_status r \<in> {OutOfOrder, OutOfService} \<longrightarrow>
          (\<forall>t\<in>set (maintenanceTickets db). mt_propertyId t = p \<and> mt_roomId t = Some i
             \<longrightarrow> \<not> ticketBlocks t))
     \<and> (s = Occupied \<longrightarrow> (\<exists>q. sel1 (\<lambda>q. pr_id q = p) (properties db) = Some q
          \<and> ready_on i p (clk_localDate clk (nvl (pr_timezone q) ''UTC'')) db))"

lemma with_status_sel [simp]: "ro_id (with_status s n r) = ro_id r"
  "ro_propertyId (with_status s n r) = ro_propertyId r" "ro_status (with_status s n r) = s"
  "ro_roomTypeId (with_status s n r) = ro_roomTypeId r" "ro_isActive (with_status s n r) = ro_isActive r"
  "ro_number (with_status s n r) = ro_number r"
  by (simp_all add: with_status_def)

lemma out_of_use_back: "a \<in> {OutOfOrder, OutOfService} \<Longrightarrow> b \<in> set (ROOM_TRANSITIONS a) \<longleftrightarrow> b = VacantDirty"
  by auto

lemma no_find: "List.find P rows = None \<longleftrightarrow> (\<forall>r\<in>set rows. \<not> P r)"
  by (auto simp: find_None_iff)

lemma transitionStatusTx_iff:
  "transitionStatusTx clk i p s note w = (Inr r', w') \<longleftrightarrow>
     (\<exists>r. transition_allowed clk i p s (wdb w) r \<and> r' = with_status s note r
        \<and> w' = w\<lparr>wdb := (wdb w)\<lparr>rooms := upd (\<lambda>x. ro_id x = i \<and> ro_propertyId x = p
             \<and> ro_status x = ro_status r) (with_status s note) (rooms (wdb w))\<rparr>\<rparr>)"
proof (cases "sel1 (\<lambda>r. ro_id r = i \<and> ro_propertyId r = p) (rooms (wdb w))")
  case None
  then show ?thesis
    by (simp add: transitionStatusTx_def transition_allowed_def op_iffs findRoom_iff)
next
  case (Some r)
  have strong: "sel1 (\<lambda>x. ro_id x = i \<and> ro_propertyId x = p \<and> ro_status x = ro_status r)
      (rooms (wdb w)) = Some r"
    using find_strengthen [OF Some, of "\<lambda>x. ro_status x = ro_status r"] by (simp add: conj_assoc)
  have ready: "(\<exists>rd. assertReady clk i p None None w = (Inr rd, w1)) \<longleftrightarrow>
      w1 = w \<and> (\<exists>q. sel1 (\<lambda>q. pr_id q = p) (properties (wdb w)) = Some q
          \<and> ready_on i p (clk_localDate clk (nvl (pr_timezone q) ''UTC'')) (wdb w))" for w1
    using assertReady_ok [of i p _ w None clk None] assertReady_Inr(1,2) [of clk i p None None w]
    by (auto 0 3)
  have ret: "whenS b (bindS (getS (\<lambda>db. sel1 Q (maintenanceTickets db))) (\<lambda>x. guardS (x = None) e)) w0
      = (Inr u, w1) \<longleftrightarrow> w1 = w0 \<and> (b \<longrightarrow> (\<forall>t\<in>set (maintenanceTickets (wdb w0)). \<not> Q t))"
    for b Q e u w1 and w0 :: "'a inventory_db_scheme world"
    by (auto simp: op_iffs no_find)
  have occ: "whenS b (bindS (assertReady clk i p None None) (\<lambda>_. returnS ())) w = (Inr u, w1) \<longleftrightarrow>
      w1 = w \<and> (b \<longrightarrow> (\<exists>q. sel1 (\<lambda>q. pr_id q = p) (properties (wdb w)) = Some q
          \<and> ready_on i p (clk_localDate clk (nvl (pr_timezone q) ''UTC'')) (wdb w)))" for b u w1
    by (auto simp: op_iffs ready)
  show ?thesis
    unfolding transitionStatusTx_def transition_allowed_def Let_def
    using out_of_use_back [of "ro_status r" s]
    by (simp add: bindS_Inr_iff guardS_Inr_iff someS_Inr_iff getS_iff modifyS_iff returnS_iff
        findRoom_iff Some strong ret occ) blast
qed

text \<open>The part of the inventory a status change may not touch.\<close>

definition room_frame :: "uuid \<Rightarrow> uuid \<Rightarrow> 'z inventory_db_scheme \<Rightarrow> 'z inventory_db_scheme \<Rightarrow> bool" where
  "room_frame i p db db' \<longleftrightarrow>
     filter (\<lambda>r. \<not> (ro_id r = i \<and> ro_propertyId r = p)) (rooms db')
       = filter (\<lambda>r. \<not> (ro_id r = i \<and> ro_propertyId r = p)) (rooms db)
     \<and> map ro_id (rooms db') = map ro_id (rooms db)
     \<and> roomTypes db' = roomTypes db \<and> housekeepingTasks db' = housekeepingTasks db
     \<and> maintenanceTickets db' = maintenanceTickets db
     \<and> roomInventoryBlocks db' = roomInventoryBlocks db \<and> properties db' = properties db"

lemma transitionStatusTx_frame:
  assumes "transitionStatusTx clk i p s note w = (Inr r', w')"
  shows "room_frame i p (wdb w) (wdb w')"
    and "sel1 (\<lambda>r. ro_id r = i \<and> ro_propertyId r = p) (rooms (wdb w')) = Some r'"
proof -
  from assms obtain r where a: "transition_allowed clk i p s (wdb w) r" and r': "r' = with_status s note r"
    and w': "w' = w\<lparr>wdb := (wdb w)\<lparr>rooms := upd (\<lambda>x. ro_id x = i \<and> ro_propertyId x = p
             \<and> ro_status x = ro_status r) (with_status s note) (rooms (wdb w))\<rparr>\<rparr>"
    by (auto simp: transitionStatusTx_iff)
  show "room_frame i p (wdb w) (wdb w')"
    unfolding room_frame_def w' by (auto intro!: filter_upd_disjoint map_upd_same)
  have "sel1 (\<lambda>r. ro_id r = i \<and> ro_propertyId r = p) (upd (\<lambda>x. ro_id x = i \<and> ro_propertyId x = p
             \<and> ro_status x = ro_status r) (with_status s note) (rooms (wdb w)))
      = map_option (\<lambda>x. if ro_id x = i \<and> ro_propertyId x = p \<and> ro_status x = ro_status r
          then with_status s note x else x)
        (sel1 (\<lambda>r. ro_id r = i \<and> ro_propertyId r = p) (rooms (wdb w)))"
    by (rule find_upd) simp
  moreover from a have sel: "sel1 (\<lambda>r. ro_id r = i \<and> ro_propertyId r = p) (rooms (wdb w)) = Some r"
    by (simp add: transition_allowed_def)
  ultimately show "sel1 (\<lambda>r. ro_id r = i \<and> ro_propertyId r = p) (rooms (wdb w')) = Some r'"
    using find_SomeD [OF sel] by (simp add: w' r')
qed

lemma persist_frame:
  "persist n now pl k w = (r, w') \<Longrightarrow> rooms (wdb w') = rooms (wdb w) \<and> room_frame i p (wdb w) (wdb w')
    \<and> wevents w' = wevents w"
  by (cases r) (auto simp: persist_def op_iffs room_frame_def split: if_splits)

lemma persist_total: "ev_propertyId pl = Some q \<Longrightarrow> \<exists>w'. persist n now pl k w = (Inr (), w')"
  by (auto simp: persist_def op_defs)

lemma deliver_frame:
  "deliver ls now q k w = (r, w') \<Longrightarrow> rooms (wdb w') = rooms (wdb w) \<and> room_frame i p (wdb w) (wdb w')"
  by (rule deliver_cases [of q k w ls now]) (auto simp: room_frame_def)

lemma room_frame_trans: "room_frame i p a b \<Longrightarrow> room_frame i p b c \<Longrightarrow> room_frame i p a c"
  by (simp add: room_frame_def)

lemma transitionStatus_Inr:
  assumes "transitionStatus ho ls clk rid eid i p s note w = (Inr r', w')"
  shows "\<exists>r. transition_allowed clk i p s (wdb w) r \<and> r' = with_status s note r"
    and "room_frame i p (wdb w) (wdb w')"
    and "sel1 (\<lambda>r. ro_id r = i \<and> ro_propertyId r = p) (rooms (wdb w')) = Some r'"
proof -
  from assms obtain previous w1 w2 where t: "transitionStatusTx clk i p s note w = (Inr r', w1)"
    and ps: "whenS ho (persist rid (clk_now clk) (statusChanged i p previous s) eid) w1 = (Inr (), w2)"
    and d: "(if ho then catchS (deliver ls (clk_now clk) p eid) (\<lambda>_. returnS ())
        else emit ''room.status_changed'' ''room'' i
          (ev_data (statusChanged i p previous s)) (Some p)) w2 = (Inr (), w')"
    unfolding transitionStatus_def by (auto simp: bindS_Inr_iff transactionS_Inr_iff lockRoom_iff
        returnS_iff)
  have 1: "rooms (wdb w2) = rooms (wdb w1) \<and> room_frame i p (wdb w1) (wdb w2)"
    using ps by (cases ho) (auto simp: whenS_Inr_iff room_frame_def dest: persist_frame)
  have 2: "rooms (wdb w') = rooms (wdb w2) \<and> room_frame i p (wdb w2) (wdb w')"
    using d by (cases ho) (auto simp: catchS_Inr_iff emit_iff returnS_iff room_frame_def
        dest: deliver_frame)
  show "\<exists>r. transition_allowed clk i p s (wdb w) r \<and> r' = with_status s note r"
    using t by (auto simp: transitionStatusTx_iff)
  show "room_frame i p (wdb w) (wdb w')"
    using transitionStatusTx_frame(1) [OF t] 1 2 by (blast intro: room_frame_trans)
  show "sel1 (\<lambda>r. ro_id r = i \<and> ro_propertyId r = p) (rooms (wdb w')) = Some r'"
    using transitionStatusTx_frame(2) [OF t] 1 2 by simp
qed

lemma transitionStatus_Inl:
  assumes "transitionStatus ho ls clk rid eid i p s note w = (Inl e, w')"
  shows "wdb w' = wdb w" and "\<not> (\<exists>r. transition_allowed clk i p s (wdb w) r)"
proof -
  have nd: "catchS (deliver ls (clk_now clk) p eid) h w2 \<noteq> (Inl x, w3)"
    for w2 w3 :: "'a inventory_db_scheme world" and x and h :: "exn \<Rightarrow> ('a inventory_db_scheme, unit) op"
  proof -
    obtain w4 where "deliver ls (clk_now clk) p eid w2 = (Inr (), w4)"
      using deliver_returns [of ls "clk_now clk" p eid w2] by (metis prod.collapse)
    then show ?thesis by (simp add: catchS_def)
  qed
  let ?body = "bindS (lockRoom i p) (\<lambda>previous.
        bindS (transitionStatusTx clk i p s note) (\<lambda>updated.
        bindS (whenS ho
          (persist rid (clk_now clk) (statusChanged i p previous s) eid)) (\<lambda>_.
        returnS (updated, previous))))"
  from assms have t: "transactionS ?body w = (Inl e, w')"
    unfolding transitionStatus_def
    by (auto simp: bindS_Inl_iff returnS_iff emit_iff nd split: if_splits)
  then show "wdb w' = wdb w" by (rule transactionS_rollback)
  show "\<not> (\<exists>r. transition_allowed clk i p s (wdb w) r)"
  proof
    assume "\<exists>r. transition_allowed clk i p s (wdb w) r"
    then obtain r w1 where "transition_allowed clk i p s (wdb w) r"
      and "transitionStatusTx clk i p s note w = (Inr (with_status s note r), w1)"
      by (auto simp: transitionStatusTx_iff)
    moreover obtain w2 where "whenS ho (persist rid (clk_now clk) (statusChanged i p r s) eid) w1 = (Inr (), w2)"
      using persist_total [of "statusChanged i p r s" p rid "clk_now clk" eid w1]
      by (cases ho) (auto simp: whenS_def returnS_def statusChanged_def)
    ultimately have "?body w = (Inr (with_status s note r, r), w2)"
      by (auto simp: bindS_Inr_iff lockRoom_iff returnS_iff transition_allowed_def)
    with t show False by (simp add: transactionS_def)
  qed
qed

section \<open>Properties\<close>

text \<open>
  A status change of a room (\<open>transitionStatus\<close>) succeeds exactly when the room exists in
  the property, the new status follows the present one in the table of valid transitions, no
  blocking maintenance ticket holds a room that returns from out of order or out of service,
  and a room to be occupied is ready. It then returns the changed row and leaves every other
  room and every other inventory table as it was; when it fails the database is unchanged.
\<close>

theorem transitionStatus_outcome:
  "case transitionStatus ho ls clk rid eid i p s note w of
     (Inr r', w') \<Rightarrow> (\<exists>r. transition_allowed clk i p s (wdb w) r \<and> r' = with_status s note r)
        \<and> sel1 (\<lambda>r. ro_id r = i \<and> ro_propertyId r = p) (rooms (wdb w')) = Some r'
        \<and> room_frame i p (wdb w) (wdb w')
   | (Inl e, w') \<Rightarrow> (\<nexists>r. transition_allowed clk i p s (wdb w) r) \<and> wdb w' = wdb w"
  by (auto split: prod.splits sum.splits dest: transitionStatus_Inr transitionStatus_Inl)

text \<open>
  C30. A room becomes occupied only when it is ready for a guest: it was vacant clean or guest
  ready and active, no blocking maintenance ticket is open on it, no cleaning, inspection or
  repair task due by the local date is unfinished or uninspected, and no out-of-order or
  out-of-service block has begun by that date.
\<close>

theorem markOccupied_only_ready:
  assumes "markOccupied clk i p w = (Inr r', w')"
  shows "\<exists>r q until after. sel1 (\<lambda>r. ro_id r = i \<and> ro_propertyId r = p) (rooms (wdb w)) = Some r
     \<and> ro_status r \<in> {VacantClean, GuestReady} \<and> ro_isActive r \<and> r' = r\<lparr>ro_status := Occupied\<rparr>
     \<and> sel1 (\<lambda>q. pr_id q = p) (properties (wdb w)) = Some q
     \<and> endOfDay (clk_localDate clk (nvl (pr_timezone q) ''UTC'')) = Some until
     \<and> dayAfter (clk_localDate clk (nvl (pr_timezone q) ''UTC'')) = Some after
     \<and> (\<forall>t\<in>set (maintenanceTickets (wdb w)). mt_propertyId t = p \<and> mt_roomId t = Some i
          \<longrightarrow> \<not> ticketBlocks t)
     \<and> (\<forall>t\<in>set (housekeepingTasks (wdb w)). hk_roomId t = i \<longrightarrow> \<not> cleaningTask p until t)
     \<and> (\<forall>b\<in>set (roomInventoryBlocks (wdb w)). ib_propertyId b = p \<and> ib_roomId b = i
          \<and> ib_status b = ''active'' \<and> ib_kind b \<in> {''OOO'', ''OOS''} \<longrightarrow> \<not> ib_startDate b < after)"
proof -
  from assms obtain r q where sel: "sel1 (\<lambda>r. ro_id r = i \<and> ro_propertyId r = p) (rooms (wdb w)) = Some r"
    and q: "sel1 (\<lambda>q. pr_id q = p) (properties (wdb w)) = Some q"
    and ready: "ready_on i p (clk_localDate clk (nvl (pr_timezone q) ''UTC'')) (wdb w)"
    and r': "r' = with_status Occupied None r"
    unfolding markOccupied_def transitionStatusTx_iff transition_allowed_def by blast
  have "r' = r\<lparr>ro_status := Occupied\<rparr>" by (simp add: r' with_status_def)
  with sel q ready show ?thesis unfolding ready_on_def by auto
qed

text \<open>A vacant clean room of a property in UTC on 2024-02-28.\<close>

definition demo_clock :: clock where
  "demo_clock = \<lparr>clk_now = 0, clk_localDate = (\<lambda>_. ''2024-02-28''), clk_before = (\<lambda>_ _. False),
     clk_after = (\<lambda>_ _. False)\<rparr>"

definition demo_room :: "RoomStatus \<Rightarrow> room" where
  "demo_room s = \<lparr>ro_id = ''r1'', ro_propertyId = ''p'', ro_roomTypeId = ''t1'',
     ro_number = ''101'', ro_status = s, ro_maintenanceNotes = None, ro_isActive = True\<rparr>"

definition demo_property :: property where
  "demo_property = \<lparr>pr_id = ''p'', pr_timezone = Some ''UTC'', pr_overbookingPercentage = 0,
     pr_guestRegistrationRequired = False, pr_checkInTime = None, pr_checkOutTime = None,
     pr_earlyCheckInFee = None, pr_lateCheckoutFee = None,
     pr_noShowFeeAmount = None, pr_noShowCutoffHour = None\<rparr>"

definition demo_inventory :: "RoomStatus \<Rightarrow> inventory_db world" where
  "demo_inventory s = \<lparr>wdb = \<lparr>domainEventOutbox = [], auditLogs = [],
     roomTypes = [\<lparr>rt_id = ''t1'', rt_propertyId = ''p'', rt_name = ''Standard'', rt_maxOccupancy = 2,
       rt_isActive = True\<rparr>], rooms = [demo_room s], housekeepingTasks = [],
     maintenanceTickets = [], roomInventoryBlocks = [], properties = [demo_property]\<rparr>,
     wevents = []\<rparr>"

lemma parse_2024: "parse_utc ''2024-02-28'' = Some 739309" "parse_utc ''2024-02-29'' = Some 739310"
    "parse_utc ''2024-03-01'' = Some 739311"
  using parse_iso_of_day [of 739309] parse_iso_of_day [of 739310] parse_iso_of_day [of 739311]
  by (simp_all add: days_2024 last_day_val)

lemma day_2024: "dayAfter ''2024-02-28'' = Some ''2024-02-29''" "endOfDay ''2024-02-28'' = Some 1709164799999"
  by (simp_all add: dayAfter_def endOfDay_def parse_2024 days_2024 last_day_val)

lemma demo_ready: "markOccupied demo_clock ''r1'' ''p'' (demo_inventory VacantClean)
    = (Inr (demo_room Occupied), demo_inventory Occupied)"
  unfolding markOccupied_def transitionStatusTx_iff
  by (rule exI [of _ "demo_room VacantClean"])
     (simp add: transition_allowed_def ready_on_def demo_inventory_def demo_room_def demo_property_def
       demo_clock_def day_2024 with_status_def)

theorem markOccupied_only_ready_witness:
  "markOccupied demo_clock ''r1'' ''p'' (demo_inventory VacantClean)
     = (Inr (demo_room Occupied), demo_inventory Occupied)
   \<and> (\<exists>r. sel1 (\<lambda>r. ro_id r = ''r1'' \<and> ro_propertyId r = ''p'') (rooms (wdb (demo_inventory VacantClean))) = Some r
       \<and> ro_status r \<in> {VacantClean, GuestReady})"
  using markOccupied_only_ready [OF demo_ready] demo_ready by blast

text \<open>
  Housekeeping cannot be bypassed: along the table of valid transitions every way from a
  dirty room to an occupied one passes through the status \<open>clean\<close>.
\<close>

theorem dirty_room_cleaned_before_occupied:
  assumes "roomMachine.path VacantDirty ss" and "last (VacantDirty # ss) = Occupied"
  shows "Clean \<in> set ss"
proof (rule ccontr)
  assume c: "Clean \<notin> set ss"
  have "set (VacantDirty # ss) \<subseteq> {VacantDirty, OutOfOrder}"
    if "roomMachine.path a ss" "a \<in> {VacantDirty, OutOfOrder}" "Clean \<notin> set ss" for a ss
    using that
  proof (induction ss arbitrary: a)
    case (Cons b ss)
    then have "b \<in> {VacantDirty, OutOfOrder}" by (auto simp: roomMachine.step_def)
    with Cons.IH [of b] Cons.prems show ?case by auto
  qed simp
  with assms c have "last (VacantDirty # ss) \<in> {VacantDirty, OutOfOrder}"
    by (metis insertI1 last_in_set list.distinct(1) subsetD)
  with assms(2) show False by simp
qed

theorem dirty_room_cleaned_before_occupied_witness:
  "roomMachine.path VacantDirty [Clean, Inspected, GuestReady, Occupied]
   \<and> Clean \<in> set [Clean, Inspected, GuestReady, Occupied]"
  using dirty_room_cleaned_before_occupied [of "[Clean, Inspected, GuestReady, Occupied]"]
  by (simp add: roomMachine.step_def)

end
