(* ===== verification/Hotel.thy ===== *)
theory Hotel
  imports Room
begin

text \<open>
  The data of a stay, shared by the services of the front office: guests, bookings,
  reservations with their status machine
  (\<open>apps/api/src/modules/reservation/reservation-state-machine.ts\<close>), rate plans and their
  restrictions, and the imported calendars. Of each table the columns that the modelled
  services read or write. Shown: a reservation goes through each status at most once, so a
  stay ends after at most six moves, and nothing leads back from a final status.
\<close>

section \<open>The reservation status machine\<close>

datatype ReservationStatus = RsPending | RsConfirmed | RsAssigned | RsCheckedIn | RsStayover
  | RsDueOut | RsCheckedOut | RsNoShow | RsCancelled

fun reservationStatusName :: "ReservationStatus \<Rightarrow> string" where
  "reservationStatusName RsPending = ''pending''"
| "reservationStatusName RsConfirmed = ''confirmed''"
| "reservationStatusName RsAssigned = ''assigned''"
| "reservationStatusName RsCheckedIn = ''checked_in''"
| "reservationStatusName RsStayover = ''stayover''"
| "reservationStatusName RsDueOut = ''due_out''"
| "reservationStatusName RsCheckedOut = ''checked_out''"
| "reservationStatusName RsNoShow = ''no_show''"
| "reservationStatusName RsCancelled = ''cancelled''"

fun VALID_TRANSITIONS :: "ReservationStatus \<Rightarrow> ReservationStatus list" where
  "VALID_TRANSITIONS RsPending = [RsConfirmed, RsCancelled]"
| "VALID_TRANSITIONS RsConfirmed = [RsAssigned, RsCancelled, RsNoShow]"
| "VALID_TRANSITIONS RsAssigned = [RsCheckedIn, RsCancelled, RsNoShow]"
| "VALID_TRANSITIONS RsCheckedIn = [RsStayover, RsCheckedOut]"
| "VALID_TRANSITIONS RsStayover = [RsDueOut, RsCheckedOut]"
| "VALID_TRANSITIONS RsDueOut = [RsCheckedOut]"
| "VALID_TRANSITIONS RsCheckedOut = []"
| "VALID_TRANSITIONS RsNoShow = []"
| "VALID_TRANSITIONS RsCancelled = []"

definition validateTransition :: "ReservationStatus \<Rightarrow> ReservationStatus \<Rightarrow> bool" where
  "validateTransition current target \<longleftrightarrow> target \<in> set (VALID_TRANSITIONS current)"

definition getValidTransitions :: "ReservationStatus \<Rightarrow> ReservationStatus list" where
  "getValidTransitions current = VALID_TRANSITIONS current"

definition assertTransition :: "ReservationStatus \<Rightarrow> ReservationStatus \<Rightarrow> unit result" where
  "assertTransition current target =
     (if \<not> validateTransition current target
      then Inl (BadRequestException (''Invalid status transition: '' @ reservationStatusName current
        @ '' -> '' @ reservationStatusName target @ ''. Valid transitions from ''
        @ quoted (reservationStatusName current) @ '': ''
        @ (let names = joinWith '', '' (map reservationStatusName (getValidTransitions current))
           in if names = [] then ''none'' else names)))
      else Inr ())"

lemma assertTransition_iff [simp]:
  "assertTransition a b = Inr u \<longleftrightarrow> b \<in> set (VALID_TRANSITIONS a)"
  by (auto simp: assertTransition_def validateTransition_def)

text \<open>How many moves a status may still make.\<close>

fun statusRank :: "ReservationStatus \<Rightarrow> nat" where
  "statusRank RsPending = 6"
| "statusRank RsConfirmed = 5"
| "statusRank RsAssigned = 4"
| "statusRank RsCheckedIn = 3"
| "statusRank RsStayover = 2"
| "statusRank RsDueOut = 1"
| "statusRank _ = 0"

interpretation stay: ranked_status_machine VALID_TRANSITIONS statusRank
proof
  show "statusRank b < statusRank a" if "b \<in> set (VALID_TRANSITIONS a)" for a b
    using that by (cases a) auto
qed

section \<open>Tables\<close>

record guest =
  gu_id :: uuid
  gu_vipLevel :: string
  gu_isDnr :: bool
  gu_dnrReason :: "string option"

record AcceptedPricingNight =
  apn_date :: date
  apn_roomAmount :: string
  apn_taxAmount :: string

record AcceptedPricingServiceNight =
  aps_date :: date
  aps_amount :: string
  aps_taxAmount :: string

record AcceptedPricingService =
  apv_serviceId :: uuid
  apv_code :: string
  apv_name :: string
  apv_postingRule :: string
  apv_chargeType :: string
  apv_currencyCode :: string
  apv_unitPrice :: string
  apv_quantity :: int
  apv_lineTotal :: string
  apv_taxTotal :: string
  apv_lineItems :: "AcceptedPricingServiceNight list"

record PricingAdjustment =
  adj_amount :: string
  adj_reason :: string
  adj_serviceDate :: date

record AcceptedPricingSnapshot =
  ap_source :: string
  ap_currencyCode :: string
  ap_grandTotal :: string
  ap_roomTotal :: string
  ap_taxTotal :: string
  ap_nights :: "AcceptedPricingNight list"
  ap_services :: "AcceptedPricingService list"
  ap_servicesTotal :: string
  ap_servicesTaxTotal :: string
  ap_customReason :: "string option"
  ap_adjustment :: "PricingAdjustment option"

record booking =
  bk_id :: uuid
  bk_propertyId :: uuid
  bk_guestId :: uuid
  bk_confirmationNumber :: string
  bk_externalConfirmation :: "string option"
  bk_idempotencyKey :: "string option"
  bk_integrationContext :: "string option"
  bk_source :: string
  bk_channelCode :: "string option"

record guestIdDocument =
  gd_type :: string
  gd_encryptedNumber :: string
  gd_iv :: string
  gd_authTag :: string
  gd_country :: string
  gd_expiry :: string

text \<open>\<open>rv_routing\<close> is the entry \<open>routing\<close> of the column \<open>preferences\<close>.\<close>

record reservation =
  rv_id :: uuid
  rv_propertyId :: uuid
  rv_bookingId :: uuid
  rv_guestId :: uuid
  rv_arrivalDate :: date
  rv_departureDate :: date
  rv_nights :: int
  rv_roomTypeId :: uuid
  rv_roomId :: "uuid option"
  rv_status :: ReservationStatus
  rv_ratePlanId :: uuid
  rv_totalAmount :: string
  rv_currencyCode :: string
  rv_acceptedPricingSnapshot :: "AcceptedPricingSnapshot option"
  rv_adults :: int
  rv_children :: int
  rv_specialRequests :: "string option"
  rv_routing :: "(string \<times> uuid) list option"
  rv_checkedInAt :: "millis option"
  rv_checkedOutAt :: "millis option"
  rv_cancelledAt :: "millis option"
  rv_cancellationReason :: "string option"
  rv_registrationData :: "string option"
  rv_registrationSubmittedAt :: "millis option"
  rv_guestIdDocument :: "guestIdDocument option"
  rv_actualArrivalTime :: "millis option"
  rv_actualDepartureTime :: "millis option"
  rv_isEarlyCheckin :: bool
  rv_isLateCheckout :: bool
  rv_earlyCheckinFee :: "string option"
  rv_lateCheckoutFee :: "string option"
  rv_registrationSignedAt :: "millis option"
  rv_doNotMove :: bool
  rv_updatedAt :: millis

record reservationGuest =
  rg_id :: uuid
  rg_propertyId :: uuid
  rg_reservationId :: uuid
  rg_guestId :: uuid
  rg_role :: string

record ratePlan =
  rp_id :: uuid
  rp_propertyId :: uuid
  rp_validFrom :: "date option"
  rp_validTo :: "date option"
  rp_isActive :: bool
  rp_baseAmount :: string
  rp_cancellationPolicyId :: "uuid option"

record rateRestriction =
  re_id :: uuid
  re_propertyId :: uuid
  re_ratePlanId :: uuid
  re_startDate :: date
  re_endDate :: date
  re_minLos :: "int option"
  re_maxLos :: "int option"
  re_closedToArrival :: bool
  re_closedToDeparture :: bool
  re_isClosed :: bool

record icalFeed =
  if_id :: uuid
  if_propertyId :: uuid
  if_direction :: string
  if_isActive :: bool

record icalBlock =
  ic_id :: uuid
  ic_propertyId :: uuid
  ic_feedId :: uuid
  ic_roomTypeId :: uuid
  ic_startDate :: date
  ic_endDate :: date

record stay_db = inventory_db +
  guests :: "guest list"
  bookings :: "booking list"
  reservations :: "reservation list"
  reservationGuests :: "reservationGuest list"
  ratePlans :: "ratePlan list"
  rateRestrictions :: "rateRestriction list"
  icalFeeds :: "icalFeed list"
  icalBlocks :: "icalBlock list"

text \<open>\<open>findByIdRaw\<close> of the reservation service.\<close>

definition findByIdRaw :: "uuid \<Rightarrow> uuid \<Rightarrow> ('z stay_db_scheme, reservation) op" where
  "findByIdRaw i p =
     bindS (getS (\<lambda>db. sel1 (\<lambda>r. rv_id r = i \<and> rv_propertyId r = p) (reservations db))) (\<lambda>r.
     someS r (NotFoundException (''Reservation '' @ i @ '' not found'')))"

lemma findByIdRaw_iff: "findByIdRaw i p w = (Inr r, w') \<longleftrightarrow>
    w' = w \<and> sel1 (\<lambda>r. rv_id r = i \<and> rv_propertyId r = p) (reservations (wdb w)) = Some r"
  by (auto simp: findByIdRaw_def op_iffs)

interpretation reservations: tenant_table rv_id rv_propertyId .

section \<open>Properties\<close>

text \<open>
  C40. Life cycle of a reservation: along the table of valid transitions no status is visited
  twice, a reservation makes at most six moves, and checked out, no-show and cancelled are
  final, so a cancelled stay is never reactivated and a guest is checked in at most once.
\<close>

theorem reservation_lifecycle:
  assumes "stay.path a ss"
  shows "distinct (a # ss) \<and> length ss \<le> 6
     \<and> (a \<in> {RsCheckedOut, RsNoShow, RsCancelled} \<longrightarrow> ss = [])"
proof -
  have "statusRank a \<le> 6" by (cases a) simp_all
  moreover have "stay.terminal a" if "a \<in> {RsCheckedOut, RsNoShow, RsCancelled}"
    using that by (auto simp: stay.terminal_def)
  ultimately show ?thesis
    using stay.path_distinct [OF assms] stay.path_length [OF assms] stay.terminal_path [OF _ assms]
    by fastforce
qed

theorem reservation_lifecycle_witness:
  "stay.path RsPending [RsConfirmed, RsAssigned, RsCheckedIn, RsStayover, RsDueOut, RsCheckedOut]
   \<and> distinct [RsPending, RsConfirmed, RsAssigned, RsCheckedIn, RsStayover, RsDueOut, RsCheckedOut]"
proof -
  have p: "stay.path RsPending [RsConfirmed, RsAssigned, RsCheckedIn, RsStayover, RsDueOut, RsCheckedOut]"
    by (simp add: stay.step_def)
  show ?thesis using reservation_lifecycle [OF p] p by simp
qed

end
