(* ===== verification/Tax.thy ===== *)
theory Tax
  imports Hotel
begin

text \<open>
  The tax engine: \<open>TaxService\<close> of \<open>apps/api/src/modules/tax/tax.service.ts\<close>. State: tax
  profiles of a property and their ordered rules. Shown: the amounts posted for a charge are
  exactly the ordered, rounded taxes of the applicable rules, and the decomposition of a
  tax-inclusive total by binary search over cents finds a net amount whose taxes add up to
  the total whenever there is one, and refuses otherwise.
\<close>

section \<open>Data\<close>

datatype taxRuleType = Percentage | FlatPerNight | FlatPerStay | SplitComponent

record taxExemptions =
  ex_guestTypes :: "string list option"
  ex_minStayNights :: "int option"
  ex_maxNights :: "int option"

record taxProfile =
  tp_id :: uuid
  tp_propertyId :: uuid
  tp_name :: string
  tp_jurisdictionCode :: string
  tp_isActive :: bool
  tp_effectiveFrom :: date
  tp_effectiveTo :: "date option"

record taxRule =
  tr_id :: uuid
  tr_taxProfileId :: uuid
  tr_name :: string
  tr_code :: string
  tr_type :: taxRuleType
  tr_rate :: string
  tr_splitPercentage :: "string option"
  tr_appliesToChargeTypes :: "string list option"
  tr_exemptions :: "taxExemptions option"
  tr_isCompounding :: bool
  tr_sortOrder :: int
  tr_isActive :: bool
  tr_effectiveFrom :: date
  tr_effectiveTo :: "date option"

record tax_db = stay_db +
  taxProfiles :: "taxProfile list"
  taxRules :: "taxRule list"

record TaxLineItem =
  ti_name :: string
  ti_code :: string
  ti_type :: taxRuleType
  ti_rate :: string
  ti_amount :: string
  ti_isCompounding :: bool

record taxOptions =
  to_guestId :: "uuid option"
  to_numberOfNights :: "int option"
  to_nightNumber :: "int option"

record createTaxProfileDto =
  cp_propertyId :: uuid
  cp_name :: string
  cp_jurisdictionCode :: string
  cp_isActive :: "bool option"
  cp_effectiveFrom :: date
  cp_effectiveTo :: "date option"

record updateTaxProfileDto =
  up_name :: "string option"
  up_jurisdictionCode :: "string option"
  up_isActive :: "bool option"
  up_effectiveFrom :: "date option"
  up_effectiveTo :: "date option"

text \<open>A number of a request body is kept as its text.\<close>

record createTaxRuleDto =
  cr_name :: string
  cr_code :: string
  cr_type :: taxRuleType
  cr_rate :: string
  cr_splitPercentage :: "string option"
  cr_appliesToChargeTypes :: "string list option"
  cr_exemptions :: "taxExemptions option"
  cr_isCompounding :: "bool option"
  cr_sortOrder :: "int option"
  cr_isActive :: "bool option"
  cr_effectiveFrom :: date
  cr_effectiveTo :: "date option"

record updateTaxRuleDto =
  ur_name :: "string option"
  ur_code :: "string option"
  ur_type :: "taxRuleType option"
  ur_rate :: "string option"
  ur_splitPercentage :: "string option"
  ur_appliesToChargeTypes :: "string list option"
  ur_exemptions :: "taxExemptions option"
  ur_isCompounding :: "bool option"
  ur_sortOrder :: "int option"
  ur_isActive :: "bool option"
  ur_effectiveFrom :: "date option"
  ur_effectiveTo :: "date option"

section \<open>Profiles and rules\<close>

definition createProfile :: "uuid \<Rightarrow> createTaxProfileDto \<Rightarrow> ('z tax_db_scheme, taxProfile) op" where
  "createProfile newId dto =
     (let profile = \<lparr>tp_id = newId, tp_propertyId = cp_propertyId dto, tp_name = cp_name dto,
        tp_jurisdictionCode = cp_jurisdictionCode dto, tp_isActive = nvl (cp_isActive dto) True,
        tp_effectiveFrom = cp_effectiveFrom dto, tp_effectiveTo = cp_effectiveTo dto\<rparr> in
      bindS (modifyS (\<lambda>db. db\<lparr>taxProfiles := taxProfiles db @ [profile]\<rparr>)) (\<lambda>_. returnS profile))"

definition findProfile :: "uuid \<Rightarrow> uuid \<Rightarrow> ('z tax_db_scheme, taxProfile) op" where
  "findProfile i p =
     bindS (getS (\<lambda>db. sel1 (\<lambda>t. tp_id t = i \<and> tp_propertyId t = p) (taxProfiles db))) (\<lambda>t.
     someS t (NotFoundException (''Tax profile '' @ i @ '' not found'')))"

definition updateProfile :: "uuid \<Rightarrow> uuid \<Rightarrow> updateTaxProfileDto \<Rightarrow> ('z tax_db_scheme, taxProfile) op" where
  "updateProfile i p dto =
     bindS (findProfile i p) (\<lambda>profile.
     let f = (\<lambda>t. t\<lparr>tp_name := nvl (up_name dto) (tp_name t),
           tp_jurisdictionCode := nvl (up_jurisdictionCode dto) (tp_jurisdictionCode t),
           tp_isActive := nvl (up_isActive dto) (tp_isActive t),
           tp_effectiveFrom := nvl (up_effectiveFrom dto) (tp_effectiveFrom t),
           tp_effectiveTo := (case up_effectiveTo dto of None \<Rightarrow> tp_effectiveTo t | x \<Rightarrow> x)\<rparr>) in
     bindS (modifyS (\<lambda>db. db\<lparr>taxProfiles := upd (\<lambda>t. tp_id t = i \<and> tp_propertyId t = p) f
        (taxProfiles db)\<rparr>)) (\<lambda>_.
     returnS (f profile)))"

definition findProfileWithRules :: "uuid \<Rightarrow> uuid \<Rightarrow> ('z tax_db_scheme, taxProfile \<times> taxRule list) op" where
  "findProfileWithRules i p =
     bindS (findProfile i p) (\<lambda>profile.
     bindS (getS (\<lambda>db. sort_key tr_sortOrder (filter (\<lambda>r. tr_taxProfileId r = i) (taxRules db)))) (\<lambda>rules.
     returnS (profile, rules)))"

text \<open>The table keeps its rows in the order of their creation.\<close>

definition listProfiles :: "uuid \<Rightarrow> ('z tax_db_scheme, taxProfile list) op" where
  "listProfiles p = getS (\<lambda>db. filter (\<lambda>t. tp_propertyId t = p) (taxProfiles db))"

definition numericR :: "'d numlib \<Rightarrow> nat \<Rightarrow> nat \<Rightarrow> string \<Rightarrow> string result" where
  "numericR L p c s = (case pg_numeric L p c s of None \<Rightarrow> Inl DatabaseError | Some t \<Rightarrow> Inr t)"

definition numericOptR :: "'d numlib \<Rightarrow> nat \<Rightarrow> nat \<Rightarrow> string option \<Rightarrow> string option result" where
  "numericOptR L p c x = (case x of None \<Rightarrow> Inr None | Some s \<Rightarrow> bindR (numericR L p c s) (\<lambda>t. Inr (Some t)))"

definition createRule :: "'d numlib \<Rightarrow> uuid \<Rightarrow> uuid \<Rightarrow> uuid \<Rightarrow> createTaxRuleDto
    \<Rightarrow> ('z tax_db_scheme, taxRule) op" where
  "createRule L newId profileId p dto =
     bindS (findProfile profileId p) (\<lambda>_.
     bindS (liftS (numericR L 8 4 (cr_rate dto))) (\<lambda>rate.
     bindS (liftS (numericOptR L 5 2 (cr_splitPercentage dto))) (\<lambda>split.
     let rule = \<lparr>tr_id = newId, tr_taxProfileId = profileId, tr_name = cr_name dto,
        tr_code = cr_code dto, tr_type = cr_type dto, tr_rate = rate, tr_splitPercentage = split,
        tr_appliesToChargeTypes = cr_appliesToChargeTypes dto, tr_exemptions = cr_exemptions dto,
        tr_isCompounding = nvl (cr_isCompounding dto) False, tr_sortOrder = nvl (cr_sortOrder dto) 0,
        tr_isActive = nvl (cr_isActive dto) True, tr_effectiveFrom = cr_effectiveFrom dto,
        tr_effectiveTo = cr_effectiveTo dto\<rparr> in
     bindS (modifyS (\<lambda>db. db\<lparr>taxRules := taxRules db @ [rule]\<rparr>)) (\<lambda>_. returnS rule))))"

definition updateRule :: "'d numlib \<Rightarrow> uuid \<Rightarrow> uuid \<Rightarrow> uuid \<Rightarrow> updateTaxRuleDto
    \<Rightarrow> ('z tax_db_scheme, taxRule) op" where
  "updateRule L ruleId profileId p dto =
     bindS (findProfile profileId p) (\<lambda>_.
     bindS (getS (\<lambda>db. sel1 (\<lambda>r. tr_id r = ruleId \<and> tr_taxProfileId r = profileId) (taxRules db))) (\<lambda>found.
     bindS (someS found (NotFoundException (''Tax rule '' @ ruleId @ '' not found''))) (\<lambda>existing.
     bindS (liftS (numericOptR L 8 4 (ur_rate dto))) (\<lambda>rate.
     bindS (liftS (numericOptR L 5 2 (ur_splitPercentage dto))) (\<lambda>split.
     let f = (\<lambda>r. r\<lparr>tr_name := nvl (ur_name dto) (tr_name r), tr_code := nvl (ur_code dto) (tr_code r),
           tr_type := nvl (ur_type dto) (tr_type r), tr_rate := nvl rate (tr_rate r),
           tr_splitPercentage := (case split of None \<Rightarrow> tr_splitPercentage r | x \<Rightarrow> x),
           tr_appliesToChargeTypes := (case ur_appliesToChargeTypes dto of
              None \<Rightarrow> tr_appliesToChargeTypes r | x \<Rightarrow> x),
           tr_exemptions := (case ur_exemptions dto of None \<Rightarrow> tr_exemptions r | x \<Rightarrow> x),
           tr_isCompounding := nvl (ur_isCompounding dto) (tr_isCompounding r),
           tr_sortOrder := nvl (ur_sortOrder dto) (tr_sortOrder r),
           tr_isActive := nvl (ur_isActive dto) (tr_isActive r),
           tr_effectiveFrom := nvl (ur_effectiveFrom dto) (tr_effectiveFrom r),
           tr_effectiveTo := (case ur_effectiveTo dto of None \<Rightarrow> tr_effectiveTo r | x \<Rightarrow> x)\<rparr>) in
     bindS (modifyS (\<lambda>db. db\<lparr>taxRules := upd (\<lambda>r. tr_id r = ruleId) f (taxRules db)\<rparr>)) (\<lambda>_.
     returnS (f existing)))))))"

definition deleteRule :: "uuid \<Rightarrow> uuid \<Rightarrow> uuid \<Rightarrow> ('z tax_db_scheme, unit) op" where
  "deleteRule ruleId profileId p =
     bindS (findProfile profileId p) (\<lambda>_.
     bindS (getS (\<lambda>db. filter (\<lambda>r. tr_id r = ruleId \<and> tr_taxProfileId r = profileId) (taxRules db))) (\<lambda>result.
     bindS (modifyS (\<lambda>db. db\<lparr>taxRules := filter (\<lambda>r. \<not> (tr_id r = ruleId \<and> tr_taxProfileId r = profileId))
        (taxRules db)\<rparr>)) (\<lambda>_.
     guardS (result \<noteq> []) (NotFoundException (''Tax rule '' @ ruleId @ '' not found'')))))"

section \<open>Calculation\<close>

text \<open>The conditions \<open>effectiveFrom <= date and (effectiveTo is null or effectiveTo >= date)\<close>.\<close>

definition effectiveOn :: "date \<Rightarrow> date \<Rightarrow> date option \<Rightarrow> bool" where
  "effectiveOn d from to \<longleftrightarrow> from \<le> d \<and> (case to of None \<Rightarrow> True | Some e \<Rightarrow> d \<le> e)"

definition getActiveTaxProfile :: "uuid \<Rightarrow> date \<Rightarrow> 'z tax_db_scheme \<Rightarrow> (taxProfile \<times> taxRule list) option" where
  "getActiveTaxProfile p d db =
     map_option (\<lambda>profile. (profile, sort_key tr_sortOrder (filter (\<lambda>r.
         tr_taxProfileId r = tp_id profile \<and> tr_isActive r
         \<and> effectiveOn d (tr_effectiveFrom r) (tr_effectiveTo r)) (taxRules db))))
       (sel1 (\<lambda>t. tp_propertyId t = p \<and> tp_isActive t
          \<and> effectiveOn d (tp_effectiveFrom t) (tp_effectiveTo t)) (taxProfiles db))"

text \<open>An optional number is true when it is there and not zero.\<close>

definition truthy :: "int option \<Rightarrow> bool" where
  "truthy x \<longleftrightarrow> (case x of None \<Rightarrow> False | Some n \<Rightarrow> n \<noteq> 0)"

definition ruleExempt :: "taxOptions \<Rightarrow> guest option \<Rightarrow> taxExemptions \<Rightarrow> bool" where
  "ruleExempt opts g ex \<longleftrightarrow>
     (case (ex_guestTypes ex, g) of (Some ts, Some gu) \<Rightarrow> ts \<noteq> [] \<and> gu_vipLevel gu \<in> set ts | _ \<Rightarrow> False)
     \<or> (truthy (ex_minStayNights ex) \<and> truthy (to_numberOfNights opts)
         \<and> the (ex_minStayNights ex) \<le> the (to_numberOfNights opts))
     \<or> (truthy (ex_maxNights ex) \<and> truthy (to_nightNumber opts)
         \<and> the (ex_maxNights ex) < the (to_nightNumber opts))"

definition ruleApplies :: "string \<Rightarrow> taxOptions \<Rightarrow> guest option \<Rightarrow> taxRule \<Rightarrow> bool" where
  "ruleApplies chargeType opts g rule \<longleftrightarrow>
     (case tr_appliesToChargeTypes rule of None \<Rightarrow> True
      | Some ts \<Rightarrow> ts = [] \<or> chargeType \<in> set ts \<or> ''*'' \<in> set ts)
     \<and> (case tr_exemptions rule of None \<Rightarrow> True | Some ex \<Rightarrow> \<not> ruleExempt opts g ex)"

definition ruleTax :: "'d numlib \<Rightarrow> taxOptions \<Rightarrow> 'd \<Rightarrow> 'd \<Rightarrow> taxRule \<Rightarrow> 'd result" where
  "ruleTax L opts amount runningBase rule =
     bindR (newDecimal L (tr_rate rule)) (\<lambda>rateValue.
     let base = (if tr_isCompounding rule then runningBase else amount); hundred = dec_int L 100 in
     case tr_type rule of
       Percentage \<Rightarrow> Inr (dec_div L (dec_times L base rateValue) hundred)
     | SplitComponent \<Rightarrow>
         bindR (if present (tr_splitPercentage rule) then newDecimal L (the (tr_splitPercentage rule))
                else Inr (dec_int L 0)) (\<lambda>splitPct.
         let taxableBase = dec_div L (dec_times L base splitPct) hundred in
         Inr (dec_div L (dec_times L taxableBase rateValue) hundred))
     | FlatPerNight \<Rightarrow> Inr (dec_times L rateValue (dec_int L
         (if truthy (to_nightNumber opts) then 1 else nvl (to_numberOfNights opts) 1)))
     | FlatPerStay \<Rightarrow> Inr (if truthy (to_nightNumber opts) \<and> the (to_nightNumber opts) \<noteq> 1
         then dec_int L 0 else rateValue))"

fun taxLoop :: "'d numlib \<Rightarrow> string \<Rightarrow> taxOptions \<Rightarrow> guest option \<Rightarrow> 'd \<Rightarrow> taxRule list \<Rightarrow> 'd
    \<Rightarrow> TaxLineItem list result" where
  "taxLoop L chargeType opts g amount [] runningBase = Inr []"
| "taxLoop L chargeType opts g amount (rule # rules) runningBase =
     (if \<not> ruleApplies chargeType opts g rule then taxLoop L chargeType opts g amount rules runningBase
      else bindR (ruleTax L opts amount runningBase rule) (\<lambda>taxAmount.
        bindR (newDecimal L (dec_toFixed L 2 taxAmount)) (\<lambda>taxAmountRounded.
        if dec_gt L taxAmountRounded (dec_int L 0) then
          bindR (taxLoop L chargeType opts g amount rules (dec_plus L runningBase taxAmountRounded)) (\<lambda>items.
          Inr (\<lparr>ti_name = tr_name rule, ti_code = tr_code rule, ti_type = tr_type rule,
                ti_rate = tr_rate rule, ti_amount = dec_toFixed L 2 taxAmountRounded,
                ti_isCompounding = tr_isCompounding rule\<rparr> # items))
        else taxLoop L chargeType opts g amount rules runningBase)))"

definition calculateLoadedTaxes :: "'d numlib \<Rightarrow> string \<Rightarrow> string \<Rightarrow> taxRule list \<Rightarrow> taxOptions
    \<Rightarrow> guest option \<Rightarrow> TaxLineItem list result" where
  "calculateLoadedTaxes L chargeAmount chargeType rules opts g =
     bindR (newDecimal L chargeAmount) (\<lambda>amount. taxLoop L chargeType opts g amount rules amount)"

definition taxGuest :: "taxOptions \<Rightarrow> 'z tax_db_scheme \<Rightarrow> guest option" where
  "taxGuest opts db = (if present (to_guestId opts)
     then sel1 (\<lambda>g. gu_id g = the (to_guestId opts)) (guests db) else None)"

definition calculateTaxes :: "'d numlib \<Rightarrow> string \<Rightarrow> string \<Rightarrow> uuid \<Rightarrow> string \<Rightarrow> taxOptions
    \<Rightarrow> ('z tax_db_scheme, TaxLineItem list) op" where
  "calculateTaxes L chargeAmount chargeType p serviceDate opts =
     bindS (getS (\<lambda>db. (getActiveTaxProfile p (take 10 serviceDate) db, taxGuest opts db))) (\<lambda>(profile, g).
     case profile of None \<Rightarrow> returnS []
     | Some (_, rules) \<Rightarrow> (if rules = [] then returnS []
         else liftS (calculateLoadedTaxes L chargeAmount chargeType rules opts g)))"

section \<open>Decomposition of a tax-inclusive amount\<close>

text \<open>\<open>taxes.reduce((sum, tax) => sum.plus(tax.amount), new Decimal(baseAmount))\<close>\<close>

fun addAmounts :: "'d numlib \<Rightarrow> 'd \<Rightarrow> TaxLineItem list \<Rightarrow> 'd result" where
  "addAmounts L acc [] = Inr acc"
| "addAmounts L acc (t # ts) = bindR (newDecimal L (ti_amount t)) (\<lambda>d. addAmounts L (dec_plus L acc d) ts)"

definition notRepresentable :: exn where
  "notRepresentable = BadRequestException
     ''TAX_INCLUSIVE_NOT_REPRESENTABLE: Inclusive amount cannot be decomposed with the configured tax rounding''"

definition centsText :: "'d numlib \<Rightarrow> int \<Rightarrow> string result" where
  "centsText L cents = bindR (newDecimal L (show_nat (nat cents))) (\<lambda>d.
     Inr (dec_toFixed L 2 (dec_div L d (dec_int L 100))))"

function backSearch :: "'d numlib \<Rightarrow> string \<Rightarrow> taxRule list \<Rightarrow> taxOptions \<Rightarrow> guest option \<Rightarrow> 'd
    \<Rightarrow> int \<Rightarrow> int \<Rightarrow> (string \<times> TaxLineItem list) result" where
  "backSearch L chargeType rules opts g tot lower upper =
     (if upper < lower then Inl notRepresentable
      else let cents = (lower + upper) div 2 in
        bindR (centsText L cents) (\<lambda>baseAmount.
        bindR (calculateLoadedTaxes L baseAmount chargeType rules opts g) (\<lambda>taxes.
        bindR (newDecimal L baseAmount) (\<lambda>start.
        bindR (addAmounts L start taxes) (\<lambda>gross.
        if dec_eq L gross tot then Inr (baseAmount, taxes)
        else if dec_lt L gross tot then backSearch L chargeType rules opts g tot (cents + 1) upper
        else backSearch L chargeType rules opts g tot lower (cents - 1))))))"
  by pat_completeness auto

termination
  by (relation "measure (\<lambda>(L, ct, rs, os, g, t, lo, up). nat (up + 1 - lo))") auto

declare backSearch.simps [simp del]

text \<open>\<open>BigInt(text)\<close>\<close>

definition bigInt :: "string \<Rightarrow> int result" where
  "bigInt s = (case decimal_text s of None \<Rightarrow> Inl (Error ''SyntaxError'') | Some x \<Rightarrow> Inr \<lfloor>x\<rfloor>)"

definition backCalculateFromInclusive :: "'d numlib \<Rightarrow> string \<Rightarrow> string \<Rightarrow> uuid \<Rightarrow> string
    \<Rightarrow> taxOptions \<Rightarrow> ('z tax_db_scheme, string \<times> TaxLineItem list) op" where
  "backCalculateFromInclusive L totalAmount chargeType p serviceDate opts =
     bindS (getS (\<lambda>db. (getActiveTaxProfile p (take 10 serviceDate) db, taxGuest opts db))) (\<lambda>(profile, g).
     case profile of None \<Rightarrow> returnS (totalAmount, [])
     | Some (_, rules) \<Rightarrow> (if rules = [] then returnS (totalAmount, [])
         else bindS (liftS (newDecimal L totalAmount)) (\<lambda>tot.
           let cents = dec_times L tot (dec_int L 100) in
           bindS (guardS (dec_isFinite L tot \<and> \<not> dec_isNegative L tot \<and> dec_isInteger L cents)
             (BadRequestException (''TAX_INCLUSIVE_NOT_REPRESENTABLE: ''
               @ ''Inclusive amount must be nonnegative with two decimal places''))) (\<lambda>_.
           bindS (liftS (bigInt (dec_toFixed L 0 cents))) (\<lambda>upper.
           liftS (backSearch L chargeType rules opts g tot 0 upper))))))"

section \<open>The taxes of a charge, in exact arithmetic\<close>

definition split_val :: "taxRule \<Rightarrow> rat" where
  "split_val r = (if present (tr_splitPercentage r) then text_val (the (tr_splitPercentage r)) else 0)"

definition exact_tax :: "taxOptions \<Rightarrow> rat \<Rightarrow> rat \<Rightarrow> taxRule \<Rightarrow> rat" where
  "exact_tax opts a x r = (let base = (if tr_isCompounding r then x else a); rate = text_val (tr_rate r) in
     case tr_type r of
       Percentage \<Rightarrow> base * rate / 100
     | SplitComponent \<Rightarrow> base * split_val r / 100 * rate / 100
     | FlatPerNight \<Rightarrow> rate * of_int (if truthy (to_nightNumber opts) then 1 else nvl (to_numberOfNights opts) 1)
     | FlatPerStay \<Rightarrow> (if truthy (to_nightNumber opts) \<and> the (to_nightNumber opts) \<noteq> 1 then 0 else rate))"

text \<open>The taxes in order, each rounded to cents, those that round to zero left out.\<close>

fun exact_items :: "string \<Rightarrow> taxOptions \<Rightarrow> guest option \<Rightarrow> rat \<Rightarrow> taxRule list \<Rightarrow> rat
    \<Rightarrow> (taxRule \<times> rat) list" where
  "exact_items ct opts g a [] x = []"
| "exact_items ct opts g a (r # rs) x =
     (let t = round_dp 2 (exact_tax opts a x r) in
      if ruleApplies ct opts g r \<and> 0 < t then (r, t) # exact_items ct opts g a rs (x + t)
      else exact_items ct opts g a rs x)"

definition exact_gross :: "string \<Rightarrow> taxOptions \<Rightarrow> guest option \<Rightarrow> taxRule list \<Rightarrow> rat \<Rightarrow> rat" where
  "exact_gross ct opts g rs a = a + sum_list (map snd (exact_items ct opts g a rs a))"

text \<open>
  Rates are nonnegative with four decimals, percentages at most one hundred; a stay has fewer
  than a million nights.
\<close>

definition rule_ok :: "taxRule \<Rightarrow> bool" where
  "rule_ok r \<longleftrightarrow>
     (case decimal_text (tr_rate r) of None \<Rightarrow> False | Some x \<Rightarrow> 0 \<le> x \<and> round_dp 4 x = x \<and> x < 10 ^ 4
        \<and> (tr_type r \<in> {Percentage, SplitComponent} \<longrightarrow> x \<le> 100))
     \<and> (present (tr_splitPercentage r) \<longrightarrow>
         (case decimal_text (the (tr_splitPercentage r)) of None \<Rightarrow> False
          | Some y \<Rightarrow> 0 \<le> y \<and> y \<le> 100 \<and> round_dp 2 y = y))"

definition opts_ok :: "taxOptions \<Rightarrow> bool" where
  "opts_ok opts \<longleftrightarrow> (case to_numberOfNights opts of None \<Rightarrow> True | Some n \<Rightarrow> 0 \<le> n \<and> n < 10 ^ 6)"

lemma rule_okD:
  assumes "rule_ok r"
  shows "decimal_text (tr_rate r) = Some (text_val (tr_rate r))" and "0 \<le> text_val (tr_rate r)"
    and "scaled 4 (text_val (tr_rate r))" and "text_val (tr_rate r) < 10 ^ 4"
    and "tr_type r \<in> {Percentage, SplitComponent} \<Longrightarrow> text_val (tr_rate r) \<le> 100"
    and "0 \<le> split_val r" and "split_val r \<le> 100" and "scaled 2 (split_val r)"
    and "present (tr_splitPercentage r) \<Longrightarrow> decimal_text (the (tr_splitPercentage r)) = Some (split_val r)"
  using assms scaled_round_dp [of 4 "text_val (tr_rate r)"] scaled_round_dp [of 2 "split_val r"]
  by (auto simp: rule_ok_def split_val_def text_val_def split: option.splits if_splits)

lemma round_dp_4_iff: "round_dp n x = x \<longleftrightarrow> scaled n x"
  using round_dp_scaled scaled_round_dp by metis

lemma nights_bounds:
  assumes "opts_ok opts"
  shows "0 \<le> (if truthy (to_nightNumber opts) then 1 else nvl (to_numberOfNights opts) 1)"
    and "(if truthy (to_nightNumber opts) then 1 else nvl (to_numberOfNights opts) 1) < 10 ^ 6"
  using assms by (auto simp: opts_ok_def nvl_def split: option.splits)

lemma exact_tax_nonneg: "rule_ok r \<Longrightarrow> opts_ok opts \<Longrightarrow> 0 \<le> a \<Longrightarrow> 0 \<le> x \<Longrightarrow> 0 \<le> exact_tax opts a x r"
  using rule_okD(2,6) [of r] nights_bounds(1) [of opts]
  by (cases "tr_type r") (auto simp: exact_tax_def Let_def simp del: of_int_eq_iff)

lemma exact_tax_mono:
  assumes "rule_ok r" and "a \<le> a'" and "x \<le> x'"
  shows "exact_tax opts a x r \<le> exact_tax opts a' x' r"
proof -
  let ?b = "if tr_isCompounding r then x else a" and ?b' = "if tr_isCompounding r then x' else a'"
  have b: "?b \<le> ?b'" using assms by simp
  have "?b * c \<le> ?b' * c" if "0 \<le> c" for c using b that by (rule mult_right_mono)
  from this [of "text_val (tr_rate r) / 100"] this [of "split_val r / 100 * text_val (tr_rate r) / 100"]
  show ?thesis
    using rule_okD(2,6) [OF assms(1)]
    by (cases "tr_type r") (simp_all add: exact_tax_def Let_def)
qed

lemma exact_items_mono:
  assumes "list_all rule_ok rs" and "opts_ok opts" and "0 \<le> a" and "a \<le> a'" and "0 \<le> x" and "x \<le> x'"
  shows "sum_list (map snd (exact_items ct opts g a rs x)) \<le> sum_list (map snd (exact_items ct opts g a' rs x'))"
  using assms
proof (induction rs arbitrary: x x')
  case Nil
  then show ?case by simp
next
  case (Cons r rs)
  let ?t = "round_dp 2 (exact_tax opts a x r)" and ?t' = "round_dp 2 (exact_tax opts a' x' r)"
  have le: "?t \<le> ?t'" using Cons.prems by (intro round_dp_mono exact_tax_mono) auto
  have nn: "0 \<le> ?t" using Cons.prems by (intro round_dp_nonneg exact_tax_nonneg) auto
  have s: "sum_list (map snd (exact_items ct opts g a (r # rs) x))
      = (if ruleApplies ct opts g r then ?t + sum_list (map snd (exact_items ct opts g a rs (x + ?t)))
         else sum_list (map snd (exact_items ct opts g a rs x)))"
    using nn by (auto simp: Let_def)
  have nn': "0 \<le> ?t'" using nn le by linarith
  have s': "sum_list (map snd (exact_items ct opts g a' (r # rs) x'))
      = (if ruleApplies ct opts g r then ?t' + sum_list (map snd (exact_items ct opts g a' rs (x' + ?t')))
         else sum_list (map snd (exact_items ct opts g a' rs x')))"
    using nn' by (auto simp: Let_def)
  have "sum_list (map snd (exact_items ct opts g a rs (x + ?t)))
      \<le> sum_list (map snd (exact_items ct opts g a' rs (x' + ?t')))"
    using Cons.prems le nn by (intro Cons.IH) auto
  moreover have "sum_list (map snd (exact_items ct opts g a rs x))
      \<le> sum_list (map snd (exact_items ct opts g a' rs x'))"
    using Cons.prems by (intro Cons.IH) auto
  ultimately show ?case unfolding s s' using le by auto
qed

lemma exact_gross_strict:
  assumes "list_all rule_ok rs" and "opts_ok opts" and "0 \<le> a" and "a < a'"
  shows "exact_gross ct opts g rs a < exact_gross ct opts g rs a'"
  using exact_items_mono [of rs opts a a' a a' ct g] assms by (simp add: exact_gross_def)

lemma exact_items_pos: "(r, t) \<in> set (exact_items ct opts g a rs x) \<Longrightarrow> 0 < t \<and> scaled 2 t"
  by (induction rs arbitrary: x) (auto simp: Let_def scaled_round_dp split: if_splits)

lemma exact_items_sum_nonneg: "0 \<le> sum_list (map snd (exact_items ct opts g a rs x))"
  by (rule sum_list_nonneg) (auto dest: exact_items_pos intro: less_imp_le)

lemma digits20_bounded:
  assumes "scaled k x" and "0 \<le> x" and "x \<le> 10 ^ m" and "m + k < 20"
  shows "digits20 x"
proof (rule digits20I [OF assms(1)])
  have "\<bar>x\<bar> * 10 ^ k \<le> 10 ^ m * 10 ^ k"
    using assms(2,3) by (intro mult_right_mono) auto
  also have "\<dots> = (10::rat) ^ (m + k)" by (simp add: power_add)
  also have "\<dots> < 10 ^ 20" using assms(4) by (intro power_strict_increasing) auto
  finally show "\<bar>x\<bar> * 10 ^ k < 10 ^ 20" .
qed

lemma scaled_div_100: "scaled k x \<Longrightarrow> scaled (k + 2) (x / 100)"
  by (simp add: scaled_def)

context numerics
begin

lemma hundred: "dval (dec_int L 100) = Some 100"
  using int_val [of 100] by simp

lemma percent_val:
  assumes "dval b = Some x" and "scaled k x" and "0 \<le> x" and "x \<le> 10 ^ 7"
    and "dval q = Some y" and "scaled n y" and "0 \<le> y" and "y \<le> 100" and "k + n \<le> 10"
  shows "dval (dec_div L (dec_times L b q) (dec_int L 100)) = Some (x * y / 100)"
    and "scaled (k + n + 2) (x * y / 100)" and "0 \<le> x * y / 100" and "x * y / 100 \<le> 10 ^ 7"
proof -
  have xy: "x * y \<le> 10 ^ 7 * 100" using assms by (intro mult_mono) auto
  have sc: "scaled (k + n) (x * y)" using assms by (intro scaled_mult)
  have "digits20 (x * y)" using sc xy assms by (intro digits20_bounded [of "k + n" _ 9]) auto
  then have t: "dval (dec_times L b q) = Some (x * y)" using assms by (intro times_val)
  have s2: "scaled (k + n + 2) (x * y / 100)" using scaled_div_100 [OF sc] .
  have le: "x * y / 100 \<le> 10 ^ 7" using xy by simp
  have nn: "0 \<le> x * y / 100" using assms by simp
  have "digits20 (x * y / 100)" using s2 le nn assms(9) by (intro digits20_bounded [of "k + n + 2" _ 7]) auto
  with t hundred show "dval (dec_div L (dec_times L b q) (dec_int L 100)) = Some (x * y / 100)"
    by (intro div_val) auto
  show "scaled (k + n + 2) (x * y / 100)" "0 \<le> x * y / 100" "x * y / 100 \<le> 10 ^ 7"
    using s2 nn le by auto
qed

lemma ruleTax_val:
  assumes r: "rule_ok r" and o: "opts_ok opts"
    and a: "dval amount = Some a" "scaled 2 a" "0 \<le> a" "a \<le> 10 ^ 7"
    and x: "dval running = Some x" "scaled 2 x" "0 \<le> x" "x \<le> 10 ^ 7"
  shows "\<exists>t. ruleTax L opts amount running r = Inr t \<and> dval t = Some (exact_tax opts a x r)"
proof -
  obtain q where q: "newDecimal L (tr_rate r) = Inr q" "dval q = Some (text_val (tr_rate r))"
    using newDecimal_text [OF rule_okD(1) [OF r]] by blast
  let ?b = "if tr_isCompounding r then running else amount"
    and ?v = "if tr_isCompounding r then x else a"
  have b: "dval ?b = Some ?v" "scaled 2 ?v" "0 \<le> ?v" "?v \<le> 10 ^ 7" using a x by auto
  note rate = rule_okD(2,3,4,5) [OF r]
  show ?thesis
  proof (cases "tr_type r")
    case Percentage
    with percent_val(1) [OF b q(2) rate(2,1)] rate(4) q(1) show ?thesis
      by (simp add: ruleTax_def exact_tax_def Let_def)
  next
    case SplitComponent
    obtain d where d: "(if present (tr_splitPercentage r) then newDecimal L (the (tr_splitPercentage r))
        else Inr (dec_int L 0)) = Inr d" "dval d = Some (split_val r)"
    proof (cases "present (tr_splitPercentage r)")
      case True
      with newDecimal_text [OF rule_okD(9) [OF r True]] that show ?thesis by auto
    next
      case False
      with int_val [of 0] that show ?thesis by (simp add: split_val_def)
    qed
    note p1 = percent_val [OF b d(2) rule_okD(8,6,7) [OF r]]
    note p2 = percent_val(1) [OF p1(1) p1(2) p1(3) p1(4) q(2) rate(2,1)]
    from p2 rate(4) SplitComponent q(1) d(1) show ?thesis
      by (simp add: ruleTax_def exact_tax_def Let_def)
  next
    case FlatPerNight
    let ?n = "if truthy (to_nightNumber opts) then 1 else nvl (to_numberOfNights opts) 1"
    note n = nights_bounds [OF o]
    have i: "dval (dec_int L ?n) = Some (of_int ?n)" using n by (intro int_val) auto
    have "text_val (tr_rate r) * of_int ?n \<le> 10 ^ 4 * 10 ^ 6"
      using rate n by (intro mult_mono) (auto simp del: of_int_power simp flip: of_int_less_iff)
    moreover have "scaled (4 + 0) (text_val (tr_rate r) * of_int ?n)"
      using rate(2) by (intro scaled_mult) auto
    ultimately have "digits20 (text_val (tr_rate r) * of_int ?n)"
      using rate(1) n by (intro digits20_bounded [of 4 _ 10]) auto
    then have "dval (dec_times L q (dec_int L ?n)) = Some (text_val (tr_rate r) * of_int ?n)"
      using q(2) i by (intro times_val)
    with FlatPerNight q(1) show ?thesis by (simp add: ruleTax_def exact_tax_def Let_def)
  next
    case FlatPerStay
    with q int_val [of 0] show ?thesis by (auto simp: ruleTax_def exact_tax_def Let_def)
  qed
qed

lemma taxLoop_val:
  assumes "list_all rule_ok rs" and "opts_ok opts"
    and "dval amount = Some a" "scaled 2 a" "0 \<le> a" "a \<le> 10 ^ 7"
    and "dval running = Some x" "scaled 2 x" "0 \<le> x"
    and "x + sum_list (map snd (exact_items ct opts g a rs x)) \<le> 10 ^ 7"
  shows "\<exists>items. taxLoop L ct opts g amount rs running = Inr items
    \<and> map (\<lambda>t. (ti_name t, ti_code t, ti_rate t, decimal_text (ti_amount t))) items
        = map (\<lambda>(r, v). (tr_name r, tr_code r, tr_rate r, Some v)) (exact_items ct opts g a rs x)"
  using assms
proof (induction rs arbitrary: running x)
  case Nil
  then show ?case by simp
next
  case (Cons r rs)
  show ?case
  proof (cases "ruleApplies ct opts g r")
    case False
    with Cons show ?thesis by (simp add: Let_def)
  next
    case True
    let ?v = "exact_tax opts a x r" and ?t = "round_dp 2 (exact_tax opts a x r)"
    have nn: "0 \<le> ?t" using Cons.prems by (intro round_dp_nonneg exact_tax_nonneg) auto
    have "x \<le> 10 ^ 7"
      using Cons.prems(10) exact_items_sum_nonneg [of ct opts g a "r # rs" x] by linarith
    with Cons.prems obtain t where t: "ruleTax L opts amount running r = Inr t" "dval t = Some ?v"
      using ruleTax_val [of r opts amount a running x] by auto
    have "decimal_text (dec_toFixed L 2 t) = Some ?t" using t(2) by (rule toFixed_text)
    then obtain d where d: "newDecimal L (dec_toFixed L 2 t) = Inr d" "dval d = Some ?t"
      using newDecimal_text by blast
    have gt: "dec_gt L d (dec_int L 0) \<longleftrightarrow> 0 < ?t"
      using lt_val [of "dec_int L 0" 0 d ?t] int_val [of 0] d(2) by simp
    show ?thesis
    proof (cases "0 < ?t")
      case False
      with Cons True t(1) d(1) gt show ?thesis by (simp add: Let_def)
    next
      case pos: True
      then have total: "(x + ?t) + sum_list (map snd (exact_items ct opts g a rs (x + ?t))) \<le> 10 ^ 7"
        using Cons.prems(10) True by (simp add: Let_def)
      then have "x + ?t \<le> 10 ^ 7"
        using exact_items_sum_nonneg [of ct opts g a rs "x + ?t"] by linarith
      then have "dval (dec_plus L running d) = Some (x + ?t)"
        using Cons.prems(7,8,9) d(2) pos by (intro plus_cents) (auto simp: scaled_round_dp)
      then obtain items where "taxLoop L ct opts g amount rs (dec_plus L running d) = Inr items"
        "map (\<lambda>t. (ti_name t, ti_code t, ti_rate t, decimal_text (ti_amount t))) items
          = map (\<lambda>(r, v). (tr_name r, tr_code r, tr_rate r, Some v)) (exact_items ct opts g a rs (x + ?t))"
        using Cons.IH [of "dec_plus L running d" "x + ?t"] Cons.prems pos total
        by (auto intro: scaled_add scaled_round_dp)
      moreover have "decimal_text (dec_toFixed L 2 d) = Some ?t"
        using toFixed_text [OF d(2), of 2] by simp
      ultimately show ?thesis using True t(1) d(1) gt pos by (simp add: Let_def)
    qed
  qed
qed

lemma loaded_val:
  assumes "list_all rule_ok rs" and "opts_ok opts" and "decimal_text s = Some a" and "scaled 2 a" and "0 \<le> a"
    and "exact_gross ct opts g rs a \<le> 10 ^ 7"
  shows "\<exists>items. calculateLoadedTaxes L s ct rs opts g = Inr items
    \<and> map (\<lambda>t. (ti_name t, ti_code t, ti_rate t, decimal_text (ti_amount t))) items
        = map (\<lambda>(r, v). (tr_name r, tr_code r, tr_rate r, Some v)) (exact_items ct opts g a rs a)"
proof -
  obtain d where d: "newDecimal L s = Inr d" "dval d = Some a" using newDecimal_text [OF assms(3)] by blast
  have "a \<le> 10 ^ 7"
    using assms(6) exact_items_sum_nonneg [of ct opts g a rs a] by (simp add: exact_gross_def)
  with taxLoop_val [OF assms(1,2) d(2) assms(4,5) _ d(2) assms(4,5), of ct g] assms(6) d(1)
  show ?thesis by (simp add: calculateLoadedTaxes_def exact_gross_def)
qed

end

lemma decimal_text_show_nat: "decimal_text (show_nat n) = Some (of_nat n)"
proof -
  have "show_nat n = show_fixed 0 (of_int (int n))"
    unfolding show_fixed_def by (simp add: Let_def del: of_int_of_nat_eq)
  then show ?thesis using round_dp_scaled [OF scaled_of_int, of 0 "int n"] by simp
qed

lemma exact_gross_scaled: "scaled 2 a \<Longrightarrow> scaled 2 (exact_gross ct opts g rs a)"
  unfolding exact_gross_def by (intro scaled_add scaled_sum_list) (auto dest: exact_items_pos)

lemma exact_gross_mono:
  "list_all rule_ok rs \<Longrightarrow> opts_ok opts \<Longrightarrow> 0 \<le> a \<Longrightarrow> a \<le> a' \<Longrightarrow>
   exact_gross ct opts g rs a \<le> exact_gross ct opts g rs a'"
  using exact_gross_strict [of rs opts a a' ct g] by (cases "a = a'") auto

lemma exact_gross_ge: "a \<le> exact_gross ct opts g rs a"
  using exact_items_sum_nonneg [of ct opts g a rs a] by (simp add: exact_gross_def)

text \<open>The posted lines stand for the exact items.\<close>

definition lines_of :: "TaxLineItem list \<Rightarrow> (taxRule \<times> rat) list \<Rightarrow> bool" where
  "lines_of items xs \<longleftrightarrow> map (\<lambda>t. (ti_name t, ti_code t, ti_rate t, decimal_text (ti_amount t))) items
     = map (\<lambda>(r, v). (tr_name r, tr_code r, tr_rate r, Some v)) xs"

lemma lines_of_Nil [simp]: "lines_of [] xs \<longleftrightarrow> xs = []" "lines_of ts [] \<longleftrightarrow> ts = []"
  by (auto simp: lines_of_def)

lemma lines_of_Cons: "lines_of (t # ts) ((r, v) # xs) \<longleftrightarrow>
    ti_name t = tr_name r \<and> ti_code t = tr_code r \<and> ti_rate t = tr_rate r \<and> decimal_text (ti_amount t) = Some v \<and> lines_of ts xs"
  by (simp add: lines_of_def)

lemma lines_of_sum: "lines_of items xs \<Longrightarrow> (\<Sum>i\<leftarrow>items. text_val (ti_amount i)) = sum_list (map snd xs)"
proof (induction items arbitrary: xs)
  case Nil
  then show ?case by simp
next
  case (Cons i items)
  then obtain r v ys where "xs = (r, v) # ys" by (cases xs) auto
  with Cons show ?case by (auto simp: lines_of_Cons text_val_def)
qed

lemma exact_gross_inj:
  assumes "list_all rule_ok rs" and "opts_ok opts" and "0 \<le> a" and "0 \<le> b"
    and "exact_gross ct opts g rs a = exact_gross ct opts g rs b"
  shows "a = b"
  using exact_gross_strict [OF assms(1,2,3), of b ct g] exact_gross_strict [OF assms(1,2,4), of a ct g] assms(5)
  by (cases a b rule: linorder_cases) auto

text \<open>
  What the decomposition of a total \<open>T\<close> owes: a net amount of whole cents in the interval whose
  taxes complete it to the total, or the refusal when no cents do.
\<close>

definition decomposed :: "string \<Rightarrow> taxOptions \<Rightarrow> guest option \<Rightarrow> taxRule list \<Rightarrow> rat \<Rightarrow> int \<Rightarrow> int
    \<Rightarrow> (string \<times> TaxLineItem list) result \<Rightarrow> bool" where
  "decomposed ct opts g rs T lower upper res \<longleftrightarrow> (case res of
     Inr (b, items) \<Rightarrow> \<exists>c. lower \<le> c \<and> c \<le> upper \<and> exact_gross ct opts g rs (of_int c / 100) = T
       \<and> decimal_text b = Some (of_int c / 100)
       \<and> lines_of items (exact_items ct opts g (of_int c / 100) rs (of_int c / 100))
   | Inl e \<Rightarrow> e = notRepresentable
       \<and> (\<forall>c. lower \<le> c \<and> c \<le> upper \<longrightarrow> exact_gross ct opts g rs (of_int c / 100) \<noteq> T))"

lemma decomposed_extend:
  assumes "decomposed ct opts g rs T lo up res" and "lo' \<le> lo" and "up \<le> up'"
    and "\<And>x. lo' \<le> x \<Longrightarrow> x < lo \<Longrightarrow> exact_gross ct opts g rs (of_int x / 100) \<noteq> T"
    and "\<And>x. up < x \<Longrightarrow> x \<le> up' \<Longrightarrow> exact_gross ct opts g rs (of_int x / 100) \<noteq> T"
  shows "decomposed ct opts g rs T lo' up' res"
proof (cases res)
  case (Inl e)
  have "lo \<le> x \<and> x \<le> up \<or> x < lo \<or> up < x" for x by auto
  with Inl assms show ?thesis by (auto simp: decomposed_def)
next
  case (Inr r)
  with assms(1-3) show ?thesis by (cases r) (force simp: decomposed_def)
qed

lemma decomposed_InlD:
  assumes "decomposed ct opts g rs T 0 n (Inl e)" and "0 \<le> a" and "scaled 2 a"
  shows "exact_gross ct opts g rs a \<noteq> T \<or> of_int n / 100 < a"
proof -
  obtain c where "a * 100 = of_int c" using assms(3) by (auto simp: scaled_def elim!: Ints_cases)
  then have c: "a = of_int c / 100" by simp
  have "0 \<le> c" using assms(2) unfolding c by (simp add: zero_le_divide_iff)
  with assms(1) show ?thesis unfolding c by (cases "c \<le> n") (auto simp: decomposed_def divide_strict_right_mono)
qed

definition activeRules :: "uuid \<Rightarrow> date \<Rightarrow> 'z tax_db_scheme \<Rightarrow> taxRule list" where
  "activeRules p d db = (case getActiveTaxProfile p d db of None \<Rightarrow> [] | Some (_, rs) \<Rightarrow> rs)"

context numerics
begin

lemma addAmounts_val:
  assumes "lines_of items xs" and "\<And>r v. (r, v) \<in> set xs \<Longrightarrow> 0 < v \<and> scaled 2 v"
    and "dval acc = Some x" and "scaled 2 x" and "0 \<le> x" and "x + sum_list (map snd xs) \<le> 10 ^ 7"
  shows "\<exists>d. addAmounts L acc items = Inr d \<and> dval d = Some (x + sum_list (map snd xs))"
  using assms
proof (induction xs arbitrary: items acc x)
  case Nil
  then show ?case by simp
next
  case (Cons p xs)
  obtain r v where p: "p = (r, v)" by (cases p)
  with Cons.prems(1) obtain t ts where it: "items = t # ts" by (cases items) auto
  have v: "0 < v" "scaled 2 v" using Cons.prems(2) [of r v] p by auto
  have nn: "0 \<le> sum_list (map snd xs)"
    using Cons.prems(2) by (intro sum_list_nonneg) (force intro: less_imp_le)
  from Cons.prems(1) have t: "decimal_text (ti_amount t) = Some v" and rest: "lines_of ts xs"
    by (simp_all add: p it lines_of_Cons)
  obtain d where d: "newDecimal L (ti_amount t) = Inr d" "dval d = Some v" using newDecimal_text [OF t] by blast
  have "dval (dec_plus L acc d) = Some (x + v)"
    using Cons.prems d v nn p by (intro plus_cents) auto
  then have "\<exists>e. addAmounts L (dec_plus L acc d) ts = Inr e \<and> dval e = Some (x + v + sum_list (map snd xs))"
    using Cons.prems v p by (intro Cons.IH rest) (auto intro: scaled_add)
  with d(1) show ?case by (simp add: it p add.assoc)
qed

lemma centsText_val:
  assumes "0 \<le> c" and "c < 10 ^ 18"
  shows "\<exists>b. centsText L c = Inr b \<and> decimal_text b = Some (of_int c / 100)"
proof -
  have t: "decimal_text (show_nat (nat c)) = Some (of_int c)"
    using assms(1) by (simp add: decimal_text_show_nat)
  obtain d where d: "newDecimal L (show_nat (nat c)) = Inr d" "dval d = Some (of_int c)"
    using newDecimal_text [OF t] by blast
  have s: "scaled 2 (of_int c / 100)" by (simp add: scaled_def)
  have "rat_of_int c < of_int (10 ^ 18)" using assms(2) by (simp only: of_int_less_iff)
  then have "dval (dec_div L d (dec_int L 100)) = Some (of_int c / 100)"
    using assms by (intro div_val d hundred digits20_cents s) (auto simp: abs_of_nonneg)
  from toFixed_text [OF this, of 2] d(1) show ?thesis by (simp add: centsText_def round_dp_scaled s)
qed

lemma gross_at:
  assumes "list_all rule_ok rs" and "opts_ok opts" and "0 \<le> c"
    and "exact_gross ct opts g rs (of_int c / 100) \<le> 10 ^ 7"
  shows "\<exists>b items start d. centsText L c = Inr b \<and> decimal_text b = Some (of_int c / 100)
    \<and> calculateLoadedTaxes L b ct rs opts g = Inr items
    \<and> lines_of items (exact_items ct opts g (of_int c / 100) rs (of_int c / 100))
    \<and> newDecimal L b = Inr start \<and> addAmounts L start items = Inr d
    \<and> dval d = Some (exact_gross ct opts g rs (of_int c / 100))"
proof -
  let ?a = "rat_of_int c / 100"
  have s: "scaled 2 ?a" by (simp add: scaled_def)
  have nn: "0 \<le> ?a" using assms(3) by simp
  have "?a \<le> 10 ^ 7" using assms(4) exact_gross_ge [of ?a ct opts g rs] by linarith
  then have "rat_of_int c \<le> of_int (10 ^ 9)" by simp
  then have "c \<le> 10 ^ 9" by (simp only: of_int_le_iff)
  then obtain b where b: "centsText L c = Inr b" "decimal_text b = Some ?a"
    using centsText_val [of c] assms(3) by auto
  obtain items where i: "calculateLoadedTaxes L b ct rs opts g = Inr items"
      "lines_of items (exact_items ct opts g ?a rs ?a)"
    using loaded_val [OF assms(1,2) b(2) s nn assms(4)] by (auto simp: lines_of_def)
  obtain st where st: "newDecimal L b = Inr st" "dval st = Some ?a" using newDecimal_text [OF b(2)] by blast
  have "\<exists>d. addAmounts L st items = Inr d \<and> dval d = Some (?a + sum_list (map snd (exact_items ct opts g ?a rs ?a)))"
    by (rule addAmounts_val [OF i(2) _ st(2) s nn]) (use assms(4) in \<open>auto simp: exact_gross_def dest: exact_items_pos\<close>)
  then show ?thesis using b i st by (auto simp: exact_gross_def)
qed

text \<open>
  Binary search over a strictly increasing function: the search finds the cents whose gross is
  the total when the interval holds them, and ends in the refusal when it does not.
\<close>

lemma backSearch_spec:
  assumes "list_all rule_ok rs" and "opts_ok opts" and "dval tot = Some T"
    and "0 \<le> lower" and "exact_gross ct opts g rs (of_int upper / 100) \<le> 10 ^ 7"
  shows "decomposed ct opts g rs T lower upper (backSearch L ct rs opts g tot lower upper)"
  using assms(4,5)
proof (induction "nat (upper + 1 - lower)" arbitrary: lower upper rule: less_induct)
  case less
  let ?G = "\<lambda>c. exact_gross ct opts g rs (of_int c / 100)"
  have mono: "?G x < ?G y" if "0 \<le> x" "x < y" for x y
    using that by (intro exact_gross_strict assms(1,2)) (auto simp: divide_strict_right_mono)
  show ?case
  proof (cases "upper < lower")
    case True
    then show ?thesis by (simp add: backSearch.simps [of L ct rs opts g tot lower upper] decomposed_def)
  next
    case False
    define c where "c = (lower + upper) div 2"
    have c: "lower \<le> c" "c \<le> upper" using False by (auto simp: c_def)
    have below: "?G x \<le> 10 ^ 7" if "0 \<le> x" "x \<le> upper" for x
      using mono [of x upper] that less.prems(2) by (cases "x = upper") auto
    obtain b items st d where e: "centsText L c = Inr b" "decimal_text b = Some (of_int c / 100)"
      "calculateLoadedTaxes L b ct rs opts g = Inr items"
      "lines_of items (exact_items ct opts g (of_int c / 100) rs (of_int c / 100))"
      "newDecimal L b = Inr st" "addAmounts L st items = Inr d" "dval d = Some (?G c)"
      using gross_at [OF assms(1,2), of c ct g] below [of c] less.prems c by auto
    have run: "backSearch L ct rs opts g tot lower upper =
        (if ?G c = T then Inr (b, items)
         else if ?G c < T then backSearch L ct rs opts g tot (c + 1) upper
         else backSearch L ct rs opts g tot lower (c - 1))"
      using False e eq_val [OF e(7) assms(3)] lt_val [OF e(7) assms(3)]
      by (simp add: backSearch.simps [of L ct rs opts g tot lower upper] c_def Let_def)
    consider (eq) "?G c = T" | (lt) "?G c < T" | (gt) "T < ?G c" by linarith
    then show ?thesis
    proof cases
      case eq
      then show ?thesis using run e c by (auto simp: decomposed_def)
    next
      case lt
      have high: "decomposed ct opts g rs T (c + 1) upper (backSearch L ct rs opts g tot (c + 1) upper)"
        using c less.prems by (intro less.hyps) auto
      have "?G x \<noteq> T" if "lower \<le> x" "x < c + 1" for x
        using mono [of x c] that less.prems(1) lt by (cases "x = c") auto
      then have "decomposed ct opts g rs T lower upper (backSearch L ct rs opts g tot (c + 1) upper)"
        using c by (intro decomposed_extend [OF high]) auto
      then show ?thesis using lt unfolding run by simp
    next
      case gt
      have low: "decomposed ct opts g rs T lower (c - 1) (backSearch L ct rs opts g tot lower (c - 1))"
      proof (cases "lower \<le> c - 1")
        case True
        then show ?thesis using c less.prems below [of "c - 1"] by (intro less.hyps) auto
      next
        case False
        then show ?thesis by (simp add: backSearch.simps [of L ct rs opts g tot lower "c - 1"] decomposed_def)
      qed
      have "?G x \<noteq> T" if "c - 1 < x" "x \<le> upper" for x
        using mono [of c x] that less.prems(1) gt c by (cases "x = c") auto
      then have "decomposed ct opts g rs T lower upper (backSearch L ct rs opts g tot lower (c - 1))"
        using c by (intro decomposed_extend [OF low]) auto
      then show ?thesis using gt unfolding run by simp
    qed
  qed
qed

lemma calculateTaxes_val:
  assumes "list_all rule_ok (activeRules p (take 10 d) (wdb w))" and "opts_ok opts"
    and "decimal_text s = Some a" and "scaled 2 a" and "0 \<le> a"
    and "exact_gross ct opts (taxGuest opts (wdb w)) (activeRules p (take 10 d) (wdb w)) a \<le> 10 ^ 7"
  shows "\<exists>items. calculateTaxes L s ct p d opts w = (Inr items, w)
     \<and> lines_of items (exact_items ct opts (taxGuest opts (wdb w)) a (activeRules p (take 10 d) (wdb w)) a)"
proof (cases "getActiveTaxProfile p (take 10 d) (wdb w)")
  case None
  then show ?thesis by (simp add: activeRules_def calculateTaxes_def op_defs)
next
  case (Some pr)
  then show ?thesis
    using loaded_val [OF assms]
    by (cases pr) (auto simp: activeRules_def calculateTaxes_def op_defs lines_of_def)
qed

lemma bigInt_cents:
  assumes "dval tot = Some T" and "scaled 2 T" and "0 \<le> T" and "T \<le> 10 ^ 7"
  shows "\<exists>n. T = of_int n / 100 \<and> bigInt (dec_toFixed L 0 (dec_times L tot (dec_int L 100))) = Inr n
    \<and> dec_isInteger L (dec_times L tot (dec_int L 100))"
proof -
  obtain n where n: "T * 100 = of_int n" using assms(2) by (auto simp: scaled_def elim!: Ints_cases)
  have "digits20 (T * 100)"
    using assms(3,4) n by (intro digits20_bounded [of 0 _ 9]) auto
  then have v: "dval (dec_times L tot (dec_int L 100)) = Some (of_int n)"
    using times_val [OF assms(1) hundred] n by simp
  have "decimal_text (dec_toFixed L 0 (dec_times L tot (dec_int L 100))) = Some (of_int n)"
    using toFixed_text [OF v, of 0] by (simp add: round_dp_scaled)
  then show ?thesis using n isInteger_val [OF v] by (auto simp: bigInt_def field_simps intro!: exI [of _ n])
qed

lemma backCalculate_spec:
  assumes "activeRules p (take 10 d) (wdb w) = rs" and "list_all rule_ok rs" and "opts_ok opts"
    and "decimal_text s = Some T" and "scaled 2 T" and "0 < T"
    and "exact_gross ct opts (taxGuest opts (wdb w)) rs T \<le> 10 ^ 7"
  shows "\<exists>n. T = of_int n / 100 \<and> snd (backCalculateFromInclusive L s ct p d opts w) = w
    \<and> decomposed ct opts (taxGuest opts (wdb w)) rs T 0 n (fst (backCalculateFromInclusive L s ct p d opts w))"
proof (cases "rs = []")
  case True
  obtain n where n: "T * 100 = of_int n" using assms(5) by (auto simp: scaled_def elim!: Ints_cases)
  then have T: "T = of_int n / 100" by simp
  with True assms show ?thesis
    by (auto simp: activeRules_def backCalculateFromInclusive_def op_defs decomposed_def exact_gross_def
        split: option.splits intro!: exI [of _ n])
next
  case False
  then obtain pr where pr: "getActiveTaxProfile p (take 10 d) (wdb w) = Some (pr, rs)"
    using assms(1) by (auto simp: activeRules_def split: option.splits)
  obtain tot where tot: "newDecimal L s = Inr tot" "dval tot = Some T" using newDecimal_text [OF assms(4)] by blast
  have "T \<le> 10 ^ 7" using assms(7) exact_gross_ge [of T ct opts "taxGuest opts (wdb w)" rs] by linarith
  then obtain n where n: "T = of_int n / 100"
      "bigInt (dec_toFixed L 0 (dec_times L tot (dec_int L 100))) = Inr n"
      "dec_isInteger L (dec_times L tot (dec_int L 100))"
    using bigInt_cents [OF tot(2) assms(5)] assms(6) by auto
  have "backCalculateFromInclusive L s ct p d opts w =
      (backSearch L ct rs opts (taxGuest opts (wdb w)) tot 0 n, w)"
    using pr False tot n(2,3) isFinite_val [of tot] isNegative_val [OF tot(2)] assms(6)
    by (simp add: backCalculateFromInclusive_def op_defs)
  with backSearch_spec [OF assms(2,3) tot(2) order.refl assms(7) [unfolded n(1)]]
  have "snd (backCalculateFromInclusive L s ct p d opts w) = w
    \<and> decomposed ct opts (taxGuest opts (wdb w)) rs T 0 n (fst (backCalculateFromInclusive L s ct p d opts w))"
    by simp
  then show ?thesis using n(1) by blast
qed

end

section \<open>Properties\<close>

text \<open>
  C20. Exactness of the tax engine: for a charge in whole cents the taxes of a charge are exactly
  the applicable active rules in their order, each tax computed on the net amount or, when the
  rule compounds, on the net amount plus the taxes so far, and rounded half up to cents; a rule
  whose tax rounds to zero gives no line. The calculation changes nothing.
\<close>

theorem calculateTaxes_exact:
  assumes "numerics L dval" and "list_all rule_ok (activeRules p (take 10 d) (wdb w))" and "opts_ok opts"
    and "decimal_text s = Some a" and "scaled 2 a" and "0 \<le> a"
    and "exact_gross ct opts (taxGuest opts (wdb w)) (activeRules p (take 10 d) (wdb w)) a \<le> 10 ^ 7"
  shows "\<exists>items. calculateTaxes L s ct p d opts w = (Inr items, w)
     \<and> lines_of items (exact_items ct opts (taxGuest opts (wdb w)) a (activeRules p (take 10 d) (wdb w)) a)"
  using numerics.calculateTaxes_val [OF assms] .

text \<open>A property with a room tax of ten percent and a compounding city levy of five percent.\<close>

definition demo_rule :: "string \<Rightarrow> string \<Rightarrow> bool \<Rightarrow> int \<Rightarrow> taxRule" where
  "demo_rule i rate compounding order = \<lparr>tr_id = i, tr_taxProfileId = ''tp'', tr_name = i, tr_code = i,
     tr_type = Percentage, tr_rate = rate, tr_splitPercentage = None, tr_appliesToChargeTypes = Some [''room''],
     tr_exemptions = None, tr_isCompounding = compounding, tr_sortOrder = order, tr_isActive = True,
     tr_effectiveFrom = ''2024-01-01'', tr_effectiveTo = None\<rparr>"

definition demo_tax :: "tax_db world" where
  "demo_tax = \<lparr>wdb = \<lparr>domainEventOutbox = [], auditLogs = [], roomTypes = [], rooms = [],
     housekeepingTasks = [], maintenanceTickets = [], roomInventoryBlocks = [], properties = [demo_property],
     guests = [], bookings = [], reservations = [], reservationGuests = [], ratePlans = [],
     rateRestrictions = [], icalFeeds = [], icalBlocks = [],
     taxProfiles = [\<lparr>tp_id = ''tp'', tp_propertyId = ''p'', tp_name = ''Taxes'', tp_jurisdictionCode = ''X'',
       tp_isActive = True, tp_effectiveFrom = ''2024-01-01'', tp_effectiveTo = None\<rparr>],
     taxRules = [demo_rule ''levy'' ''5.0000'' True 2, demo_rule ''vat'' ''10.0000'' False 1]\<rparr>,
     wevents = []\<rparr>"

definition demo_opts :: taxOptions where
  "demo_opts = \<lparr>to_guestId = None, to_numberOfNights = Some 2, to_nightNumber = Some 1\<rparr>"

definition demo_ruleset :: "taxRule list" where
  "demo_ruleset = [demo_rule ''vat'' ''10.0000'' False 1, demo_rule ''levy'' ''5.0000'' True 2]"

lemma demo_rules: "activeRules ''p'' ''2024-02-28'' (wdb demo_tax) = demo_ruleset"
  by (simp add: demo_ruleset_def activeRules_def getActiveTaxProfile_def demo_tax_def demo_rule_def effectiveOn_def)

lemma demo_rates: "decimal_text ''10.0000'' = Some 10" "decimal_text ''5.0000'' = Some 5"
    "decimal_text ''100.00'' = Some 100" "decimal_text ''115.50'' = Some (231 / 2)"
    "text_val ''10.0000'' = 10" "text_val ''5.0000'' = 5"
  by code_simp+

lemma demo_ok: "list_all rule_ok demo_ruleset"
    "opts_ok demo_opts" "taxGuest demo_opts db = None"
  by (simp_all add: demo_ruleset_def rule_ok_def demo_rule_def demo_rates opts_ok_def demo_opts_def round_dp_def taxGuest_def)

lemma demo_items: "exact_items ''room'' demo_opts None 100
    demo_ruleset 100
    = [(demo_rule ''vat'' ''10.0000'' False 1, 10), (demo_rule ''levy'' ''5.0000'' True 2, 11 / 2)]"
  by (simp add: demo_ruleset_def ruleApplies_def demo_rule_def exact_tax_def demo_rates round_dp_def Let_def)

lemma demo_gross: "exact_gross ''room'' demo_opts None
    demo_ruleset 100 = 231 / 2"
  by (simp add: exact_gross_def demo_items)

lemma demo_gross_bound: "exact_gross ''room'' demo_opts None
    demo_ruleset (231 / 2) \<le> 10 ^ 7"
proof -
  have "round_half_up 1155 = 1155" "round_half_up (2541 / 4) = 635" by code_simp+
  then show ?thesis
    by (simp add: demo_ruleset_def exact_gross_def ruleApplies_def demo_rule_def exact_tax_def demo_rates round_dp_def Let_def)
qed

theorem calculateTaxes_exact_witness:
  "\<exists>items. calculateTaxes ref_numlib ''100.00'' ''room'' ''p'' ''2024-02-28'' demo_opts demo_tax = (Inr items, demo_tax)
     \<and> lines_of items [(demo_rule ''vat'' ''10.0000'' False 1, 10), (demo_rule ''levy'' ''5.0000'' True 2, 11 / 2)]"
  using calculateTaxes_exact [OF ref.numerics_axioms, of "''p''" "''2024-02-28''" demo_tax demo_opts "''100.00''" 100 "''room''"]
  by (simp add: demo_rules demo_ok demo_rates demo_items demo_gross scaled_def)

text \<open>
  C29. Decomposition of a tax-inclusive total, sound and complete: when some nonnegative amount of
  whole cents has taxes that complete it exactly to the total, the binary search ends with that
  net amount and its tax lines; when there is none, it ends with the refusal. It never returns
  lines that do not add up.
\<close>

theorem backCalculate_sound_complete:
  assumes "numerics L dval" and "list_all rule_ok (activeRules p (take 10 d) (wdb w))" and "opts_ok opts"
    and "decimal_text s = Some T" and "scaled 2 T" and "0 < T"
    and "exact_gross ct opts (taxGuest opts (wdb w)) (activeRules p (take 10 d) (wdb w)) T \<le> 10 ^ 7"
  shows "let G = exact_gross ct opts (taxGuest opts (wdb w)) (activeRules p (take 10 d) (wdb w)) in
     if \<exists>a. 0 \<le> a \<and> scaled 2 a \<and> G a = T
     then \<exists>b items a. backCalculateFromInclusive L s ct p d opts w = (Inr (b, items), w)
       \<and> decimal_text b = Some a \<and> 0 \<le> a \<and> scaled 2 a \<and> G a = T
       \<and> lines_of items (exact_items ct opts (taxGuest opts (wdb w)) a (activeRules p (take 10 d) (wdb w)) a)
     else backCalculateFromInclusive L s ct p d opts w = (Inl notRepresentable, w)"
proof -
  let ?rs = "activeRules p (take 10 d) (wdb w)" and ?g = "taxGuest opts (wdb w)"
  let ?run = "backCalculateFromInclusive L s ct p d opts w"
  obtain n where n: "T = of_int n / 100" "snd ?run = w" "decomposed ct opts ?g ?rs T 0 n (fst ?run)"
    using numerics.backCalculate_spec [OF assms(1) refl assms(2-7)] by blast
  show ?thesis
  proof (cases "fst ?run")
    case (Inl e)
    have "exact_gross ct opts ?g ?rs a \<noteq> T" if "0 \<le> a" "scaled 2 a" for a
      using decomposed_InlD [OF n(3) [unfolded Inl] that] exact_gross_ge [of a ct opts ?g ?rs] n(1)
      by fastforce
    with Inl n(2,3) show ?thesis by (auto simp: decomposed_def Let_def prod_eq_iff)
  next
    case (Inr r)
    then obtain b items c where "r = (b, items)" "0 \<le> c" "exact_gross ct opts ?g ?rs (of_int c / 100) = T"
      "decimal_text b = Some (of_int c / 100)"
      "lines_of items (exact_items ct opts ?g (of_int c / 100) ?rs (of_int c / 100))"
      using n(3) by (cases r) (auto simp: decomposed_def)
    moreover from this(2) have "0 \<le> rat_of_int c / 100" "scaled 2 (rat_of_int c / 100)"
      by (simp_all add: scaled_def)
    moreover have "?run = (Inr r, w)" using Inr n(2) by (simp add: prod_eq_iff)
    ultimately show ?thesis unfolding Let_def by (metis (no_types, lifting))
  qed
qed

theorem backCalculate_sound_complete_witness:
  "\<exists>b items a. backCalculateFromInclusive ref_numlib ''115.50'' ''room'' ''p'' ''2024-02-28'' demo_opts demo_tax
      = (Inr (b, items), demo_tax) \<and> decimal_text b = Some a
     \<and> exact_gross ''room'' demo_opts None demo_ruleset a = 231 / 2"
proof -
  have "\<exists>a. 0 \<le> a \<and> scaled 2 a \<and> exact_gross ''room'' demo_opts None
      demo_ruleset a = 231 / 2"
    by (rule exI [of _ 100]) (simp add: demo_gross scaled_def)
  moreover have "scaled 2 (231 / 2)" by (simp add: scaled_def)
  ultimately show ?thesis
    using backCalculate_sound_complete [OF ref.numerics_axioms, of "''p''" "''2024-02-28''" demo_tax demo_opts "''115.50''" "231 / 2" "''room''"]
      demo_gross_bound
    by (auto simp: demo_rules demo_ok demo_rates Let_def)
qed

text \<open>
  C33. Round trip between net and inclusive prices: decomposing the net amount plus the tax lines
  posted for it gives back the net amount and the same lines.
\<close>

theorem inclusive_roundtrip:
  assumes "numerics L dval" and "list_all rule_ok (activeRules p (take 10 d) (wdb w))" and "opts_ok opts"
    and "decimal_text s = Some a" and "scaled 2 a" and "0 < a"
    and "calculateTaxes L s ct p d opts w = (Inr items, w)"
    and "decimal_text t = Some (a + (\<Sum>i\<leftarrow>items. text_val (ti_amount i)))"
    and "let G = exact_gross ct opts (taxGuest opts (wdb w)) (activeRules p (take 10 d) (wdb w)) in G (G a) \<le> 10 ^ 7"
  shows "\<exists>b items'. backCalculateFromInclusive L t ct p d opts w = (Inr (b, items'), w)
     \<and> decimal_text b = Some a
     \<and> map (\<lambda>i. (ti_name i, ti_code i, ti_rate i, decimal_text (ti_amount i))) items'
       = map (\<lambda>i. (ti_name i, ti_code i, ti_rate i, decimal_text (ti_amount i))) items"
proof -
  let ?rs = "activeRules p (take 10 d) (wdb w)" and ?g = "taxGuest opts (wdb w)"
  let ?G = "exact_gross ct opts ?g ?rs" and ?run = "backCalculateFromInclusive L t ct p d opts w"
  let ?xs = "exact_items ct opts ?g a ?rs a"
  have GG: "?G (?G a) \<le> 10 ^ 7" using assms(9) by (simp add: Let_def)
  have ge: "a \<le> ?G a" by (rule exact_gross_ge)
  have "?G a \<le> ?G (?G a)" using assms(2,3,6) ge by (intro exact_gross_mono) auto
  then have bound: "?G a \<le> 10 ^ 7" using GG by linarith
  have items: "lines_of items ?xs"
    using numerics.calculateTaxes_val [OF assms(1-5) less_imp_le [OF assms(6)] bound] assms(7) by auto
  then have t: "decimal_text t = Some (?G a)"
    using assms(8) by (simp add: lines_of_sum exact_gross_def)
  obtain n where n: "?G a = of_int n / 100" "snd ?run = w" "decomposed ct opts ?g ?rs (?G a) 0 n (fst ?run)"
    using numerics.backCalculate_spec [OF assms(1) refl assms(2,3) t exact_gross_scaled [OF assms(5)] _ GG]
      ge assms(6) by auto
  show ?thesis
  proof (cases "fst ?run")
    case (Inl e)
    with decomposed_InlD [OF _ less_imp_le [OF assms(6)] assms(5)] n ge show ?thesis by fastforce
  next
    case (Inr r)
    then obtain b its c where r: "r = (b, its)" and c: "0 \<le> c" "?G (of_int c / 100) = ?G a"
      and b: "decimal_text b = Some (of_int c / 100)"
      and its: "lines_of its (exact_items ct opts ?g (of_int c / 100) ?rs (of_int c / 100))"
      using n(3) by (cases r) (auto simp: decomposed_def)
    have "of_int c / 100 = a"
      using exact_gross_inj [OF assms(2,3) _ less_imp_le [OF assms(6)] c(2)] c(1) by simp
    then show ?thesis using items its b r Inr n(2) by (simp add: lines_of_def prod_eq_iff [of ?run])
  qed
qed

theorem inclusive_roundtrip_witness:
  "\<exists>items b items'. calculateTaxes ref_numlib ''100.00'' ''room'' ''p'' ''2024-02-28'' demo_opts demo_tax = (Inr items, demo_tax)
     \<and> backCalculateFromInclusive ref_numlib ''115.50'' ''room'' ''p'' ''2024-02-28'' demo_opts demo_tax
      = (Inr (b, items'), demo_tax) \<and> decimal_text b = Some 100 \<and> length items' = length items"
proof -
  have s: "scaled 2 100" by (simp add: scaled_def)
  obtain items where i: "calculateTaxes ref_numlib ''100.00'' ''room'' ''p'' ''2024-02-28'' demo_opts demo_tax = (Inr items, demo_tax)"
      "lines_of items [(demo_rule ''vat'' ''10.0000'' False 1, 10), (demo_rule ''levy'' ''5.0000'' True 2, 11 / 2)]"
    using ref.calculateTaxes_val [of "''p''" "''2024-02-28''" demo_tax demo_opts "''100.00''" 100 "''room''"] s
    by (auto simp: demo_rules demo_ok demo_rates demo_items demo_gross)
  have t: "decimal_text ''115.50'' = Some (100 + (\<Sum>i\<leftarrow>items. text_val (ti_amount i)))"
    using lines_of_sum [OF i(2)] by (simp add: demo_rates)
  have "\<exists>b items'. backCalculateFromInclusive ref_numlib ''115.50'' ''room'' ''p'' ''2024-02-28'' demo_opts demo_tax
      = (Inr (b, items'), demo_tax) \<and> decimal_text b = Some 100
     \<and> map (\<lambda>i. (ti_name i, ti_code i, ti_rate i, decimal_text (ti_amount i))) items'
       = map (\<lambda>i. (ti_name i, ti_code i, ti_rate i, decimal_text (ti_amount i))) items"
    using demo_gross_bound
    by (intro inclusive_roundtrip [OF ref.numerics_axioms _ demo_ok(2) demo_rates(3) s _ i(1) t])
       (simp_all add: demo_rules demo_ok demo_gross Let_def)
  then obtain b items' where r: "backCalculateFromInclusive ref_numlib ''115.50'' ''room'' ''p'' ''2024-02-28'' demo_opts demo_tax
      = (Inr (b, items'), demo_tax)" "decimal_text b = Some 100"
    and m: "map (\<lambda>i. (ti_name i, ti_code i, ti_rate i, decimal_text (ti_amount i))) items'
       = map (\<lambda>i. (ti_name i, ti_code i, ti_rate i, decimal_text (ti_amount i))) items" by blast
  have "length items' = length items" using arg_cong [OF m, of length] by simp
  with r i(1) show ?thesis by blast
qed

end
