(* ===== verification/Doubles.thy ===== *)
theory Doubles
  imports Complex_Main "HOL-Library.Log_Nat"
begin

text \<open>
  The numbers of the language: IEEE 754 double precision. A nonnegative result is the exact
  result rounded to 53 significant bits, ties to even; the quantities here are far from the
  exponent limits. Shown: rounding keeps the order against the integers below \<open>2 ^ 53\<close>, which
  is what the integer code computed through doubles relies on.
\<close>

section \<open>Rounding\<close>

definition round_half_even :: "rat \<Rightarrow> int" where
  "round_half_even y = (let f = \<lfloor>y\<rfloor>; r = y - of_int f in
     if r < 1 / 2 then f else if 1 / 2 < r then f + 1 else if even f then f else f + 1)"

text \<open>The exponent of the leading binary digit of a positive number.\<close>

definition lead_exp :: "rat \<Rightarrow> int" where
  "lead_exp x = (let (a, b) = quotient_of x; k = int (floorlog 2 (nat a)) - int (floorlog 2 (nat b)) in
     if 2 powi k \<le> x then k else k - 1)"

definition fl :: "rat \<Rightarrow> rat" where
  "fl x = (if x \<le> 0 then 0
     else let u = 2 powi (lead_exp x - 52) in of_int (round_half_even (x / u)) * u)"

lemma round_half_even_le: "y \<le> of_int n \<Longrightarrow> round_half_even y \<le> n"
proof -
  assume le: "y \<le> of_int n"
  show ?thesis
  proof (cases "\<lfloor>y\<rfloor> = n")
    case True
    with le have "y = of_int n" by linarith
    with True show ?thesis by (simp add: round_half_even_def)
  next
    case False
    with le have "\<lfloor>y\<rfloor> + 1 \<le> n" by linarith
    then show ?thesis by (auto simp: round_half_even_def Let_def)
  qed
qed

lemma round_half_even_ge: "of_int n \<le> y \<Longrightarrow> n \<le> round_half_even y"
proof -
  assume "of_int n \<le> y"
  then have "n \<le> \<lfloor>y\<rfloor>" by (simp add: le_floor_iff)
  then show ?thesis by (auto simp: round_half_even_def Let_def)
qed

lemma lead_exp_bounds:
  assumes "0 < x"
  shows "2 powi lead_exp x \<le> x" and "x < 2 powi (lead_exp x + 1)"
proof -
  obtain a b where q: "quotient_of x = (a, b)" by (cases "quotient_of x")
  have b: "0 < b" using quotient_of_denom_pos [OF q] .
  have x: "x = of_int a / of_int b" using quotient_of_div [OF q] .
  have a: "0 < a" using assms b unfolding x by (simp add: zero_less_divide_iff)
  define m n where "m = floorlog 2 (nat a)" and "n = floorlog 2 (nat b)"
  have m: "0 < m" "2 ^ (m - 1) \<le> nat a"
    using a floorlog_bounds [of "nat a" 2] by (simp_all add: m_def floorlog_def)
  have n: "0 < n" "2 ^ (n - 1) \<le> nat b" "nat b < 2 ^ n"
    using b floorlog_bounds [of "nat b" 2] by (simp_all add: n_def floorlog_def)
  have m3: "nat a < 2 ^ m" using a floorlog_bounds [of "nat a" 2] by (simp add: m_def)
  have m': "(2::rat) ^ (m - 1) \<le> of_int a"
  proof -
    have "int (2 ^ (m - 1)) \<le> a" using m(2) a by linarith
    then have "rat_of_int (int (2 ^ (m - 1))) \<le> of_int a" by (simp only: of_int_le_iff)
    then show ?thesis by simp
  qed
  have n': "rat_of_int b \<le> 2 ^ n"
  proof -
    have "b \<le> int (2 ^ n)" using n(3) b by linarith
    then have "rat_of_int b \<le> of_int (int (2 ^ n))" by (simp only: of_int_le_iff)
    then show ?thesis by simp
  qed
  obtain j where j: "m = Suc j" using m(1) by (cases m) auto
  have "(2::rat) powi (int m - int n - 1) = 2 ^ (m - 1) / 2 ^ n"
    by (simp add: j power_int_diff)
  also have "\<dots> \<le> of_int a / of_int b" using m' n' a b by (intro frac_le) auto
  finally have low: "(2::rat) powi (int m - int n - 1) \<le> x" by (simp add: x)
  obtain i where i: "n = Suc i" using n(1) by (cases n) auto
  have a': "rat_of_int a < 2 ^ m"
  proof -
    have "a < int (2 ^ m)" using m3 a by linarith
    then have "rat_of_int a < of_int (int (2 ^ m))" by (simp only: of_int_less_iff)
    then show ?thesis by simp
  qed
  have b': "(2::rat) ^ i \<le> of_int b"
  proof -
    have "int (2 ^ i) \<le> b" using n(2) b i by simp
    then have "rat_of_int (int (2 ^ i)) \<le> of_int b" by (simp only: of_int_le_iff)
    then show ?thesis by simp
  qed
  have "rat_of_int a / of_int b < 2 ^ m / 2 ^ i" using a' b' a b by (intro frac_less) auto
  also have "\<dots> = 2 powi (int m - int n + 1)" by (simp add: i power_int_diff)
  finally have high: "x < 2 powi (int m - int n + 1)" by (simp add: x)
  show "2 powi lead_exp x \<le> x" using low by (auto simp: lead_exp_def q m_def n_def Let_def)
  show "x < 2 powi (lead_exp x + 1)" using high by (auto simp: lead_exp_def q m_def n_def Let_def)
qed

lemma lead_exp_eq:
  assumes "2 powi e \<le> x" and "x < 2 powi (e + 1)"
  shows "lead_exp x = e"
proof -
  have x: "0 < x" using assms(1) by (rule less_le_trans [rotated]) simp
  have mono: "(2::rat) powi i \<le> 2 powi j" if "i \<le> j" for i j using that by (intro power_int_increasing) auto
  have "\<not> e + 1 \<le> lead_exp x" using mono [of "e + 1" "lead_exp x"] lead_exp_bounds(1) [OF x] assms(2) by linarith
  moreover have "\<not> lead_exp x + 1 \<le> e" using mono [of "lead_exp x + 1" e] lead_exp_bounds(2) [OF x] assms(1) by linarith
  ultimately show ?thesis by linarith
qed

lemma fl_nonneg: "0 \<le> fl x"
  using round_half_even_ge [of 0 "x / 2 powi (lead_exp x - 52)"]
  by (auto simp: fl_def Let_def)

text \<open>A bound that is an integer below \<open>2 ^ 53\<close> survives the rounding.\<close>

lemma fl_le_int:
  assumes "x \<le> of_int n" and "n < 2 ^ 53"
  shows "fl x \<le> of_int (max n 0)"
proof (cases "x \<le> 0")
  case True
  then show ?thesis by (simp add: fl_def)
next
  case False
  then have x: "0 < x" by simp
  with assms(1) have n: "0 < n" by (metis less_le_trans of_int_0_less_iff)
  have "(2::rat) powi lead_exp x \<le> of_int n" using lead_exp_bounds(1) [OF x] assms(1) by linarith
  also have "rat_of_int n < of_int (2 ^ 53)" using assms(2) by (simp only: of_int_less_iff)
  finally have "(2::rat) powi lead_exp x < 2 powi 53" by simp
  then have "lead_exp x < 53" using power_int_le_imp_less_exp [of "2::rat" "lead_exp x" 53] by simp
  then obtain k where "52 - lead_exp x = int k" using nonneg_int_cases [of "52 - lead_exp x"] by auto
  then have k: "lead_exp x - 52 = - int k" by simp
  have u: "(2::rat) powi (lead_exp x - 52) = 1 / 2 ^ k" by (simp add: k power_int_minus field_simps)
  have "x / (1 / 2 ^ k) \<le> of_int (n * 2 ^ k)" using assms(1) by simp
  then have "round_half_even (x / (1 / 2 ^ k)) \<le> n * 2 ^ k" by (rule round_half_even_le)
  then have "rat_of_int (round_half_even (x / (1 / 2 ^ k))) \<le> of_int (n * 2 ^ k)" by (simp only: of_int_le_iff)
  then show ?thesis using x n by (simp add: fl_def u Let_def divide_le_eq del: divide_divide_eq_right)
qed

text \<open>A product of doubles can fall short of the exact product.\<close>

lemma fl_29_percent: "\<lfloor>fl (100 * fl (29 / 100))\<rfloor> = 28"
proof -
  have p: "(2::rat) powi (- 2) = 1 / 4" "(2::rat) powi (- 1) = 1 / 2" "(2::rat) powi 4 = 16" "(2::rat) powi 5 = 32"
      "(2::rat) powi (- 54) = 1 / 18014398509481984" "(2::rat) powi (- 48) = 1 / 281474976710656"
    by (simp_all add: power_int_def power_divide)
  have e1: "lead_exp (29 / 100) = - 2" by (rule lead_exp_eq) (simp_all add: p)
  have "\<lfloor>29 / 100 * 18014398509481984 :: rat\<rfloor> = 5224175567749775" by (rule floor_unique) auto
  then have f1: "fl (29 / 100) = 5224175567749775 / 18014398509481984"
    by (simp add: fl_def e1 p round_half_even_def Let_def)
  have e2: "lead_exp (100 * (5224175567749775 / 18014398509481984)) = 4" by (rule lead_exp_eq) (simp_all add: p)
  have "\<lfloor>100 * (5224175567749775 / 18014398509481984) * 281474976710656 :: rat\<rfloor> = 8162774324609023"
    by (rule floor_unique) auto
  then have f2: "fl (100 * (5224175567749775 / 18014398509481984)) = 8162774324609023 / 281474976710656"
    using e2 by (simp add: fl_def p round_half_even_def Let_def)
  show ?thesis unfolding f1 f2 by (rule floor_unique) auto
qed

lemma fl_0 [simp]: "fl 0 = 0"
  by (simp add: fl_def)

end
