(* ===== verification/Availability.thy ===== *)
theory Availability
  imports Tax Doubles
begin

text \<open>
  What can be sold: \<open>AvailabilityService\<close> and \<open>assertFullStayAvailability\<close>
  (\<open>apps/api/src/modules/reservation/availability.service.ts\<close>) and the sales controls of a
  rate plan, \<open>RatePlanService.assertSellable\<close>
  (\<open>apps/api/src/modules/rate-plan/rate-plan.service.ts\<close>). Shown: the rows computed from the
  few prefetched queries are the counts over the whole database, night by night; the bounds
  of every count; and when a rate plan may be sold.
\<close>

section \<open>Availability\<close>

record AvailabilityResult =
  av_roomTypeId :: uuid
  av_roomTypeName :: string
  av_date :: date
  av_totalRooms :: int
  av_sold :: int
  av_available :: int
  av_overbookingBuffer :: int
  av_outOfOrder :: int
  av_capacityShortfall :: "int option"

text \<open>A planned block joined with its room: room, room type, first night.\<close>

record plannedBlock =
  pb_roomId :: uuid
  pb_roomTypeId :: uuid
  pb_startDate :: date

record availabilityOptions =
  ao_excludeReservationId :: "uuid option"
  ao_excludeInventoryBlockId :: "uuid option"
  ao_includeCapacity :: bool
  ao_additionalBlocks :: "plannedBlock list option"

definition noOptions :: availabilityOptions where
  "noOptions = \<lparr>ao_excludeReservationId = None, ao_excludeInventoryBlockId = None,
     ao_includeCapacity = False, ao_additionalBlocks = None\<rparr>"

text \<open>\<open>new Map(rows.map((row) => [row.date, row]))\<close>: the last row of a date wins.\<close>

definition assertFullStayAvailability :: "AvailabilityResult list \<Rightarrow> uuid \<Rightarrow> date \<Rightarrow> date \<Rightarrow> unit result" where
  "assertFullStayAvailability rows roomTypeId checkIn checkOut =
     (let ofType = filter (\<lambda>row. av_roomTypeId row = roomTypeId) rows;
          byDate = (\<lambda>d. sel1 (\<lambda>row. av_date row = d) (rev ofType)) in
      bindR (stayDates checkIn checkOut) (\<lambda>ds.
      case List.find (\<lambda>d. case byDate d of None \<Rightarrow> True | Some row \<Rightarrow> av_available row \<le> 0) ds of
        None \<Rightarrow> Inr ()
      | Some d \<Rightarrow> Inl (BadRequestException (''No availability for room type '' @ roomTypeId @ '' on '' @ d))))"

definition excludedStatuses :: "ReservationStatus list" where
  "excludedStatuses = [RsCancelled, RsNoShow, RsCheckedOut]"

definition overlappingReservations :: "uuid \<Rightarrow> date \<Rightarrow> date \<Rightarrow> uuid option \<Rightarrow> uuid option
    \<Rightarrow> 'z stay_db_scheme \<Rightarrow> reservation list" where
  "overlappingReservations p checkIn checkOut roomTypeId exclude db =
     filter (\<lambda>r. rv_propertyId r = p \<and> Some (rv_id r) \<noteq> exclude)
       (filter (\<lambda>r. rv_propertyId r = p \<and> rv_status r \<notin> set excludedStatuses
          \<and> rv_arrivalDate r < checkOut \<and> checkIn < rv_departureDate r
          \<and> (present roomTypeId \<longrightarrow> rv_roomTypeId r = the roomTypeId)
          \<and> (present exclude \<longrightarrow> rv_id r \<noteq> the exclude)) (reservations db))"

text \<open>The grouped query over the active rooms of the property: \<open>count(*)\<close> of one room type.\<close>

definition roomCount :: "uuid \<Rightarrow> uuid \<Rightarrow> (room \<Rightarrow> bool) \<Rightarrow> 'z stay_db_scheme \<Rightarrow> int" where
  "roomCount p t cond db = int (length (filter (\<lambda>r. ro_propertyId r = p \<and> ro_isActive r
     \<and> ro_roomTypeId r = t \<and> cond r) (rooms db)))"

definition outOfUse :: "room \<Rightarrow> bool" where
  "outOfUse r \<longleftrightarrow> ro_status r \<in> {OutOfOrder, OutOfService}"

definition plannedBlocks :: "uuid \<Rightarrow> date \<Rightarrow> uuid option \<Rightarrow> 'z stay_db_scheme \<Rightarrow> plannedBlock list" where
  "plannedBlocks p checkOut excludeBlock db =
     [\<lparr>pb_roomId = ib_roomId b, pb_roomTypeId = ro_roomTypeId r, pb_startDate = ib_startDate b\<rparr>.
        b \<leftarrow> filter (activeInventoryBlock p checkOut None excludeBlock) (roomInventoryBlocks db),
        r \<leftarrow> filter (\<lambda>r. ro_id r = ib_roomId b \<and> ro_propertyId r = p \<and> ro_isActive r \<and> \<not> outOfUse r)
          (rooms db)]"

definition importFeed :: "uuid \<Rightarrow> icalFeed \<Rightarrow> bool" where
  "importFeed p f \<longleftrightarrow> if_propertyId f = p \<and> if_isActive f \<and> if_direction f = ''import''"

definition overlappingIcalBlocks :: "uuid \<Rightarrow> date \<Rightarrow> date \<Rightarrow> uuid option \<Rightarrow> 'z stay_db_scheme \<Rightarrow> icalBlock list" where
  "overlappingIcalBlocks p checkIn checkOut roomTypeId db =
     [b. b \<leftarrow> filter (\<lambda>b. ic_propertyId b = p \<and> ic_startDate b < checkOut \<and> checkIn < ic_endDate b
            \<and> (present roomTypeId \<longrightarrow> ic_roomTypeId b = the roomTypeId)) (icalBlocks db),
         f \<leftarrow> filter (\<lambda>f. if_id f = ic_feedId b \<and> importFeed p f) (icalFeeds db)]"

text \<open>\<open>Math.floor(sellableRooms * (overbookingPct / 100))\<close> in double precision.\<close>

definition overbookingBuffer :: "int \<Rightarrow> int \<Rightarrow> int" where
  "overbookingBuffer sellableRooms overbookingPct = \<lfloor>fl (of_int sellableRooms * fl (of_int overbookingPct / 100))\<rfloor>"

definition availabilityRow :: "availabilityOptions \<Rightarrow> int \<Rightarrow> reservation list \<Rightarrow> icalBlock list \<Rightarrow> plannedBlock list
    \<Rightarrow> int \<Rightarrow> int \<Rightarrow> roomType \<Rightarrow> date \<Rightarrow> AvailabilityResult" where
  "availabilityRow opts overbookingPct overlapping icals planned totalRooms blocked t d =
     (let sold = int (length (filter (\<lambda>r. rv_roomTypeId r = rt_id t \<and> rv_arrivalDate r \<le> d
            \<and> d < rv_departureDate r) overlapping));
          importedBusy = int (card (ic_feedId ` set (filter (\<lambda>b. ic_roomTypeId b = rt_id t
            \<and> ic_startDate b \<le> d \<and> d < ic_endDate b) icals)));
          plannedCount = int (card (pb_roomId ` set (filter (\<lambda>b. pb_roomTypeId b = rt_id t \<and> pb_startDate b \<le> d)
            (planned @ nvl (ao_additionalBlocks opts) []))));
          sellableRooms = max 0 (totalRooms - blocked - plannedCount);
          buffer = overbookingBuffer sellableRooms overbookingPct;
          available = sellableRooms + buffer - sold - importedBusy
      in \<lparr>av_roomTypeId = rt_id t, av_roomTypeName = rt_name t, av_date = d, av_totalRooms = totalRooms,
          av_sold = sold + importedBusy, av_available = max 0 available, av_overbookingBuffer = buffer,
          av_outOfOrder = min totalRooms (blocked + plannedCount),
          av_capacityShortfall = (if ao_includeCapacity opts then Some (max 0 (- available)) else None)\<rparr>)"

definition searchAvailability :: "uuid \<Rightarrow> date \<Rightarrow> date \<Rightarrow> uuid option \<Rightarrow> availabilityOptions \<Rightarrow> 'z stay_db_scheme
    \<Rightarrow> AvailabilityResult list result" where
  "searchAvailability p checkIn checkOut roomTypeId opts db =
     bindR (stayDates checkIn checkOut) (\<lambda>requestedDates.
     let overbookingPct = (case sel1 (\<lambda>q. pr_id q = p) (properties db) of None \<Rightarrow> 0
           | Some q \<Rightarrow> pr_overbookingPercentage q);
         types = filter (\<lambda>t. rt_propertyId t = p \<and> rt_isActive t
           \<and> (present roomTypeId \<longrightarrow> rt_id t = the roomTypeId)) (roomTypes db);
         overlapping = overlappingReservations p checkIn checkOut roomTypeId (ao_excludeReservationId opts) db;
         planned = plannedBlocks p checkOut (ao_excludeInventoryBlockId opts) db;
         icals = overlappingIcalBlocks p checkIn checkOut roomTypeId db
     in Inr (concat (map (\<lambda>t.
          let totalRooms = (if rt_maxOccupancy t \<noteq> 0 then roomCount p (rt_id t) (\<lambda>_. True) db else 0);
              blocked = roomCount p (rt_id t) outOfUse db
          in map (availabilityRow opts overbookingPct overlapping icals planned totalRooms blocked t) requestedDates)
          types)))"

section \<open>Sales controls of a rate plan\<close>

text \<open>The service instance of a price preview carries a draft plan with its restrictions.\<close>

type_synonym pricingDraft = "(ratePlan \<times> rateRestriction list) option"

definition isDraft :: "pricingDraft \<Rightarrow> uuid \<Rightarrow> uuid \<Rightarrow> bool" where
  "isDraft draft i p \<longleftrightarrow> (case draft of None \<Rightarrow> False | Some (q, _) \<Rightarrow> rp_id q = i \<and> rp_propertyId q = p)"

definition findRatePlan :: "pricingDraft \<Rightarrow> uuid \<Rightarrow> uuid \<Rightarrow> 'z stay_db_scheme \<Rightarrow> ratePlan result" where
  "findRatePlan draft i p db =
     (if isDraft draft i p then Inr (fst (the draft))
      else case sel1 (\<lambda>q. rp_id q = i \<and> rp_propertyId q = p) (ratePlans db) of
        None \<Rightarrow> Inl (NotFoundException (''Rate plan '' @ i @ '' not found''))
      | Some q \<Rightarrow> Inr q)"

text \<open>
  \<open>addDaysIso\<close> back or forth by whole days; an invalid date makes \<open>toISOString\<close> throw. Dates
  before year zero are outside the texts the service meets.
\<close>

definition addDaysIso :: "date \<Rightarrow> int \<Rightarrow> date result" where
  "addDaysIso d k = (case (if iso_pattern d then parse_utc d else None) of
     None \<Rightarrow> Inl RangeError
   | Some n \<Rightarrow> if int n + k < 0 then Inl RangeError else Inr (iso_of_day (nat (int n + k))))"

definition restrictionApplies :: "date \<Rightarrow> date \<Rightarrow> date \<Rightarrow> rateRestriction \<Rightarrow> bool" where
  "restrictionApplies checkIn checkOut lastConsumedNight r \<longleftrightarrow>
     (re_startDate r \<le> lastConsumedNight \<or> (re_closedToDeparture r \<and> re_startDate r \<le> checkOut))
     \<and> checkIn \<le> re_endDate r"

definition covers :: "rateRestriction \<Rightarrow> date \<Rightarrow> bool" where
  "covers r d \<longleftrightarrow> re_startDate r \<le> d \<and> d \<le> re_endDate r"

text \<open>The two folds over the optional limits; a limit of zero is no limit.\<close>

definition minLosOf :: "rateRestriction list \<Rightarrow> int option" where
  "minLosOf rs = foldl (\<lambda>m r. if truthy (re_minLos r) then Some (max (nvl m 0) (the (re_minLos r))) else m) None rs"

definition maxLosOf :: "rateRestriction list \<Rightarrow> int option" where
  "maxLosOf rs = foldl (\<lambda>m r. if truthy (re_maxLos r)
      then Some (case m of None \<Rightarrow> the (re_maxLos r) | Some x \<Rightarrow> min x (the (re_maxLos r))) else m) None rs"

definition showInt :: "int \<Rightarrow> string" where
  "showInt n = (if n < 0 then CHR ''-'' # show_nat (nat (- n)) else show_nat (nat n))"

definition stayNights :: "date \<Rightarrow> date \<Rightarrow> int option" where
  "stayNights checkIn checkOut = (case (if iso_pattern checkIn then parse_utc checkIn else None) of
     None \<Rightarrow> None
   | Some a \<Rightarrow> (case (if iso_pattern checkOut then parse_utc checkOut else None) of
       None \<Rightarrow> None | Some b \<Rightarrow> Some (int b - int a)))"

definition bad :: "bool \<Rightarrow> string \<Rightarrow> unit result" where
  "bad b message = (if b then Inl (BadRequestException message) else Inr ())"

definition assertSellable :: "pricingDraft \<Rightarrow> uuid \<Rightarrow> uuid \<Rightarrow> date \<Rightarrow> date \<Rightarrow> 'z stay_db_scheme \<Rightarrow> unit result" where
  "assertSellable draft p ratePlanId checkIn checkOut db =
     (let nights = nvl (stayNights checkIn checkOut) 0 in
      bindR (bad (\<not> 0 < nights) ''Check-out must be after check-in'') (\<lambda>_.
      bindR (findRatePlan draft ratePlanId p db) (\<lambda>plan.
      bindR (bad (\<not> rp_isActive plan) ''Rate plan is inactive'') (\<lambda>_.
      bindR (addDaysIso checkOut (- 1)) (\<lambda>lastConsumedNight.
      bindR (bad ((present (rp_validFrom plan) \<and> checkIn < the (rp_validFrom plan))
                \<or> (present (rp_validTo plan) \<and> the (rp_validTo plan) < lastConsumedNight))
         ''Rate plan is not valid for the complete stay'') (\<lambda>_.
      let restrictions = (if isDraft draft ratePlanId p
            then filter (restrictionApplies checkIn checkOut lastConsumedNight) (snd (the draft))
            else filter (\<lambda>r. re_propertyId r = p \<and> re_ratePlanId r = ratePlanId
              \<and> restrictionApplies checkIn checkOut lastConsumedNight r) (rateRestrictions db));
          soldNightRestrictions = filter (\<lambda>r. re_startDate r \<le> lastConsumedNight \<and> checkIn \<le> re_endDate r) restrictions;
          minLos = minLosOf soldNightRestrictions; maxLos = maxLosOf soldNightRestrictions in
      bindR (bad (list_ex re_isClosed soldNightRestrictions)
         ''Rate plan is closed (stop-sell) for the selected dates'') (\<lambda>_.
      bindR (bad (list_ex (\<lambda>r. re_closedToArrival r \<and> covers r checkIn) restrictions)
         ''Rate plan is closed to arrival on the check-in date'') (\<lambda>_.
      bindR (bad (list_ex (\<lambda>r. re_closedToDeparture r \<and> covers r checkOut) restrictions)
         ''Rate plan is closed to departure on the check-out date'') (\<lambda>_.
      bindR (bad (truthy minLos \<and> nights < the minLos)
         (''Minimum length of stay is '' @ showInt (the minLos) @ '' night(s)'')) (\<lambda>_.
      bad (truthy maxLos \<and> the maxLos < nights)
         (''Maximum length of stay is '' @ showInt (the maxLos) @ '' night(s)'')))))))))))"

section \<open>Counts over the whole database\<close>

definition holdsRoom :: "uuid \<Rightarrow> uuid \<Rightarrow> date \<Rightarrow> uuid option \<Rightarrow> reservation \<Rightarrow> bool" where
  "holdsRoom p t d exclude r \<longleftrightarrow> rv_propertyId r = p \<and> rv_roomTypeId r = t
     \<and> rv_status r \<notin> {RsCancelled, RsNoShow, RsCheckedOut} \<and> Some (rv_id r) \<noteq> exclude
     \<and> rv_arrivalDate r \<le> d \<and> d < rv_departureDate r"

definition soldOn :: "uuid \<Rightarrow> uuid \<Rightarrow> date \<Rightarrow> uuid option \<Rightarrow> 'z stay_db_scheme \<Rightarrow> int" where
  "soldOn p t d exclude db = int (length (filter (holdsRoom p t d exclude) (reservations db)))"

definition busyFeeds :: "uuid \<Rightarrow> uuid \<Rightarrow> date \<Rightarrow> 'z stay_db_scheme \<Rightarrow> uuid set" where
  "busyFeeds p t d db = {i. \<exists>f\<in>set (icalFeeds db). \<exists>b\<in>set (icalBlocks db). if_id f = i \<and> importFeed p f
     \<and> ic_feedId b = i \<and> ic_propertyId b = p \<and> ic_roomTypeId b = t \<and> ic_startDate b \<le> d \<and> d < ic_endDate b}"

definition plannedRooms :: "uuid \<Rightarrow> uuid \<Rightarrow> date \<Rightarrow> availabilityOptions \<Rightarrow> 'z stay_db_scheme \<Rightarrow> uuid set" where
  "plannedRooms p t d opts db =
     {i. \<exists>r\<in>set (rooms db). \<exists>b\<in>set (roomInventoryBlocks db). ro_id r = i \<and> ib_roomId b = i
        \<and> ro_propertyId r = p \<and> ro_isActive r \<and> ro_roomTypeId r = t \<and> \<not> outOfUse r
        \<and> ib_propertyId b = p \<and> ib_status b = ''active'' \<and> ib_startDate b \<le> d
        \<and> (present (ao_excludeInventoryBlockId opts) \<longrightarrow> Some (ib_id b) \<noteq> ao_excludeInventoryBlockId opts)}
     \<union> {pb_roomId b | b. b \<in> set (nvl (ao_additionalBlocks opts) []) \<and> pb_roomTypeId b = t \<and> pb_startDate b \<le> d}"

definition overbookingPct :: "uuid \<Rightarrow> 'z stay_db_scheme \<Rightarrow> int" where
  "overbookingPct p db = (case sel1 (\<lambda>q. pr_id q = p) (properties db) of None \<Rightarrow> 0 | Some q \<Rightarrow> pr_overbookingPercentage q)"

definition sellableOn :: "uuid \<Rightarrow> roomType \<Rightarrow> date \<Rightarrow> availabilityOptions \<Rightarrow> 'z stay_db_scheme \<Rightarrow> int" where
  "sellableOn p t d opts db = max 0 ((if rt_maxOccupancy t \<noteq> 0 then roomCount p (rt_id t) (\<lambda>_. True) db else 0)
     - roomCount p (rt_id t) outOfUse db - int (card (plannedRooms p (rt_id t) d opts db)))"

text \<open>What is left on a night: the sellable rooms and the overbooking allowance, less what is sold.\<close>

definition leftOn :: "uuid \<Rightarrow> roomType \<Rightarrow> date \<Rightarrow> availabilityOptions \<Rightarrow> 'z stay_db_scheme \<Rightarrow> int" where
  "leftOn p t d opts db = sellableOn p t d opts db + overbookingBuffer (sellableOn p t d opts db) (overbookingPct p db)
     - soldOn p (rt_id t) d (ao_excludeReservationId opts) db - int (card (busyFeeds p (rt_id t) d db))"

definition offered :: "uuid \<Rightarrow> uuid option \<Rightarrow> 'z stay_db_scheme \<Rightarrow> roomType list" where
  "offered p roomTypeId db = filter (\<lambda>t. rt_propertyId t = p \<and> rt_isActive t
     \<and> (present roomTypeId \<longrightarrow> rt_id t = the roomTypeId)) (roomTypes db)"

definition referenceRow :: "uuid \<Rightarrow> availabilityOptions \<Rightarrow> 'z stay_db_scheme \<Rightarrow> roomType \<Rightarrow> date \<Rightarrow> AvailabilityResult" where
  "referenceRow p opts db t d =
     (let total = (if rt_maxOccupancy t \<noteq> 0 then roomCount p (rt_id t) (\<lambda>_. True) db else 0) in
      \<lparr>av_roomTypeId = rt_id t, av_roomTypeName = rt_name t, av_date = d, av_totalRooms = total,
       av_sold = soldOn p (rt_id t) d (ao_excludeReservationId opts) db + int (card (busyFeeds p (rt_id t) d db)),
       av_available = max 0 (leftOn p t d opts db),
       av_overbookingBuffer = overbookingBuffer (sellableOn p t d opts db) (overbookingPct p db),
       av_outOfOrder = min total (roomCount p (rt_id t) outOfUse db + int (card (plannedRooms p (rt_id t) d opts db))),
       av_capacityShortfall = (if ao_includeCapacity opts then Some (max 0 (- leftOn p t d opts db)) else None)\<rparr>)"

lemma stayDates_range:
  assumes "stayDates checkIn checkOut = Inr ds"
  shows "d \<in> set ds \<longleftrightarrow> isCanonicalCalendarDate d \<and> checkIn \<le> d \<and> d < checkOut"
proof -
  have "isCanonicalCalendarDate checkIn \<and> isCanonicalCalendarDate checkOut"
    using stayDates_not_canonical [of checkIn checkOut] assms by auto
  then obtain a b where ab: "a < last_day" "b < last_day" "checkIn = iso_of_day a" "checkOut = iso_of_day b"
    by (auto simp: canonical_iff)
  with assms have "a < b" and ds: "ds = map iso_of_day [a..<b]"
    by (auto simp: stayDates_days split: if_splits)
  then show ?thesis using nights_set [OF \<open>a < b\<close> ab(2)] ab(3,4) by (simp add: set_eq_iff)
qed

text \<open>The prefetched rows lose nothing of a night between arrival and departure.\<close>

lemma sold_prefetched:
  assumes "checkIn \<le> d" and "d < checkOut" and "present roomTypeId \<longrightarrow> t = the roomTypeId"
  shows "filter (\<lambda>r. rv_roomTypeId r = t \<and> rv_arrivalDate r \<le> d \<and> d < rv_departureDate r)
      (overlappingReservations p checkIn checkOut roomTypeId exclude db)
    = filter (holdsRoom p t d exclude) (reservations db)"
  unfolding overlappingReservations_def filter_filter
proof (rule filter_cong [OF refl])
  fix r :: reservation
  have "rv_arrivalDate r \<le> d \<Longrightarrow> rv_arrivalDate r < checkOut" and "d < rv_departureDate r \<Longrightarrow> checkIn < rv_departureDate r"
    using assms(1,2) by (auto intro: le_less_trans)
  moreover have "present exclude \<Longrightarrow> Some (rv_id r) \<noteq> exclude \<Longrightarrow> rv_id r \<noteq> the exclude"
    by (cases exclude) auto
  ultimately show "(((rv_propertyId r = p \<and> rv_status r \<notin> set excludedStatuses \<and> rv_arrivalDate r < checkOut
      \<and> checkIn < rv_departureDate r \<and> (present roomTypeId \<longrightarrow> rv_roomTypeId r = the roomTypeId)
      \<and> (present exclude \<longrightarrow> rv_id r \<noteq> the exclude)) \<and> rv_propertyId r = p \<and> Some (rv_id r) \<noteq> exclude)
      \<and> rv_roomTypeId r = t \<and> rv_arrivalDate r \<le> d \<and> d < rv_departureDate r) = holdsRoom p t d exclude r"
    using assms(3) by (auto simp: holdsRoom_def excludedStatuses_def)
qed

lemma busy_prefetched:
  assumes "checkIn \<le> d" and "d < checkOut" and "present roomTypeId \<longrightarrow> t = the roomTypeId"
  shows "ic_feedId ` set (filter (\<lambda>b. ic_roomTypeId b = t \<and> ic_startDate b \<le> d \<and> d < ic_endDate b)
      (overlappingIcalBlocks p checkIn checkOut roomTypeId db)) = busyFeeds p t d db"
proof -
  have "x < checkOut" and "checkIn < y" if "x \<le> d" "d < y" for x y
    using assms(1,2) that by (auto intro: le_less_trans)
  with assms(3) show ?thesis by (fastforce simp: overlappingIcalBlocks_def busyFeeds_def image_iff)
qed

lemma planned_prefetched:
  assumes "d < checkOut"
  shows "pb_roomId ` set (filter (\<lambda>b. pb_roomTypeId b = t \<and> pb_startDate b \<le> d)
      (plannedBlocks p checkOut (ao_excludeInventoryBlockId opts) db @ nvl (ao_additionalBlocks opts) []))
    = plannedRooms p t d opts db"
proof -
  have "pb_roomId ` set (filter (\<lambda>b. pb_roomTypeId b = t \<and> pb_startDate b \<le> d)
      (plannedBlocks p checkOut (ao_excludeInventoryBlockId opts) db))
    = {i. \<exists>r\<in>set (rooms db). \<exists>b\<in>set (roomInventoryBlocks db). ro_id r = i \<and> ib_roomId b = i
        \<and> ro_propertyId r = p \<and> ro_isActive r \<and> ro_roomTypeId r = t \<and> \<not> outOfUse r
        \<and> ib_propertyId b = p \<and> ib_status b = ''active'' \<and> ib_startDate b \<le> d
        \<and> (present (ao_excludeInventoryBlockId opts) \<longrightarrow> Some (ib_id b) \<noteq> ao_excludeInventoryBlockId opts)}"
    using assms
    by (fastforce simp: plannedBlocks_def activeInventoryBlock_def image_iff intro: le_less_trans)
  then show ?thesis by (auto simp: plannedRooms_def image_Un)
qed

lemma availabilityRow_reference:
  assumes "checkIn \<le> d" and "d < checkOut" and "present roomTypeId \<longrightarrow> rt_id t = the roomTypeId"
  shows "availabilityRow opts (overbookingPct p db)
      (overlappingReservations p checkIn checkOut roomTypeId (ao_excludeReservationId opts) db)
      (overlappingIcalBlocks p checkIn checkOut roomTypeId db)
      (plannedBlocks p checkOut (ao_excludeInventoryBlockId opts) db)
      (if rt_maxOccupancy t \<noteq> 0 then roomCount p (rt_id t) (\<lambda>_. True) db else 0)
      (roomCount p (rt_id t) outOfUse db) t d = referenceRow p opts db t d"
  unfolding availabilityRow_def referenceRow_def Let_def sold_prefetched [OF assms] busy_prefetched [OF assms]
    planned_prefetched [OF assms(2)] leftOn_def sellableOn_def soldOn_def by simp

lemma searchAvailability_eq:
  assumes "stayDates checkIn checkOut = Inr ds"
  shows "searchAvailability p checkIn checkOut roomTypeId opts db
    = Inr (concat (map (\<lambda>t. map (referenceRow p opts db t) ds) (offered p roomTypeId db)))"
proof -
  have "map (availabilityRow opts (overbookingPct p db)
      (overlappingReservations p checkIn checkOut roomTypeId (ao_excludeReservationId opts) db)
      (overlappingIcalBlocks p checkIn checkOut roomTypeId db)
      (plannedBlocks p checkOut (ao_excludeInventoryBlockId opts) db)
      (if rt_maxOccupancy t \<noteq> 0 then roomCount p (rt_id t) (\<lambda>_. True) db else 0)
      (roomCount p (rt_id t) outOfUse db) t) ds = map (referenceRow p opts db t) ds"
    if "t \<in> set (offered p roomTypeId db)" for t
    using that stayDates_range [OF assms] by (intro map_cong refl availabilityRow_reference) (auto simp: offered_def)
  then show ?thesis
    unfolding searchAvailability_def assms bindR_simps offered_def [symmetric] overbookingPct_def [symmetric] Let_def
    by (metis (no_types, lifting) map_cong)
qed

lemma overbookingBuffer_bounds:
  assumes "0 \<le> n" and "n < 2 ^ 53" and "k \<le> 100"
  shows "0 \<le> overbookingBuffer n k" and "overbookingBuffer n k \<le> n"
proof -
  have "fl (of_int k / 100) \<le> of_int (max 1 0)" using assms(3) by (intro fl_le_int) auto
  then have "of_int n * fl (of_int k / 100) \<le> of_int n"
    using assms(1) mult_left_mono [of "fl (of_int k / 100)" 1 "of_int n"] by simp
  then have "fl (of_int n * fl (of_int k / 100)) \<le> of_int (max n 0)" using assms(2) by (intro fl_le_int)
  then show "overbookingBuffer n k \<le> n" using assms(1) by (simp add: overbookingBuffer_def floor_le_iff)
  show "0 \<le> overbookingBuffer n k" by (simp add: overbookingBuffer_def fl_nonneg)
qed

lemma roomCount_bounds: "0 \<le> roomCount p t c db" "roomCount p t c db \<le> int (length (rooms db))"
  by (simp_all add: roomCount_def)

lemma sellableOn_bounds: "0 \<le> sellableOn p t d opts db" "sellableOn p t d opts db \<le> int (length (rooms db))"
proof -
  have "(if rt_maxOccupancy t \<noteq> 0 then roomCount p (rt_id t) (\<lambda>_. True) db else 0) \<le> int (length (rooms db))"
    using roomCount_bounds(2) [of p "rt_id t" "\<lambda>_. True" db] by simp
  moreover have "0 \<le> roomCount p (rt_id t) outOfUse db" by (rule roomCount_bounds)
  ultimately show "0 \<le> sellableOn p t d opts db" "sellableOn p t d opts db \<le> int (length (rooms db))"
    unfolding sellableOn_def by linarith+
qed

lemma search_rows:
  assumes "searchAvailability p checkIn checkOut roomTypeId opts db = Inr rows"
  obtains ds where "stayDates checkIn checkOut = Inr ds"
    and "rows = concat (map (\<lambda>t. map (referenceRow p opts db t) ds) (offered p roomTypeId db))"
proof -
  obtain ds where ds: "stayDates checkIn checkOut = Inr ds"
    using assms by (auto simp: searchAvailability_def op_iffs)
  with searchAvailability_eq [OF ds, of p roomTypeId opts db] assms that show ?thesis by simp
qed

lemma full_stay_rows:
  assumes "assertFullStayAvailability rows t checkIn checkOut = Inr ()"
    and "isCanonicalCalendarDate d" and "checkIn \<le> d" and "d < checkOut"
  shows "\<exists>row\<in>set rows. av_roomTypeId row = t \<and> av_date row = d \<and> 0 < av_available row"
proof -
  let ?byDate = "\<lambda>d. sel1 (\<lambda>row. av_date row = d) (rev (filter (\<lambda>row. av_roomTypeId row = t) rows))"
  obtain ds where ds: "stayDates checkIn checkOut = Inr ds"
    and none: "List.find (\<lambda>d. case ?byDate d of None \<Rightarrow> True | Some row \<Rightarrow> av_available row \<le> 0) ds = None"
    using assms(1) by (auto simp: assertFullStayAvailability_def Let_def op_iffs split: option.splits)
  have "d \<in> set ds" using stayDates_range [OF ds] assms(2-4) by blast
  from find_NoneD [OF none this] obtain row where row: "?byDate d = Some row" "0 < av_available row"
    by (auto split: option.splits)
  from find_SomeD [OF row(1)] row(2) show ?thesis by auto
qed

lemma minLosOf_le: "(truthy (minLosOf rs) \<longrightarrow> the (minLosOf rs) \<le> n) \<longleftrightarrow>
    (\<forall>r\<in>set rs. truthy (re_minLos r) \<longrightarrow> the (re_minLos r) \<le> n)" if "0 < n"
proof -
  have "foldl (\<lambda>m r. if truthy (re_minLos r) then Some (max (nvl m 0) (the (re_minLos r))) else m) m rs = res
      \<Longrightarrow> (nvl res 0 \<le> n \<longleftrightarrow> nvl m 0 \<le> n \<and> (\<forall>r\<in>set rs. truthy (re_minLos r) \<longrightarrow> the (re_minLos r) \<le> n))" for m res
    by (induction rs arbitrary: m) auto
  from this [of None "minLosOf rs"] that show ?thesis
    by (cases "minLosOf rs") (auto simp: minLosOf_def truthy_def split: option.splits)
qed

lemma maxLosOf_ge: "(truthy (maxLosOf rs) \<longrightarrow> n \<le> the (maxLosOf rs)) \<longleftrightarrow>
    (\<forall>r\<in>set rs. truthy (re_maxLos r) \<longrightarrow> n \<le> the (re_maxLos r))"
proof -
  let ?f = "\<lambda>m r. if truthy (re_maxLos r)
      then Some (case m of None \<Rightarrow> the (re_maxLos r) | Some x \<Rightarrow> min x (the (re_maxLos r))) else m"
  have "m = None \<or> truthy m \<Longrightarrow>
      (foldl ?f m rs = None \<or> truthy (foldl ?f m rs)) \<and>
      ((truthy (foldl ?f m rs) \<longrightarrow> n \<le> the (foldl ?f m rs)) \<longleftrightarrow>
       (truthy m \<longrightarrow> n \<le> the m) \<and> (\<forall>r\<in>set rs. truthy (re_maxLos r) \<longrightarrow> n \<le> the (re_maxLos r)))" for m
  proof (induction rs arbitrary: m)
    case Nil
    then show ?case by simp
  next
    case (Cons r rs)
    have "?f m r = None \<or> truthy (?f m r)"
      and "(truthy (?f m r) \<longrightarrow> n \<le> the (?f m r)) \<longleftrightarrow>
        (truthy m \<longrightarrow> n \<le> the m) \<and> (truthy (re_maxLos r) \<longrightarrow> n \<le> the (re_maxLos r))"
      using Cons.prems by (auto simp: truthy_def min_def split: option.splits)
    with Cons.IH [of "?f m r"] show ?case by (auto simp del: if_split)
  qed
  from this [of None] show ?thesis by (simp add: maxLosOf_def truthy_def)
qed

text \<open>The rule a night or a date of the stay is under.\<close>

definition sellable_under :: "date \<Rightarrow> date \<Rightarrow> date \<Rightarrow> int \<Rightarrow> rateRestriction \<Rightarrow> bool" where
  "sellable_under checkIn checkOut lastNight nights r \<longleftrightarrow>
     (re_startDate r \<le> lastNight \<and> checkIn \<le> re_endDate r \<longrightarrow>
        \<not> re_isClosed r \<and> (truthy (re_minLos r) \<longrightarrow> the (re_minLos r) \<le> nights)
        \<and> (truthy (re_maxLos r) \<longrightarrow> nights \<le> the (re_maxLos r)))
     \<and> \<not> (re_closedToArrival r \<and> covers r checkIn) \<and> \<not> (re_closedToDeparture r \<and> covers r checkOut)"

lemma bad_Inr [simp]: "bad b m = Inr u \<longleftrightarrow> \<not> b"
  by (simp add: bad_def)

lemma canonical_stay:
  assumes "isCanonicalCalendarDate checkIn" and "isCanonicalCalendarDate checkOut" and "checkIn < checkOut"
  obtains a b where "checkIn = iso_of_day a" "checkOut = iso_of_day b" "a < b" "b < last_day"
    and "stayNights checkIn checkOut = Some (int b - int a)"
    and "addDaysIso checkOut (- 1) = Inr (iso_of_day (b - 1))" "checkIn \<le> iso_of_day (b - 1)" "iso_of_day (b - 1) \<le> checkOut"
proof -
  obtain a b where ab: "a < last_day" "b < last_day" "checkIn = iso_of_day a" "checkOut = iso_of_day b"
    using assms(1,2) by (auto simp: canonical_iff)
  have lt: "a < b" using assms(3) ab iso_of_day_less [of a b] by simp
  have "stayNights checkIn checkOut = Some (int b - int a)"
    using ab by (simp add: stayNights_def parse_iso_of_day)
  moreover have "nat (int b - 1) = b - 1" by simp
  then have "addDaysIso checkOut (- 1) = Inr (iso_of_day (b - 1))"
    using ab lt by (auto simp: addDaysIso_def parse_iso_of_day)
  moreover have "checkIn \<le> iso_of_day (b - 1)" "iso_of_day (b - 1) \<le> checkOut"
    using ab lt iso_of_day_less [of "b - 1" a] iso_of_day_less [of b "b - 1"]
    by (simp_all add: not_less [symmetric])
  ultimately show ?thesis using ab lt that by blast
qed

section \<open>Properties\<close>

text \<open>
  C28. Availability is computed right: for an accepted range of dates the rows are, for every
  active room type of the property (the requested one, when one is requested) and every
  night, exactly the counts over the whole database on that night: rooms, rooms out of use
  or planned out of use (each once), reservations holding a room, and active import feeds
  busy on it. The few queries that fetch rows once for the whole range lose nothing.
\<close>

theorem searchAvailability_reference:
  "searchAvailability p checkIn checkOut roomTypeId opts db = (case stayDates checkIn checkOut of
     Inl e \<Rightarrow> Inl e
   | Inr ds \<Rightarrow> Inr (concat (map (\<lambda>t. map (referenceRow p opts db t) ds) (offered p roomTypeId db))))"
proof (cases "stayDates checkIn checkOut")
  case (Inl e)
  then show ?thesis by (simp add: searchAvailability_def)
next
  case (Inr ds)
  then show ?thesis by (simp add: searchAvailability_eq)
qed


text \<open>One room type with two rooms, one of them sold on the first night.\<close>

definition demo_stay :: "ReservationStatus \<Rightarrow> reservation" where
  "demo_stay st = \<lparr>rv_id = ''v1'', rv_propertyId = ''p'', rv_bookingId = ''b1'', rv_guestId = ''g1'',
     rv_arrivalDate = ''2024-02-28'', rv_departureDate = ''2024-02-29'', rv_nights = 1,
     rv_roomTypeId = ''t1'', rv_roomId = Some ''r1'', rv_status = st, rv_ratePlanId = ''rp'',
     rv_totalAmount = ''100.00'', rv_currencyCode = ''EUR'', rv_acceptedPricingSnapshot = None,
     rv_adults = 1, rv_children = 0, rv_specialRequests = None, rv_routing = None, rv_checkedInAt = None,
     rv_checkedOutAt = None, rv_cancelledAt = None, rv_cancellationReason = None,
     rv_registrationData = None, rv_registrationSubmittedAt = None, rv_guestIdDocument = None,
     rv_actualArrivalTime = None, rv_actualDepartureTime = None, rv_isEarlyCheckin = False,
     rv_isLateCheckout = False, rv_earlyCheckinFee = None, rv_lateCheckoutFee = None,
     rv_registrationSignedAt = None, rv_doNotMove = False, rv_updatedAt = 0\<rparr>"

definition demo_type :: roomType where
  "demo_type = \<lparr>rt_id = ''t1'', rt_propertyId = ''p'', rt_name = ''Standard'', rt_maxOccupancy = 2, rt_isActive = True\<rparr>"

definition demo_plan :: ratePlan where
  "demo_plan = \<lparr>rp_id = ''rp'', rp_propertyId = ''p'', rp_validFrom = Some ''2024-01-01'',
     rp_validTo = Some ''2024-02-29'', rp_isActive = True,
     rp_baseAmount = ''100.00'', rp_cancellationPolicyId = None\<rparr>"

definition demo_hotel :: stay_db where
  "demo_hotel = \<lparr>domainEventOutbox = [], auditLogs = [], roomTypes = [demo_type],
     rooms = [demo_room VacantClean, (demo_room VacantClean)\<lparr>ro_id := ''r2'', ro_number := ''102''\<rparr>],
     housekeepingTasks = [], maintenanceTickets = [], roomInventoryBlocks = [], properties = [demo_property],
     guests = [], bookings = [], reservations = [demo_stay RsConfirmed], reservationGuests = [],
     ratePlans = [demo_plan], rateRestrictions = [\<lparr>re_id = ''x'', re_propertyId = ''p'', re_ratePlanId = ''rp'',
       re_startDate = ''2024-02-28'', re_endDate = ''2024-02-28'', re_minLos = Some 2, re_maxLos = None,
       re_closedToArrival = False, re_closedToDeparture = True, re_isClosed = False\<rparr>],
     icalFeeds = [], icalBlocks = []\<rparr>"

lemma demo_nights: "stayDates ''2024-02-28'' ''2024-03-01'' = Inr [''2024-02-28'', ''2024-02-29'']"
  using stayDates_days [of 739309 739311] by (simp add: days_2024 last_day_val)

lemma demo_buffer: "overbookingBuffer n 0 = 0"
  by (simp add: overbookingBuffer_def)

definition demo_row :: "date \<Rightarrow> int \<Rightarrow> int \<Rightarrow> AvailabilityResult" where
  "demo_row d sold available = \<lparr>av_roomTypeId = ''t1'', av_roomTypeName = ''Standard'', av_date = d,
     av_totalRooms = 2, av_sold = sold, av_available = available, av_overbookingBuffer = 0, av_outOfOrder = 0,
     av_capacityShortfall = None\<rparr>"

lemma demo_search: "searchAvailability ''p'' ''2024-02-28'' ''2024-03-01'' (Some ''t1'') noOptions demo_hotel
    = Inr [demo_row ''2024-02-28'' 1 1, demo_row ''2024-02-29'' 0 2]"
  unfolding searchAvailability_eq [OF demo_nights]
  by (simp add: offered_def demo_hotel_def demo_type_def referenceRow_def leftOn_def sellableOn_def roomCount_def
      demo_room_def outOfUse_def plannedRooms_def noOptions_def overbookingPct_def demo_property_def demo_buffer
      soldOn_def holdsRoom_def demo_stay_def busyFeeds_def demo_row_def)


lemma full_stay_room:
  assumes "searchAvailability p checkIn checkOut roomTypeId opts db = Inr rows"
    and "assertFullStayAvailability rows t checkIn checkOut = Inr ()"
    and "isCanonicalCalendarDate d" and "checkIn \<le> d" and "d < checkOut"
  shows "\<exists>ty\<in>set (roomTypes db). rt_id ty = t \<and> rt_propertyId ty = p \<and> rt_isActive ty
     \<and> soldOn p t d (ao_excludeReservationId opts) db + int (card (busyFeeds p t d db))
       < sellableOn p ty d opts db + overbookingBuffer (sellableOn p ty d opts db) (overbookingPct p db)"
proof -
  obtain row where row: "row \<in> set rows" "av_roomTypeId row = t" "av_date row = d" "0 < av_available row"
    using full_stay_rows [OF assms(2-5)] by blast
  then obtain ty d' where "ty \<in> set (offered p roomTypeId db)" "row = referenceRow p opts db ty d'"
    using assms(1) by (elim search_rows) auto
  with row show ?thesis
    by (intro bexI [of _ ty]) (auto simp: offered_def referenceRow_def Let_def leftOn_def)
qed

text \<open>
  C25. Nothing is oversold when a stay is accepted: when the availability of the requested room
  type passes the full-stay check, then on every night of the stay the reservations holding a
  room of that type together with the busy imported calendars are strictly fewer than the
  rooms in use plus the overbooking allowance.
\<close>

theorem full_stay_not_oversold:
  assumes "searchAvailability p checkIn checkOut roomTypeId opts db = Inr rows"
    and "assertFullStayAvailability rows t checkIn checkOut = Inr ()"
    and "isCanonicalCalendarDate d" and "checkIn \<le> d" and "d < checkOut"
  shows "\<exists>ty\<in>set (roomTypes db). rt_id ty = t \<and> rt_propertyId ty = p \<and> rt_isActive ty
     \<and> soldOn p t d (ao_excludeReservationId opts) db + int (card (busyFeeds p t d db))
       < sellableOn p ty d opts db + overbookingBuffer (sellableOn p ty d opts db) (overbookingPct p db)"
  by (rule full_stay_room [OF assms])

lemma demo_full: "assertFullStayAvailability [demo_row ''2024-02-28'' 1 1, demo_row ''2024-02-29'' 0 2] ''t1''
    ''2024-02-28'' ''2024-03-01'' = Inr ()"
  by (simp add: assertFullStayAvailability_def demo_nights demo_row_def)

theorem full_stay_not_oversold_witness:
  "\<exists>ty\<in>set (roomTypes demo_hotel). rt_id ty = ''t1''
     \<and> soldOn ''p'' ''t1'' ''2024-02-28'' None demo_hotel + int (card (busyFeeds ''p'' ''t1'' ''2024-02-28'' demo_hotel))
       < sellableOn ''p'' ty ''2024-02-28'' noOptions demo_hotel
         + overbookingBuffer (sellableOn ''p'' ty ''2024-02-28'' noOptions demo_hotel) (overbookingPct ''p'' demo_hotel)"
proof -
  have "isCanonicalCalendarDate ''2024-02-28''"
    using stayDates_range [OF demo_nights, of "''2024-02-28''"] by simp
  from full_stay_not_oversold [OF demo_search demo_full this] show ?thesis
    by (simp add: noOptions_def) blast
qed

text \<open>
  When a rate plan may be sold: for calendar dates in order, the check passes exactly when the
  plan exists for the property, is active, is valid from the first to the last night, and
  every restriction of the plan permits the stay: no stop-sell, minimum or maximum length
  violated by a restriction that touches a night of the stay, no arrival on a date closed to
  arrival, no departure on a date closed to departure.
\<close>

theorem assertSellable_iff:
  assumes "isCanonicalCalendarDate checkIn" and "isCanonicalCalendarDate checkOut" and "checkIn < checkOut"
  shows "\<exists>lastNight nights. addDaysIso checkOut (- 1) = Inr lastNight \<and> stayNights checkIn checkOut = Some nights
     \<and> (assertSellable None p ratePlanId checkIn checkOut db = Inr () \<longleftrightarrow>
         (\<exists>plan. sel1 (\<lambda>q. rp_id q = ratePlanId \<and> rp_propertyId q = p) (ratePlans db) = Some plan
            \<and> rp_isActive plan
            \<and> \<not> (present (rp_validFrom plan) \<and> checkIn < the (rp_validFrom plan))
            \<and> \<not> (present (rp_validTo plan) \<and> the (rp_validTo plan) < lastNight))
         \<and> (\<forall>r\<in>set (rateRestrictions db). re_propertyId r = p \<and> re_ratePlanId r = ratePlanId
              \<longrightarrow> sellable_under checkIn checkOut lastNight nights r))"
proof -
  obtain a b where s: "checkIn = iso_of_day a" "checkOut = iso_of_day b" "a < b"
    "stayNights checkIn checkOut = Some (int b - int a)" "addDaysIso checkOut (- 1) = Inr (iso_of_day (b - 1))"
    "checkIn \<le> iso_of_day (b - 1)" "iso_of_day (b - 1) \<le> checkOut"
    using canonical_stay [OF assms] by metis
  let ?last = "iso_of_day (b - 1)" and ?n = "int b - int a"
  let ?rs = "filter (\<lambda>r. re_propertyId r = p \<and> re_ratePlanId r = ratePlanId
      \<and> restrictionApplies checkIn checkOut ?last r) (rateRestrictions db)"
  let ?sold = "filter (\<lambda>r. re_startDate r \<le> ?last \<and> checkIn \<le> re_endDate r) ?rs"
  have n: "0 < ?n" using s(3) by simp
  have r: "(\<forall>r\<in>set (rateRestrictions db). re_propertyId r = p \<and> re_ratePlanId r = ratePlanId
        \<longrightarrow> sellable_under checkIn checkOut ?last ?n r) \<longleftrightarrow>
      \<not> list_ex re_isClosed ?sold \<and> \<not> list_ex (\<lambda>r. re_closedToArrival r \<and> covers r checkIn) ?rs
      \<and> \<not> list_ex (\<lambda>r. re_closedToDeparture r \<and> covers r checkOut) ?rs
      \<and> (\<forall>r\<in>set ?sold. truthy (re_minLos r) \<longrightarrow> the (re_minLos r) \<le> ?n)
      \<and> (\<forall>r\<in>set ?sold. truthy (re_maxLos r) \<longrightarrow> ?n \<le> the (re_maxLos r))" (is "?L \<longleftrightarrow> ?R")
  proof -
    have "sellable_under checkIn checkOut ?last ?n r \<longleftrightarrow>
        (restrictionApplies checkIn checkOut ?last r \<longrightarrow>
         (re_startDate r \<le> ?last \<and> checkIn \<le> re_endDate r \<longrightarrow> \<not> re_isClosed r
            \<and> (truthy (re_minLos r) \<longrightarrow> the (re_minLos r) \<le> ?n) \<and> (truthy (re_maxLos r) \<longrightarrow> ?n \<le> the (re_maxLos r)))
         \<and> \<not> (re_closedToArrival r \<and> covers r checkIn) \<and> \<not> (re_closedToDeparture r \<and> covers r checkOut))" for r
      using s(6,7) order_trans [of "re_startDate r" checkIn ?last] assms(3) order_trans [of checkIn checkOut "re_endDate r"]
      by (auto simp: sellable_under_def restrictionApplies_def covers_def)
    then show ?thesis by (auto simp: list_ex_iff)
  qed
  have run: "assertSellable None p ratePlanId checkIn checkOut db = Inr () \<longleftrightarrow>
     (\<exists>plan. sel1 (\<lambda>q. rp_id q = ratePlanId \<and> rp_propertyId q = p) (ratePlans db) = Some plan
        \<and> rp_isActive plan
        \<and> \<not> (present (rp_validFrom plan) \<and> checkIn < the (rp_validFrom plan))
        \<and> \<not> (present (rp_validTo plan) \<and> the (rp_validTo plan) < ?last))
     \<and> ?R"
    using n minLosOf_le [OF n, of ?sold] maxLosOf_ge [of ?sold ?n]
    by (auto simp: assertSellable_def s(4,5) isDraft_def findRatePlan_def Let_def bindR_Inr_iff not_less
        simp del: set_filter filter_filter split: option.splits)
  show ?thesis using run [folded r] s(4,5) by blast
qed

theorem assertSellable_iff_witness:
  "assertSellable None ''p'' ''rp'' ''2024-02-28'' ''2024-03-01'' demo_hotel = Inr ()"
proof -
  have c: "isCanonicalCalendarDate ''2024-02-28''" "isCanonicalCalendarDate ''2024-03-01''"
    using stayDates_not_canonical [of "''2024-02-28''" "''2024-03-01''"] demo_nights by auto
  have l: "addDaysIso ''2024-03-01'' (- 1) = Inr ''2024-02-29''"
      "stayNights ''2024-02-28'' ''2024-03-01'' = Some 2"
    using c by (simp_all add: addDaysIso_def stayNights_def isCanonicalCalendarDate_def parse_2024 days_2024)
  have "''2024-02-28'' < ''2024-03-01''" by simp
  from assertSellable_iff [OF c this, of "''p''" "''rp''" demo_hotel] l show ?thesis
    by (auto simp: demo_hotel_def demo_plan_def sellable_under_def covers_def truthy_def)
qed

text \<open>
  The allowance is the floor of a product of doubles, which can be just below the exact
  product: of one hundred rooms at 29 percent it allows 28.
\<close>

lemma overbooking_allowance_truncated: "overbookingBuffer 100 29 = 28"
  using fl_29_percent by (simp add: overbookingBuffer_def)

end
