(* ===== verification/Folio.thy ===== *)
theory Folio
  imports Tax
begin

text \<open>
  The guest ledger: \<open>FolioService\<close> of \<open>apps/api/src/modules/folio/folio.service.ts\<close> with the
  payment policy of \<open>apps/api/src/modules/payment/payment-ledger.ts\<close>. State: folios with their
  running totals, charges and payments. Each numeric column is written through the
  conversion of its type, each insert checks the constraints of
  \<open>packages/database/src/schema/folio.ts\<close>. Shown: the totals of a folio are the sums of its
  rows after every operation, locked charges never change, a transfer moves value and
  neither makes nor loses any, a reversal cancels a charge with its taxes.
\<close>

section \<open>Data\<close>

datatype folioType = FtGuest | FtMaster | FtCityLedger

datatype folioStatus = FsOpen | FsSettled | FsClosed

datatype chargeType = CtRoom | CtTax | CtFoodBeverage | CtMinibar | CtPhone | CtLaundry | CtParking
  | CtSpa | CtIncidental | CtFee | CtAdjustment | CtPackage

fun folioTypeName :: "folioType \<Rightarrow> string" where
  "folioTypeName FtGuest = ''guest''"
| "folioTypeName FtMaster = ''master''"
| "folioTypeName FtCityLedger = ''city_ledger''"

fun chargeTypeName :: "chargeType \<Rightarrow> string" where
  "chargeTypeName CtRoom = ''room''"
| "chargeTypeName CtTax = ''tax''"
| "chargeTypeName CtFoodBeverage = ''food_beverage''"
| "chargeTypeName CtMinibar = ''minibar''"
| "chargeTypeName CtPhone = ''phone''"
| "chargeTypeName CtLaundry = ''laundry''"
| "chargeTypeName CtParking = ''parking''"
| "chargeTypeName CtSpa = ''spa''"
| "chargeTypeName CtIncidental = ''incidental''"
| "chargeTypeName CtFee = ''fee''"
| "chargeTypeName CtAdjustment = ''adjustment''"
| "chargeTypeName CtPackage = ''package''"

datatype paymentMethod = PmCreditCard | PmDebitCard | PmCash | PmBankTransfer | PmPix | PmCityLedger
  | PmVcc | PmOther

datatype paymentStatus = PsPending | PsAuthorized | PsCaptured | PsSettled | PsRefunded
  | PsPartiallyRefunded | PsFailed | PsVoided

record folio =
  fo_id :: uuid
  fo_propertyId :: uuid
  fo_reservationId :: "uuid option"
  fo_bookingId :: "uuid option"
  fo_guestId :: uuid
  fo_folioNumber :: string
  fo_type :: folioType
  fo_status :: folioStatus
  fo_totalCharges :: string
  fo_totalPayments :: string
  fo_balance :: string
  fo_currencyCode :: string
  fo_companyName :: "string option"
  fo_billingAddress :: "string option"
  fo_paymentTermsDays :: "string option"
  fo_notes :: "string option"
  fo_settledAt :: "millis option"
  fo_closedAt :: "millis option"
  fo_updatedAt :: millis

record charge =
  ch_id :: uuid
  ch_propertyId :: uuid
  ch_folioId :: "uuid option"
  ch_houseAccountId :: "uuid option"
  ch_type :: chargeType
  ch_description :: string
  ch_amount :: string
  ch_currencyCode :: string
  ch_taxAmount :: string
  ch_taxRate :: "string option"
  ch_taxCode :: "string option"
  ch_serviceDate :: millis
  ch_isReversal :: bool
  ch_originalChargeId :: "uuid option"
  ch_parentChargeId :: "uuid option"
  ch_adjustsChargeId :: "uuid option"
  ch_sourceKey :: "string option"
  ch_revenueRole :: string
  ch_isLocked :: bool
  ch_lockedByAuditDate :: "millis option"
  ch_postedBy :: "uuid option"

record payment =
  py_id :: uuid
  py_propertyId :: uuid
  py_folioId :: "uuid option"
  py_houseAccountId :: "uuid option"
  py_bookingRequestId :: "uuid option"
  py_idempotencyKey :: "string option"
  py_method :: paymentMethod
  py_status :: paymentStatus
  py_amount :: string
  py_currencyCode :: string
  py_gatewayProvider :: "string option"
  py_gatewayTransactionId :: "string option"
  py_gatewayPaymentToken :: "string option"
  py_cardLastFour :: "string option"
  py_cardBrand :: "string option"
  py_isPreAuthorization :: bool
  py_preAuthExpiresAt :: "millis option"
  py_originalPaymentId :: "uuid option"
  py_notes :: "string option"
  py_processedAt :: "millis option"
  py_createdAt :: millis
  py_updatedAt :: millis

record folio_db = tax_db +
  folios :: "folio list"
  charges :: "charge list"
  payments :: "payment list"

record createFolioDto =
  cf_propertyId :: uuid
  cf_reservationId :: "uuid option"
  cf_bookingId :: "uuid option"
  cf_guestId :: uuid
  cf_type :: folioType
  cf_currencyCode :: string
  cf_companyName :: "string option"
  cf_billingAddress :: "string option"
  cf_paymentTermsDays :: "string option"
  cf_notes :: "string option"

record updateFolioDto =
  uf_currencyCode :: "string option"
  uf_companyName :: "string option"
  uf_billingAddress :: "string option"
  uf_paymentTermsDays :: "string option"
  uf_notes :: "string option"

record transferChargeDto =
  tc_chargeId :: uuid
  tc_targetFolioId :: uuid

text \<open>\<open>cc_provenance\<close>: the request body carries one of the keys that only the service may set.\<close>

record createChargeDto =
  cc_propertyId :: uuid
  cc_type :: chargeType
  cc_description :: string
  cc_amount :: string
  cc_currencyCode :: string
  cc_taxAmount :: "string option"
  cc_taxRate :: "string option"
  cc_taxCode :: "string option"
  cc_serviceDate :: string
  cc_postedBy :: "uuid option"
  cc_guestId :: "uuid option"
  cc_numberOfNights :: "int option"
  cc_nightNumber :: "int option"
  cc_skipTaxCalculation :: bool
  cc_provenance :: bool

record chargePersistence =
  pe_parentChargeId :: "uuid option"
  pe_sourceKey :: "string option"
  pe_revenueRole :: "string option"

definition noPersistence :: chargePersistence where
  "noPersistence = \<lparr>pe_parentChargeId = None, pe_sourceKey = None, pe_revenueRole = None\<rparr>"

section \<open>Which payments count\<close>

definition FOLIO_PARENT_PAYMENT_STATUSES :: "paymentStatus list" where
  "FOLIO_PARENT_PAYMENT_STATUSES = [PsCaptured, PsSettled, PsPartiallyRefunded, PsRefunded]"

definition parentCountsTowardFolioBalance :: "paymentStatus \<Rightarrow> bool" where
  "parentCountsTowardFolioBalance s \<longleftrightarrow> s \<in> set FOLIO_PARENT_PAYMENT_STATUSES"

definition countedPayment :: "payment \<Rightarrow> bool" where
  "countedPayment y \<longleftrightarrow> py_status y = PsCaptured
     \<or> (py_originalPaymentId y = None \<and> py_status y \<in> set FOLIO_PARENT_PAYMENT_STATUSES)"

definition folioPaymentSumWhere :: "uuid \<Rightarrow> uuid \<Rightarrow> payment \<Rightarrow> bool" where
  "folioPaymentSumWhere f p y \<longleftrightarrow> py_folioId y = Some f \<and> py_propertyId y = p \<and> countedPayment y"

definition bookingRequestPaymentSumWhere :: "uuid \<Rightarrow> uuid \<Rightarrow> payment \<Rightarrow> bool" where
  "bookingRequestPaymentSumWhere q p y \<longleftrightarrow> py_bookingRequestId y = Some q \<and> py_propertyId y = p \<and> countedPayment y"

definition reportPaymentSumWhere :: "uuid \<Rightarrow> payment \<Rightarrow> bool" where
  "reportPaymentSumWhere p y \<longleftrightarrow> py_propertyId y = p \<and> countedPayment y"

section \<open>Rows\<close>

text \<open>
  \<open>new Date(text)\<close>, milliseconds since 1970 (day 719528 of the calendar), for a calendar date and for the form \<open>YYYY-MM-DDTHH:MM:SS.mmmZ\<close> that
  \<open>toISOString\<close> writes; other forms are outside the texts the services exchange.
\<close>

definition iso_time :: "string \<Rightarrow> millis option" where
  "iso_time s = (if length s = 14 \<and> s ! 0 = CHR ''T'' \<and> s ! 3 = CHR '':'' \<and> s ! 6 = CHR '':''
       \<and> s ! 9 = CHR ''.'' \<and> s ! 13 = CHR ''Z''
       \<and> list_all is_digit (take 2 (drop 1 s) @ take 2 (drop 4 s) @ take 2 (drop 7 s) @ take 3 (drop 10 s))
     then (let h = digits_val (take 2 (drop 1 s)); m = digits_val (take 2 (drop 4 s));
             sec = digits_val (take 2 (drop 7 s)); ms = digits_val (take 3 (drop 10 s)) in
           if h < 24 \<and> m < 60 \<and> sec < 60 then Some (int (((h * 60 + m) * 60 + sec) * 1000 + ms)) else None)
     else None)"

definition newDate :: "string \<Rightarrow> millis result" where
  "newDate s = (if iso_pattern (take 10 s)
     then (case parse_utc (take 10 s) of None \<Rightarrow> Inl RangeError
       | Some n \<Rightarrow> (let midnight = (int n - 719528) * 86400000 in
           if drop 10 s = [] then Inr midnight
           else case iso_time (drop 10 s) of None \<Rightarrow> Inl RangeError | Some t \<Rightarrow> Inr (midnight + t)))
     else Inl RangeError)"

text \<open>
  A row as the columns hold it: amounts in \<open>numeric(12,2)\<close>, the tax rate in \<open>numeric(5,4)\<close>,
  texts within the lengths of their columns.
\<close>

definition storeCharge :: "'d numlib \<Rightarrow> charge \<Rightarrow> charge result" where
  "storeCharge L c =
     bindR (numeric12_2 L (ch_amount c)) (\<lambda>amount.
     bindR (numeric12_2 L (ch_taxAmount c)) (\<lambda>taxAmount.
     bindR (numericOptR L 5 4 (ch_taxRate c)) (\<lambda>taxRate.
     if length (ch_description c) \<le> 255 \<and> length (ch_currencyCode c) \<le> 3
        \<and> length (nvl (ch_taxCode c) []) \<le> 20 \<and> length (nvl (ch_sourceKey c) []) \<le> 255
        \<and> ch_revenueRole c \<in> {''earned'', ''deposit_credit''}
        \<and> (ch_revenueRole c = ''deposit_credit'' \<longrightarrow> ch_type c = CtAdjustment
             \<and> take 8 (nvl (ch_sourceKey c) []) = ''deposit:'')
     then Inr (c\<lparr>ch_amount := amount, ch_taxAmount := taxAmount, ch_taxRate := taxRate\<rparr>)
     else Inl DatabaseError)))"

definition sameSource :: "charge \<Rightarrow> charge \<Rightarrow> bool" where
  "sameSource c x \<longleftrightarrow> ch_sourceKey c \<noteq> None \<and> ch_folioId c \<noteq> None \<and> ch_propertyId x = ch_propertyId c
     \<and> ch_folioId x = ch_folioId c \<and> ch_sourceKey x = ch_sourceKey c"

definition sameDeposit :: "charge \<Rightarrow> charge \<Rightarrow> bool" where
  "sameDeposit c x \<longleftrightarrow> take 8 (nvl (ch_sourceKey c) []) = ''deposit:'' \<and> ch_propertyId x = ch_propertyId c
     \<and> ch_sourceKey x = ch_sourceKey c"

definition insertCharge :: "'d numlib \<Rightarrow> charge \<Rightarrow> ('z folio_db_scheme, charge) op" where
  "insertCharge L c =
     bindS (liftS (storeCharge L c)) (\<lambda>row.
     bindS (getS (\<lambda>db. list_ex (\<lambda>x. sameSource row x \<or> sameDeposit row x) (charges db))) (\<lambda>taken.
     bindS (guardS (\<not> taken) DatabaseError) (\<lambda>_.
     bindS (modifyS (\<lambda>db. db\<lparr>charges := charges db @ [row]\<rparr>)) (\<lambda>_. returnS row))))"

text \<open>\<open>insert ... onConflictDoNothing(propertyId, folioId, sourceKey)\<close>\<close>

definition insertChargeOnce :: "'d numlib \<Rightarrow> charge \<Rightarrow> ('z folio_db_scheme, charge option) op" where
  "insertChargeOnce L c =
     bindS (liftS (storeCharge L c)) (\<lambda>row.
     bindS (getS (\<lambda>db. list_ex (sameSource row) (charges db))) (\<lambda>taken.
     if taken then returnS None else bindS (insertCharge L c) (\<lambda>r. returnS (Some r))))"

section \<open>Folios\<close>

text \<open>\<open>parseInt(text, 10)\<close>: \<open>None\<close> is \<open>NaN\<close>.\<close>

definition parseIntText :: "string \<Rightarrow> nat option" where
  "parseIntText s = (let ds = takeWhile is_digit s in if ds = [] then None else Some (digits_val ds))"

definition padStart4 :: "string \<Rightarrow> string" where
  "padStart4 s = replicate (4 - length s) (CHR ''0'') @ s"

text \<open>\<open>today\<close> is the date of the server clock as \<open>YYMMDD\<close>.\<close>

definition generateFolioNumber :: "string \<Rightarrow> uuid \<Rightarrow> 'z folio_db_scheme \<Rightarrow> string" where
  "generateFolioNumber today p db =
     (let prefix = ''F-'' @ today;
          numbers = filter (\<lambda>n. take (length prefix) n = prefix)
            (map fo_folioNumber (filter (\<lambda>f. fo_propertyId f = p) (folios db)));
          seq = (case numbers of [] \<Rightarrow> ''1''
            | n # ns \<Rightarrow> (let maxNumber = foldl max n ns in
                if maxNumber = [] then ''1'' else
                case parseIntText (rev (takeWhile (\<lambda>c. c \<noteq> CHR ''-'') (rev maxNumber))) of
                  None \<Rightarrow> ''NaN'' | Some k \<Rightarrow> show_nat (k + 1)))
      in prefix @ ''-'' @ padStart4 seq)"

definition createFolio :: "string \<Rightarrow> millis \<Rightarrow> uuid \<Rightarrow> bool \<Rightarrow> createFolioDto \<Rightarrow> ('z folio_db_scheme, folio) op" where
  "createFolio today now newId inTx dto =
     bindS (if present (cf_reservationId dto)
        then bindS (getS (\<lambda>db. sel1 (\<lambda>r. rv_id r = the (cf_reservationId dto) \<and> rv_propertyId r = cf_propertyId dto)
               (reservations db))) (\<lambda>r. guardS (r \<noteq> None)
             (BadRequestException (''reservation '' @ the (cf_reservationId dto) @ '' not found in this property'')))
        else returnS ()) (\<lambda>_.
     bindS (if present (cf_bookingId dto)
        then bindS (getS (\<lambda>db. sel1 (\<lambda>b. bk_id b = the (cf_bookingId dto) \<and> bk_propertyId b = cf_propertyId dto)
               (bookings db))) (\<lambda>b. guardS (b \<noteq> None)
             (BadRequestException (''booking '' @ the (cf_bookingId dto) @ '' not found in this property'')))
        else returnS ()) (\<lambda>_.
     bindS (getS (generateFolioNumber today (cf_propertyId dto))) (\<lambda>folioNumber.
     let folio = \<lparr>fo_id = newId, fo_propertyId = cf_propertyId dto, fo_reservationId = cf_reservationId dto,
        fo_bookingId = cf_bookingId dto, fo_guestId = cf_guestId dto, fo_folioNumber = folioNumber,
        fo_type = cf_type dto, fo_status = FsOpen, fo_totalCharges = ''0.00'', fo_totalPayments = ''0.00'',
        fo_balance = ''0.00'', fo_currencyCode = cf_currencyCode dto, fo_companyName = cf_companyName dto,
        fo_billingAddress = cf_billingAddress dto, fo_paymentTermsDays = cf_paymentTermsDays dto,
        fo_notes = cf_notes dto, fo_settledAt = None, fo_closedAt = None, fo_updatedAt = now\<rparr> in
     bindS (getS (\<lambda>db. list_ex (\<lambda>f. fo_propertyId f = cf_propertyId dto \<and> fo_folioNumber f = folioNumber)
        (folios db))) (\<lambda>taken.
     bindS (guardS (\<not> taken) DatabaseError) (\<lambda>_.
     bindS (modifyS (\<lambda>db. db\<lparr>folios := folios db @ [folio]\<rparr>)) (\<lambda>_.
     bindS (if inTx then returnS () else emit ''folio.created'' ''folio'' newId
        [(''folioNumber'', Some folioNumber), (''type'', Some (folioTypeName (cf_type dto)))]
        (Some (cf_propertyId dto))) (\<lambda>_. returnS folio)))))))"

abbreviation folioRow :: "uuid \<Rightarrow> uuid \<Rightarrow> folio \<Rightarrow> bool" where
  "folioRow i p \<equiv> (\<lambda>f. fo_id f = i \<and> fo_propertyId f = p)"

definition findFolio :: "uuid \<Rightarrow> uuid \<Rightarrow> ('z folio_db_scheme, folio) op" where
  "findFolio i p =
     bindS (getS (\<lambda>db. sel1 (folioRow i p) (folios db))) (\<lambda>f.
     someS f (NotFoundException (''Folio '' @ i @ '' not found'')))"

definition updateFolio :: "millis \<Rightarrow> uuid \<Rightarrow> uuid \<Rightarrow> updateFolioDto \<Rightarrow> ('z folio_db_scheme, folio) op" where
  "updateFolio now i p dto =
     bindS (findFolio i p) (\<lambda>folio.
     bindS (guardS (fo_status folio = FsOpen) (BadRequestException ''Cannot update a folio that is not open'')) (\<lambda>_.
     let f = (\<lambda>x. x\<lparr>fo_currencyCode := nvl (uf_currencyCode dto) (fo_currencyCode x),
           fo_companyName := (case uf_companyName dto of None \<Rightarrow> fo_companyName x | v \<Rightarrow> v),
           fo_billingAddress := (case uf_billingAddress dto of None \<Rightarrow> fo_billingAddress x | v \<Rightarrow> v),
           fo_paymentTermsDays := (case uf_paymentTermsDays dto of None \<Rightarrow> fo_paymentTermsDays x | v \<Rightarrow> v),
           fo_notes := (case uf_notes dto of None \<Rightarrow> fo_notes x | v \<Rightarrow> v), fo_updatedAt := now\<rparr>) in
     bindS (modifyS (\<lambda>db. db\<lparr>folios := upd (folioRow i p) f (folios db)\<rparr>)) (\<lambda>_. returnS (f folio))))"

definition settle :: "'d numlib \<Rightarrow> millis \<Rightarrow> uuid \<Rightarrow> uuid \<Rightarrow> ('z folio_db_scheme, folio) op" where
  "settle L now i p =
     bindS (findFolio i p) (\<lambda>folio.
     bindS (guardS (fo_status folio = FsOpen) (BadRequestException ''Folio is not open'')) (\<lambda>_.
     bindS (liftS (newDecimal L (fo_balance folio))) (\<lambda>balance.
     bindS (liftS (newDecimal L ''0.01'')) (\<lambda>cent.
     bindS (guardS (\<not> dec_gt L (dec_abs L balance) cent)
        (BadRequestException (''Folio balance must be zero to settle (current: '' @ fo_balance folio @ '')''))) (\<lambda>_.
     bindS (getS (\<lambda>db. length (filter (\<lambda>y. py_folioId y = Some i \<and> py_propertyId y = p
        \<and> py_status y \<in> {PsAuthorized, PsPending}) (payments db)))) (\<lambda>pendingPayments.
     bindS (guardS (pendingPayments = 0)
        (BadRequestException ''Cannot settle folio with outstanding authorized or pending payments'')) (\<lambda>_.
     let f = (\<lambda>x. x\<lparr>fo_status := FsSettled, fo_settledAt := Some now, fo_updatedAt := now\<rparr>) in
     bindS (modifyS (\<lambda>db. db\<lparr>folios := upd (folioRow i p) f (folios db)\<rparr>)) (\<lambda>_.
     bindS (emit ''folio.settled'' ''folio'' i [(''folioNumber'', Some (fo_folioNumber folio)),
        (''balance'', Some (fo_balance folio))] (Some p)) (\<lambda>_. returnS (f folio))))))))))"

definition closeFolio :: "millis \<Rightarrow> uuid \<Rightarrow> uuid \<Rightarrow> ('z folio_db_scheme, folio) op" where
  "closeFolio now i p =
     bindS (findFolio i p) (\<lambda>folio.
     bindS (guardS (fo_status folio = FsSettled) (BadRequestException ''Folio must be settled before closing'')) (\<lambda>_.
     let f = (\<lambda>x. x\<lparr>fo_status := FsClosed, fo_closedAt := Some now, fo_updatedAt := now\<rparr>) in
     bindS (modifyS (\<lambda>db. db\<lparr>folios := upd (folioRow i p) f (folios db)\<rparr>)) (\<lambda>_. returnS (f folio))))"

section \<open>The running totals\<close>

definition folioCharges :: "uuid \<Rightarrow> uuid \<Rightarrow> 'z folio_db_scheme \<Rightarrow> charge list" where
  "folioCharges f p db = filter (\<lambda>c. ch_folioId c = Some f \<and> ch_propertyId c = p) (charges db)"

definition folioPayments :: "uuid \<Rightarrow> uuid \<Rightarrow> 'z folio_db_scheme \<Rightarrow> payment list" where
  "folioPayments f p db = filter (folioPaymentSumWhere f p) (payments db)"

text \<open>
  \<open>sum(amount::numeric + tax_amount::numeric)\<close> is the exact sum of both columns. The update
  touches no column, and no conversion fails, when the folio is not there.
\<close>

definition recalculateBalance :: "'d numlib \<Rightarrow> millis \<Rightarrow> uuid \<Rightarrow> uuid \<Rightarrow> ('z folio_db_scheme, unit) op" where
  "recalculateBalance L now f p =
     bindS (getS (\<lambda>db. pg_sum L (concat (map (\<lambda>c. [ch_amount c, ch_taxAmount c]) (folioCharges f p db))))) (\<lambda>chargeSum.
     bindS (getS (\<lambda>db. pg_sum L (map py_amount (folioPayments f p db)))) (\<lambda>paymentSum.
     bindS (liftS (fixed2 L chargeSum)) (\<lambda>totalCharges.
     bindS (liftS (fixed2 L paymentSum)) (\<lambda>totalPayments.
     bindS (liftS (newDecimal L totalCharges)) (\<lambda>tc.
     bindS (liftS (newDecimal L totalPayments)) (\<lambda>tp.
     let balance = dec_toFixed L 2 (dec_minus L tc tp) in
     bindS (getS (\<lambda>db. list_ex (folioRow f p) (folios db))) (\<lambda>found.
     whenS found (
       bindS (liftS (numeric12_2 L totalCharges)) (\<lambda>cCol.
       bindS (liftS (numeric12_2 L totalPayments)) (\<lambda>pCol.
       bindS (liftS (numeric12_2 L balance)) (\<lambda>bCol.
       modifyS (\<lambda>db. db\<lparr>folios := upd (folioRow f p) (\<lambda>x. x\<lparr>fo_totalCharges := cCol, fo_totalPayments := pCol,
          fo_balance := bCol, fo_updatedAt := now\<rparr>) (folios db)\<rparr>))))))))))))"

section \<open>Transfer\<close>

definition acceptedKey :: "charge \<Rightarrow> bool" where
  "acceptedKey c \<longleftrightarrow> take 17 (nvl (ch_sourceKey c) []) = ''accepted-pricing:''"

abbreviation chargeRow :: "uuid \<Rightarrow> uuid \<Rightarrow> uuid \<Rightarrow> charge \<Rightarrow> bool" where
  "chargeRow i f p \<equiv> (\<lambda>c. ch_id c = i \<and> ch_folioId c = Some f \<and> ch_propertyId c = p)"

text \<open>Both folio rows, locked in the order of their ids, as source and target.\<close>

definition lockFolios :: "uuid \<Rightarrow> uuid \<Rightarrow> uuid \<Rightarrow> ('z folio_db_scheme, folio \<times> folio) op" where
  "lockFolios source target p =
     (let firstId = min source target; secondId = max source target in
      bindS (findFolio firstId p) (\<lambda>firstFolio.
      bindS (findFolio secondId p) (\<lambda>secondFolio.
      returnS (if fo_id firstFolio = source then firstFolio else secondFolio,
               if fo_id firstFolio = target then firstFolio else secondFolio))))"

definition parentOf :: "charge \<Rightarrow> uuid \<Rightarrow> uuid \<Rightarrow> 'z folio_db_scheme \<Rightarrow> charge option" where
  "parentOf c f p db = (case ch_parentChargeId c of None \<Rightarrow> None
     | Some i \<Rightarrow> if i = [] then None else sel1 (chargeRow i f p) (charges db))"

definition childOfAccepted :: "charge \<Rightarrow> uuid \<Rightarrow> uuid \<Rightarrow> 'z folio_db_scheme \<Rightarrow> bool" where
  "childOfAccepted c f p db = (case parentOf c f p db of None \<Rightarrow> False | Some q \<Rightarrow> acceptedKey q)"

text \<open>
  The unique index on property, folio and source key, for rows \<open>q\<close> that are about to get the folio \<open>t\<close>.
\<close>

definition moveCollides :: "(charge \<Rightarrow> bool) \<Rightarrow> uuid \<Rightarrow> 'z folio_db_scheme \<Rightarrow> bool" where
  "moveCollides q t db \<longleftrightarrow> list_ex (\<lambda>c. q c
     \<and> list_ex (\<lambda>d. \<not> q d \<and> sameSource (c\<lparr>ch_folioId := Some t\<rparr>) d) (charges db)) (charges db)"

definition transferCharge :: "'d numlib \<Rightarrow> millis \<Rightarrow> uuid \<Rightarrow> uuid \<Rightarrow> transferChargeDto \<Rightarrow> ('z folio_db_scheme, unit) op" where
  "transferCharge L now folioId p dto =
     bindS (guardS (folioId \<noteq> tc_targetFolioId dto)
        (BadRequestException ''Source and target folio must differ'')) (\<lambda>_.
     transactionS (
       bindS (lockFolios folioId (tc_targetFolioId dto) p) (\<lambda>(sourceFolio, targetFolio).
       bindS (guardS (fo_status sourceFolio = FsOpen) (BadRequestException ''Source folio is not open'')) (\<lambda>_.
       bindS (guardS (fo_status targetFolio = FsOpen) (BadRequestException ''Target folio is not open'')) (\<lambda>_.
       bindS (getS (\<lambda>db. sel1 (chargeRow (tc_chargeId dto) folioId p) (charges db))) (\<lambda>found.
       bindS (someS found (NotFoundException (''Charge '' @ tc_chargeId dto @ '' not found on folio '' @ folioId))) (\<lambda>charge.
       bindS (guardS (\<not> ch_isLocked charge) (BadRequestException ''Cannot transfer a locked charge'')) (\<lambda>_.
       bindS (guardS (\<not> present (ch_adjustsChargeId charge))
          (BadRequestException ''Cannot transfer an internal accepted-pricing correction'')) (\<lambda>_.
       bindS (guardS (\<not> acceptedKey charge)
          (BadRequestException ''Cannot transfer an accepted-pricing group individually'')) (\<lambda>_.
       bindS (getS (childOfAccepted charge folioId p)) (\<lambda>child.
       bindS (guardS (\<not> child)
          (BadRequestException ''Cannot transfer a child of an accepted-pricing group individually'')) (\<lambda>_.
       bindS (getS (moveCollides (\<lambda>c. ch_id c = tc_chargeId dto) (tc_targetFolioId dto))) (\<lambda>taken.
       bindS (guardS (\<not> taken) DatabaseError) (\<lambda>_.
       bindS (modifyS (\<lambda>db. db\<lparr>charges := upd (\<lambda>c. ch_id c = tc_chargeId dto)
          (\<lambda>c. c\<lparr>ch_folioId := Some (tc_targetFolioId dto)\<rparr>) (charges db)\<rparr>)) (\<lambda>_.
       bindS (recalculateBalance L now folioId p) (\<lambda>_.
       recalculateBalance L now (tc_targetFolioId dto) p))))))))))))))))"

section \<open>Posting\<close>

text \<open>The row of one tax line of a charge.\<close>

definition taxRow :: "uuid \<Rightarrow> uuid \<Rightarrow> createChargeDto \<Rightarrow> millis \<Rightarrow> uuid \<Rightarrow> TaxLineItem \<Rightarrow> charge" where
  "taxRow newId folioId dto serviceDate parent item = \<lparr>ch_id = newId, ch_propertyId = cc_propertyId dto,
     ch_folioId = Some folioId, ch_houseAccountId = None, ch_type = CtTax, ch_description = ti_name item,
     ch_amount = ti_amount item, ch_currencyCode = cc_currencyCode dto, ch_taxAmount = ''0'',
     ch_taxRate = Some (ti_rate item), ch_taxCode = Some (ti_code item), ch_serviceDate = serviceDate,
     ch_isReversal = False, ch_originalChargeId = None, ch_parentChargeId = Some parent,
     ch_adjustsChargeId = None, ch_sourceKey = None, ch_revenueRole = ''earned'', ch_isLocked = False,
     ch_lockedByAuditDate = None, ch_postedBy = cc_postedBy dto\<rparr>"

fun postTaxes :: "'d numlib \<Rightarrow> (nat \<Rightarrow> uuid) \<Rightarrow> uuid \<Rightarrow> createChargeDto \<Rightarrow> millis \<Rightarrow> uuid \<Rightarrow> nat
    \<Rightarrow> TaxLineItem list \<Rightarrow> ('z folio_db_scheme, charge list) op" where
  "postTaxes L ids folioId dto serviceDate parent k [] = returnS []"
| "postTaxes L ids folioId dto serviceDate parent k (item # items) =
     bindS (insertCharge L (taxRow (ids k) folioId dto serviceDate parent item)) (\<lambda>taxCharge.
     bindS (postTaxes L ids folioId dto serviceDate parent (Suc k) items) (\<lambda>taxCharges.
     returnS (taxCharge # taxCharges)))"

definition chargeOf :: "uuid \<Rightarrow> uuid \<Rightarrow> createChargeDto \<Rightarrow> chargePersistence \<Rightarrow> millis \<Rightarrow> charge" where
  "chargeOf newId folioId dto pers serviceDate = \<lparr>ch_id = newId, ch_propertyId = cc_propertyId dto,
     ch_folioId = Some folioId, ch_houseAccountId = None, ch_type = cc_type dto, ch_description = cc_description dto,
     ch_amount = cc_amount dto, ch_currencyCode = cc_currencyCode dto, ch_taxAmount = nvl (cc_taxAmount dto) ''0'',
     ch_taxRate = cc_taxRate dto, ch_taxCode = cc_taxCode dto, ch_serviceDate = serviceDate, ch_isReversal = False,
     ch_originalChargeId = None, ch_parentChargeId = pe_parentChargeId pers, ch_adjustsChargeId = None,
     ch_sourceKey = pe_sourceKey pers, ch_revenueRole = nvl (pe_revenueRole pers) ''earned'', ch_isLocked = False,
     ch_lockedByAuditDate = None, ch_postedBy = cc_postedBy dto\<rparr>"

text \<open>What a posting returns: the charge, its tax rows, and whether it was created now.\<close>

type_synonym posted = "charge \<times> charge list \<times> bool"

definition postCharge :: "'d numlib \<Rightarrow> millis \<Rightarrow> (nat \<Rightarrow> uuid) \<Rightarrow> bool \<Rightarrow> uuid \<Rightarrow> createChargeDto
    \<Rightarrow> chargePersistence \<Rightarrow> ('z folio_db_scheme, posted) op" where
  "postCharge L now ids inTx folioId dto pers =
     bindS (guardS (\<not> cc_provenance dto)
        (BadRequestException ''Internal charge provenance cannot be supplied to generic charge posting'')) (\<lambda>_.
     bindS (guardS (\<not> (present (pe_revenueRole pers) \<and> (cc_type dto \<noteq> CtAdjustment
          \<or> take 8 (nvl (pe_sourceKey pers) []) \<noteq> ''deposit:'')))
        (BadRequestException ''Deposit credit requires immutable deposit provenance'')) (\<lambda>_.
     bindS (findFolio folioId (cc_propertyId dto)) (\<lambda>folio.
     bindS (guardS (fo_status folio = FsOpen)
        (BadRequestException ''Cannot post charge to a folio that is not open'')) (\<lambda>_.
     bindS (liftS (newDecimal L (cc_amount dto))) (\<lambda>amount.
     bindS (guardS (\<not> (dec_lte L amount (dec_int L 0) \<and> cc_type dto \<noteq> CtAdjustment))
        (BadRequestException ''Charge amount must be positive (negatives are only allowed for adjustments)'')) (\<lambda>_.
     bindS (liftS (newDate (cc_serviceDate dto))) (\<lambda>serviceDate.
     let row = chargeOf (ids 0) folioId dto pers serviceDate in
     bindS (if present (pe_sourceKey pers) then insertChargeOnce L row
            else bindS (insertCharge L row) (\<lambda>c. returnS (Some c))) (\<lambda>inserted.
     case inserted of
       None \<Rightarrow>
         bindS (getS (\<lambda>db. sel1 (\<lambda>c. ch_propertyId c = cc_propertyId dto \<and> ch_folioId c = Some folioId
            \<and> ch_sourceKey c = pe_sourceKey pers) (charges db))) (\<lambda>found.
         bindS (someS found (ConflictException ''Charge source key was claimed without a persisted charge'')) (\<lambda>existing.
         returnS (existing, [], False)))
     | Some charge \<Rightarrow>
         bindS (if ch_type charge \<noteq> CtTax \<and> ch_type charge \<noteq> CtAdjustment \<and> \<not> cc_skipTaxCalculation dto
            then bindS (calculateTaxes L (cc_amount dto) (chargeTypeName (cc_type dto)) (cc_propertyId dto)
                   (cc_serviceDate dto) \<lparr>to_guestId = cc_guestId dto, to_numberOfNights = cc_numberOfNights dto,
                   to_nightNumber = cc_nightNumber dto\<rparr>) (\<lambda>taxItems.
                 postTaxes L ids folioId dto serviceDate (ch_id charge) 1 taxItems)
            else returnS []) (\<lambda>taxCharges.
         bindS (recalculateBalance L now folioId (cc_propertyId dto)) (\<lambda>_.
         bindS (if inTx then returnS () else emit ''folio.charge_posted'' ''charge'' (ch_id charge)
            [(''folioId'', Some folioId), (''type'', Some (chargeTypeName (ch_type charge))),
             (''amount'', Some (ch_amount charge)), (''description'', Some (ch_description charge))]
            (Some (cc_propertyId dto))) (\<lambda>_.
         returnS (charge, taxCharges, True))))))))))))"

definition postRoomTariff :: "'d numlib \<Rightarrow> millis \<Rightarrow> (nat \<Rightarrow> uuid) \<Rightarrow> uuid \<Rightarrow> uuid \<Rightarrow> string \<Rightarrow> string \<Rightarrow> string
    \<Rightarrow> ('z folio_db_scheme, posted) op" where
  "postRoomTariff L now ids folioId p rate currencyCode serviceDate =
     postCharge L now ids False folioId \<lparr>cc_propertyId = p, cc_type = CtRoom,
       cc_description = ''Room tariff - '' @ takeWhile (\<lambda>c. c \<noteq> CHR ''T'') serviceDate, cc_amount = rate,
       cc_currencyCode = currencyCode, cc_taxAmount = None, cc_taxRate = None, cc_taxCode = None,
       cc_serviceDate = serviceDate, cc_postedBy = None, cc_guestId = None, cc_numberOfNights = None,
       cc_nightNumber = None, cc_skipTaxCalculation = False, cc_provenance = False\<rparr> noPersistence"

section \<open>Accepted prices\<close>

text \<open>A part of an accepted price: no live tax, the frozen description, attached to its base.\<close>

definition frozenPart :: "createChargeDto \<Rightarrow> chargeType \<Rightarrow> string \<Rightarrow> string \<Rightarrow> createChargeDto" where
  "frozenPart dto ty description amount = \<lparr>cc_propertyId = cc_propertyId dto, cc_type = ty,
     cc_description = take 255 description, cc_amount = amount, cc_currencyCode = cc_currencyCode dto,
     cc_taxAmount = None, cc_taxRate = None, cc_taxCode = None, cc_serviceDate = cc_serviceDate dto,
     cc_postedBy = cc_postedBy dto, cc_guestId = None, cc_numberOfNights = None, cc_nightNumber = None,
     cc_skipTaxCalculation = True, cc_provenance = False\<rparr>"

record snapshotOutcome =
  so_charge :: charge
  so_taxCharges :: "charge list"
  so_adjustmentCharges :: "charge list"
  so_wasCreated :: bool

definition postInTransaction :: "'d numlib \<Rightarrow> millis \<Rightarrow> (nat \<Rightarrow> uuid) \<Rightarrow> uuid \<Rightarrow> createChargeDto \<Rightarrow> string
    \<Rightarrow> (string \<times> string) option \<Rightarrow> string option \<Rightarrow> ('z folio_db_scheme, snapshotOutcome) op" where
  "postInTransaction L now ids folioId dto taxAmount adjustment sourceKey =
     bindS (postCharge L now ids True folioId (dto\<lparr>cc_skipTaxCalculation := True\<rparr>)
        \<lparr>pe_parentChargeId = None, pe_sourceKey = sourceKey, pe_revenueRole = None\<rparr>) (\<lambda>(base, _, created).
     if \<not> created then
       bindS (getS (\<lambda>db. filter (\<lambda>c. ch_propertyId c = cc_propertyId dto \<and> ch_folioId c = Some folioId
          \<and> ch_parentChargeId c = Some (ch_id base) \<and> \<not> ch_isReversal c) (charges db))) (\<lambda>children.
       returnS \<lparr>so_charge = base, so_taxCharges = filter (\<lambda>c. ch_type c = CtTax) children,
         so_adjustmentCharges = filter (\<lambda>c. ch_type c = CtAdjustment) children, so_wasCreated = False\<rparr>)
     else
       bindS (liftS (newDecimal L taxAmount)) (\<lambda>tax.
       bindS (if dec_gt L tax (dec_int L 0)
          then bindS (postCharge L now (\<lambda>k. ids (k + 1)) True folioId
                 (frozenPart dto CtTax (cc_description dto @ '' tax'') (dec_toFixed L 2 tax))
                 \<lparr>pe_parentChargeId = Some (ch_id base), pe_sourceKey = None, pe_revenueRole = None\<rparr>) (\<lambda>(c, _, _).
               returnS [c])
          else returnS []) (\<lambda>taxCharges.
       bindS (case adjustment of None \<Rightarrow> returnS []
          | Some (amount, reason) \<Rightarrow>
             bindS (liftS (newDecimal L amount)) (\<lambda>d.
             if dec_eq L d (dec_int L 0) then returnS []
             else bindS (postCharge L now (\<lambda>k. ids (k + 2)) True folioId
                 (frozenPart dto CtAdjustment (''Accepted price adjustment: '' @ reason) (dec_toFixed L 2 d))
                 \<lparr>pe_parentChargeId = Some (ch_id base), pe_sourceKey = None, pe_revenueRole = None\<rparr>) (\<lambda>(c, _, _).
               returnS [c]))) (\<lambda>adjustmentCharges.
       returnS \<lparr>so_charge = base, so_taxCharges = taxCharges, so_adjustmentCharges = adjustmentCharges,
         so_wasCreated = True\<rparr>))))"

fun emitPosted :: "uuid \<Rightarrow> uuid \<Rightarrow> charge list \<Rightarrow> ('z folio_db_scheme, unit) op" where
  "emitPosted folioId p [] = returnS ()"
| "emitPosted folioId p (c # cs) =
     bindS (emit ''folio.charge_posted'' ''charge'' (ch_id c)
       [(''folioId'', Some folioId), (''type'', Some (chargeTypeName (ch_type c))), (''amount'', Some (ch_amount c)),
        (''description'', Some (ch_description c))] (Some p)) (\<lambda>_. emitPosted folioId p cs)"

definition emitSnapshotChargeWebhooks :: "uuid \<Rightarrow> uuid \<Rightarrow> snapshotOutcome \<Rightarrow> ('z folio_db_scheme, unit) op" where
  "emitSnapshotChargeWebhooks folioId p outcome =
     (if \<not> so_wasCreated outcome then returnS ()
      else emitPosted folioId p (so_charge outcome # so_taxCharges outcome @ so_adjustmentCharges outcome))"

definition postChargeFromSnapshotWithOutcome :: "'d numlib \<Rightarrow> millis \<Rightarrow> (nat \<Rightarrow> uuid) \<Rightarrow> bool \<Rightarrow> uuid \<Rightarrow> createChargeDto
    \<Rightarrow> string \<Rightarrow> (string \<times> string) option \<Rightarrow> string option \<Rightarrow> ('z folio_db_scheme, snapshotOutcome) op" where
  "postChargeFromSnapshotWithOutcome L now ids inTx folioId dto taxAmount adjustment sourceKey =
     bindS (if inTx then postInTransaction L now ids folioId dto taxAmount adjustment sourceKey
            else transactionS (postInTransaction L now ids folioId dto taxAmount adjustment sourceKey)) (\<lambda>result.
     if \<not> so_wasCreated result then returnS result
     else bindS (if inTx then returnS () else emitSnapshotChargeWebhooks folioId (cc_propertyId dto) result) (\<lambda>_.
       returnS result))"

definition postChargeFromSnapshot :: "'d numlib \<Rightarrow> millis \<Rightarrow> (nat \<Rightarrow> uuid) \<Rightarrow> uuid \<Rightarrow> createChargeDto
    \<Rightarrow> string \<Rightarrow> (string \<times> string) option \<Rightarrow> string option \<Rightarrow> ('z folio_db_scheme, snapshotOutcome) op" where
  "postChargeFromSnapshot L now ids folioId dto taxAmount adjustment sourceKey =
     postChargeFromSnapshotWithOutcome L now ids False folioId dto taxAmount adjustment sourceKey"

section \<open>Reversal and locks\<close>

definition fixedNeg :: "'d numlib \<Rightarrow> string \<Rightarrow> string result" where
  "fixedNeg L s = bindR (newDecimal L s) (\<lambda>d. Inr (dec_toFixed L 2 (dec_neg L d)))"

definition reversalOf :: "uuid \<Rightarrow> uuid \<Rightarrow> uuid \<Rightarrow> charge \<Rightarrow> uuid option \<Rightarrow> string \<Rightarrow> string \<Rightarrow> charge" where
  "reversalOf newId folioId p c parent amount taxAmount = \<lparr>ch_id = newId, ch_propertyId = p,
     ch_folioId = Some folioId, ch_houseAccountId = None, ch_type = ch_type c,
     ch_description = ''Reversal: '' @ ch_description c, ch_amount = amount, ch_currencyCode = ch_currencyCode c,
     ch_taxAmount = taxAmount, ch_taxRate = ch_taxRate c, ch_taxCode = ch_taxCode c,
     ch_serviceDate = ch_serviceDate c, ch_isReversal = True, ch_originalChargeId = Some (ch_id c),
     ch_parentChargeId = parent, ch_adjustsChargeId = None,
     ch_sourceKey = (if ch_revenueRole c = ''deposit_credit''
        then Some (nvl (ch_sourceKey c) ''null'' @ '':reversal'') else None),
     ch_revenueRole = ch_revenueRole c, ch_isLocked = False, ch_lockedByAuditDate = None, ch_postedBy = None\<rparr>"

definition insertReversal :: "'d numlib \<Rightarrow> uuid \<Rightarrow> uuid \<Rightarrow> uuid \<Rightarrow> charge \<Rightarrow> uuid option \<Rightarrow> ('z folio_db_scheme, charge) op" where
  "insertReversal L newId folioId p c parent =
     bindS (liftS (fixedNeg L (ch_amount c))) (\<lambda>amount.
     bindS (liftS (fixedNeg L (ch_taxAmount c))) (\<lambda>taxAmount.
     insertCharge L (reversalOf newId folioId p c parent amount taxAmount)))"

definition isReversalOf :: "uuid \<Rightarrow> uuid \<Rightarrow> charge \<Rightarrow> bool" where
  "isReversalOf i p c \<longleftrightarrow> ch_originalChargeId c = Some i \<and> ch_isReversal c \<and> ch_propertyId c = p"

fun reverseChildren :: "'d numlib \<Rightarrow> (nat \<Rightarrow> uuid) \<Rightarrow> uuid \<Rightarrow> uuid \<Rightarrow> uuid \<Rightarrow> nat \<Rightarrow> charge list
    \<Rightarrow> ('z folio_db_scheme, unit) op" where
  "reverseChildren L ids folioId p reversalId k [] = returnS ()"
| "reverseChildren L ids folioId p reversalId k (child # children) =
     bindS (getS (\<lambda>db. list_ex (isReversalOf (ch_id child) p) (charges db))) (\<lambda>existing.
     bindS (if existing then returnS ()
            else bindS (insertReversal L (ids k) folioId p child (Some reversalId)) (\<lambda>_. returnS ())) (\<lambda>_.
     reverseChildren L ids folioId p reversalId (Suc k) children))"

definition reverseInTransaction :: "'d numlib \<Rightarrow> millis \<Rightarrow> (nat \<Rightarrow> uuid) \<Rightarrow> uuid \<Rightarrow> uuid \<Rightarrow> uuid
    \<Rightarrow> ('z folio_db_scheme, charge) op" where
  "reverseInTransaction L now ids folioId chargeId p =
     bindS (getS (\<lambda>db. sel1 (chargeRow chargeId folioId p) (charges db))) (\<lambda>found.
     bindS (someS found (NotFoundException (''Charge '' @ chargeId @ '' not found''))) (\<lambda>original.
     bindS (guardS (\<not> ch_isLocked original) (BadRequestException ''Cannot reverse a locked charge'')) (\<lambda>_.
     bindS (guardS (\<not> ch_isReversal original) (BadRequestException ''Cannot reverse a reversal transaction'')) (\<lambda>_.
     bindS (guardS (\<not> present (ch_adjustsChargeId original))
        (BadRequestException ''Cannot reverse an internal accepted-pricing correction'')) (\<lambda>_.
     bindS (getS (childOfAccepted original folioId p)) (\<lambda>child.
     bindS (guardS (\<not> child)
        (BadRequestException ''Reverse the accepted-pricing group from its base charge'')) (\<lambda>_.
     bindS (getS (\<lambda>db. list_ex (isReversalOf chargeId p) (charges db))) (\<lambda>existing.
     bindS (guardS (\<not> existing) (BadRequestException ''Charge has already been reversed'')) (\<lambda>_.
     bindS (insertReversal L (ids 0) folioId p original None) (\<lambda>reversal.
     bindS (getS (\<lambda>db. filter (\<lambda>c. ch_parentChargeId c = Some chargeId \<and> \<not> ch_isReversal c
        \<and> ch_propertyId c = p) (charges db))) (\<lambda>childCharges.
     bindS (reverseChildren L ids folioId p (ch_id reversal) 1 childCharges) (\<lambda>_.
     bindS (recalculateBalance L now folioId p) (\<lambda>_.
     returnS reversal)))))))))))))"

definition reverseCharge :: "'d numlib \<Rightarrow> millis \<Rightarrow> (nat \<Rightarrow> uuid) \<Rightarrow> uuid \<Rightarrow> uuid \<Rightarrow> uuid
    \<Rightarrow> ('z folio_db_scheme, charge) op" where
  "reverseCharge L now ids folioId chargeId p =
     bindS (transactionS (reverseInTransaction L now ids folioId chargeId p)) (\<lambda>reversal.
     bindS (emit ''folio.charge_posted'' ''charge'' (ch_id reversal)
        [(''folioId'', Some folioId), (''type'', Some (chargeTypeName (ch_type reversal))),
         (''amount'', Some (ch_amount reversal)), (''isReversal'', Some ''true'')] (Some p)) (\<lambda>_.
     returnS reversal))"

definition lockable :: "uuid \<Rightarrow> uuid \<Rightarrow> millis \<Rightarrow> charge \<Rightarrow> bool" where
  "lockable folioId p auditDate c \<longleftrightarrow> ch_folioId c = Some folioId \<and> ch_propertyId c = p \<and> \<not> ch_isLocked c
     \<and> ch_serviceDate c \<le> auditDate"

definition lockCharges :: "uuid \<Rightarrow> uuid \<Rightarrow> millis \<Rightarrow> ('z folio_db_scheme, nat) op" where
  "lockCharges folioId p auditDate =
     bindS (getS (\<lambda>db. length (filter (lockable folioId p auditDate) (charges db)))) (\<lambda>n.
     bindS (modifyS (\<lambda>db. db\<lparr>charges := upd (lockable folioId p auditDate)
        (\<lambda>c. c\<lparr>ch_isLocked := True, ch_lockedByAuditDate := Some auditDate\<rparr>) (charges db)\<rparr>)) (\<lambda>_. returnS n))"

definition createAutoFolio :: "string \<Rightarrow> millis \<Rightarrow> uuid \<Rightarrow> bool \<Rightarrow> reservation \<Rightarrow> ('z folio_db_scheme, folio) op" where
  "createAutoFolio today now newId inTx r =
     bindS (getS (\<lambda>db. sel1 (\<lambda>f. fo_propertyId f = rv_propertyId r \<and> fo_reservationId f = Some (rv_id r)
        \<and> fo_type f = FtGuest) (folios db))) (\<lambda>existing.
     case existing of Some f \<Rightarrow> returnS f
     | None \<Rightarrow> createFolio today now newId inTx \<lparr>cf_propertyId = rv_propertyId r,
         cf_reservationId = Some (rv_id r), cf_bookingId = Some (rv_bookingId r), cf_guestId = rv_guestId r,
         cf_type = FtGuest, cf_currencyCode = rv_currencyCode r, cf_companyName = None,
         cf_billingAddress = None, cf_paymentTermsDays = None, cf_notes = None\<rparr>)"

end
