(* ===== verification/FolioBooks.thy ===== *)
theory FolioBooks
  imports Folio
begin

text \<open>
  The books of the guest ledger: what the rows of \<^theory_text>\<open>Folio\<close> are worth, the invariant that the
  running totals of every folio are the sums of its rows, and the lemmas by which each
  operation keeps it.
\<close>

section \<open>Values and the invariant of the ledger\<close>

definition charge_value :: "charge \<Rightarrow> rat" where
  "charge_value c = text_val (ch_amount c) + text_val (ch_taxAmount c)"

definition chargeTotal :: "uuid \<Rightarrow> uuid \<Rightarrow> 'z folio_db_scheme \<Rightarrow> rat" where
  "chargeTotal f p db = (\<Sum>c\<leftarrow>folioCharges f p db. charge_value c)"

definition paymentTotal :: "uuid \<Rightarrow> uuid \<Rightarrow> 'z folio_db_scheme \<Rightarrow> rat" where
  "paymentTotal f p db = (\<Sum>y\<leftarrow>folioPayments f p db. text_val (py_amount y))"

text \<open>The totals on the row of a folio are what its charges and payments add up to.\<close>

definition folio_balanced :: "'z folio_db_scheme \<Rightarrow> folio \<Rightarrow> bool" where
  "folio_balanced db x \<longleftrightarrow>
     money_text (fo_totalCharges x) \<and> money_text (fo_totalPayments x) \<and> money_text (fo_balance x)
     \<and> text_val (fo_totalCharges x) = chargeTotal (fo_id x) (fo_propertyId x) db
     \<and> text_val (fo_totalPayments x) = paymentTotal (fo_id x) (fo_propertyId x) db
     \<and> text_val (fo_balance x) = chargeTotal (fo_id x) (fo_propertyId x) db - paymentTotal (fo_id x) (fo_propertyId x) db"

text \<open>
  Rows: primary keys are unique, amounts are what the columns hold, a charge or payment on a
  folio refers to a folio of its property.
\<close>

definition charge_ok :: "'z folio_db_scheme \<Rightarrow> charge \<Rightarrow> bool" where
  "charge_ok db c \<longleftrightarrow> money_text (ch_amount c) \<and> money_text (ch_taxAmount c)
     \<and> (case ch_folioId c of None \<Rightarrow> True | Some f \<Rightarrow> list_ex (folioRow f (ch_propertyId c)) (folios db))"

definition payment_ok :: "'z folio_db_scheme \<Rightarrow> payment \<Rightarrow> bool" where
  "payment_ok db y \<longleftrightarrow> money_text (py_amount y)
     \<and> (case py_folioId y of None \<Rightarrow> True | Some f \<Rightarrow> list_ex (folioRow f (py_propertyId y)) (folios db))"

definition rows_ok :: "'z folio_db_scheme \<Rightarrow> bool" where
  "rows_ok db \<longleftrightarrow> distinct (map ch_id (charges db)) \<and> list_all (charge_ok db) (charges db)
     \<and> list_all (payment_ok db) (payments db)"

text \<open>The books, but for the folios of a set whose totals are to be recalculated.\<close>

definition books_except :: "(uuid \<times> uuid) set \<Rightarrow> 'z folio_db_scheme \<Rightarrow> bool" where
  "books_except S db \<longleftrightarrow> rows_ok db
     \<and> (\<forall>x\<in>set (folios db). (fo_id x, fo_propertyId x) \<notin> S \<longrightarrow> folio_balanced db x)"

abbreviation books :: "'z folio_db_scheme \<Rightarrow> bool" where
  "books \<equiv> books_except {}"

lemma folioCharges_money: "rows_ok db \<Longrightarrow> c \<in> set (folioCharges f p db) \<Longrightarrow>
    money_text (ch_amount c) \<and> money_text (ch_taxAmount c)"
  by (auto simp: rows_ok_def list_all_iff charge_ok_def folioCharges_def)

lemma folioPayments_money: "rows_ok db \<Longrightarrow> y \<in> set (folioPayments f p db) \<Longrightarrow> money_text (py_amount y)"
  by (auto simp: rows_ok_def list_all_iff payment_ok_def folioPayments_def)

lemma sum_pairs: "sum_list (map text_val (concat (map (\<lambda>c. [ch_amount c, ch_taxAmount c]) cs)))
    = (\<Sum>c\<leftarrow>cs. charge_value c)"
  by (induction cs) (auto simp: charge_value_def)

definition with_totals :: "millis \<Rightarrow> string \<Rightarrow> string \<Rightarrow> string \<Rightarrow> folio \<Rightarrow> folio" where
  "with_totals now c y b x = x\<lparr>fo_totalCharges := c, fo_totalPayments := y, fo_balance := b, fo_updatedAt := now\<rparr>"

lemma with_totals_sel [simp]:
  "fo_id (with_totals now c y b x) = fo_id x" "fo_propertyId (with_totals now c y b x) = fo_propertyId x"
  "fo_totalCharges (with_totals now c y b x) = c" "fo_totalPayments (with_totals now c y b x) = y"
  "fo_balance (with_totals now c y b x) = b" "fo_status (with_totals now c y b x) = fo_status x"
  by (simp_all add: with_totals_def)

definition retotal :: "millis \<Rightarrow> uuid \<Rightarrow> uuid \<Rightarrow> string \<Rightarrow> string \<Rightarrow> string \<Rightarrow> 'z folio_db_scheme \<Rightarrow> 'z folio_db_scheme" where
  "retotal now f p c y b db = db\<lparr>folios := upd (folioRow f p) (with_totals now c y b) (folios db)\<rparr>"

lemma recalc_steps:
  assumes "recalculateBalance L now f p w = (Inr u, w')"
  shows "\<exists>a b x y. fixed2 L (pg_sum L (concat (map (\<lambda>c. [ch_amount c, ch_taxAmount c]) (folioCharges f p (wdb w))))) = Inr a
     \<and> fixed2 L (pg_sum L (map py_amount (folioPayments f p (wdb w)))) = Inr b
     \<and> newDecimal L a = Inr x \<and> newDecimal L b = Inr y
     \<and> (if list_ex (folioRow f p) (folios (wdb w)) then
        \<exists>c q r. numeric12_2 L a = Inr c \<and> numeric12_2 L b = Inr q
          \<and> numeric12_2 L (dec_toFixed L 2 (dec_minus L x y)) = Inr r \<and> w' = w\<lparr>wdb := retotal now f p c q r (wdb w)\<rparr>
        else w' = w)"
  using assms unfolding recalculateBalance_def bindS_Inr_iff getS_iff liftS_iff whenS_Inr_iff modifyS_iff Let_def
    retotal_def with_totals_def
  by (simp only: sum.inject prod.inject ex_simps simp_thms) (auto split: if_splits)

context numerics
begin

lemma recalc_Inr:
  assumes "rows_ok (wdb w)" and "recalculateBalance L now f p w = (Inr u, w')"
  shows "\<exists>c y b. w' = w\<lparr>wdb := retotal now f p c y b (wdb w)\<rparr>
     \<and> (list_ex (folioRow f p) (folios (wdb w)) \<longrightarrow>
          money_text c \<and> money_text y \<and> money_text b \<and> text_val c = chargeTotal f p (wdb w)
          \<and> text_val y = paymentTotal f p (wdb w) \<and> text_val b = chargeTotal f p (wdb w) - paymentTotal f p (wdb w))"
proof -
  let ?db = "wdb w"
  let ?cs = "pg_sum L (concat (map (\<lambda>c. [ch_amount c, ch_taxAmount c]) (folioCharges f p ?db)))"
    and ?ps = "pg_sum L (map py_amount (folioPayments f p ?db))"
  have cs: "decimal_text ?cs = Some (chargeTotal f p ?db)"
    unfolding chargeTotal_def sum_pairs [symmetric]
    by (rule sum_money) (auto dest: folioCharges_money [OF assms(1)])
  have ps: "decimal_text ?ps = Some (paymentTotal f p ?db)"
    using sum_money [of "map py_amount (folioPayments f p ?db)"] folioPayments_money [OF assms(1)]
    by (auto simp: paymentTotal_def comp_def)
  have scc: "scaled 2 (chargeTotal f p ?db)"
    unfolding chargeTotal_def
    by (rule scaled_sum_list) (auto simp: charge_value_def intro!: scaled_add dest: folioCharges_money [OF assms(1)] money_textD(2))
  have scp: "scaled 2 (paymentTotal f p ?db)"
    unfolding paymentTotal_def
    by (rule scaled_sum_list) (auto dest: folioPayments_money [OF assms(1)] money_textD(2))
  obtain a b x y where s: "fixed2 L ?cs = Inr a" "fixed2 L ?ps = Inr b" "newDecimal L a = Inr x" "newDecimal L b = Inr y"
    and rest: "(if list_ex (folioRow f p) (folios ?db) then
        \<exists>c q r. numeric12_2 L a = Inr c \<and> numeric12_2 L b = Inr q
          \<and> numeric12_2 L (dec_toFixed L 2 (dec_minus L x y)) = Inr r \<and> w' = w\<lparr>wdb := retotal now f p c q r ?db\<rparr>
        else w' = w)"
    using recalc_steps [OF assms(2)] by blast
  have av: "decimal_text a = Some (chargeTotal f p ?db)" "decimal_text b = Some (paymentTotal f p ?db)"
    using fixed2_eq [OF cs s(1)] fixed2_eq [OF ps s(2)] by (simp_all add: round_dp_scaled scc scp)
  have xv: "dval x = Some (chargeTotal f p ?db)" "dval y = Some (paymentTotal f p ?db)"
    using newDecimal_eq [OF av(1) s(3)] newDecimal_eq [OF av(2) s(4)] by simp_all
  show ?thesis
  proof (cases "list_ex (folioRow f p) (folios ?db)")
    case False
    then have "upd (folioRow f p) g (folios ?db) = folios ?db" for g
      by (intro upd_idle) (auto simp: list_ex_iff)
    then have "retotal now f p c q r ?db = ?db" for c q r by (simp add: retotal_def)
    with False rest show ?thesis by simp
  next
    case True
    with rest obtain c q r where st: "numeric12_2 L a = Inr c" "numeric12_2 L b = Inr q"
      "numeric12_2 L (dec_toFixed L 2 (dec_minus L x y)) = Inr r" "w' = w\<lparr>wdb := retotal now f p c q r ?db\<rparr>" by auto
    note cb = numeric12_2_eq [OF av(1) st(1)] and qb = numeric12_2_eq [OF av(2) st(2)]
    have "\<bar>chargeTotal f p ?db\<bar> + \<bar>paymentTotal f p ?db\<bar> < 10 ^ 18"
      using cb(2) qb(2) by (simp add: round_dp_scaled scc scp)
    then have "dval (dec_minus L x y) = Some (chargeTotal f p ?db - paymentTotal f p ?db)"
      using xv scc scp by (intro minus_cents)
    from store_fixed_eq [OF this st(3)] have "decimal_text r = Some (chargeTotal f p ?db - paymentTotal f p ?db)"
        "\<bar>chargeTotal f p ?db - paymentTotal f p ?db\<bar> < 10 ^ 10"
      by (simp_all add: round_dp_scaled scc scp scaled_diff)
    then show ?thesis using st(4) cb qb scc scp
      by (intro exI [of _ c] exI [of _ q] exI [of _ r])
         (simp add: round_dp_scaled money_text_iff text_val_Some scaled_diff)
  qed
qed

end

section \<open>Frames\<close>

text \<open>
  The ledger is append-only: of a posted charge only its folio and its lock may change, and a
  locked charge not even that.
\<close>

definition charge_core :: "charge \<Rightarrow> charge" where
  "charge_core c = c\<lparr>ch_folioId := None, ch_isLocked := False, ch_lockedByAuditDate := None\<rparr>"

definition ledger_grows :: "'z folio_db_scheme \<Rightarrow> 'z folio_db_scheme \<Rightarrow> bool" where
  "ledger_grows db db' \<longleftrightarrow>
     (\<exists>new. map charge_core (charges db') = map charge_core (charges db) @ new)
     \<and> (\<forall>c\<in>set (charges db). ch_isLocked c \<longrightarrow> c \<in> set (charges db'))"

abbreviation folio_keys :: "'z folio_db_scheme \<Rightarrow> (uuid \<times> uuid) list" where
  "folio_keys db \<equiv> map (\<lambda>x. (fo_id x, fo_propertyId x)) (folios db)"

lemma ledger_grows_refl [simp]: "ledger_grows db db"
  by (simp add: ledger_grows_def)

lemma ledger_grows_same: "charges db' = charges db \<Longrightarrow> ledger_grows db db'"
  by (simp add: ledger_grows_def)

lemma ledger_grows_trans: "ledger_grows a b \<Longrightarrow> ledger_grows b c \<Longrightarrow> ledger_grows a c"
  by (fastforce simp: ledger_grows_def)

lemma folio_known: "list_ex (folioRow f p) (folios db) \<longleftrightarrow> (f, p) \<in> set (folio_keys db)"
  by (auto simp: list_ex_iff image_iff)

definition put_charge :: "charge \<Rightarrow> 'z folio_db_scheme \<Rightarrow> 'z folio_db_scheme" where
  "put_charge c db = db\<lparr>charges := charges db @ [c]\<rparr>"

lemma put_charge_simps [simp]:
  "charges (put_charge c db) = charges db @ [c]" "folios (put_charge c db) = folios db"
  "payments (put_charge c db) = payments db" "taxProfiles (put_charge c db) = taxProfiles db"
  "taxRules (put_charge c db) = taxRules db" "guests (put_charge c db) = guests db"
  "reservations (put_charge c db) = reservations db"
  by (simp_all add: put_charge_def)

lemma retotal_simps [simp]:
  "charges (retotal now f p c y b db) = charges db" "payments (retotal now f p c y b db) = payments db"
  "folio_keys (retotal now f p c y b db) = folio_keys db" "reservations (retotal now f p c y b db) = reservations db"
  by (auto simp: retotal_def intro!: map_upd_same)

text \<open>What posting and recalculating leave alone.\<close>

definition kept :: "'z folio_db_scheme \<Rightarrow> 'z folio_db_scheme \<Rightarrow> bool" where
  "kept db db' \<longleftrightarrow> ledger_grows db db' \<and> folio_keys db' = folio_keys db
     \<and> map fo_status (folios db') = map fo_status (folios db) \<and> payments db' = payments db
     \<and> reservations db' = reservations db"

lemma kept_refl [simp]: "kept db db"
  by (simp add: kept_def)

lemma kept_trans: "kept a b \<Longrightarrow> kept b c \<Longrightarrow> kept a c"
  by (auto simp: kept_def intro: ledger_grows_trans)

lemma kept_put: "kept db (put_charge c db)"
  by (auto simp: kept_def ledger_grows_def)

definition fresh_from :: "(nat \<Rightarrow> uuid) \<Rightarrow> nat \<Rightarrow> 'z folio_db_scheme \<Rightarrow> bool" where
  "fresh_from ids k db \<longleftrightarrow> inj ids \<and> (\<forall>j\<ge>k. ids j \<notin> ch_id ` set (charges db))"

lemma fresh_put: "fresh_from ids k db \<Longrightarrow> ch_id c = ids k \<Longrightarrow> fresh_from ids (Suc k) (put_charge c db)"
  by (auto simp: fresh_from_def inj_eq)

lemma fresh_shift: "fresh_from ids k db \<Longrightarrow> fresh_from (\<lambda>j. ids (j + k)) 0 db"
  by (auto simp: fresh_from_def intro!: injI dest: injD)

lemma fresh_mono: "fresh_from ids k db \<Longrightarrow> k \<le> n \<Longrightarrow> fresh_from ids n db"
  by (auto simp: fresh_from_def)

lemma fresh_cong: "charges db' = charges db \<Longrightarrow> fresh_from ids k db' = fresh_from ids k db"
  by (simp add: fresh_from_def)

lemma put_charge_grows: "ledger_grows db (put_charge c db)"
  by (auto simp: ledger_grows_def)

lemma chargeTotal_put: "chargeTotal f p (put_charge c db) = chargeTotal f p db
    + (if ch_folioId c = Some f \<and> ch_propertyId c = p then charge_value c else 0)"
  by (simp add: chargeTotal_def folioCharges_def)

lemma paymentTotal_put [simp]: "paymentTotal f p (put_charge c db) = paymentTotal f p db"
  by (simp add: paymentTotal_def folioPayments_def)

lemma totals_retotal [simp]:
  "chargeTotal f p (retotal now g q c y b db) = chargeTotal f p db"
  "paymentTotal f p (retotal now g q c y b db) = paymentTotal f p db"
  by (simp_all add: chargeTotal_def folioCharges_def paymentTotal_def folioPayments_def)

lemma books_put:
  assumes "books_except S db" and "money_text (ch_amount c)" and "money_text (ch_taxAmount c)"
    and "ch_id c \<notin> ch_id ` set (charges db)" and "ch_folioId c = Some f" and "(f, ch_propertyId c) \<in> set (folio_keys db)"
  shows "books_except (insert (f, ch_propertyId c) S) (put_charge c db)"
  using assms
  by (auto simp: books_except_def rows_ok_def list_all_iff charge_ok_def payment_ok_def folio_balanced_def
      chargeTotal_put folio_known split: option.splits)

lemma books_retotal:
  assumes "books_except S db"
    and "(f, p) \<in> set (folio_keys db) \<longrightarrow> money_text c \<and> money_text y \<and> money_text b \<and> text_val c = chargeTotal f p db
          \<and> text_val y = paymentTotal f p db \<and> text_val b = chargeTotal f p db - paymentTotal f p db"
  shows "books_except (S - {(f, p)}) (retotal now f p c y b db)"
proof -
  have keys: "set (folio_keys (retotal now f p c y b db)) = set (folio_keys db)" by simp
  have "rows_ok (retotal now f p c y b db)"
    using assms(1) unfolding books_except_def rows_ok_def list_all_iff charge_ok_def payment_ok_def folio_known keys
    by (auto split: option.splits)
  moreover have "folio_balanced (retotal now f p c y b db) x"
    if x: "x \<in> set (folios (retotal now f p c y b db))" "(fo_id x, fo_propertyId x) \<notin> S - {(f, p)}" for x
  proof -
    obtain z where z: "z \<in> set (folios db)" "x = (if folioRow f p z then with_totals now c y b z else z)"
      using x(1) by (auto simp: retotal_def set_upd)
    show ?thesis
    proof (cases "folioRow f p z")
      case True
      then have "(f, p) \<in> set (folio_keys db)" using z(1) by force
      with assms(2) True z(2) show ?thesis by (auto simp: folio_balanced_def)
    next
      case False
      then have "x = z" "(fo_id z, fo_propertyId z) \<notin> S" using z(2) x(2) by auto
      with assms(1) z(1) show ?thesis by (auto simp: books_except_def folio_balanced_def)
    qed
  qed
  ultimately show ?thesis by (simp add: books_except_def)
qed

lemma books_mono: "books_except S db \<Longrightarrow> S \<subseteq> T \<Longrightarrow> books_except T db"
  by (auto simp: books_except_def)

lemma books_rows: "books_except S db \<Longrightarrow> rows_ok db"
  by (simp add: books_except_def)

lemma insertCharge_iff: "insertCharge L c w = (Inr row, w') \<longleftrightarrow>
    storeCharge L c = Inr row \<and> \<not> list_ex (\<lambda>x. sameSource row x \<or> sameDeposit row x) (charges (wdb w))
    \<and> w' = w\<lparr>wdb := put_charge row (wdb w)\<rparr>"
  by (auto simp: insertCharge_def op_iffs put_charge_def)

lemma storeCharge_row: "storeCharge L c = Inr row \<Longrightarrow>
    \<exists>a t r. row = c\<lparr>ch_amount := a, ch_taxAmount := t, ch_taxRate := r\<rparr> \<and> numeric12_2 L (ch_amount c) = Inr a
      \<and> numeric12_2 L (ch_taxAmount c) = Inr t \<and> numericOptR L 5 4 (ch_taxRate c) = Inr r"
  by (auto simp: storeCharge_def op_iffs split: if_splits)

context numerics
begin

lemma storeCharge_money:
  assumes "storeCharge L c = Inr row" and "decimal_text (ch_amount c) \<noteq> None" and "decimal_text (ch_taxAmount c) \<noteq> None"
  shows "money_text (ch_amount row) \<and> text_val (ch_amount row) = round_dp 2 (text_val (ch_amount c))
     \<and> money_text (ch_taxAmount row) \<and> text_val (ch_taxAmount row) = round_dp 2 (text_val (ch_taxAmount c))"
  using storeCharge_row [OF assms(1)] numeric12_2_money [OF assms(2)] numeric12_2_money [OF assms(3)] by auto

lemma recalc_books:
  assumes "recalculateBalance L now f p w = (Inr u, w')" and "books_except S (wdb w)"
  shows "books_except (S - {(f, p)}) (wdb w')" and "charges (wdb w') = charges (wdb w)" and "kept (wdb w) (wdb w')"
proof -
  obtain c y b where w': "w' = w\<lparr>wdb := retotal now f p c y b (wdb w)\<rparr>"
    and v: "list_ex (folioRow f p) (folios (wdb w)) \<longrightarrow>
          money_text c \<and> money_text y \<and> money_text b \<and> text_val c = chargeTotal f p (wdb w)
          \<and> text_val y = paymentTotal f p (wdb w) \<and> text_val b = chargeTotal f p (wdb w) - paymentTotal f p (wdb w)"
    using recalc_Inr [OF books_rows [OF assms(2)] assms(1)] by blast
  show "books_except (S - {(f, p)}) (wdb w')"
    using books_retotal [OF assms(2) v [unfolded folio_known]] by (simp add: w')
  have "map fo_status (folios (wdb w')) = map fo_status (folios (wdb w))"
    by (auto simp: w' retotal_def intro!: map_upd_same)
  then show "charges (wdb w') = charges (wdb w)" "kept (wdb w) (wdb w')"
    using retotal_simps(3) [of now f p c y b "wdb w"] by (simp_all add: w' kept_def ledger_grows_same)
qed

lemma insert_books:
  assumes "insertCharge L c w = (Inr row, w')" and "books_except S (wdb w)"
    and "decimal_text (ch_amount c) \<noteq> None" and "decimal_text (ch_taxAmount c) \<noteq> None"
    and "ch_id c = ids k" and "fresh_from ids k (wdb w)" and "ch_folioId c = Some f"
    and "(f, ch_propertyId c) \<in> set (folio_keys (wdb w))"
  shows "books_except (insert (f, ch_propertyId c) S) (wdb w')" and "kept (wdb w) (wdb w')"
    and "fresh_from ids (Suc k) (wdb w')" and "w' = w\<lparr>wdb := put_charge row (wdb w)\<rparr>"
proof -
  have st: "storeCharge L c = Inr row" and w': "w' = w\<lparr>wdb := put_charge row (wdb w)\<rparr>"
    using assms(1) by (auto simp: insertCharge_iff)
  from storeCharge_row [OF st] have eq: "ch_id row = ch_id c" "ch_folioId row = ch_folioId c" "ch_propertyId row = ch_propertyId c"
    by auto
  note money = storeCharge_money [OF st assms(3,4)]
  have "ch_id row \<notin> ch_id ` set (charges (wdb w))" using assms(5,6) eq by (auto simp: fresh_from_def)
  with books_put [OF assms(2), of row f] money assms(7,8) eq
  show "books_except (insert (f, ch_propertyId c) S) (wdb w')" by (simp add: w')
  show "kept (wdb w) (wdb w')" by (simp add: w' kept_put)
  show "fresh_from ids (Suc k) (wdb w')" using fresh_put [OF assms(6), of row] assms(5) eq by (simp add: w')
  show "w' = w\<lparr>wdb := put_charge row (wdb w)\<rparr>" by (rule w')
qed

lemma postTaxes_books:
  assumes "postTaxes L ids f dto sd parent k items w = (Inr cs, w')" and "books_except S (wdb w)"
    and "\<forall>i\<in>set items. decimal_text (ti_amount i) \<noteq> None"
    and "fresh_from ids k (wdb w)" and "(f, cc_propertyId dto) \<in> set (folio_keys (wdb w))" and "(f, cc_propertyId dto) \<in> S"
  shows "books_except S (wdb w') \<and> kept (wdb w) (wdb w')"
  using assms
proof (induction items arbitrary: k w cs)
  case Nil
  then show ?case by (simp add: op_iffs)
next
  case (Cons i items)
  let ?row = "taxRow (ids k) f dto sd parent i"
  obtain c w1 cs' where ins: "insertCharge L ?row w = (Inr c, w1)"
    and rest: "postTaxes L ids f dto sd parent (Suc k) items w1 = (Inr cs', w')"
    using Cons.prems(1) by (auto simp: op_iffs)
  have d0: "decimal_text ''0'' \<noteq> None" by code_simp
  note ib = insert_books [OF ins Cons.prems(2), of ids k f]
  have 1: "books_except S (wdb w1)" "kept (wdb w) (wdb w1)" "fresh_from ids (Suc k) (wdb w1)"
    using ib Cons.prems(3-6) d0 by (simp_all add: taxRow_def insert_absorb)
  then have "(f, cc_propertyId dto) \<in> set (folio_keys (wdb w1))" using Cons.prems(5) by (simp add: kept_def)
  with Cons.IH [OF rest 1(1)] Cons.prems(3,6) 1(3) have "books_except S (wdb w') \<and> kept (wdb w1) (wdb w')" by simp
  with 1(2) show ?case by (blast intro: kept_trans)
qed

end

text \<open>When the taxes of a posting are within the bounds of the exact tax engine.\<close>

definition post_opts :: "createChargeDto \<Rightarrow> taxOptions" where
  "post_opts dto = \<lparr>to_guestId = cc_guestId dto, to_numberOfNights = cc_numberOfNights dto, to_nightNumber = cc_nightNumber dto\<rparr>"

definition taxed :: "createChargeDto \<Rightarrow> bool" where
  "taxed dto \<longleftrightarrow> cc_type dto \<noteq> CtTax \<and> cc_type dto \<noteq> CtAdjustment \<and> \<not> cc_skipTaxCalculation dto"

definition untaxed :: "string \<Rightarrow> taxOptions \<Rightarrow> guest option \<Rightarrow> taxRule list \<Rightarrow> bool" where
  "untaxed ct opts g rs \<longleftrightarrow> list_all (\<lambda>r. \<not> ruleApplies ct opts g r) rs"

definition postable :: "createChargeDto \<Rightarrow> 'z tax_db_scheme \<Rightarrow> bool" where
  "postable dto db \<longleftrightarrow> decimal_text (cc_amount dto) \<noteq> None \<and> decimal_text (nvl (cc_taxAmount dto) ''0'') \<noteq> None
     \<and> (taxed dto \<longrightarrow> (let rs = activeRules (cc_propertyId dto) (take 10 (cc_serviceDate dto)) db;
            ct = chargeTypeName (cc_type dto); g = taxGuest (post_opts dto) db in
          untaxed ct (post_opts dto) g rs
          \<or> (list_all rule_ok rs \<and> opts_ok (post_opts dto) \<and> round_dp 2 (text_val (cc_amount dto)) = text_val (cc_amount dto)
             \<and> exact_gross ct (post_opts dto) g rs (text_val (cc_amount dto)) \<le> 10 ^ 7)))"

lemma untaxed_loop: "untaxed ct opts g rs \<Longrightarrow> taxLoop L ct opts g a rs x = Inr []"
  by (induction rs) (auto simp: untaxed_def)

lemma untaxed_items: "untaxed ct opts g rs \<Longrightarrow> exact_items ct opts g a rs x = []"
  by (induction rs) (auto simp: untaxed_def Let_def)

lemma untaxed_calculate:
  assumes "untaxed ct opts (taxGuest opts (wdb w)) (activeRules p (take 10 d) (wdb w))"
    and "calculateTaxes L s ct p d opts w = (Inr items, w')"
  shows "items = []"
  using assms
  by (auto simp: calculateTaxes_def calculateLoadedTaxes_def activeRules_def op_iffs untaxed_loop split: option.splits if_splits)

lemma lines_decimal: "lines_of items xs \<Longrightarrow> i \<in> set items \<Longrightarrow> decimal_text (ti_amount i) \<noteq> None"
proof (induction items arbitrary: xs)
  case Nil
  then show ?case by simp
next
  case (Cons t items)
  then obtain r v ys where "xs = (r, v) # ys" by (cases xs) auto
  with Cons show ?case by (auto simp: lines_of_Cons)
qed

lemma activeRules_put [simp]: "activeRules p d (put_charge c db) = activeRules p d db"
  by (simp add: activeRules_def getActiveTaxProfile_def)

lemma taxGuest_put [simp]: "taxGuest opts (put_charge c db) = taxGuest opts db"
  by (simp add: taxGuest_def)

text \<open>A posting that returns: a replay of the same source, or a new charge with its taxes.\<close>

lemma insertChargeOnce_iff: "insertChargeOnce L c w = (Inr r, w') \<longleftrightarrow>
    (\<exists>row. storeCharge L c = Inr row \<and>
      (if list_ex (sameSource row) (charges (wdb w)) then r = None \<and> w' = w
       else \<exists>x. insertCharge L c w = (Inr x, w') \<and> r = Some x))"
  by (auto simp: insertChargeOnce_def op_iffs split: if_splits)

lemma findFolio_iff: "findFolio i p w = (Inr f, w') \<longleftrightarrow> w' = w \<and> sel1 (folioRow i p) (folios (wdb w)) = Some f"
  by (auto simp: findFolio_def op_iffs)

lemma findFolio_key: "sel1 (folioRow i p) (folios db) = Some f \<Longrightarrow> (i, p) \<in> set (folio_keys db)"
  by (force dest: find_SomeD)

definition posting_checked :: "'d numlib \<Rightarrow> uuid \<Rightarrow> createChargeDto \<Rightarrow> chargePersistence \<Rightarrow> millis \<Rightarrow> 'z folio_db_scheme \<Rightarrow> bool" where
  "posting_checked L f dto pers sd db \<longleftrightarrow> \<not> cc_provenance dto
     \<and> \<not> (present (pe_revenueRole pers) \<and> (cc_type dto \<noteq> CtAdjustment \<or> take 8 (nvl (pe_sourceKey pers) []) \<noteq> ''deposit:''))
     \<and> (\<exists>fo. sel1 (folioRow f (cc_propertyId dto)) (folios db) = Some fo \<and> fo_status fo = FsOpen)
     \<and> (\<exists>a. newDecimal L (cc_amount dto) = Inr a \<and> \<not> (dec_lte L a (dec_int L 0) \<and> cc_type dto \<noteq> CtAdjustment))
     \<and> newDate (cc_serviceDate dto) = Inr sd"

lemma insertOnce_insert:
  "(if b then insertChargeOnce L row w = (Inr (Some c), w1) else insertCharge L row w = (Inr c, w1)) \<Longrightarrow>
   insertCharge L row w = (Inr c, w1)"
  by (auto simp: insertChargeOnce_iff split: if_splits)

lemma chargeOf_sel [simp]: "ch_id (chargeOf i f dto pers sd) = i" "ch_folioId (chargeOf i f dto pers sd) = Some f"
  "ch_propertyId (chargeOf i f dto pers sd) = cc_propertyId dto" "ch_type (chargeOf i f dto pers sd) = cc_type dto"
  "ch_amount (chargeOf i f dto pers sd) = cc_amount dto" "ch_taxAmount (chargeOf i f dto pers sd) = nvl (cc_taxAmount dto) ''0''"
  by (simp_all add: chargeOf_def)

lemma storeCharge_sel: "storeCharge L c = Inr row \<Longrightarrow> ch_id row = ch_id c \<and> ch_folioId row = ch_folioId c
    \<and> ch_propertyId row = ch_propertyId c \<and> ch_type row = ch_type c \<and> ch_sourceKey row = ch_sourceKey c
    \<and> ch_isLocked row = ch_isLocked c \<and> ch_parentChargeId row = ch_parentChargeId c
    \<and> ch_isReversal row = ch_isReversal c \<and> ch_originalChargeId row = ch_originalChargeId c"
  using storeCharge_row by force

text \<open>The steps of a posting that creates a charge, up to the events.\<close>

definition posts_new :: "'d numlib \<Rightarrow> millis \<Rightarrow> (nat \<Rightarrow> uuid) \<Rightarrow> uuid \<Rightarrow> createChargeDto \<Rightarrow> chargePersistence \<Rightarrow> millis
    \<Rightarrow> 'z folio_db_scheme world \<Rightarrow> charge \<Rightarrow> charge list \<Rightarrow> 'z folio_db_scheme world \<Rightarrow> bool" where
  "posts_new L now ids f dto pers sd w c ts w' \<longleftrightarrow> (\<exists>w1 w2 w3.
     insertCharge L (chargeOf (ids 0) f dto pers sd) w = (Inr c, w1)
     \<and> (if taxed dto
        then \<exists>items. calculateTaxes L (cc_amount dto) (chargeTypeName (cc_type dto)) (cc_propertyId dto) (cc_serviceDate dto)
               (post_opts dto) w1 = (Inr items, w1) \<and> postTaxes L ids f dto sd (ch_id c) 1 items w1 = (Inr ts, w2)
        else ts = [] \<and> w2 = w1)
     \<and> recalculateBalance L now f (cc_propertyId dto) w2 = (Inr (), w3) \<and> wdb w' = wdb w3)"

lemma postCharge_Inr:
  assumes "postCharge L now ids inTx f dto pers w = (Inr (c, ts, created), w')"
  shows "\<exists>sd. posting_checked L f dto pers sd (wdb w) \<and>
    (if created then posts_new L now ids f dto pers sd w c ts w'
     else present (pe_sourceKey pers) \<and> w' = w \<and> ts = [] \<and>
        sel1 (\<lambda>x. ch_propertyId x = cc_propertyId dto \<and> ch_folioId x = Some f \<and> ch_sourceKey x = pe_sourceKey pers)
          (charges (wdb w)) = Some c)"
proof -
  have taxes_pure: "calculateTaxes L a b d e g w = (Inr items, w1) \<Longrightarrow> w1 = w" for a b d e g w items w1
    by (auto simp: calculateTaxes_def op_iffs split: option.splits if_splits prod.splits)
  have "\<exists>sd ins w1. (if present (pe_sourceKey pers) then insertChargeOnce L (chargeOf (ids 0) f dto pers sd)
            else bindS (insertCharge L (chargeOf (ids 0) f dto pers sd)) (\<lambda>c. returnS (Some c))) w = (Inr ins, w1)
     \<and> (case ins of
       None \<Rightarrow>
         bindS (getS (\<lambda>db. sel1 (\<lambda>c. ch_propertyId c = cc_propertyId dto \<and> ch_folioId c = Some f
            \<and> ch_sourceKey c = pe_sourceKey pers) (charges db))) (\<lambda>found.
         bindS (someS found (ConflictException ''Charge source key was claimed without a persisted charge'')) (\<lambda>existing.
         returnS (existing, [], False)))
     | Some charge \<Rightarrow>
         bindS (if ch_type charge \<noteq> CtTax \<and> ch_type charge \<noteq> CtAdjustment \<and> \<not> cc_skipTaxCalculation dto
            then bindS (calculateTaxes L (cc_amount dto) (chargeTypeName (cc_type dto)) (cc_propertyId dto)
                   (cc_serviceDate dto) (post_opts dto)) (\<lambda>taxItems.
                 postTaxes L ids f dto sd (ch_id charge) 1 taxItems)
            else returnS []) (\<lambda>taxCharges.
         bindS (recalculateBalance L now f (cc_propertyId dto)) (\<lambda>_.
         bindS (if inTx then returnS () else emit ''folio.charge_posted'' ''charge'' (ch_id charge)
            [(''folioId'', Some f), (''type'', Some (chargeTypeName (ch_type charge))),
             (''amount'', Some (ch_amount charge)), (''description'', Some (ch_description charge))]
            (Some (cc_propertyId dto))) (\<lambda>_.
         returnS (charge, taxCharges, True))))) w1 = (Inr (c, ts, created), w')
     \<and> posting_checked L f dto pers sd (wdb w)"
    using assms
    unfolding postCharge_def posting_checked_def Let_def bindS_Inr_iff guardS_Inr_iff findFolio_iff liftS_iff post_opts_def
    apply (elim exE conjE)
    apply (simp only: )
    apply (intro exI conjI)
    apply assumption
    apply assumption
    by blast+
  then obtain sd ins w1 where chk: "posting_checked L f dto pers sd (wdb w)"
    and ins: "(if present (pe_sourceKey pers) then insertChargeOnce L (chargeOf (ids 0) f dto pers sd)
            else bindS (insertCharge L (chargeOf (ids 0) f dto pers sd)) (\<lambda>c. returnS (Some c))) w = (Inr ins, w1)"
    and rest: "(case ins of
       None \<Rightarrow>
         bindS (getS (\<lambda>db. sel1 (\<lambda>c. ch_propertyId c = cc_propertyId dto \<and> ch_folioId c = Some f
            \<and> ch_sourceKey c = pe_sourceKey pers) (charges db))) (\<lambda>found.
         bindS (someS found (ConflictException ''Charge source key was claimed without a persisted charge'')) (\<lambda>existing.
         returnS (existing, [], False)))
     | Some charge \<Rightarrow>
         bindS (if ch_type charge \<noteq> CtTax \<and> ch_type charge \<noteq> CtAdjustment \<and> \<not> cc_skipTaxCalculation dto
            then bindS (calculateTaxes L (cc_amount dto) (chargeTypeName (cc_type dto)) (cc_propertyId dto)
                   (cc_serviceDate dto) (post_opts dto)) (\<lambda>taxItems.
                 postTaxes L ids f dto sd (ch_id charge) 1 taxItems)
            else returnS []) (\<lambda>taxCharges.
         bindS (recalculateBalance L now f (cc_propertyId dto)) (\<lambda>_.
         bindS (if inTx then returnS () else emit ''folio.charge_posted'' ''charge'' (ch_id charge)
            [(''folioId'', Some f), (''type'', Some (chargeTypeName (ch_type charge))),
             (''amount'', Some (ch_amount charge)), (''description'', Some (ch_description charge))]
            (Some (cc_propertyId dto))) (\<lambda>_.
         returnS (charge, taxCharges, True))))) w1 = (Inr (c, ts, created), w')" by (elim exE conjE) (rule that)
  show ?thesis
  proof (cases ins)
    case None
    have k: "present (pe_sourceKey pers)" "w1 = w" using ins None by (auto simp: op_iffs insertChargeOnce_iff split: if_splits)
    from rest k(2) have "created = False" "w' = w" "ts = []"
        "sel1 (\<lambda>x. ch_propertyId x = cc_propertyId dto \<and> ch_folioId x = Some f \<and> ch_sourceKey x = pe_sourceKey pers)
          (charges (wdb w)) = Some c"
      unfolding None by (simp_all add: bindS_Inr_iff getS_iff someS_Inr_iff returnS_iff)
    with chk k show ?thesis by auto
  next
    case (Some charge)
    from rest obtain w2 w3 where r: "c = charge" "created"
      "(if ch_type charge \<noteq> CtTax \<and> ch_type charge \<noteq> CtAdjustment \<and> \<not> cc_skipTaxCalculation dto
            then bindS (calculateTaxes L (cc_amount dto) (chargeTypeName (cc_type dto)) (cc_propertyId dto)
                   (cc_serviceDate dto) (post_opts dto)) (\<lambda>taxItems.
                 postTaxes L ids f dto sd (ch_id charge) 1 taxItems)
            else returnS []) w1 = (Inr ts, w2)"
      "recalculateBalance L now f (cc_propertyId dto) w2 = (Inr (), w3)" "wdb w' = wdb w3"
      unfolding Some option.case bindS_Inr_iff returnS_iff
      by (auto simp: emit_iff returnS_iff split: if_splits)
    have new: "insertCharge L (chargeOf (ids 0) f dto pers sd) w = (Inr c, w1)"
      using ins r(1) insertOnce_insert [of "present (pe_sourceKey pers)" L "chargeOf (ids 0) f dto pers sd" w c w1]
      by (auto simp: Some bindS_Inr_iff returnS_iff split: if_splits)
    then have "ch_type c = cc_type dto" using storeCharge_sel by (fastforce simp: insertCharge_iff)
    then have "if taxed dto
           then \<exists>items. calculateTaxes L (cc_amount dto) (chargeTypeName (cc_type dto)) (cc_propertyId dto) (cc_serviceDate dto)
                  (post_opts dto) w1 = (Inr items, w1)
               \<and> postTaxes L ids f dto sd (ch_id c) 1 items w1 = (Inr ts, w2)
           else ts = [] \<and> w2 = w1"
      using r(1,3) taxes_pure by (fastforce simp: taxed_def bindS_Inr_iff returnS_iff split: if_splits)
    with new r(4,5) have "posts_new L now ids f dto pers sd w c ts w'" unfolding posts_new_def by blast
    then show ?thesis using chk r(2) by auto
  qed
qed

context numerics
begin

lemma posted_taxes:
  assumes "calculateTaxes L (cc_amount dto) (chargeTypeName (cc_type dto)) (cc_propertyId dto) (cc_serviceDate dto)
      (post_opts dto) w = (Inr items, w1)"
    and "postable dto (wdb w)" and "taxed dto" and "0 \<le> text_val (cc_amount dto)"
  shows "lines_of items (exact_items (chargeTypeName (cc_type dto)) (post_opts dto) (taxGuest (post_opts dto) (wdb w))
      (text_val (cc_amount dto)) (activeRules (cc_propertyId dto) (take 10 (cc_serviceDate dto)) (wdb w)) (text_val (cc_amount dto)))"
proof -
  have "decimal_text (cc_amount dto) = Some (text_val (cc_amount dto))"
    using assms(2) by (auto simp: postable_def text_val_def)
  then show ?thesis
    using calculateTaxes_val [of "cc_propertyId dto" "cc_serviceDate dto" w "post_opts dto" "cc_amount dto"
        "text_val (cc_amount dto)" "chargeTypeName (cc_type dto)"] untaxed_calculate [OF _ assms(1)] assms
    by (auto simp: postable_def Let_def round_dp_4_iff untaxed_items)
qed

lemma posting_positive:
  assumes "posting_checked L f dto pers sd db" and "decimal_text (cc_amount dto) \<noteq> None" and "cc_type dto \<noteq> CtAdjustment"
  shows "0 < text_val (cc_amount dto)"
proof -
  obtain a where a: "newDecimal L (cc_amount dto) = Inr a" "\<not> dec_lte L a (dec_int L 0)"
    using assms(1,3) by (auto simp: posting_checked_def)
  have "dval a = Some (text_val (cc_amount dto))"
    using newDecimal_eq [OF _ a(1)] assms(2) by (auto simp: text_val_def)
  with a(2) show ?thesis using lte_val [of a "text_val (cc_amount dto)" "dec_int L 0" 0] int_val [of 0] by auto
qed

lemma posts_new_books:
  assumes "posts_new L now ids f dto pers sd w c ts w'" and "posting_checked L f dto pers sd (wdb w)"
    and "books (wdb w)" and "fresh_from ids 0 (wdb w)" and "postable dto (wdb w)"
  shows "books (wdb w') \<and> kept (wdb w) (wdb w') \<and> (\<not> taxed dto \<longrightarrow> charges (wdb w') = charges (wdb w) @ [c])"
proof -
  let ?p = "cc_propertyId dto"
  obtain w1 w2 w3 where ins: "insertCharge L (chargeOf (ids 0) f dto pers sd) w = (Inr c, w1)"
    and tax: "if taxed dto
        then \<exists>items. calculateTaxes L (cc_amount dto) (chargeTypeName (cc_type dto)) ?p (cc_serviceDate dto)
               (post_opts dto) w1 = (Inr items, w1) \<and> postTaxes L ids f dto sd (ch_id c) 1 items w1 = (Inr ts, w2)
        else ts = [] \<and> w2 = w1"
    and rec: "recalculateBalance L now f ?p w2 = (Inr (), w3)" "wdb w' = wdb w3"
    using assms(1) by (auto simp: posts_new_def)
  have key: "(f, ?p) \<in> set (folio_keys (wdb w))"
    using assms(2) by (auto simp: posting_checked_def dest: findFolio_key)
  note ib = insert_books [OF ins assms(3), of ids 0 f]
  have 1: "books_except {(f, ?p)} (wdb w1)" "kept (wdb w) (wdb w1)" "fresh_from ids 1 (wdb w1)"
      "w1 = w\<lparr>wdb := put_charge c (wdb w)\<rparr>"
    using ib assms(4,5) key by (auto simp: postable_def)
  have "books_except {(f, ?p)} (wdb w2) \<and> kept (wdb w1) (wdb w2) \<and> (\<not> taxed dto \<longrightarrow> w2 = w1)"
  proof (cases "taxed dto")
    case False
    then show ?thesis using tax 1(1) by simp
  next
    case True
    with tax obtain items where items: "calculateTaxes L (cc_amount dto) (chargeTypeName (cc_type dto)) ?p (cc_serviceDate dto)
        (post_opts dto) w1 = (Inr items, w1)" "postTaxes L ids f dto sd (ch_id c) 1 items w1 = (Inr ts, w2)" by auto
    have "0 < text_val (cc_amount dto)"
      using posting_positive [OF assms(2)] assms(5) True by (auto simp: postable_def taxed_def)
    moreover have "postable dto (wdb w1)" using assms(5) by (simp add: 1(4) postable_def)
    ultimately have "\<forall>i\<in>set items. decimal_text (ti_amount i) \<noteq> None"
      using posted_taxes [OF items(1) _ True] lines_decimal by auto
    moreover have "(f, ?p) \<in> set (folio_keys (wdb w1))" using key by (simp add: 1(4))
    ultimately show ?thesis using postTaxes_books [OF items(2) 1(1) _ 1(3)] True by simp
  qed
  moreover from this recalc_books [OF rec(1), of "{(f, ?p)}"]
  have "books (wdb w')" "charges (wdb w') = charges (wdb w2)" "kept (wdb w2) (wdb w')"
    by (simp_all add: rec(2))
  ultimately show ?thesis using 1(2,4) by (auto intro: kept_trans)
qed

lemma postCharge_books:
  assumes "postCharge L now ids inTx f dto pers w = (Inr r, w')" and "books (wdb w)" and "fresh_from ids 0 (wdb w)"
    and "postable dto (wdb w)"
  shows "books (wdb w') \<and> kept (wdb w) (wdb w')
    \<and> (\<not> taxed dto \<longrightarrow> charges (wdb w') = charges (wdb w) @ (if snd (snd r) then [fst r] else []))"
proof -
  obtain c ts created where r: "r = (c, ts, created)" by (cases r)
  from postCharge_Inr [OF assms(1) [unfolded r]] obtain sd where chk: "posting_checked L f dto pers sd (wdb w)"
    and step: "if created then posts_new L now ids f dto pers sd w c ts w' else w' = w"
    by (auto split: if_splits)
  then show ?thesis
    using posts_new_books [OF _ chk assms(2-4), of now c ts w'] assms(2) by (auto simp: r split: if_splits)
qed

text \<open>The other operations.\<close>

lemma fixedNeg_text: "money_text s \<Longrightarrow> fixedNeg L s = Inr t \<Longrightarrow> decimal_text t = Some (- text_val s)"
proof -
  assume m: "money_text s" and t: "fixedNeg L s = Inr t"
  then obtain d where d: "newDecimal L s = Inr d" "t = dec_toFixed L 2 (dec_neg L d)" by (auto simp: fixedNeg_def op_iffs)
  have "dval d = Some (text_val s)" using newDecimal_eq [OF money_textD(1) [OF m] d(1)] .
  from toFixed_text [OF neg_val [OF this], of 2] show ?thesis
    using money_textD(2) [OF m] by (simp add: d(2) round_dp_scaled)
qed

lemma insertReversal_books:
  assumes "insertReversal L (ids k) f p c par w = (Inr row, w')" and "books_except S (wdb w)"
    and "money_text (ch_amount c)" and "money_text (ch_taxAmount c)"
    and "fresh_from ids k (wdb w)" and "(f, p) \<in> set (folio_keys (wdb w))"
  shows "books_except (insert (f, p) S) (wdb w') \<and> kept (wdb w) (wdb w') \<and> fresh_from ids (Suc k) (wdb w')
    \<and> w' = w\<lparr>wdb := put_charge row (wdb w)\<rparr> \<and> charge_value row = - charge_value c \<and> ch_id row = ids k
    \<and> ch_folioId row = Some f \<and> ch_propertyId row = p"
proof -
  obtain a t where at: "fixedNeg L (ch_amount c) = Inr a" "fixedNeg L (ch_taxAmount c) = Inr t"
    and ins: "insertCharge L (reversalOf (ids k) f p c par a t) w = (Inr row, w')"
    using assms(1) by (auto simp: insertReversal_def op_iffs)
  let ?r = "reversalOf (ids k) f p c par a t"
  have v: "decimal_text a = Some (- text_val (ch_amount c))" "decimal_text t = Some (- text_val (ch_taxAmount c))"
    using fixedNeg_text [OF assms(3) at(1)] fixedNeg_text [OF assms(4) at(2)] .
  note ib = insert_books [OF ins assms(2), of ids k f]
  have st: "storeCharge L ?r = Inr row" using ins by (simp add: insertCharge_iff)
  have "charge_value row = - charge_value c"
    using storeCharge_money [OF st] v money_textD(2) [OF assms(3)] money_textD(2) [OF assms(4)]
    by (simp add: reversalOf_def charge_value_def text_val_Some round_dp_scaled)
  with ib storeCharge_sel [OF st] v assms(5,6) show ?thesis by (simp add: reversalOf_def)
qed

lemma reverseChildren_books:
  assumes "reverseChildren L ids f p rid k cs w = (Inr u, w')" and "books_except S (wdb w)" and "(f, p) \<in> S"
    and "\<forall>c\<in>set cs. money_text (ch_amount c) \<and> money_text (ch_taxAmount c)" and "distinct (map ch_id cs)"
    and "fresh_from ids k (wdb w)" and "(f, p) \<in> set (folio_keys (wdb w))"
  shows "books_except S (wdb w') \<and> kept (wdb w) (wdb w')
    \<and> chargeTotal f p (wdb w') = chargeTotal f p (wdb w)
       - (\<Sum>c\<leftarrow>filter (\<lambda>c. \<not> list_ex (isReversalOf (ch_id c) p) (charges (wdb w))) cs. charge_value c)"
  using assms
proof (induction cs arbitrary: k w)
  case Nil
  then show ?case by (simp add: op_iffs)
next
  case (Cons c cs)
  let ?done = "\<lambda>w c. list_ex (isReversalOf (ch_id c) p) (charges (wdb w))"
  obtain w1 where first: "(if ?done w c then w1 = w
      else \<exists>x. insertReversal L (ids k) f p c (Some rid) w = (Inr x, w1))"
    and rest: "reverseChildren L ids f p rid (Suc k) cs w1 = (Inr u, w')"
    using Cons.prems(1) by (auto simp: op_iffs split: if_splits)
  have 1: "books_except S (wdb w1) \<and> kept (wdb w) (wdb w1) \<and> fresh_from ids (Suc k) (wdb w1)
     \<and> chargeTotal f p (wdb w1) = chargeTotal f p (wdb w) - (if ?done w c then 0 else charge_value c)
     \<and> (\<forall>d\<in>set cs. ?done w1 d = ?done w d)"
  proof (cases "?done w c")
    case True
    with first Cons.prems(2,6) show ?thesis by (auto intro: fresh_mono)
  next
    case False
    with first obtain x where x: "insertReversal L (ids k) f p c (Some rid) w = (Inr x, w1)" by auto
    have orig: "ch_originalChargeId x = Some (ch_id c)"
      using x storeCharge_sel by (fastforce simp: insertReversal_def op_iffs insertCharge_iff reversalOf_def)
    have "\<not> isReversalOf (ch_id d) p x" if "d \<in> set cs" for d
      using that orig Cons.prems(5) by (auto simp: isReversalOf_def image_iff)
    moreover have "books_except S (wdb w1) \<and> kept (wdb w) (wdb w1) \<and> fresh_from ids (Suc k) (wdb w1)
        \<and> w1 = w\<lparr>wdb := put_charge x (wdb w)\<rparr> \<and> charge_value x = - charge_value c \<and> ch_folioId x = Some f \<and> ch_propertyId x = p"
      using insertReversal_books [of ids k f p c "Some rid" w x w1 S] x Cons.prems(2-7) by (auto simp: insert_absorb)
    ultimately show ?thesis using False by (auto simp: chargeTotal_put)
  qed
  then have "(f, p) \<in> set (folio_keys (wdb w1))" using Cons.prems(7) by (simp add: kept_def)
  with Cons.IH [OF rest] Cons.prems(3-5) 1
  have "books_except S (wdb w') \<and> kept (wdb w1) (wdb w')
    \<and> chargeTotal f p (wdb w') = chargeTotal f p (wdb w1) - (\<Sum>c\<leftarrow>filter (\<lambda>c. \<not> ?done w1 c) cs. charge_value c)" by simp
  moreover have "filter (\<lambda>c. \<not> ?done w1 c) cs = filter (\<lambda>c. \<not> ?done w c) cs" using 1 by (intro filter_cong) auto
  ultimately show ?case using 1 by (auto intro: kept_trans)
qed

lemma reverseInTransaction_books:
  assumes "reverseInTransaction L now ids f i p w = (Inr r, w')" and "books (wdb w)" and "fresh_from ids 0 (wdb w)"
  shows "\<exists>c. sel1 (chargeRow i f p) (charges (wdb w)) = Some c \<and> \<not> ch_isLocked c \<and> \<not> ch_isReversal c
    \<and> books (wdb w') \<and> kept (wdb w) (wdb w')
    \<and> chargeTotal f p (wdb w') = chargeTotal f p (wdb w) - charge_value c
       - (\<Sum>d\<leftarrow>filter (\<lambda>d. ch_id d \<noteq> i \<and> \<not> list_ex (isReversalOf (ch_id d) p) (charges (wdb w)))
             (filter (\<lambda>d. ch_parentChargeId d = Some i \<and> \<not> ch_isReversal d \<and> ch_propertyId d = p) (charges (wdb w))).
           charge_value d)"
proof -
  let ?kids = "\<lambda>db. filter (\<lambda>c. ch_parentChargeId c = Some i \<and> \<not> ch_isReversal c \<and> ch_propertyId c = p) (charges db)"
  have "\<exists>c w1 w2. insertReversal L (ids 0) f p c None w = (Inr r, w1)
      \<and> reverseChildren L ids f p (ch_id r) 1 (?kids (wdb w1)) w1 = (Inr (), w2)
      \<and> recalculateBalance L now f p w2 = (Inr (), w') \<and> sel1 (chargeRow i f p) (charges (wdb w)) = Some c
      \<and> \<not> ch_isLocked c \<and> \<not> ch_isReversal c"
    using assms(1)
    by (clarsimp simp: reverseInTransaction_def bindS_Inr_iff getS_iff someS_Inr_iff guardS_Inr_iff returnS_iff)
       blast
  then obtain c w1 w2 where c: "sel1 (chargeRow i f p) (charges (wdb w)) = Some c" "\<not> ch_isLocked c" "\<not> ch_isReversal c"
    and ins: "insertReversal L (ids 0) f p c None w = (Inr r, w1)"
    and kids: "reverseChildren L ids f p (ch_id r) 1 (?kids (wdb w1)) w1 = (Inr (), w2)"
    and rec: "recalculateBalance L now f p w2 = (Inr (), w')" by blast
  have cin: "c \<in> set (charges (wdb w))" "ch_folioId c = Some f" "ch_propertyId c = p" "ch_id c = i"
    using find_SomeD [OF c(1)] by auto
  have ok: "charge_ok (wdb w) c" "distinct (map ch_id (charges (wdb w)))"
    using assms(2) cin(1) by (auto simp: books_except_def rows_ok_def list_all_iff)
  then have key: "(f, p) \<in> set (folio_keys (wdb w))" using cin by (simp add: charge_ok_def folio_known)
  have money: "money_text (ch_amount c)" "money_text (ch_taxAmount c)" using ok(1) by (simp_all add: charge_ok_def)
  have 1: "books_except {(f, p)} (wdb w1)" "kept (wdb w) (wdb w1)" "fresh_from ids 1 (wdb w1)"
      "w1 = w\<lparr>wdb := put_charge r (wdb w)\<rparr>" "charge_value r = - charge_value c" "ch_folioId r = Some f" "ch_propertyId r = p"
    using insertReversal_books [of ids 0 f p c None w r w1 "{}"] ins assms(2,3) money key by auto
  have rr: "ch_isReversal r" "ch_originalChargeId r = Some i"
    using ins storeCharge_sel cin(4) by (fastforce simp: insertReversal_def op_iffs insertCharge_iff reversalOf_def)+
  have eq: "?kids (wdb w1) = ?kids (wdb w)" using 1(4) rr by simp
  have km: "\<forall>d\<in>set (?kids (wdb w)). money_text (ch_amount d) \<and> money_text (ch_taxAmount d)"
    using assms(2) by (auto simp: books_except_def rows_ok_def list_all_iff charge_ok_def)
  have kd: "distinct (map ch_id (?kids (wdb w)))" using ok(2) by (rule distinct_map_filter)
  have done1: "list_ex (isReversalOf j p) (charges (wdb w1)) \<longleftrightarrow> j = i \<or> list_ex (isReversalOf j p) (charges (wdb w))" for j
    using 1(4,7) rr by (auto simp: isReversalOf_def)
  have key1: "(f, p) \<in> set (folio_keys (wdb w1))" using key by (simp add: 1(4))
  note rc = reverseChildren_books [OF kids [unfolded eq] 1(1) _ km kd 1(3) key1]
  have "books_except {(f, p)} (wdb w2) \<and> kept (wdb w1) (wdb w2)
    \<and> chargeTotal f p (wdb w2) = chargeTotal f p (wdb w1)
       - (\<Sum>d\<leftarrow>filter (\<lambda>d. ch_id d \<noteq> i \<and> \<not> list_ex (isReversalOf (ch_id d) p) (charges (wdb w))) (?kids (wdb w)). charge_value d)"
    using rc by (simp add: done1 del: filter_filter)
  moreover from this recalc_books [OF rec, of "{(f, p)}"]
  have "books (wdb w')" "charges (wdb w') = charges (wdb w2)" "kept (wdb w2) (wdb w')" by simp_all
  moreover from this(2) have "chargeTotal f p (wdb w') = chargeTotal f p (wdb w2)"
    by (simp add: chargeTotal_def folioCharges_def)
  moreover have "chargeTotal f p (wdb w1) = chargeTotal f p (wdb w) - charge_value c"
    using 1(4-7) by (simp add: chargeTotal_put)
  ultimately show ?thesis using c 1(2) by (auto intro: kept_trans simp del: filter_filter)
qed

end

section \<open>Moving, locking, opening\<close>

definition move_charges :: "(charge \<Rightarrow> bool) \<Rightarrow> uuid \<Rightarrow> 'z folio_db_scheme \<Rightarrow> 'z folio_db_scheme" where
  "move_charges q t db = db\<lparr>charges := upd q (\<lambda>c. c\<lparr>ch_folioId := Some t\<rparr>) (charges db)\<rparr>"

lemma move_simps [simp]: "folios (move_charges q t db) = folios db" "payments (move_charges q t db) = payments db"
  "reservations (move_charges q t db) = reservations db"
  by (simp_all add: move_charges_def)

lemma move_totals:
  assumes "\<forall>c\<in>set (charges db). q c \<longrightarrow> ch_folioId c = Some f \<and> ch_propertyId c = p" and "f \<noteq> t"
  shows "chargeTotal f p (move_charges q t db) = chargeTotal f p db - (\<Sum>c\<leftarrow>filter q (charges db). charge_value c)"
    and "chargeTotal t p (move_charges q t db) = chargeTotal t p db + (\<Sum>c\<leftarrow>filter q (charges db). charge_value c)"
    and "(g, r) \<notin> {(f, p), (t, p)} \<Longrightarrow> chargeTotal g r (move_charges q t db) = chargeTotal g r db"
proof -
  have *: "(\<Sum>c\<leftarrow>filter (\<lambda>c. ch_folioId c = Some g \<and> ch_propertyId c = r) (upd q (\<lambda>c. c\<lparr>ch_folioId := Some t\<rparr>) cs). charge_value c)
     = (\<Sum>c\<leftarrow>filter (\<lambda>c. ch_folioId c = Some g \<and> ch_propertyId c = r) cs. charge_value c)
       + (if g = t \<and> r = p then (\<Sum>c\<leftarrow>filter q cs. charge_value c) else 0)
       - (if g = f \<and> r = p then (\<Sum>c\<leftarrow>filter q cs. charge_value c) else 0)"
    if "\<forall>c\<in>set cs. q c \<longrightarrow> ch_folioId c = Some f \<and> ch_propertyId c = p" for cs g r
    using that assms(2) by (induction cs) (auto simp: charge_value_def)
  note ** = * [OF assms(1), folded folioCharges_def]
  show "chargeTotal f p (move_charges q t db) = chargeTotal f p db - (\<Sum>c\<leftarrow>filter q (charges db). charge_value c)"
    and "chargeTotal t p (move_charges q t db) = chargeTotal t p db + (\<Sum>c\<leftarrow>filter q (charges db). charge_value c)"
    and "(g, r) \<notin> {(f, p), (t, p)} \<Longrightarrow> chargeTotal g r (move_charges q t db) = chargeTotal g r db"
    using * [OF assms(1), of f p] * [OF assms(1), of t p] * [OF assms(1), of g r] assms(2)
    by (auto simp: chargeTotal_def folioCharges_def move_charges_def)
qed

lemma move_books:
  assumes "books_except S db" and "\<forall>c\<in>set (charges db). q c \<longrightarrow> ch_folioId c = Some f \<and> ch_propertyId c = p \<and> \<not> ch_isLocked c"
    and "f \<noteq> t" and "(t, p) \<in> set (folio_keys db)"
  shows "books_except (S \<union> {(f, p), (t, p)}) (move_charges q t db)" and "kept db (move_charges q t db)"
proof -
  have ids: "map ch_id (charges (move_charges q t db)) = map ch_id (charges db)"
    by (auto simp: move_charges_def intro!: map_upd_same)
  have ok: "list_all (charge_ok (move_charges q t db)) (charges (move_charges q t db))"
    using assms(1,2,4)
    by (auto simp: books_except_def rows_ok_def list_all_iff charge_ok_def folio_known move_charges_def set_upd
        split: option.splits if_splits)
  have pays: "list_all (payment_ok (move_charges q t db)) (payments db)"
    using assms(1) by (auto simp: books_except_def rows_ok_def list_all_iff payment_ok_def split: option.splits)
  have tot: "(g, r) \<notin> {(f, p), (t, p)} \<Longrightarrow> chargeTotal g r (move_charges q t db) = chargeTotal g r db" for g r
    using move_totals(3) [of db q f p t g r] assms(2,3) by simp
  have ptot: "paymentTotal g r (move_charges q t db) = paymentTotal g r db" for g r
    by (simp add: paymentTotal_def folioPayments_def)
  show "books_except (S \<union> {(f, p), (t, p)}) (move_charges q t db)"
    using assms(1) ids ok pays by (auto simp: books_except_def rows_ok_def folio_balanced_def tot ptot)
  have "map charge_core (charges (move_charges q t db)) = map charge_core (charges db)"
    by (auto simp: move_charges_def charge_core_def intro!: map_upd_same)
  moreover have "c \<in> set (charges (move_charges q t db))" if "c \<in> set (charges db)" "ch_isLocked c" for c
    using that assms(2) by (force simp: move_charges_def set_upd)
  ultimately show "kept db (move_charges q t db)" by (auto simp: kept_def ledger_grows_def)
qed

lemma lock_books:
  assumes "lockCharges f p d w = (Inr n, w')" and "books (wdb w)"
  shows "books (wdb w') \<and> kept (wdb w) (wdb w')"
proof -
  let ?cs = "upd (lockable f p d) (\<lambda>c. c\<lparr>ch_isLocked := True, ch_lockedByAuditDate := Some d\<rparr>) (charges (wdb w))"
  have w': "w' = w\<lparr>wdb := (wdb w)\<lparr>charges := ?cs\<rparr>\<rparr>" using assms(1) by (simp add: lockCharges_def op_iffs)
  have ids: "map ch_id ?cs = map ch_id (charges (wdb w))" "map charge_core ?cs = map charge_core (charges (wdb w))"
    by (auto simp: charge_core_def intro!: map_upd_same)
  have ok: "list_all (charge_ok (wdb w')) ?cs"
    using assms(2) by (auto simp: w' books_except_def rows_ok_def list_all_iff charge_ok_def set_upd split: option.splits)
  have "list_all (payment_ok (wdb w')) (payments (wdb w))"
    using assms(2) by (auto simp: w' books_except_def rows_ok_def list_all_iff payment_ok_def split: option.splits)
  moreover have "(\<Sum>c\<leftarrow>filter (\<lambda>c. ch_folioId c = Some g \<and> ch_propertyId c = r) (upd (lockable f p d)
        (\<lambda>c. c\<lparr>ch_isLocked := True, ch_lockedByAuditDate := Some d\<rparr>) cs). charge_value c)
      = (\<Sum>c\<leftarrow>filter (\<lambda>c. ch_folioId c = Some g \<and> ch_propertyId c = r) cs. charge_value c)" for g r cs
    by (induction cs) (auto simp: charge_value_def)
  then have "chargeTotal g r (wdb w') = chargeTotal g r (wdb w)" for g r
    by (simp add: w' chargeTotal_def folioCharges_def)
  moreover have "paymentTotal g r (wdb w') = paymentTotal g r (wdb w)" for g r
    by (simp add: w' paymentTotal_def folioPayments_def)
  moreover have "c \<in> set ?cs" if "c \<in> set (charges (wdb w))" "ch_isLocked c" for c
    using that by (force simp: set_upd lockable_def)
  ultimately show ?thesis
    using assms(2) ids ok
    by (auto simp: w' books_except_def rows_ok_def folio_balanced_def kept_def ledger_grows_def)
qed

text \<open>Rewriting folio rows without touching key or totals.\<close>

lemma folio_upd_books:
  assumes "books_except S db" and "\<And>x. fo_id (g x) = fo_id x \<and> fo_propertyId (g x) = fo_propertyId x
     \<and> fo_totalCharges (g x) = fo_totalCharges x \<and> fo_totalPayments (g x) = fo_totalPayments x \<and> fo_balance (g x) = fo_balance x"
  shows "books_except S (db\<lparr>folios := upd q g (folios db)\<rparr>)" and "ledger_grows db (db\<lparr>folios := upd q g (folios db)\<rparr>)"
    and "folio_keys (db\<lparr>folios := upd q g (folios db)\<rparr>) = folio_keys db"
proof -
  let ?db = "db\<lparr>folios := upd q g (folios db)\<rparr>"
  show keys: "folio_keys ?db = folio_keys db" using assms(2) by (auto intro!: map_upd_same)
  show "ledger_grows db ?db" by (rule ledger_grows_same) simp
  have known: "list_ex (folioRow f p) (folios ?db) = list_ex (folioRow f p) (folios db)" for f p
    unfolding folio_known keys ..
  have "rows_ok ?db"
    using assms(1) unfolding books_except_def rows_ok_def list_all_iff charge_ok_def payment_ok_def known by simp
  moreover have "chargeTotal f p ?db = chargeTotal f p db" "paymentTotal f p ?db = paymentTotal f p db" for f p
    by (simp_all add: chargeTotal_def folioCharges_def paymentTotal_def folioPayments_def)
  ultimately show "books_except S ?db"
    using assms(1) by (auto simp: books_except_def folio_balanced_def set_upd assms(2))
qed

lemma settle_iff_db: "settle L now i p w = (Inr f, w') \<Longrightarrow> \<exists>g. (\<forall>x. fo_id (g x) = fo_id x \<and> fo_propertyId (g x) = fo_propertyId x
     \<and> fo_totalCharges (g x) = fo_totalCharges x \<and> fo_totalPayments (g x) = fo_totalPayments x \<and> fo_balance (g x) = fo_balance x)
     \<and> wdb w' = (wdb w)\<lparr>folios := upd (folioRow i p) g (folios (wdb w))\<rparr>"
  by (auto simp: settle_def op_iffs findFolio_iff Let_def
      intro!: exI [of _ "\<lambda>x. x\<lparr>fo_status := FsSettled, fo_settledAt := Some now, fo_updatedAt := now\<rparr>"])

lemma close_db: "closeFolio now i p w = (Inr f, w') \<Longrightarrow> \<exists>g. (\<forall>x. fo_id (g x) = fo_id x \<and> fo_propertyId (g x) = fo_propertyId x
     \<and> fo_totalCharges (g x) = fo_totalCharges x \<and> fo_totalPayments (g x) = fo_totalPayments x \<and> fo_balance (g x) = fo_balance x)
     \<and> wdb w' = (wdb w)\<lparr>folios := upd (folioRow i p) g (folios (wdb w))\<rparr>"
  by (auto simp: closeFolio_def op_iffs findFolio_iff Let_def
      intro!: exI [of _ "\<lambda>x. x\<lparr>fo_status := FsClosed, fo_closedAt := Some now, fo_updatedAt := now\<rparr>"])

lemma update_db:
  assumes "updateFolio now i p dto w = (Inr f, w')"
  shows "\<exists>g. (\<forall>x. fo_id (g x) = fo_id x \<and> fo_propertyId (g x) = fo_propertyId x
     \<and> fo_totalCharges (g x) = fo_totalCharges x \<and> fo_totalPayments (g x) = fo_totalPayments x \<and> fo_balance (g x) = fo_balance x)
     \<and> wdb w' = (wdb w)\<lparr>folios := upd (folioRow i p) g (folios (wdb w))\<rparr>"
proof -
  let ?g = "\<lambda>x. x\<lparr>fo_currencyCode := nvl (uf_currencyCode dto) (fo_currencyCode x),
           fo_companyName := (case uf_companyName dto of None \<Rightarrow> fo_companyName x | v \<Rightarrow> v),
           fo_billingAddress := (case uf_billingAddress dto of None \<Rightarrow> fo_billingAddress x | v \<Rightarrow> v),
           fo_paymentTermsDays := (case uf_paymentTermsDays dto of None \<Rightarrow> fo_paymentTermsDays x | v \<Rightarrow> v),
           fo_notes := (case uf_notes dto of None \<Rightarrow> fo_notes x | v \<Rightarrow> v), fo_updatedAt := now\<rparr>"
  have "wdb w' = (wdb w)\<lparr>folios := upd (folioRow i p) ?g (folios (wdb w))\<rparr>"
    using assms by (clarsimp simp: updateFolio_def bindS_Inr_iff guardS_Inr_iff findFolio_iff modifyS_iff returnS_iff Let_def)
  then show ?thesis by (intro exI [of _ ?g]) simp
qed

definition new_folio :: "folio \<Rightarrow> 'z folio_db_scheme \<Rightarrow> bool" where
  "new_folio f db \<longleftrightarrow> fo_id f \<notin> fo_id ` set (folios db) \<and> fo_status f = FsOpen
     \<and> fo_totalCharges f = ''0.00'' \<and> fo_totalPayments f = ''0.00'' \<and> fo_balance f = ''0.00''"

lemma open_books:
  assumes "books_except S db" and "new_folio f db"
  shows "books_except S (db\<lparr>folios := folios db @ [f]\<rparr>)"
proof -
  let ?db = "db\<lparr>folios := folios db @ [f]\<rparr>"
  have tot: "chargeTotal g r ?db = chargeTotal g r db" "paymentTotal g r ?db = paymentTotal g r db" for g r
    by (simp_all add: chargeTotal_def folioCharges_def paymentTotal_def folioPayments_def)
  have fresh: "\<not> list_ex (folioRow (fo_id f) r) (folios db)" for r
    using assms(2) by (auto simp: new_folio_def list_ex_iff image_iff)
  have rows: "rows_ok db" using assms(1) by (rule books_rows)
  have "folioCharges (fo_id f) (fo_propertyId f) db = []" "folioPayments (fo_id f) (fo_propertyId f) db = []"
    using rows fresh by (auto simp: folioCharges_def folioPayments_def filter_empty_conv rows_ok_def list_all_iff
        charge_ok_def payment_ok_def folioPaymentSumWhere_def split: option.splits)
  then have zero: "chargeTotal (fo_id f) (fo_propertyId f) db = 0" "paymentTotal (fo_id f) (fo_propertyId f) db = 0"
    by (simp_all add: chargeTotal_def paymentTotal_def)
  have "text_val ''0.00'' = 0" "money_text ''0.00''" by code_simp+
  then have "folio_balanced ?db f" using assms(2) by (simp add: folio_balanced_def new_folio_def tot zero)
  moreover have "rows_ok ?db"
    using rows by (auto simp: rows_ok_def list_all_iff charge_ok_def payment_ok_def split: option.splits)
  ultimately show ?thesis using assms(1) by (auto simp: books_except_def folio_balanced_def tot)
qed

lemma createFolio_db:
  assumes "createFolio today now i inTx dto w = (Inr f, w')"
  shows "wdb w' = (wdb w)\<lparr>folios := folios (wdb w) @ [f]\<rparr> \<and> fo_id f = i \<and> fo_propertyId f = cf_propertyId dto
    \<and> fo_folioNumber f = generateFolioNumber today (cf_propertyId dto) (wdb w)
    \<and> fo_status f = FsOpen \<and> fo_totalCharges f = ''0.00'' \<and> fo_totalPayments f = ''0.00'' \<and> fo_balance f = ''0.00''
    \<and> fo_type f = cf_type dto \<and> fo_reservationId f = cf_reservationId dto
    \<and> \<not> list_ex (\<lambda>x. fo_propertyId x = cf_propertyId dto \<and> fo_folioNumber x = fo_folioNumber f) (folios (wdb w))"
proof -
  have g: "(if b then bindS (getS h) (\<lambda>r. guardS (q r) e) else returnS ()) w = (Inr u, w1) \<Longrightarrow> w1 = w" for b h q e w u w1
    by (auto simp: op_iffs split: if_splits)
  show ?thesis
    using assms
    by (auto simp: createFolio_def bindS_Inr_iff getS_iff guardS_Inr_iff modifyS_iff returnS_iff emit_iff Let_def
        split: if_splits)
qed

lemma createFolio_books:
  assumes "createFolio today now i inTx dto w = (Inr f, w')" and "books_except S (wdb w)" and "i \<notin> fo_id ` set (folios (wdb w))"
  shows "books_except S (wdb w') \<and> ledger_grows (wdb w) (wdb w')"
proof -
  note db = createFolio_db [OF assms(1)]
  have "new_folio f (wdb w)" using db assms(3) by (simp add: new_folio_def)
  from open_books [OF assms(2) this] db show ?thesis by (auto intro: ledger_grows_same)
qed

lemma lockFolios_iff:
  assumes "s \<noteq> t"
  shows "lockFolios s t p w = (Inr (a, b), w') \<longleftrightarrow> w' = w
     \<and> sel1 (folioRow s p) (folios (wdb w)) = Some a \<and> sel1 (folioRow t p) (folios (wdb w)) = Some b"
proof -
  let ?fs = "folios (wdb w)"
  have ev: "findFolio i p w = (case sel1 (folioRow i p) ?fs of None \<Rightarrow> (Inl (NotFoundException (''Folio '' @ i @ '' not found'')), w)
      | Some x \<Rightarrow> (Inr x, w))" for i
    by (auto simp: findFolio_def op_defs split: option.splits)
  have id: "sel1 (folioRow i p) ?fs = Some x \<Longrightarrow> fo_id x = i" for i x
    using find_SomeD [of "folioRow i p" ?fs x] by simp
  have run: "lockFolios s t p w = (Inr (a, b), w') \<longleftrightarrow> w' = w \<and> a = x \<and> b = y"
    if "sel1 (folioRow s p) ?fs = Some x" "sel1 (folioRow t p) ?fs = Some y" for x y
    using assms id [OF that(1)] id [OF that(2)]
    by (cases "s < t") (auto simp: lockFolios_def Let_def min_def max_def bindS_def returnS_def ev that)
  show ?thesis
  proof (cases "sel1 (folioRow s p) ?fs = None \<or> sel1 (folioRow t p) ?fs = None")
    case True
    then have "fst (lockFolios s t p w) \<noteq> Inr (a, b)"
      by (cases "s \<le> t") (auto simp: lockFolios_def Let_def min_def max_def bindS_def ev split: option.splits)
    with True show ?thesis by auto
  next
    case False
    with run show ?thesis by auto
  qed
qed

lemma transfer_steps:
  assumes "transferCharge L now f p dto w = (Inr u, w')"
  shows "f \<noteq> tc_targetFolioId dto \<and> (\<exists>a b c w1 w2.
     sel1 (folioRow f p) (folios (wdb w)) = Some a \<and> fo_status a = FsOpen
     \<and> sel1 (folioRow (tc_targetFolioId dto) p) (folios (wdb w)) = Some b \<and> fo_status b = FsOpen
     \<and> sel1 (chargeRow (tc_chargeId dto) f p) (charges (wdb w)) = Some c \<and> \<not> ch_isLocked c
     \<and> w1 = w\<lparr>wdb := move_charges (\<lambda>c. ch_id c = tc_chargeId dto) (tc_targetFolioId dto) (wdb w)\<rparr>
     \<and> recalculateBalance L now f p w1 = (Inr (), w2) \<and> recalculateBalance L now (tc_targetFolioId dto) p w2 = (Inr (), w'))"
proof -
  have ne: "f \<noteq> tc_targetFolioId dto" using assms by (auto simp: transferCharge_def op_iffs)
  then show ?thesis using assms
    by (clarsimp simp: transferCharge_def bindS_Inr_iff transactionS_Inr_iff guardS_Inr_iff getS_iff someS_Inr_iff
        modifyS_iff lockFolios_iff move_charges_def)
qed

lemma only_row:
  assumes "distinct (map ch_id cs)" and "sel1 (chargeRow i f p) cs = Some c" and "d \<in> set cs" and "ch_id d = i"
  shows "d = c"
  using find_SomeD [OF assms(2)] assms(1,3,4) by (auto simp: distinct_map inj_on_def)

lemma filter_only_row:
  assumes "distinct (map ch_id cs)" and "sel1 (chargeRow i f p) cs = Some c"
  shows "filter (\<lambda>d. ch_id d = i) cs = [c]"
proof -
  have c: "c \<in> set cs" "ch_id c = i" using find_SomeD [OF assms(2)] by auto
  then have "filter (\<lambda>d. ch_id d = i) cs = filter (\<lambda>d. d = c) cs"
    using only_row [OF assms] by (intro filter_cong) blast+
  also have "\<dots> = [c]" using assms(1) [THEN distinct_map [THEN iffD1], THEN conjunct1] c(1) by (induction cs) (auto simp: filter_empty_conv)
  finally show ?thesis .
qed

context numerics
begin

lemma transfer_books:
  assumes "transferCharge L now f p dto w = (Inr u, w')" and "books (wdb w)"
  shows "\<exists>c. sel1 (chargeRow (tc_chargeId dto) f p) (charges (wdb w)) = Some c \<and> \<not> ch_isLocked c
    \<and> books (wdb w') \<and> kept (wdb w) (wdb w')
    \<and> chargeTotal f p (wdb w') = chargeTotal f p (wdb w) - charge_value c
    \<and> chargeTotal (tc_targetFolioId dto) p (wdb w') = chargeTotal (tc_targetFolioId dto) p (wdb w) + charge_value c"
proof -
  let ?i = "tc_chargeId dto" and ?t = "tc_targetFolioId dto"
  let ?q = "\<lambda>c. ch_id c = ?i"
  obtain a b c w1 w2 where ne: "f \<noteq> ?t"
    and b: "sel1 (folioRow ?t p) (folios (wdb w)) = Some b"
    and c: "sel1 (chargeRow ?i f p) (charges (wdb w)) = Some c" "\<not> ch_isLocked c"
    and w1: "w1 = w\<lparr>wdb := move_charges ?q ?t (wdb w)\<rparr>"
    and rec: "recalculateBalance L now f p w1 = (Inr (), w2)" "recalculateBalance L now ?t p w2 = (Inr (), w')"
    using transfer_steps [OF assms(1)] by blast
  have dist: "distinct (map ch_id (charges (wdb w)))" using assms(2) by (simp add: books_except_def rows_ok_def)
  have all: "\<forall>d\<in>set (charges (wdb w)). ?q d \<longrightarrow> ch_folioId d = Some f \<and> ch_propertyId d = p \<and> \<not> ch_isLocked d"
    using only_row [OF dist c(1)] find_SomeD [OF c(1)] c(2) by auto
  note mb = move_books [OF assms(2) all ne findFolio_key [OF b]]
  have "books_except {(f, p), (?t, p)} (wdb w1)" using mb(1) by (simp add: w1)
  note r1 = recalc_books [OF rec(1) this]
  note r2 = recalc_books [OF rec(2) r1(1)]
  have "books (wdb w')" using r2(1) ne by (simp add: insert_Diff_if)
  moreover have "kept (wdb w) (wdb w')"
    using mb(2) r1(3) r2(3) by (auto simp: w1 intro: kept_trans)
  moreover have "chargeTotal g r (wdb w') = chargeTotal g r (move_charges ?q ?t (wdb w))" for g r
    using r1(2) r2(2) by (simp add: w1 chargeTotal_def folioCharges_def)
  ultimately show ?thesis
    using c move_totals(1,2) [of "wdb w" ?q f p ?t] all ne filter_only_row [OF dist c(1)] by auto
qed

lemma postCharge_id:
  assumes "postCharge L now ids inTx f dto pers w = (Inr (c, ts, True), w')"
  shows "ch_id c = ids 0"
proof -
  obtain sd w1 where "insertCharge L (chargeOf (ids 0) f dto pers sd) w = (Inr c, w1)"
    using postCharge_Inr [OF assms] by (auto simp: posts_new_def)
  then show ?thesis using storeCharge_sel by (fastforce simp: insertCharge_iff)
qed

text \<open>One untaxed posting inside a group: the books stay, the next identifier stays fresh.\<close>

lemma post_part:
  assumes "postCharge L now (\<lambda>k. ids (k + n)) inTx f dto pers w = (Inr (c, ts, created), w')" and "books (wdb w)"
    and "fresh_from ids n (wdb w)" and "postable dto (wdb w)" and "\<not> taxed dto"
  shows "books (wdb w') \<and> kept (wdb w) (wdb w') \<and> fresh_from ids (Suc n) (wdb w')"
proof -
  note b = postCharge_books [OF assms(1,2) fresh_shift [OF assms(3)] assms(4)]
  have "fresh_from ids (Suc n) (wdb w')"
  proof (cases created)
    case True
    then have "ch_id c = ids n" using postCharge_id assms(1) by fastforce
    moreover have "charges (wdb w') = charges (put_charge c (wdb w))" using b assms(5) True by simp
    ultimately show ?thesis using fresh_put [OF assms(3), of c] fresh_cong by blast
  next
    case False
    then have "charges (wdb w') = charges (wdb w)" using b assms(5) by simp
    then show ?thesis using assms(3) fresh_cong fresh_mono by (metis le_SucI order_refl)
  qed
  with b show ?thesis by simp
qed

lemma frozen_postable:
  assumes "newDecimal L s = Inr d" and "decimal_text s \<noteq> None"
  shows "postable (frozenPart dto ty desc (dec_toFixed L 2 d)) db" and "\<not> taxed (frozenPart dto ty desc (dec_toFixed L 2 d))"
proof -
  have "dval d = Some (text_val s)" using newDecimal_eq [OF _ assms(1)] assms(2) by (auto simp: text_val_def)
  then have "decimal_text (dec_toFixed L 2 d) \<noteq> None" using toFixed_text by simp
  moreover have "decimal_text ''0'' \<noteq> None" by code_simp
  ultimately show "postable (frozenPart dto ty desc (dec_toFixed L 2 d)) db" "\<not> taxed (frozenPart dto ty desc (dec_toFixed L 2 d))"
    by (simp_all add: postable_def taxed_def frozenPart_def)
qed

lemma snapshot_tx_books:
  assumes "postInTransaction L now ids f dto tax adj key w = (Inr out, w')" and "books (wdb w)" and "fresh_from ids 0 (wdb w)"
    and "decimal_text (cc_amount dto) \<noteq> None" and "decimal_text (nvl (cc_taxAmount dto) ''0'') \<noteq> None"
    and "decimal_text tax \<noteq> None" and "\<And>a reason. adj = Some (a, reason) \<Longrightarrow> decimal_text a \<noteq> None"
  shows "books (wdb w') \<and> kept (wdb w) (wdb w')"
proof -
  let ?base = "dto\<lparr>cc_skipTaxCalculation := True\<rparr>"
  let ?part = "\<lambda>i. \<lparr>pe_parentChargeId = Some i, pe_sourceKey = None, pe_revenueRole = None\<rparr>"
  obtain c ts created w1 where base: "postCharge L now ids True f ?base
      \<lparr>pe_parentChargeId = None, pe_sourceKey = key, pe_revenueRole = None\<rparr> w = (Inr (c, ts, created), w1)"
    using assms(1) by (auto simp: postInTransaction_def bindS_Inr_iff split: prod.splits)
  have b0: "postable ?base (wdb w)" "\<not> taxed ?base" using assms(4,5) by (simp_all add: postable_def taxed_def)
  have 1: "books (wdb w1) \<and> kept (wdb w) (wdb w1) \<and> fresh_from ids 1 (wdb w1)"
    using post_part [of now ids 0 True f ?base _ w c ts created w1] base assms(2,3) b0 by simp
  show ?thesis
  proof (cases created)
    case False
    then show ?thesis using assms(1) base 1 by (auto simp: postInTransaction_def op_iffs)
  next
    case True
    obtain td cs w2 as w3 where td: "newDecimal L tax = Inr td"
      and tx: "(if dec_gt L td (dec_int L 0)
          then bindS (postCharge L now (\<lambda>k. ids (k + 1)) True f
                 (frozenPart dto CtTax (cc_description dto @ '' tax'') (dec_toFixed L 2 td)) (?part (ch_id c))) (\<lambda>(c, _, _).
               returnS [c])
          else returnS []) w1 = (Inr cs, w2)"
      and ad: "(case adj of None \<Rightarrow> returnS []
          | Some (amount, reason) \<Rightarrow>
             bindS (liftS (newDecimal L amount)) (\<lambda>d.
             if dec_eq L d (dec_int L 0) then returnS []
             else bindS (postCharge L now (\<lambda>k. ids (k + 2)) True f
                 (frozenPart dto CtAdjustment (''Accepted price adjustment: '' @ reason) (dec_toFixed L 2 d)) (?part (ch_id c))) (\<lambda>(c, _, _).
               returnS [c]))) w2 = (Inr as, w3)"
      and w3: "w' = w3"
      using assms(1) base True
      by (clarsimp simp: postInTransaction_def bindS_Inr_iff liftS_iff returnS_iff)
    have 2: "books (wdb w2) \<and> kept (wdb w1) (wdb w2) \<and> fresh_from ids 2 (wdb w2)"
    proof (cases "dec_gt L td (dec_int L 0)")
      case False
      then show ?thesis using tx 1 by (auto simp: op_iffs intro: fresh_mono)
    next
      case True
      then obtain c2 t2 b2 where "postCharge L now (\<lambda>k. ids (k + 1)) True f
          (frozenPart dto CtTax (cc_description dto @ '' tax'') (dec_toFixed L 2 td)) (?part (ch_id c)) w1 = (Inr (c2, t2, b2), w2)"
        using tx by (auto simp: bindS_Inr_iff returnS_iff)
      from post_part [OF this _ _ frozen_postable [OF td assms(6)]] 1 show ?thesis by (simp add: numeral_2_eq_2)
    qed
    have "books (wdb w3) \<and> kept (wdb w2) (wdb w3)"
    proof (cases adj)
      case None
      then show ?thesis using ad 2 by (simp add: returnS_iff)
    next
      case (Some ar)
      obtain a reason where ar: "ar = (a, reason)" by (cases ar)
      obtain d where d: "newDecimal L a = Inr d" using ad Some ar by (auto simp: op_iffs)
      show ?thesis
      proof (cases "dec_eq L d (dec_int L 0)")
        case True
        then show ?thesis using ad Some ar d 2 by (simp add: op_iffs)
      next
        case False
        then obtain c3 t3 b3 where p3: "postCharge L now (\<lambda>k. ids (k + 2)) True f
            (frozenPart dto CtAdjustment (''Accepted price adjustment: '' @ reason) (dec_toFixed L 2 d)) (?part (ch_id c)) w2
            = (Inr (c3, t3, b3), w3)"
          using ad Some ar d by (auto simp: bindS_Inr_iff liftS_iff returnS_iff)
        from post_part [OF p3 _ _ frozen_postable [OF d assms(7)]] 2 Some ar show ?thesis by simp
      qed
    qed
    then show ?thesis using 1 2 w3 by (auto intro: kept_trans)
  qed
qed

lemma emitPosted_db: "emitPosted f p cs w = (Inr u, w') \<Longrightarrow> wdb w' = wdb w"
  by (induction cs arbitrary: w) (auto simp: op_iffs)

lemma snapshot_books:
  assumes "postChargeFromSnapshotWithOutcome L now ids inTx f dto tax adj key w = (Inr out, w')" and "books (wdb w)"
    and "fresh_from ids 0 (wdb w)"
    and "decimal_text (cc_amount dto) \<noteq> None" and "decimal_text (nvl (cc_taxAmount dto) ''0'') \<noteq> None"
    and "decimal_text tax \<noteq> None" and "\<And>a reason. adj = Some (a, reason) \<Longrightarrow> decimal_text a \<noteq> None"
  shows "books (wdb w') \<and> kept (wdb w) (wdb w')"
proof -
  obtain out1 w1 where "postInTransaction L now ids f dto tax adj key w = (Inr out1, w1)" "wdb w' = wdb w1"
    using assms(1)
    by (auto simp: postChargeFromSnapshotWithOutcome_def emitSnapshotChargeWebhooks_def bindS_Inr_iff returnS_iff
        transactionS_Inr_iff emit_iff dest: emitPosted_db split: if_splits)
  with snapshot_tx_books [OF this(1) assms(2-7)] show ?thesis by simp
qed

end

end
