(* ===== verification/FolioRouting.thy ===== *)
theory FolioRouting
  imports FolioBooks
begin

text \<open>
  Split folios: \<open>FolioRoutingService\<close> of \<open>apps/api/src/modules/folio/folio-routing.service.ts\<close>: where
  a charge of a reservation lands, moving transactions between folios, and the transfer of an
  unpaid balance to the city ledger, with what each does to the books.
\<close>

section \<open>Data\<close>

record folioRoutingRule =
  fr_id :: uuid
  fr_propertyId :: uuid
  fr_reservationId :: uuid
  fr_chargeType :: chargeType
  fr_targetFolioId :: uuid
  fr_priority :: int

record routing_db = folio_db +
  folioRoutingRules :: "folioRoutingRule list"

record createRoutingRuleDto =
  rr_reservation :: uuid
  rr_chargeType :: chargeType
  rr_targetFolioId :: uuid
  rr_priority :: "int option"

record transferCityLedgerDto =
  cl_companyName :: string
  cl_billingAddress :: "string option"
  cl_paymentTermsDays :: "string option"

section \<open>Routing\<close>

text \<open>\<open>orderBy(desc(priority))\<close>; rows of equal priority keep the order of the table.\<close>

definition rulesFor :: "uuid \<Rightarrow> uuid \<Rightarrow> (folioRoutingRule \<Rightarrow> bool) \<Rightarrow> 'z routing_db_scheme \<Rightarrow> folioRoutingRule list" where
  "rulesFor reservationId p cond db = sort_key (\<lambda>r. - fr_priority r)
     (filter (\<lambda>r. fr_reservationId r = reservationId \<and> fr_propertyId r = p \<and> cond r) (folioRoutingRules db))"

definition findDefaultFolio :: "uuid \<Rightarrow> uuid \<Rightarrow> ('z routing_db_scheme, folio) op" where
  "findDefaultFolio reservationId p =
     bindS (getS (\<lambda>db. sel1 (\<lambda>f. fo_reservationId f = Some reservationId \<and> fo_propertyId f = p \<and> fo_type f = FtGuest)
        (folios db))) (\<lambda>f.
     someS f (NotFoundException (''No guest folio found for reservation '' @ reservationId)))"

definition fromPreferences :: "chargeType \<Rightarrow> (string \<times> uuid) list option \<Rightarrow> uuid option" where
  "fromPreferences chargeType routing = (case routing of None \<Rightarrow> None
     | Some m \<Rightarrow> (case map_of m (chargeTypeName chargeType) of Some f \<Rightarrow> Some f | None \<Rightarrow> map_of m ''default''))"

definition resolveTargetFolio :: "uuid \<Rightarrow> uuid \<Rightarrow> chargeType \<Rightarrow> ('z routing_db_scheme, uuid) op" where
  "resolveTargetFolio reservationId p chargeType =
     bindS (getS (rulesFor reservationId p (\<lambda>r. fr_chargeType r = chargeType))) (\<lambda>rules.
     case rules of r # _ \<Rightarrow> returnS (fr_targetFolioId r)
     | [] \<Rightarrow>
        bindS (findByIdRaw reservationId p) (\<lambda>reservation.
        if present (fromPreferences chargeType (rv_routing reservation))
        then returnS (the (fromPreferences chargeType (rv_routing reservation)))
        else bindS (findDefaultFolio reservationId p) (\<lambda>f. returnS (fo_id f))))"

definition routeCharge :: "'d numlib \<Rightarrow> millis \<Rightarrow> (nat \<Rightarrow> uuid) \<Rightarrow> uuid \<Rightarrow> uuid \<Rightarrow> chargeType \<Rightarrow> createChargeDto
    \<Rightarrow> ('z routing_db_scheme, posted) op" where
  "routeCharge L now ids reservationId p chargeType dto =
     bindS (resolveTargetFolio reservationId p chargeType) (\<lambda>f. postCharge L now ids False f dto noPersistence)"

definition createRoutingRule :: "uuid \<Rightarrow> uuid \<Rightarrow> createRoutingRuleDto \<Rightarrow> ('z routing_db_scheme, folioRoutingRule) op" where
  "createRoutingRule newId p dto =
     bindS (findByIdRaw (rr_reservation dto) p) (\<lambda>_.
     bindS (findFolio (rr_targetFolioId dto) p) (\<lambda>_.
     let rule = \<lparr>fr_id = newId, fr_propertyId = p, fr_reservationId = rr_reservation dto,
        fr_chargeType = rr_chargeType dto, fr_targetFolioId = rr_targetFolioId dto,
        fr_priority = nvl (rr_priority dto) 0\<rparr> in
     bindS (modifyS (\<lambda>db. db\<lparr>folioRoutingRules := folioRoutingRules db @ [rule]\<rparr>)) (\<lambda>_.
     bindS (emit ''folio.routing_rule_created'' ''folio_routing_rule'' newId
        [(''reservationId'', Some (rr_reservation dto)), (''chargeType'', Some (chargeTypeName (rr_chargeType dto))),
         (''targetFolioId'', Some (rr_targetFolioId dto)), (''priority'', Some (show_fixed 0 (of_int (fr_priority rule))))]
        (Some p)) (\<lambda>_. returnS rule))))"

definition listRoutingRules :: "uuid \<Rightarrow> uuid \<Rightarrow> ('z routing_db_scheme, folioRoutingRule list) op" where
  "listRoutingRules reservationId p = getS (rulesFor reservationId p (\<lambda>_. True))"

section \<open>Moving transactions\<close>

definition moveMatch :: "uuid \<Rightarrow> uuid \<Rightarrow> uuid option \<Rightarrow> chargeType option \<Rightarrow> charge \<Rightarrow> bool" where
  "moveMatch f p chargeId chargeType c \<longleftrightarrow> ch_folioId c = Some f \<and> ch_propertyId c = p
     \<and> (present chargeId \<longrightarrow> ch_id c = the chargeId) \<and> (chargeType \<noteq> None \<longrightarrow> Some (ch_type c) = chargeType)"

definition moveTransactions :: "'d numlib \<Rightarrow> millis \<Rightarrow> uuid \<Rightarrow> uuid \<Rightarrow> uuid \<Rightarrow> uuid option \<Rightarrow> chargeType option
    \<Rightarrow> ('z routing_db_scheme, nat) op" where
  "moveTransactions L now p fromFolioId toFolioId chargeId chargeType =
     bindS (guardS (present chargeId \<or> chargeType \<noteq> None)
        (BadRequestException ''Provide either chargeId or chargeType to move'')) (\<lambda>_.
     bindS (guardS (fromFolioId \<noteq> toFolioId)
        (BadRequestException ''Source and destination folios must differ'')) (\<lambda>_.
     bindS (transactionS (
       bindS (lockFolios fromFolioId toFolioId p) (\<lambda>(sourceFolio, targetFolio).
       bindS (guardS (fo_status sourceFolio = FsOpen) (BadRequestException ''Source folio is not open'')) (\<lambda>_.
       bindS (guardS (fo_status targetFolio = FsOpen) (BadRequestException ''Target folio is not open'')) (\<lambda>_.
       bindS (getS (\<lambda>db. filter (moveMatch fromFolioId p chargeId chargeType) (charges db))) (\<lambda>matching.
       bindS (guardS (matching \<noteq> []) (NotFoundException ''No matching charges found on the source folio'')) (\<lambda>_.
       bindS (guardS (\<not> list_ex ch_isLocked matching)
          (BadRequestException ''Cannot move locked (night-audited) charges'')) (\<lambda>_.
       bindS (guardS (\<not> list_ex (\<lambda>c. present (ch_adjustsChargeId c)) matching)
          (BadRequestException ''Cannot move an internal accepted-pricing correction'')) (\<lambda>_.
       bindS (guardS (\<not> list_ex acceptedKey matching)
          (BadRequestException ''Cannot move an accepted-pricing group individually'')) (\<lambda>_.
       bindS (getS (\<lambda>db. list_ex (\<lambda>q. ch_propertyId q = p \<and> ch_folioId q = Some fromFolioId
            \<and> list_ex (\<lambda>c. present (ch_parentChargeId c) \<and> ch_parentChargeId c = Some (ch_id q)) matching
            \<and> acceptedKey q) (charges db))) (\<lambda>child.
       bindS (guardS (\<not> child)
          (BadRequestException ''Cannot move a child of an accepted-pricing group individually'')) (\<lambda>_.
       bindS (getS (moveCollides (\<lambda>c. ch_id c \<in> ch_id ` set matching) toFolioId)) (\<lambda>taken.
       bindS (guardS (\<not> taken) DatabaseError) (\<lambda>_.
       bindS (modifyS (\<lambda>db. db\<lparr>charges := upd (\<lambda>c. ch_id c \<in> ch_id ` set matching)
          (\<lambda>c. c\<lparr>ch_folioId := Some toFolioId\<rparr>) (charges db)\<rparr>)) (\<lambda>_.
       bindS (recalculateBalance L now fromFolioId p) (\<lambda>_.
       bindS (recalculateBalance L now toFolioId p) (\<lambda>_.
       returnS (length matching)))))))))))))))))) (\<lambda>moved.
     bindS (emit ''folio.transactions_moved'' ''folio'' toFolioId
        [(''fromFolioId'', Some fromFolioId), (''toFolioId'', Some toFolioId), (''moved'', Some (show_nat moved))] (Some p)) (\<lambda>_.
     returnS moved))))"

section \<open>City ledger\<close>

definition cityPayment :: "uuid \<Rightarrow> millis \<Rightarrow> uuid \<Rightarrow> uuid \<Rightarrow> string \<Rightarrow> string \<Rightarrow> string \<Rightarrow> payment" where
  "cityPayment newId now f p amount currency company = \<lparr>py_id = newId, py_propertyId = p, py_folioId = Some f,
     py_houseAccountId = None, py_bookingRequestId = None, py_idempotencyKey = None, py_method = PmCityLedger,
     py_status = PsCaptured, py_amount = amount, py_currencyCode = currency, py_gatewayProvider = None,
     py_gatewayTransactionId = None, py_gatewayPaymentToken = None, py_cardLastFour = None, py_cardBrand = None,
     py_isPreAuthorization = False, py_preAuthExpiresAt = None, py_originalPaymentId = None,
     py_notes = Some (''Transferred to city ledger: '' @ company), py_processedAt = Some now,
     py_createdAt = now, py_updatedAt = now\<rparr>"

definition insertPayment :: "'d numlib \<Rightarrow> payment \<Rightarrow> ('z folio_db_scheme, payment) op" where
  "insertPayment L y =
     bindS (liftS (numeric12_2 L (py_amount y))) (\<lambda>amount.
     let row = y\<lparr>py_amount := amount\<rparr> in
     bindS (modifyS (\<lambda>db. db\<lparr>payments := payments db @ [row]\<rparr>)) (\<lambda>_. returnS row))"

definition cityCharge :: "uuid \<Rightarrow> string \<Rightarrow> string \<Rightarrow> string \<Rightarrow> string \<Rightarrow> createChargeDto" where
  "cityCharge p folioNumber amount currency nowIso = \<lparr>cc_propertyId = p, cc_type = CtFee,
     cc_description = ''Transfer from folio '' @ folioNumber, cc_amount = amount, cc_currencyCode = currency,
     cc_taxAmount = None, cc_taxRate = None, cc_taxCode = None, cc_serviceDate = nowIso, cc_postedBy = None,
     cc_guestId = None, cc_numberOfNights = None, cc_nightNumber = None, cc_skipTaxCalculation = False,
     cc_provenance = False\<rparr>"

text \<open>
  The result is \<open>None\<close> for the message that nothing is outstanding, else the ids of both folios and the
  amount. \<open>nowIso\<close> is \<open>new Date().toISOString()\<close>.
\<close>

definition transferToCityLedger :: "'d numlib \<Rightarrow> string \<Rightarrow> millis \<Rightarrow> string \<Rightarrow> (nat \<Rightarrow> uuid) \<Rightarrow> uuid \<Rightarrow> uuid
    \<Rightarrow> uuid \<Rightarrow> uuid \<Rightarrow> transferCityLedgerDto \<Rightarrow> ('z routing_db_scheme, (uuid \<times> uuid \<times> string) option) op" where
  "transferToCityLedger L today now nowIso ids folioNew payNew folioId p dto =
     transactionS (
       bindS (findFolio folioId p) (\<lambda>sourceFolio.
       bindS (recalculateBalance L now folioId p) (\<lambda>_.
       bindS (getS (\<lambda>db. sel1 (folioRow folioId p) (folios db))) (\<lambda>refreshed.
       bindS (liftS (newDecimal L (case refreshed of None \<Rightarrow> ''0'' | Some f \<Rightarrow> fo_balance f))) (\<lambda>remainingBalance.
       if dec_lte L remainingBalance (dec_int L 0) then returnS None
       else
         let amountStr = dec_toFixed L 2 remainingBalance in
         bindS (createFolio today now folioNew True \<lparr>cf_propertyId = p, cf_reservationId = None, cf_bookingId = None,
            cf_guestId = fo_guestId sourceFolio, cf_type = FtCityLedger, cf_currencyCode = fo_currencyCode sourceFolio,
            cf_companyName = Some (cl_companyName dto), cf_billingAddress = cl_billingAddress dto,
            cf_paymentTermsDays = cl_paymentTermsDays dto, cf_notes = None\<rparr>) (\<lambda>cityLedgerFolio.
         bindS (insertPayment L (cityPayment payNew now folioId p amountStr (fo_currencyCode sourceFolio) (cl_companyName dto))) (\<lambda>_.
         bindS (recalculateBalance L now folioId p) (\<lambda>_.
         bindS (postCharge L now ids True (fo_id cityLedgerFolio)
            (cityCharge p (fo_folioNumber sourceFolio) amountStr (fo_currencyCode sourceFolio) nowIso) noPersistence) (\<lambda>_.
         returnS (Some (folioId, fo_id cityLedgerFolio, amountStr)))))))))))"

section \<open>Effect on the books\<close>

lemma move_steps:
  assumes "moveTransactions L now p f t cid ct w = (Inr n, w')"
  shows "f \<noteq> t \<and> (\<exists>b w1 w2 w3. sel1 (folioRow t p) (folios (wdb w)) = Some b
     \<and> (\<forall>c\<in>set (charges (wdb w)). moveMatch f p cid ct c \<longrightarrow> \<not> ch_isLocked c)
     \<and> n = length (filter (moveMatch f p cid ct) (charges (wdb w)))
     \<and> w1 = w\<lparr>wdb := move_charges (\<lambda>c. ch_id c \<in> ch_id ` set (filter (moveMatch f p cid ct) (charges (wdb w)))) t (wdb w)\<rparr>
     \<and> recalculateBalance L now f p w1 = (Inr (), w2) \<and> recalculateBalance L now t p w2 = (Inr (), w3)
     \<and> wdb w' = wdb w3)"
proof -
  have ne: "f \<noteq> t" using assms by (auto simp: moveTransactions_def op_iffs)
  then show ?thesis using assms
    by (clarsimp simp: moveTransactions_def bindS_Inr_iff transactionS_Inr_iff guardS_Inr_iff getS_iff returnS_iff
        modifyS_iff lockFolios_iff move_charges_def list_ex_iff emit_iff)
qed

lemma image_key_filter:
  assumes "distinct (map k xs)" and "c \<in> set xs"
  shows "k c \<in> k ` set (filter m xs) \<longleftrightarrow> m c"
  using assms by (auto simp: distinct_map inj_on_def)

context numerics
begin

lemma moveTransactions_books:
  assumes "moveTransactions L now p f t cid ct w = (Inr n, w')" and "books (wdb w)"
  shows "books (wdb w') \<and> kept (wdb w) (wdb w')
    \<and> chargeTotal f p (wdb w') = chargeTotal f p (wdb w) - (\<Sum>c\<leftarrow>filter (moveMatch f p cid ct) (charges (wdb w)). charge_value c)
    \<and> chargeTotal t p (wdb w') = chargeTotal t p (wdb w) + (\<Sum>c\<leftarrow>filter (moveMatch f p cid ct) (charges (wdb w)). charge_value c)"
proof -
  let ?m = "moveMatch f p cid ct" and ?cs = "charges (wdb w)"
  let ?q = "\<lambda>c. ch_id c \<in> ch_id ` set (filter ?m ?cs)"
  obtain b w1 w2 w3 where ne: "f \<noteq> t" and b: "sel1 (folioRow t p) (folios (wdb w)) = Some b"
    and open_cs: "\<forall>c\<in>set ?cs. ?m c \<longrightarrow> \<not> ch_isLocked c"
    and w1: "w1 = w\<lparr>wdb := move_charges ?q t (wdb w)\<rparr>"
    and rec: "recalculateBalance L now f p w1 = (Inr (), w2)" "recalculateBalance L now t p w2 = (Inr (), w3)"
    and w': "wdb w' = wdb w3"
    using move_steps [OF assms(1)] by blast
  have dist: "distinct (map ch_id ?cs)" using assms(2) by (simp add: books_except_def rows_ok_def)
  note q = image_key_filter [OF dist, of _ ?m]
  have all: "\<forall>d\<in>set ?cs. ?q d \<longrightarrow> ch_folioId d = Some f \<and> ch_propertyId d = p \<and> \<not> ch_isLocked d"
    using q open_cs by (auto simp: moveMatch_def)
  have fq: "filter ?q ?cs = filter ?m ?cs" using q by (intro filter_cong) auto
  note mb = move_books [OF assms(2) all ne findFolio_key [OF b]]
  have "books_except {(f, p), (t, p)} (wdb w1)" using mb(1) by (simp add: w1)
  note r1 = recalc_books [OF rec(1) this]
  note r2 = recalc_books [OF rec(2) r1(1)]
  have "books (wdb w')" using r2(1) ne by (simp add: insert_Diff_if w')
  moreover have "kept (wdb w) (wdb w')"
    using mb(2) r1(3) r2(3) by (auto simp: w1 w' intro: kept_trans)
  moreover have "chargeTotal g r (wdb w') = chargeTotal g r (move_charges ?q t (wdb w))" for g r
    using r1(2) r2(2) by (simp add: w1 w' chargeTotal_def folioCharges_def)
  ultimately show ?thesis
    using move_totals(1,2) [of "wdb w" ?q f p t] all ne fq by auto
qed

end

text \<open>A payment inserted on a folio leaves only that folio to be recalculated.\<close>

definition put_payment :: "payment \<Rightarrow> 'z folio_db_scheme \<Rightarrow> 'z folio_db_scheme" where
  "put_payment y db = db\<lparr>payments := payments db @ [y]\<rparr>"

lemma put_payment_simps [simp]:
  "charges (put_payment y db) = charges db" "folios (put_payment y db) = folios db"
  "payments (put_payment y db) = payments db @ [y]" "taxProfiles (put_payment y db) = taxProfiles db"
  "taxRules (put_payment y db) = taxRules db" "guests (put_payment y db) = guests db"
  by (simp_all add: put_payment_def)

lemma totals_pay: "chargeTotal f p (put_payment y db) = chargeTotal f p db"
  "paymentTotal f p (put_payment y db) = paymentTotal f p db + (if folioPaymentSumWhere f p y then text_val (py_amount y) else 0)"
  by (simp_all add: chargeTotal_def folioCharges_def paymentTotal_def folioPayments_def)

lemma books_pay:
  assumes "books_except S db" and "money_text (py_amount y)" and "py_folioId y = Some f"
    and "(f, py_propertyId y) \<in> set (folio_keys db)"
  shows "books_except (insert (f, py_propertyId y) S) (put_payment y db)"
  using assms
  by (auto simp: books_except_def rows_ok_def list_all_iff charge_ok_def payment_ok_def folio_balanced_def
      totals_pay folio_known folioPaymentSumWhere_def split: option.splits)

lemma insertPayment_iff: "insertPayment L y w = (Inr row, w') \<longleftrightarrow>
    (\<exists>a. numeric12_2 L (py_amount y) = Inr a \<and> row = y\<lparr>py_amount := a\<rparr> \<and> w' = w\<lparr>wdb := put_payment row (wdb w)\<rparr>)"
  by (auto simp: insertPayment_def op_iffs put_payment_def Let_def)

lemma postable_cong:
  assumes "taxProfiles db' = taxProfiles db" and "taxRules db' = taxRules db" and "guests db' = guests db"
  shows "postable dto db' = postable dto db"
  using assms by (simp add: postable_def activeRules_def getActiveTaxProfile_def taxGuest_def)

lemma city_steps:
  assumes "transferToCityLedger L today now nowIso ids folioNew payNew f p dto w = (Inr (Some (a, b, s)), w')"
  shows "\<exists>src w1 x d w2 city w3 y w4 r.
     sel1 (folioRow f p) (folios (wdb w)) = Some src \<and> recalculateBalance L now f p w = (Inr (), w1)
     \<and> sel1 (folioRow f p) (folios (wdb w1)) = x
     \<and> newDecimal L (case x of None \<Rightarrow> ''0'' | Some f \<Rightarrow> fo_balance f) = Inr d \<and> \<not> dec_lte L d (dec_int L 0)
     \<and> s = dec_toFixed L 2 d \<and> a = f \<and> b = fo_id city
     \<and> createFolio today now folioNew True \<lparr>cf_propertyId = p, cf_reservationId = None, cf_bookingId = None,
            cf_guestId = fo_guestId src, cf_type = FtCityLedger, cf_currencyCode = fo_currencyCode src,
            cf_companyName = Some (cl_companyName dto), cf_billingAddress = cl_billingAddress dto,
            cf_paymentTermsDays = cl_paymentTermsDays dto, cf_notes = None\<rparr> w1 = (Inr city, w2)
     \<and> insertPayment L (cityPayment payNew now f p s (fo_currencyCode src) (cl_companyName dto)) w2 = (Inr y, w3)
     \<and> recalculateBalance L now f p w3 = (Inr (), w4)
     \<and> postCharge L now ids True (fo_id city)
            (cityCharge p (fo_folioNumber src) s (fo_currencyCode src) nowIso) noPersistence w4 = (Inr r, w')"
  using assms
  by (clarsimp simp: transferToCityLedger_def bindS_Inr_iff transactionS_Inr_iff getS_iff returnS_iff liftS_iff
      findFolio_iff Let_def split: if_splits)


lemma kept_ids: "kept db db' \<Longrightarrow> fo_id ` set (folios db') = fo_id ` set (folios db)"
proof -
  assume "kept db db'"
  then have "fst ` set (folio_keys db') = fst ` set (folio_keys db)" by (simp only: kept_def)
  then show ?thesis by (simp add: image_image)
qed

lemma recalc_charges: "recalculateBalance L now f p w = (Inr u, w') \<Longrightarrow> charges (wdb w') = charges (wdb w) \<and> payments (wdb w') = payments (wdb w)
    \<and> taxProfiles (wdb w') = taxProfiles (wdb w) \<and> taxRules (wdb w') = taxRules (wdb w) \<and> guests (wdb w') = guests (wdb w)"
  using recalc_steps [of L now f p w u w'] by (auto simp: retotal_def split: if_splits)

lemma postTaxes_rows: "postTaxes L ids f dto sd parent k items w = (Inr ts, w') \<Longrightarrow>
    charges (wdb w') = charges (wdb w) @ ts \<and> length ts = length items \<and> payments (wdb w') = payments (wdb w)"
  by (induction items arbitrary: k w ts) (fastforce simp: op_iffs insertCharge_iff)+

lemma posts_new_rows:
  assumes "posts_new L now ids f dto pers sd w c ts w'"
  shows "charges (wdb w') = charges (wdb w) @ c # ts \<and> payments (wdb w') = payments (wdb w)"
  using assms postTaxes_rows
  by (fastforce simp: posts_new_def insertCharge_iff dest: recalc_charges split: if_splits)

lemma postTaxes_folio: "postTaxes L ids f dto sd parent k items w = (Inr ts, w') \<Longrightarrow> t \<in> set ts \<Longrightarrow> ch_folioId t = Some f"
proof (induction items arbitrary: k w ts)
  case Nil
  then show ?case by (simp add: op_iffs)
next
  case (Cons i items)
  then show ?case using storeCharge_sel by (fastforce simp: op_iffs insertCharge_iff taxRow_def)
qed

lemma posts_new_folio: "posts_new L now ids f dto pers sd w c ts w' \<Longrightarrow> t \<in> set ts \<Longrightarrow> ch_folioId t = Some f"
  using postTaxes_folio by (fastforce simp: posts_new_def split: if_splits)

lemma posts_new_untaxed:
  assumes "posts_new L now ids f dto pers sd w c ts w'"
    and "untaxed (chargeTypeName (cc_type dto)) (post_opts dto) (taxGuest (post_opts dto) (wdb w))
      (activeRules (cc_propertyId dto) (take 10 (cc_serviceDate dto)) (wdb w))"
  shows "ts = []"
proof (cases "taxed dto")
  case False
  then show ?thesis using assms(1) by (auto simp: posts_new_def)
next
  case True
  then obtain w1 items w2 where "w1 = w\<lparr>wdb := put_charge c (wdb w)\<rparr>"
    "calculateTaxes L (cc_amount dto) (chargeTypeName (cc_type dto)) (cc_propertyId dto) (cc_serviceDate dto)
               (post_opts dto) w1 = (Inr items, w1)" "postTaxes L ids f dto sd (ch_id c) 1 items w1 = (Inr ts, w2)"
    using assms(1) by (auto simp: posts_new_def insertCharge_iff)
  then show ?thesis using untaxed_calculate [of _ "post_opts dto" w1] postTaxes_rows assms(2) by fastforce
qed

lemma zero_text: "decimal_text ''0'' \<noteq> None" "text_val ''0'' = 0"
  by code_simp+

context numerics
begin

text \<open>The value a new charge brings in.\<close>

lemma posts_new_value:
  assumes "posts_new L now ids f dto pers sd w c ts w'"
    and "decimal_text (cc_amount dto) \<noteq> None" and "decimal_text (nvl (cc_taxAmount dto) ''0'') \<noteq> None"
  shows "charge_value c = round_dp 2 (text_val (cc_amount dto)) + round_dp 2 (text_val (nvl (cc_taxAmount dto) ''0''))
    \<and> ch_folioId c = Some f \<and> ch_propertyId c = cc_propertyId dto"
proof -
  have st: "storeCharge L (chargeOf (ids 0) f dto pers sd) = Inr c"
    using assms(1) by (auto simp: posts_new_def insertCharge_iff)
  from storeCharge_money [OF st] storeCharge_sel [OF st] assms(2,3) show ?thesis by (simp add: charge_value_def)
qed

lemma balance_value:
  assumes "books db" and "sel1 (folioRow f p) (folios db) = Some x"
  shows "decimal_text (fo_balance x) = Some (chargeTotal f p db - paymentTotal f p db)"
    and "scaled 2 (chargeTotal f p db - paymentTotal f p db)"
proof -
  have "x \<in> set (folios db)" "fo_id x = f" "fo_propertyId x = p" using find_SomeD [OF assms(2)] by auto
  with assms(1) have "folio_balanced db x" "fo_id x = f" "fo_propertyId x = p" by (auto simp: books_except_def)
  then have "money_text (fo_balance x)" "text_val (fo_balance x) = chargeTotal f p db - paymentTotal f p db"
    by (auto simp: folio_balanced_def)
  with money_textD [OF this(1)] show "decimal_text (fo_balance x) = Some (chargeTotal f p db - paymentTotal f p db)"
    "scaled 2 (chargeTotal f p db - paymentTotal f p db)" by simp_all
qed

lemma city_paid:
  assumes "insertPayment L (cityPayment i now f p s cur company) w = (Inr y, w1)" and "recalculateBalance L now f p w1 = (Inr u, w')"
    and "books (wdb w)" and "(f, p) \<in> set (folio_keys (wdb w))" and "decimal_text s = Some v" and "scaled 2 v"
  shows "books (wdb w')" and "folio_keys (wdb w') = folio_keys (wdb w)" and "charges (wdb w') = charges (wdb w)"
    and "chargeTotal g q (wdb w') = chargeTotal g q (wdb w)"
    and "paymentTotal g q (wdb w') = paymentTotal g q (wdb w) + (if g = f \<and> q = p then v else 0)"
    and "taxProfiles (wdb w') = taxProfiles (wdb w)" and "taxRules (wdb w') = taxRules (wdb w)" and "guests (wdb w') = guests (wdb w)"
proof -
  let ?y = "cityPayment i now f p s cur company"
  obtain am where am: "numeric12_2 L s = Inr am" "y = ?y\<lparr>py_amount := am\<rparr>" and w1: "w1 = w\<lparr>wdb := put_payment y (wdb w)\<rparr>"
    using assms(1) by (auto simp: insertPayment_iff cityPayment_def)
  then have y: "py_amount y = am" "py_folioId y = Some f" "py_propertyId y = p" "folioPaymentSumWhere g q y \<longleftrightarrow> g = f \<and> q = p" for g q
    by (auto simp: cityPayment_def folioPaymentSumWhere_def countedPayment_def)
  have amv: "money_text am" "text_val am = v"
    using numeric12_2_money [OF _ am(1)] assms(5,6) by (simp_all add: round_dp_scaled text_val_Some)
  have "books_except {(f, p)} (wdb w1)" using books_pay [OF assms(3), of y f] y amv assms(4) by (simp add: w1)
  from recalc_books [OF assms(2) this] show "books (wdb w')" "folio_keys (wdb w') = folio_keys (wdb w)"
    by (simp_all add: kept_def w1)
  note c = recalc_charges [OF assms(2)]
  with w1 show "charges (wdb w') = charges (wdb w)" "taxProfiles (wdb w') = taxProfiles (wdb w)"
    "taxRules (wdb w') = taxRules (wdb w)" "guests (wdb w') = guests (wdb w)" by simp_all
  show "chargeTotal g q (wdb w') = chargeTotal g q (wdb w)"
    "paymentTotal g q (wdb w') = paymentTotal g q (wdb w) + (if g = f \<and> q = p then v else 0)"
    using c totals_pay [of g q y "wdb w"] y(4) [of g q] y(1) amv(2)
    by (simp_all add: w1 chargeTotal_def folioCharges_def paymentTotal_def folioPayments_def)
qed

lemma new_folio_empty:
  assumes "rows_ok db" and "f \<notin> fo_id ` set (folios db)"
  shows "chargeTotal f p db = 0" and "paymentTotal f p db = 0"
proof -
  have no_row: "\<not> list_ex (folioRow f q) (folios db)" for q using assms(2) by (auto simp: list_ex_iff)
  then have "folioCharges f p db = []" "folioPayments f p db = []"
    using assms(1) by (fastforce simp: folioCharges_def folioPayments_def filter_empty_conv rows_ok_def list_all_iff
        charge_ok_def payment_ok_def folioPaymentSumWhere_def split: option.splits)+
  then show "chargeTotal f p db = 0" "paymentTotal f p db = 0" by (simp_all add: chargeTotal_def paymentTotal_def)
qed

lemma city_books:
  assumes "transferToCityLedger L today now nowIso ids folioNew payNew f p dto w = (Inr (Some (a, b, s)), w')"
    and "books (wdb w)" and "folioNew \<notin> fo_id ` set (folios (wdb w))" and "fresh_from ids 0 (wdb w)"
    and "\<And>n cur. decimal_text s \<noteq> None \<Longrightarrow> postable (cityCharge p n s cur nowIso) (wdb w)"
  shows "books (wdb w') \<and> ledger_grows (wdb w) (wdb w') \<and> a = f \<and> b = folioNew
    \<and> 0 < text_val s \<and> text_val s = chargeTotal f p (wdb w) - paymentTotal f p (wdb w)
    \<and> chargeTotal f p (wdb w') = chargeTotal f p (wdb w) \<and> paymentTotal f p (wdb w') = chargeTotal f p (wdb w)
    \<and> paymentTotal b p (wdb w') = 0
    \<and> (untaxed ''fee'' \<lparr>to_guestId = None, to_numberOfNights = None, to_nightNumber = None\<rparr> None
         (activeRules p (take 10 nowIso) (wdb w)) \<longrightarrow> chargeTotal b p (wdb w') = text_val s)"
proof -
  obtain src w1 x d w2 city w3 y w4 r where src: "sel1 (folioRow f p) (folios (wdb w)) = Some src"
    and r1: "recalculateBalance L now f p w = (Inr (), w1)" and x: "sel1 (folioRow f p) (folios (wdb w1)) = x"
    and d: "newDecimal L (case x of None \<Rightarrow> ''0'' | Some f \<Rightarrow> fo_balance f) = Inr d" "\<not> dec_lte L d (dec_int L 0)"
    and s: "s = dec_toFixed L 2 d" and ab: "a = f" "b = fo_id city"
    and cr: "createFolio today now folioNew True \<lparr>cf_propertyId = p, cf_reservationId = None, cf_bookingId = None,
            cf_guestId = fo_guestId src, cf_type = FtCityLedger, cf_currencyCode = fo_currencyCode src,
            cf_companyName = Some (cl_companyName dto), cf_billingAddress = cl_billingAddress dto,
            cf_paymentTermsDays = cl_paymentTermsDays dto, cf_notes = None\<rparr> w1 = (Inr city, w2)"
    and pay: "insertPayment L (cityPayment payNew now f p s (fo_currencyCode src) (cl_companyName dto)) w2 = (Inr y, w3)"
    and r2: "recalculateBalance L now f p w3 = (Inr (), w4)"
    and post: "postCharge L now ids True (fo_id city)
            (cityCharge p (fo_folioNumber src) s (fo_currencyCode src) nowIso) noPersistence w4 = (Inr r, w')"
    using city_steps [OF assms(1)] by blast
  let ?dto = "cityCharge p (fo_folioNumber src) s (fo_currencyCode src) nowIso"
  have b1: "books (wdb w1)" "kept (wdb w) (wdb w1)" using recalc_books [OF r1 assms(2)] by simp_all
  note c1 = recalc_charges [OF r1]
  have "(f, p) \<in> set (folio_keys (wdb w1))" using findFolio_key [OF src] b1(2) by (simp add: kept_def)
  then obtain x0 where x0: "x = Some x0" using x by (cases x) (auto dest: find_NoneD)
  let ?v = "chargeTotal f p (wdb w) - paymentTotal f p (wdb w)"
  have tot1: "chargeTotal g q (wdb w1) = chargeTotal g q (wdb w)" "paymentTotal g q (wdb w1) = paymentTotal g q (wdb w)" for g q
    using c1 by (simp_all add: chargeTotal_def folioCharges_def paymentTotal_def folioPayments_def)
  have bal: "decimal_text (fo_balance x0) = Some ?v" "scaled 2 ?v"
    using balance_value [OF b1(1), of f p x0] x x0 by (simp_all add: tot1)
  have dv: "dval d = Some ?v" using newDecimal_eq [OF bal(1)] d(1) x0 by simp
  then have pos: "0 < ?v" using d(2) lte_val [OF dv int_val [of 0]] by simp
  have st: "decimal_text s = Some ?v" using toFixed_text [OF dv, of 2] bal(2) by (simp add: s round_dp_scaled)
  then have sv: "text_val s = ?v" by (simp add: text_val_Some)
  have new1: "folioNew \<notin> fo_id ` set (folios (wdb w1))" using assms(3) kept_ids [OF b1(2)] by simp
  note cdb = createFolio_db [OF cr]
  have b2: "books (wdb w2)" "ledger_grows (wdb w1) (wdb w2)" using createFolio_books [OF cr b1(1) new1] by auto
  have tot2: "chargeTotal g q (wdb w2) = chargeTotal g q (wdb w)" "paymentTotal g q (wdb w2) = paymentTotal g q (wdb w)" for g q
    using cdb tot1 [of g q] by (simp_all add: chargeTotal_def folioCharges_def paymentTotal_def folioPayments_def)
  have key2: "(f, p) \<in> set (folio_keys (wdb w2))" using findFolio_key [OF src] b1(2) cdb by (simp add: kept_def)
  note pd = city_paid [OF pay r2 b2(1) key2 st bal(2)]
  have tot4: "chargeTotal g q (wdb w4) = chargeTotal g q (wdb w)"
      "paymentTotal g q (wdb w4) = paymentTotal g q (wdb w) + (if g = f \<and> q = p then ?v else 0)" for g q
    using pd(4,5) [of g q] tot2 [of g q] by simp_all
  have "charges (wdb w4) = charges (wdb w)" using c1 cdb pd(3) by simp
  then have fresh4: "fresh_from ids 0 (wdb w4)" using assms(4) fresh_cong by blast
  have tax4: "taxProfiles (wdb w4) = taxProfiles (wdb w)" "taxRules (wdb w4) = taxRules (wdb w)" "guests (wdb w4) = guests (wdb w)"
    using c1 cdb pd(6-8) by simp_all
  have "postable ?dto (wdb w4)" using assms(5) st postable_cong [OF tax4] by simp
  note b5 = postCharge_books [OF post pd(1) fresh4 this]
  obtain c ts sd where rc: "r = (c, ts, True)" and pn: "posts_new L now ids (fo_id city) ?dto noPersistence sd w4 c ts w'"
    using postCharge_Inr [of L now ids True "fo_id city" ?dto noPersistence w4 "fst r" "fst (snd r)" "snd (snd r)" w'] post
    by (cases r) (auto simp: noPersistence_def split: if_splits)
  note rows = posts_new_rows [OF pn]
  have ids: "fo_id city = folioNew" "folioNew \<noteq> f" using cdb findFolio_key [OF src] assms(3) by auto
  have dec: "decimal_text (cc_amount ?dto) \<noteq> None" "decimal_text (nvl (cc_taxAmount ?dto) ''0'') \<noteq> None" "text_val ''0'' = 0"
    using st zero_text by (simp_all add: cityCharge_def)
  have cv: "charge_value c = ?v" "ch_folioId c = Some folioNew" "ch_propertyId c = p"
    using posts_new_value [OF pn dec(1,2)] sv bal(2) dec(3) ids(1) by (simp_all add: cityCharge_def round_dp_scaled)
  have tax_f: "ch_folioId t = Some folioNew" if "t \<in> set ts" for t
    using posts_new_folio [OF pn that] ids(1) by simp
  have "chargeTotal f p (wdb w') = chargeTotal f p (wdb w4)"
    using rows cv tax_f ids(2) by (auto simp: chargeTotal_def folioCharges_def filter_empty_conv)
  moreover have "paymentTotal g q (wdb w') = paymentTotal g q (wdb w4)" for g q
    using rows by (simp add: paymentTotal_def folioPayments_def)
  moreover have "chargeTotal b p (wdb w') = ?v" if "untaxed ''fee'' \<lparr>to_guestId = None, to_numberOfNights = None, to_nightNumber = None\<rparr> None
         (activeRules p (take 10 nowIso) (wdb w))"
  proof -
    have "ts = []" using posts_new_untaxed [OF pn] that tax4
      by (simp add: cityCharge_def post_opts_def taxGuest_def activeRules_def getActiveTaxProfile_def)
    then have "chargeTotal folioNew p (wdb w') = chargeTotal folioNew p (wdb w4) + ?v"
      using rows cv by (simp add: chargeTotal_def folioCharges_def)
    then show ?thesis using tot4(1) [of folioNew p] new_folio_empty(1) [OF books_rows [OF assms(2)] assms(3)] ab(2) ids(1) by simp
  qed
  moreover have "ledger_grows (wdb w) (wdb w')"
    using b5 \<open>charges (wdb w4) = charges (wdb w)\<close> by (simp add: kept_def ledger_grows_def)
  ultimately show ?thesis
    using b5 ab ids pos sv tot4 new_folio_empty(2) [OF books_rows [OF assms(2)] assms(3), of p] by simp
qed

end

end
