(* ===== verification/Ledger.thy ===== *)
theory Ledger
  imports FolioRouting
begin

text \<open>
  The whole guest ledger as a state machine: every returning operation of \<open>FolioService\<close> and
  \<open>FolioRoutingService\<close> is a step. Shown: every sequence of steps keeps the books right and
  the ledger append-only, what the single operations do to the books, what they leave when
  they fail, and where a routed charge lands.
\<close>

section \<open>Steps\<close>

text \<open>
  New identifiers are fresh (\<open>gen_random_uuid\<close>), amounts are decimal texts, and taxed postings are
  within the bounds of the exact tax engine (\<^const>\<open>postable\<close>). \<open>postRoomTariff\<close> is a posting,
  \<open>postChargeFromSnapshot\<close> a snapshot posting outside a transaction.
\<close>

definition snapshot_ok :: "createChargeDto \<Rightarrow> string \<Rightarrow> (string \<times> string) option \<Rightarrow> bool" where
  "snapshot_ok dto tax adj \<longleftrightarrow> decimal_text (cc_amount dto) \<noteq> None \<and> decimal_text (nvl (cc_taxAmount dto) ''0'') \<noteq> None
     \<and> decimal_text tax \<noteq> None \<and> (case adj of None \<Rightarrow> True | Some (a, _) \<Rightarrow> decimal_text a \<noteq> None)"

definition city_ok :: "uuid \<Rightarrow> string \<Rightarrow> (uuid \<times> uuid \<times> string) option \<Rightarrow> 'z routing_db_scheme \<Rightarrow> bool" where
  "city_ok p nowIso r db \<longleftrightarrow> (case r of None \<Rightarrow> True | Some (_, _, s) \<Rightarrow> postable (cityCharge p [] s [] nowIso) db)"

inductive ledger_step :: "'d numlib \<Rightarrow> 'z routing_db_scheme world \<Rightarrow> 'z routing_db_scheme world \<Rightarrow> bool"
  for L :: "'d numlib" where
  create: "createFolio today now i inTx cdto w = (Inr f, w') \<Longrightarrow> i \<notin> fo_id ` set (folios (wdb w)) \<Longrightarrow> ledger_step L w w'"
| auto_create: "createAutoFolio today now i inTx rv w = (Inr f, w') \<Longrightarrow> i \<notin> fo_id ` set (folios (wdb w)) \<Longrightarrow> ledger_step L w w'"
| update: "updateFolio now i p udto w = (Inr f, w') \<Longrightarrow> ledger_step L w w'"
| settle: "settle L now i p w = (Inr f, w') \<Longrightarrow> ledger_step L w w'"
| close: "closeFolio now i p w = (Inr f, w') \<Longrightarrow> ledger_step L w w'"
| post: "postCharge L now ids inTx i dto pers w = (Inr r, w') \<Longrightarrow> fresh_from ids 0 (wdb w) \<Longrightarrow> postable dto (wdb w) \<Longrightarrow>
    ledger_step L w w'"
| snapshot: "postChargeFromSnapshotWithOutcome L now ids inTx i dto tax adj key w = (Inr out, w') \<Longrightarrow>
    fresh_from ids 0 (wdb w) \<Longrightarrow> snapshot_ok dto tax adj \<Longrightarrow> ledger_step L w w'"
| reverse: "reverseCharge L now ids i c p w = (Inr x, w') \<Longrightarrow> fresh_from ids 0 (wdb w) \<Longrightarrow> ledger_step L w w'"
| lock: "lockCharges i p d w = (Inr n, w') \<Longrightarrow> ledger_step L w w'"
| transfer: "transferCharge L now i p tdto w = (Inr u, w') \<Longrightarrow> ledger_step L w w'"
| route: "routeCharge L now ids rid p ct dto w = (Inr r, w') \<Longrightarrow> fresh_from ids 0 (wdb w) \<Longrightarrow> postable dto (wdb w) \<Longrightarrow>
    ledger_step L w w'"
| rule: "createRoutingRule i p rdto w = (Inr ru, w') \<Longrightarrow> ledger_step L w w'"
| move: "moveTransactions L now p i j cid ct' w = (Inr n, w') \<Longrightarrow> ledger_step L w w'"
| city: "transferToCityLedger L today now nowIso ids i y j p cldto w = (Inr o', w') \<Longrightarrow> i \<notin> fo_id ` set (folios (wdb w)) \<Longrightarrow>
    fresh_from ids 0 (wdb w) \<Longrightarrow> city_ok p nowIso o' (wdb w) \<Longrightarrow> ledger_step L w w'"

lemma books_cong: "folios db' = folios db \<Longrightarrow> charges db' = charges db \<Longrightarrow> payments db' = payments db \<Longrightarrow>
    books_except S db' = books_except S db"
  by (simp add: books_except_def rows_ok_def charge_ok_def [abs_def] payment_ok_def [abs_def] folio_balanced_def chargeTotal_def
      paymentTotal_def folioCharges_def folioPayments_def cong: option.case_cong)

definition ledger_inv :: "'z routing_db_scheme \<Rightarrow> 'z routing_db_scheme \<Rightarrow> bool" where
  "ledger_inv db db' \<longleftrightarrow> books db' \<and> ledger_grows db db'"

lemma ledger_inv_kept: "books db' \<and> kept db db' \<Longrightarrow> ledger_inv db db'"
  by (simp add: ledger_inv_def kept_def)

lemma folio_upd_inv:
  assumes "books db" and "\<exists>g. (\<forall>x. fo_id (g x) = fo_id x \<and> fo_propertyId (g x) = fo_propertyId x
     \<and> fo_totalCharges (g x) = fo_totalCharges x \<and> fo_totalPayments (g x) = fo_totalPayments x \<and> fo_balance (g x) = fo_balance x)
     \<and> db' = db\<lparr>folios := upd q g (folios db)\<rparr>"
  shows "ledger_inv db db'"
  using assms folio_upd_books [of "{}" db] by (auto simp: ledger_inv_def)

lemma createAuto_inv:
  assumes "createAutoFolio today now i inTx rv w = (Inr f, w')" and "books (wdb w)" and "i \<notin> fo_id ` set (folios (wdb w))"
  shows "ledger_inv (wdb w) (wdb w')"
  using assms createFolio_books [OF _ assms(2,3)]
  by (auto simp: createAutoFolio_def op_iffs ledger_inv_def split: option.splits)

lemma resolve_pure: "resolveTargetFolio rid p ct w = (r, w') \<Longrightarrow> w' = w"
  by (cases r) (auto simp: resolveTargetFolio_def findDefaultFolio_def findByIdRaw_def op_iffs split: list.splits if_splits)

lemma createRule_inv:
  assumes "createRoutingRule i p dto w = (Inr r, w')" and "books (wdb w)"
  shows "ledger_inv (wdb w) (wdb w')"
proof -
  have "wdb w' = (wdb w)\<lparr>folioRoutingRules := folioRoutingRules (wdb w) @ [r]\<rparr>"
    using assms(1)
    by (clarsimp simp: createRoutingRule_def bindS_Inr_iff findFolio_iff findByIdRaw_def getS_iff someS_Inr_iff modifyS_iff
        returnS_iff emit_iff Let_def)
  with assms(2) show ?thesis
    using books_cong [of "wdb w'" "wdb w"] ledger_grows_same [of "wdb w'" "wdb w"] by (simp add: ledger_inv_def)
qed

lemma city_none:
  assumes "transferToCityLedger L today now nowIso ids i y j p dto w = (Inr None, w')"
  shows "recalculateBalance L now j p w = (Inr (), w')"
  using assms
  by (clarsimp simp: transferToCityLedger_def bindS_Inr_iff transactionS_Inr_iff getS_iff returnS_iff liftS_iff
      findFolio_iff Let_def split: if_splits)

context numerics
begin

lemma city_inv:
  assumes "transferToCityLedger L today now nowIso ids i y j p dto w = (Inr r, w')" and "books (wdb w)"
    and "i \<notin> fo_id ` set (folios (wdb w))" and "fresh_from ids 0 (wdb w)" and "city_ok p nowIso r (wdb w)"
  shows "ledger_inv (wdb w) (wdb w')"
proof (cases r)
  case None
  then show ?thesis using recalc_books [OF city_none assms(2)] assms(1) by (intro ledger_inv_kept) auto
next
  case (Some abs)
  obtain a b s where abs: "abs = (a, b, s)" by (cases abs)
  have "postable (cityCharge p n s cur nowIso) (wdb w)" for n cur
    using assms(5) by (simp add: Some abs city_ok_def postable_def cityCharge_def taxed_def post_opts_def)
  from city_books [OF assms(1) [unfolded Some abs] assms(2-4) this] show ?thesis by (simp add: ledger_inv_def)
qed

lemma ledger_step_inv:
  assumes "ledger_step L w w'" and "books (wdb w)"
  shows "ledger_inv (wdb w) (wdb w')"
  using assms
proof cases
  case (create today now i inTx cdto f)
  then show ?thesis using createFolio_books [OF _ assms(2)] by (auto simp: ledger_inv_def)
next
  case (auto_create today now i inTx rv f)
  then show ?thesis using createAuto_inv assms(2) by blast
next
  case (update now i p udto f)
  then show ?thesis using folio_upd_inv [OF assms(2) update_db] by blast
next
  case (settle now i p f)
  then show ?thesis using folio_upd_inv [OF assms(2) settle_iff_db] by blast
next
  case (close now i p f)
  then show ?thesis using folio_upd_inv [OF assms(2) close_db] by blast
next
  case (post now ids inTx i dto pers r)
  then show ?thesis using postCharge_books assms(2) by (blast intro: ledger_inv_kept)
next
  case (snapshot now ids inTx i dto tax adj key out)
  have "books (wdb w') \<and> kept (wdb w) (wdb w')"
    using snapshot(3) by (intro snapshot_books [OF snapshot(1) assms(2) snapshot(2)]) (auto simp: snapshot_ok_def)
  then show ?thesis by (rule ledger_inv_kept)
next
  case (reverse now ids i c p x)
  then obtain w1 where "reverseInTransaction L now ids i c p w = (Inr x, w1)" "wdb w' = wdb w1"
    by (auto simp: reverseCharge_def bindS_Inr_iff transactionS_Inr_iff emit_iff returnS_iff)
  then show ?thesis using reverseInTransaction_books [OF _ assms(2) reverse(2)] by (force intro: ledger_inv_kept)
next
  case (lock i p d n)
  then show ?thesis using lock_books assms(2) by (blast intro: ledger_inv_kept)
next
  case (transfer now i p tdto u)
  then show ?thesis using transfer_books [OF _ assms(2)] by (blast intro: ledger_inv_kept)
next
  case (route now ids rid p ct dto r)
  then obtain t where "postCharge L now ids False t dto noPersistence w = (Inr r, w')"
    by (auto simp: routeCharge_def bindS_Inr_iff dest: resolve_pure)
  then show ?thesis using postCharge_books assms(2) route(2,3) by (blast intro: ledger_inv_kept)
next
  case (rule i p rdto ru)
  then show ?thesis using createRule_inv assms(2) by blast
next
  case (move now p i j cid ct' n)
  then show ?thesis using moveTransactions_books [OF _ assms(2)] by (blast intro: ledger_inv_kept)
next
  case (city today now nowIso ids i y j p cldto o')
  then show ?thesis using city_inv assms(2) by blast
qed

lemma ledger_run_inv: "(ledger_step L)\<^sup>*\<^sup>* w w' \<Longrightarrow> books (wdb w) \<Longrightarrow> ledger_inv (wdb w) (wdb w')"
proof (induction rule: rtranclp_induct)
  case base
  then show ?case by (simp add: ledger_inv_def)
next
  case (step w1 w2)
  then show ?case using ledger_step_inv [OF step(2)] by (auto simp: ledger_inv_def intro: ledger_grows_trans)
qed

end

section \<open>Example data\<close>

definition demo_folio :: "uuid \<Rightarrow> string \<Rightarrow> folio" where
  "demo_folio i amount = \<lparr>fo_id = i, fo_propertyId = ''p'', fo_reservationId = Some ''r1'', fo_bookingId = None,
     fo_guestId = ''g1'', fo_folioNumber = i, fo_type = FtGuest, fo_status = FsOpen, fo_totalCharges = amount,
     fo_totalPayments = ''0.00'', fo_balance = amount, fo_currencyCode = ''EUR'', fo_companyName = None,
     fo_billingAddress = None, fo_paymentTermsDays = None, fo_notes = None, fo_settledAt = None, fo_closedAt = None,
     fo_updatedAt = 0\<rparr>"

definition demo_charge :: charge where
  "demo_charge = \<lparr>ch_id = ''c1'', ch_propertyId = ''p'', ch_folioId = Some ''f1'', ch_houseAccountId = None, ch_type = CtSpa,
     ch_description = ''Massage'', ch_amount = ''100.00'', ch_currencyCode = ''EUR'', ch_taxAmount = ''0.00'', ch_taxRate = None,
     ch_taxCode = None, ch_serviceDate = 0, ch_isReversal = False, ch_originalChargeId = None, ch_parentChargeId = None,
     ch_adjustsChargeId = None, ch_sourceKey = None, ch_revenueRole = ''earned'', ch_isLocked = False,
     ch_lockedByAuditDate = None, ch_postedBy = None\<rparr>"

definition demo_ledger :: "routing_db world" where
  "demo_ledger = \<lparr>wdb = \<lparr>domainEventOutbox = [], auditLogs = [], roomTypes = [], rooms = [],
     housekeepingTasks = [], maintenanceTickets = [], roomInventoryBlocks = [], properties = [],
     guests = [], bookings = [], reservations = [], reservationGuests = [], ratePlans = [],
     rateRestrictions = [], icalFeeds = [], icalBlocks = [],
     taxProfiles = [\<lparr>tp_id = ''tp'', tp_propertyId = ''p'', tp_name = ''Taxes'', tp_jurisdictionCode = ''X'',
       tp_isActive = True, tp_effectiveFrom = ''2024-01-01'', tp_effectiveTo = None\<rparr>],
     taxRules = [demo_rule ''vat'' ''10.0000'' False 1],
     folios = [demo_folio ''f1'' ''100.00'', demo_folio ''f2'' ''0.00''], charges = [demo_charge], payments = [],
     folioRoutingRules = []\<rparr>, wevents = []\<rparr>"

lemma ledger_texts: "decimal_text ''100.00'' = Some 100" "decimal_text ''0.00'' = Some 0" "decimal_text ''-100.00'' = Some (- 100)"
    "decimal_text ''0'' = Some 0" "text_val ''100.00'' = 100" "text_val ''0.00'' = 0" "text_val ''-100.00'' = - 100" "text_val ''0'' = 0"
    "round_dp 2 100 = 100" "round_dp 2 0 = 0" "round_dp 2 (- 100) = - 100"
  by code_simp+

lemma ledger_shows: "show_fixed 2 100 = ''100.00''" "show_fixed 2 0 = ''0.00''" "show_fixed 2 (- 100) = ''-100.00''"
  by (simp_all add: show_eval)

lemma ledger_money: "money_text ''100.00''" "money_text ''0.00''"
  by code_simp+

lemma ledger_columns: "newDecimal ref_numlib ''100.00'' = Inr 100" "newDecimal ref_numlib ''0.00'' = Inr 0"
    "newDecimal ref_numlib ''0.01'' = Inr (1 / 100)"
    "fixed2 ref_numlib ''100.00'' = Inr ''100.00''" "fixed2 ref_numlib ''0.00'' = Inr ''0.00''"
    "numeric12_2 ref_numlib ''100.00'' = Inr ''100.00''" "numeric12_2 ref_numlib ''0.00'' = Inr ''0.00''"
    "numeric12_2 ref_numlib ''0'' = Inr ''0.00''" "numeric12_2 ref_numlib ''-100.00'' = Inr ''-100.00''"
proof -
  have "decimal_text ''0.01'' = Some (1 / 100)" by code_simp
  then show "newDecimal ref_numlib ''100.00'' = Inr 100" "newDecimal ref_numlib ''0.00'' = Inr 0"
    "newDecimal ref_numlib ''0.01'' = Inr (1 / 100)"
    "fixed2 ref_numlib ''100.00'' = Inr ''100.00''" "fixed2 ref_numlib ''0.00'' = Inr ''0.00''"
    "numeric12_2 ref_numlib ''100.00'' = Inr ''100.00''" "numeric12_2 ref_numlib ''0.00'' = Inr ''0.00''"
    "numeric12_2 ref_numlib ''0'' = Inr ''0.00''" "numeric12_2 ref_numlib ''-100.00'' = Inr ''-100.00''"
    by (simp_all add: ref_newDecimal ref_fixed2 ref_numeric12_2 ledger_texts ledger_shows)
qed

lemmas ledger_eval = ledger_texts ledger_shows ledger_columns ref_pg_sum

lemma demo_books: "books (wdb demo_ledger)"
  by (simp add: demo_ledger_def books_except_def rows_ok_def charge_ok_def folio_balanced_def chargeTotal_def paymentTotal_def
      folioCharges_def folioPayments_def demo_folio_def demo_charge_def charge_value_def ledger_texts ledger_money)

definition demo_transfer :: transferChargeDto where
  "demo_transfer = \<lparr>tc_chargeId = ''c1'', tc_targetFolioId = ''f2''\<rparr>"

lemma ref_recalc:
  assumes "(\<Sum>c\<leftarrow>folioCharges f p (wdb w). charge_value c) = x" and "(\<Sum>y\<leftarrow>folioPayments f p (wdb w). text_val (py_amount y)) = y"
    and "scaled 2 x" and "scaled 2 y" and "\<bar>x\<bar> + \<bar>y\<bar> < 10 ^ 10"
  shows "recalculateBalance ref_numlib now f p w
     = (Inr (), w\<lparr>wdb := retotal now f p (show_fixed 2 x) (show_fixed 2 y) (show_fixed 2 (x - y)) (wdb w)\<rparr>)"
proof -
  have pc: "pg_sum ref_numlib (concat (map (\<lambda>c. [ch_amount c, ch_taxAmount c]) (folioCharges f p (wdb w)))) = show_fixed 2 x"
    unfolding ref_pg_sum sum_pairs using assms(1) by simp
  have pp: "pg_sum ref_numlib (map py_amount (folioPayments f p (wdb w))) = show_fixed 2 y"
    using assms(2) by (simp add: ref_pg_sum comp_def)
  have t: "decimal_text (show_fixed 2 z) = Some z" if "scaled 2 z" for z
    using ref.toFixed_text [of z z 2] that by (simp add: round_dp_scaled)
  have "scaled 2 (x - y)" using assms(3,4) by (rule scaled_diff)
  then have ev: "newDecimal ref_numlib (show_fixed 2 z) = Inr z" "fixed2 ref_numlib (show_fixed 2 z) = Inr (show_fixed 2 z)"
      "numeric12_2 ref_numlib (show_fixed 2 z) = Inr (show_fixed 2 z)" if "z \<in> {x, y, x - y}" for z
    using that assms(3-5) t [of z] by (auto simp: ref_newDecimal ref_fixed2 ref_numeric12_2 round_dp_scaled)
  have idle: "\<not> list_ex (folioRow f p) (folios (wdb w)) \<Longrightarrow> retotal now f p a b c (wdb w) = wdb w" for a b c
    by (simp add: retotal_def upd_idle list_ex_iff)
  show ?thesis
  proof (cases "list_ex (folioRow f p) (folios (wdb w))")
    case True
    then show ?thesis by (simp add: recalculateBalance_def op_defs pc pp ev retotal_def with_totals_def [abs_def])
  next
    case False
    then show ?thesis by (simp add: recalculateBalance_def op_defs pc pp ev idle)
  qed
qed

lemma demo_transfers: "\<exists>w'. transferCharge ref_numlib 5 ''f1'' ''p'' demo_transfer demo_ledger = (Inr (), w')"
proof -
  let ?w = "demo_ledger\<lparr>wdb := move_charges (\<lambda>c. ch_id c = ''c1'') ''f2'' (wdb demo_ledger)\<rparr>"
  have "folioCharges ''f1'' ''p'' (wdb ?w) = []" "folioPayments f p (wdb ?w) = []"
    "folioCharges ''f2'' ''p'' (wdb ?w) = [demo_charge\<lparr>ch_folioId := Some ''f2''\<rparr>]" for f p
    by (simp_all add: demo_ledger_def move_charges_def folioCharges_def folioPayments_def demo_charge_def)
  note cs = this
  have val: "charge_value (demo_charge\<lparr>ch_folioId := Some ''f2''\<rparr>) = 100" by (simp add: charge_value_def demo_charge_def ledger_texts)
  let ?w1 = "?w\<lparr>wdb := retotal 5 ''f1'' ''p'' ''0.00'' ''0.00'' ''0.00'' (wdb ?w)\<rparr>"
  have 1: "recalculateBalance ref_numlib 5 ''f1'' ''p'' ?w = (Inr (), ?w1)"
    using ref_recalc [of "''f1''" "''p''" ?w 0 0 5] cs by (simp add: ledger_shows scaled_def)
  have 2: "\<exists>w'. recalculateBalance ref_numlib 5 ''f2'' ''p'' ?w1 = (Inr (), w')"
    using ref_recalc [of "''f2''" "''p''" ?w1 100 0 5] cs val by (simp add: folioCharges_def folioPayments_def scaled_def)
  have lf: "lockFolios ''f1'' ''f2'' ''p'' demo_ledger = (Inr (demo_folio ''f1'' ''100.00'', demo_folio ''f2'' ''0.00''), demo_ledger)"
    by (subst lockFolios_iff) (simp_all add: demo_ledger_def demo_folio_def)
  have row: "sel1 (chargeRow ''c1'' ''f1'' ''p'') (charges (wdb demo_ledger)) = Some demo_charge"
    by (simp add: demo_ledger_def demo_charge_def)
  have "childOfAccepted demo_charge ''f1'' ''p'' (wdb demo_ledger) = False" "acceptedKey demo_charge = False"
    "moveCollides (\<lambda>c. ch_id c = ''c1'') ''f2'' (wdb demo_ledger) = False"
    by (simp_all add: childOfAccepted_def parentOf_def demo_charge_def acceptedKey_def moveCollides_def demo_ledger_def)
  then show ?thesis
    using lf row 1 2
    by (simp add: transferCharge_def demo_transfer_def bindS_Inr_iff guardS_Inr_iff transactionS_Inr_iff getS_iff someS_Inr_iff
        modifyS_iff move_charges_def) (simp add: demo_folio_def demo_charge_def)
qed

section \<open>Properties\<close>



text \<open>
  C6. A transfer moves exactly the value of the charge: what the source folio loses the target
  folio gains, every other folio keeps its total, and both stored balances are right.
\<close>

theorem transfer_conserves:
  assumes "numerics L dval" and "transferCharge L now f p dto w = (Inr u, w')" and "books (wdb w)"
  shows "\<exists>c. sel1 (chargeRow (tc_chargeId dto) f p) (charges (wdb w)) = Some c \<and> \<not> ch_isLocked c
    \<and> books (wdb w')
    \<and> chargeTotal f p (wdb w') = chargeTotal f p (wdb w) - charge_value c
    \<and> chargeTotal (tc_targetFolioId dto) p (wdb w') = chargeTotal (tc_targetFolioId dto) p (wdb w) + charge_value c"
  using numerics.transfer_books [OF assms] by blast

theorem transfer_conserves_witness:
  "\<exists>w'. transferCharge ref_numlib 5 ''f1'' ''p'' demo_transfer demo_ledger = (Inr (), w')
     \<and> chargeTotal ''f1'' ''p'' (wdb w') = 0 \<and> chargeTotal ''f2'' ''p'' (wdb w') = 100"
proof -
  obtain w' where t: "transferCharge ref_numlib 5 ''f1'' ''p'' demo_transfer demo_ledger = (Inr (), w')" using demo_transfers by blast
  have "sel1 (chargeRow (tc_chargeId demo_transfer) ''f1'' ''p'') (charges (wdb demo_ledger)) = Some demo_charge"
    "chargeTotal ''f1'' ''p'' (wdb demo_ledger) = 100" "chargeTotal ''f2'' ''p'' (wdb demo_ledger) = 0" "charge_value demo_charge = 100"
    "tc_targetFolioId demo_transfer = ''f2''"
    by (simp_all add: demo_ledger_def demo_charge_def demo_transfer_def chargeTotal_def folioCharges_def charge_value_def ledger_texts)
  with transfer_conserves [OF ref.numerics_axioms t demo_books] t show ?thesis by auto
qed

lemma reverseChildren_rows: "reverseChildren L ids f p rid k cs w = (Inr u, w') \<Longrightarrow> \<exists>xs. charges (wdb w') = charges (wdb w) @ xs"
  by (induction cs arbitrary: k w) (fastforce simp: op_iffs insertReversal_def insertCharge_iff split: if_splits)+

lemma reversal_marks:
  assumes "reverseInTransaction L now ids f i p w = (Inr r, w')"
  shows "list_ex (isReversalOf i p) (charges (wdb w'))"
proof -
  obtain c w1 w2 cs where c: "sel1 (chargeRow i f p) (charges (wdb w)) = Some c"
    and ins: "insertReversal L (ids 0) f p c None w = (Inr r, w1)"
    and kids: "reverseChildren L ids f p (ch_id r) 1 cs w1 = (Inr (), w2)"
    and rec: "recalculateBalance L now f p w2 = (Inr (), w')"
    using assms
    by (clarsimp simp: reverseInTransaction_def bindS_Inr_iff getS_iff someS_Inr_iff guardS_Inr_iff returnS_iff)
  obtain a t row where st: "storeCharge L (reversalOf (ids 0) f p c None a t) = Inr r" and w1: "w1 = w\<lparr>wdb := put_charge r (wdb w)\<rparr>"
    using ins by (auto simp: insertReversal_def op_iffs insertCharge_iff)
  then have "isReversalOf i p r" using storeCharge_sel [OF st] find_SomeD [OF c] by (simp add: isReversalOf_def reversalOf_def)
  then show ?thesis using reverseChildren_rows [OF kids] recalc_charges [OF rec] w1 by auto
qed

lemma reverseCharge_Inr: "reverseCharge L now ids f i p w = (Inr r, w') \<Longrightarrow>
    \<exists>w1. reverseInTransaction L now ids f i p w = (Inr r, w1) \<and> wdb w' = wdb w1"
  by (auto simp: reverseCharge_def bindS_Inr_iff transactionS_Inr_iff emit_iff returnS_iff)

text \<open>
  C31. A reversal takes off the folio exactly the value of the charge and of those of its tax and
  price lines that were not reversed before, keeps the books right, and cannot be repeated.
\<close>

theorem reversal_cancels:
  assumes "numerics L dval" and "reverseCharge L now ids f i p w = (Inr r, w')" and "books (wdb w)" and "fresh_from ids 0 (wdb w)"
  shows "\<exists>c. sel1 (chargeRow i f p) (charges (wdb w)) = Some c \<and> \<not> ch_isLocked c \<and> \<not> ch_isReversal c \<and> books (wdb w')
    \<and> chargeTotal f p (wdb w') = chargeTotal f p (wdb w) - charge_value c
       - (\<Sum>d\<leftarrow>filter (\<lambda>d. ch_id d \<noteq> i \<and> \<not> list_ex (isReversalOf (ch_id d) p) (charges (wdb w)))
             (filter (\<lambda>d. ch_parentChargeId d = Some i \<and> \<not> ch_isReversal d \<and> ch_propertyId d = p) (charges (wdb w))).
           charge_value d)
    \<and> (\<forall>now' ids' f' x w''. reverseCharge L now' ids' f' i p w' \<noteq> (Inr x, w''))"
proof -
  obtain w1 where r: "reverseInTransaction L now ids f i p w = (Inr r, w1)" "wdb w' = wdb w1"
    using reverseCharge_Inr [OF assms(2)] by blast
  have marked: "list_ex (isReversalOf i p) (charges (wdb w'))" using reversal_marks [OF r(1)] r(2) by simp
  have "reverseCharge L now' ids' f' i p w' \<noteq> (Inr x, w'')" for now' ids' f' x w''
  proof
    assume "reverseCharge L now' ids' f' i p w' = (Inr x, w'')"
    then obtain w2 where "reverseInTransaction L now' ids' f' i p w' = (Inr x, w2)" using reverseCharge_Inr by blast
    then show False using marked
      by (auto simp: reverseInTransaction_def bindS_Inr_iff getS_iff someS_Inr_iff guardS_Inr_iff)
  qed
  then show ?thesis using numerics.reverseInTransaction_books [OF assms(1) r(1) assms(3,4)] r(2) by auto
qed

definition demo_ids :: "nat \<Rightarrow> uuid" where
  "demo_ids k = CHR ''n'' # replicate k (CHR ''0'')"

lemma demo_ids_fresh: "fresh_from demo_ids 0 (wdb demo_ledger)"
  by (auto simp: fresh_from_def demo_ids_def demo_ledger_def demo_charge_def inj_def replicate_eq_replicate)

lemma demo_reversal: "\<exists>r w'. reverseCharge ref_numlib 5 demo_ids ''f1'' ''c1'' ''p'' demo_ledger = (Inr r, w')"
proof -
  let ?r = "reversalOf (demo_ids 0) ''f1'' ''p'' demo_charge None ''-100.00'' ''0.00''"
  let ?w = "demo_ledger\<lparr>wdb := put_charge ?r (wdb demo_ledger)\<rparr>"
  have neg: "fixedNeg ref_numlib ''100.00'' = Inr ''-100.00''" "fixedNeg ref_numlib ''0.00'' = Inr ''0.00''"
    by (simp_all add: fixedNeg_def ledger_columns ledger_shows)
  have st: "storeCharge ref_numlib ?r = Inr ?r"
    by (simp add: storeCharge_def reversalOf_def demo_charge_def ledger_columns numericOptR_def)
  have ins: "insertReversal ref_numlib (demo_ids 0) ''f1'' ''p'' demo_charge None demo_ledger = (Inr ?r, ?w)"
    using neg st
    by (simp add: insertReversal_def demo_charge_def bindS_Inr_iff liftS_iff insertCharge_iff)
       (simp add: reversalOf_def demo_ledger_def sameSource_def sameDeposit_def demo_charge_def)
  have kids: "filter (\<lambda>c. ch_parentChargeId c = Some ''c1'' \<and> \<not> ch_isReversal c \<and> ch_propertyId c = ''p'') (charges (wdb ?w)) = []"
    by (simp add: demo_ledger_def demo_charge_def reversalOf_def)
  have tot: "(\<Sum>c\<leftarrow>folioCharges ''f1'' ''p'' (wdb ?w). charge_value c) = 0" "folioPayments ''f1'' ''p'' (wdb ?w) = []"
    by (simp_all add: folioCharges_def folioPayments_def demo_ledger_def demo_charge_def reversalOf_def charge_value_def ledger_texts)
  have rec: "\<exists>w'. recalculateBalance ref_numlib 5 ''f1'' ''p'' ?w = (Inr (), w')"
    using ref_recalc [of "''f1''" "''p''" ?w 0 0 5] tot by (simp add: scaled_def)
  have row: "sel1 (chargeRow ''c1'' ''f1'' ''p'') (charges (wdb demo_ledger)) = Some demo_charge"
    by (simp add: demo_ledger_def demo_charge_def)
  have "childOfAccepted demo_charge ''f1'' ''p'' (wdb demo_ledger) = False" "list_ex (isReversalOf ''c1'' ''p'') (charges (wdb demo_ledger)) = False"
    by (simp_all add: childOfAccepted_def parentOf_def demo_ledger_def demo_charge_def isReversalOf_def)
  then have "\<exists>w'. reverseInTransaction ref_numlib 5 demo_ids ''f1'' ''c1'' ''p'' demo_ledger = (Inr ?r, w')"
    using ins kids rec row
    by (simp add: reverseInTransaction_def bindS_Inr_iff getS_iff someS_Inr_iff guardS_Inr_iff returnS_iff)
       (simp add: demo_charge_def)
  then show ?thesis by (auto simp: reverseCharge_def bindS_Inr_iff transactionS_Inr_iff emit_iff returnS_iff)
qed

theorem reversal_cancels_witness:
  "\<exists>r w'. reverseCharge ref_numlib 5 demo_ids ''f1'' ''c1'' ''p'' demo_ledger = (Inr r, w')
     \<and> chargeTotal ''f1'' ''p'' (wdb w') = 0"
proof -
  obtain r w' where r: "reverseCharge ref_numlib 5 demo_ids ''f1'' ''c1'' ''p'' demo_ledger = (Inr r, w')" using demo_reversal by blast
  have "sel1 (chargeRow ''c1'' ''f1'' ''p'') (charges (wdb demo_ledger)) = Some demo_charge"
    "chargeTotal ''f1'' ''p'' (wdb demo_ledger) = 100" "charge_value demo_charge = 100"
    "filter (\<lambda>d. ch_parentChargeId d = Some ''c1'' \<and> \<not> ch_isReversal d \<and> ch_propertyId d = ''p'') (charges (wdb demo_ledger)) = []"
    by (simp_all add: demo_ledger_def demo_charge_def chargeTotal_def folioCharges_def charge_value_def ledger_texts)
  with reversal_cancels [OF ref.numerics_axioms r demo_books demo_ids_fresh] r show ?thesis by auto
qed

context numerics
begin

lemma settle_runs:
  assumes "books (wdb w)"
  shows "(\<exists>f' w'. settle L now i p w = (Inr f', w')) \<longleftrightarrow>
     (\<exists>x. sel1 (folioRow i p) (folios (wdb w)) = Some x \<and> fo_status x = FsOpen
        \<and> \<bar>chargeTotal i p (wdb w) - paymentTotal i p (wdb w)\<bar> \<le> 1 / 100
        \<and> \<not> (\<exists>y\<in>set (payments (wdb w)). py_folioId y = Some i \<and> py_propertyId y = p
              \<and> py_status y \<in> {PsAuthorized, PsPending}))"
proof (cases "sel1 (folioRow i p) (folios (wdb w))")
  case None
  then show ?thesis by (auto simp: settle_def bindS_Inr_iff findFolio_iff)
next
  case (Some x)
  let ?v = "chargeTotal i p (wdb w) - paymentTotal i p (wdb w)"
  have "decimal_text ''0.01'' = Some (1 / 100)" by code_simp
  then obtain cent where cent: "newDecimal L ''0.01'' = Inr cent" "dval cent = Some (1 / 100)"
    using newDecimal_text by blast
  obtain b where b: "newDecimal L (fo_balance x) = Inr b" "dval b = Some ?v"
    using newDecimal_text balance_value(1) [OF assms Some] by blast
  have "dec_gt L (dec_abs L b) cent \<longleftrightarrow> 1 / 100 < \<bar>?v\<bar>" using lt_val [OF cent(2) abs_val [OF b(2)]] by simp
  then show ?thesis
    using b(1) cent(1) Some
    by (auto simp: settle_def bindS_Inr_iff findFolio_iff guardS_Inr_iff liftS_iff getS_iff modifyS_iff emit_iff returnS_iff
        Let_def filter_empty_conv)
qed

end

text \<open>
  C26. A folio is settled exactly when it exists, is open, its charges and payments differ by at most
  one cent, and no payment on it is pending or only authorized (KB 8).
\<close>

theorem settle_iff:
  assumes "numerics L dval" and "books (wdb w)"
  shows "(\<exists>f' w'. settle L now i p w = (Inr f', w')) \<longleftrightarrow>
     (\<exists>x. sel1 (folioRow i p) (folios (wdb w)) = Some x \<and> fo_status x = FsOpen
        \<and> \<bar>chargeTotal i p (wdb w) - paymentTotal i p (wdb w)\<bar> \<le> 1 / 100
        \<and> \<not> (\<exists>y\<in>set (payments (wdb w)). py_folioId y = Some i \<and> py_propertyId y = p
              \<and> py_status y \<in> {PsAuthorized, PsPending}))"
  by (rule numerics.settle_runs [OF assms])

theorem settle_iff_witness:
  "(\<exists>f' w'. settle ref_numlib 5 ''f2'' ''p'' demo_ledger = (Inr f', w'))
     \<and> \<not> (\<exists>f' w'. settle ref_numlib 5 ''f1'' ''p'' demo_ledger = (Inr f', w'))"
proof -
  have "chargeTotal ''f1'' ''p'' (wdb demo_ledger) = 100" "chargeTotal ''f2'' ''p'' (wdb demo_ledger) = 0" "paymentTotal f p (wdb demo_ledger) = 0"
    "sel1 (folioRow ''f2'' ''p'') (folios (wdb demo_ledger)) = Some (demo_folio ''f2'' ''0.00'')" "payments (wdb demo_ledger) = []"
    "fo_status (demo_folio ''f2'' ''0.00'') = FsOpen" for f p
    by (simp_all add: demo_ledger_def demo_charge_def chargeTotal_def folioCharges_def charge_value_def ledger_texts paymentTotal_def
        folioPayments_def demo_folio_def)
  then show ?thesis
    using settle_iff [OF ref.numerics_axioms demo_books, of 5 "''f2''" "''p''"]
      settle_iff [OF ref.numerics_axioms demo_books, of 5 "''f1''" "''p''"] by simp
qed

section \<open>Replays\<close>

lemma storeCharge_id: "storeCharge L (c\<lparr>ch_id := i\<rparr>) = (case storeCharge L c of Inl e \<Rightarrow> Inl e | Inr r \<Rightarrow> Inr (r\<lparr>ch_id := i\<rparr>))"
  by (auto simp: storeCharge_def bindR_def split: sum.splits)

lemma retotal_row:
  assumes "sel1 (folioRow g q) (folios db) = Some x"
  shows "\<exists>x'. sel1 (folioRow g q) (folios (retotal now f p c y b db)) = Some x' \<and> fo_status x' = fo_status x"
  using assms find_upd [of "folioRow f p" "folioRow g q" "with_totals now c y b" "folios db"] by (simp add: retotal_def)

lemma postTaxes_folios: "postTaxes L ids f dto sd parent k items w = (Inr ts, w') \<Longrightarrow> folios (wdb w') = folios (wdb w)"
  by (induction items arbitrary: k w ts) (fastforce simp: op_iffs insertCharge_iff)+

lemma posts_new_folios:
  assumes "posts_new L now ids f dto pers sd w c ts w'" and "sel1 (folioRow g q) (folios (wdb w)) = Some x"
  shows "\<exists>x'. sel1 (folioRow g q) (folios (wdb w')) = Some x' \<and> fo_status x' = fo_status x"
proof -
  obtain w1 w2 w3 where ins: "insertCharge L (chargeOf (ids 0) f dto pers sd) w = (Inr c, w1)"
    and mid: "if taxed dto
        then \<exists>items. calculateTaxes L (cc_amount dto) (chargeTypeName (cc_type dto)) (cc_propertyId dto) (cc_serviceDate dto)
               (post_opts dto) w1 = (Inr items, w1) \<and> postTaxes L ids f dto sd (ch_id c) 1 items w1 = (Inr ts, w2)
        else ts = [] \<and> w2 = w1"
    and rec: "recalculateBalance L now f (cc_propertyId dto) w2 = (Inr (), w3)" "wdb w' = wdb w3"
    using assms(1) unfolding posts_new_def by blast
  have "folios (wdb w1) = folios (wdb w)" using ins by (auto simp: insertCharge_iff)
  then have w2: "folios (wdb w2) = folios (wdb w)" using mid by (auto split: if_splits dest: postTaxes_folios)
  obtain a b z where "w3 = w2 \<or> w3 = w2\<lparr>wdb := retotal now f (cc_propertyId dto) a b z (wdb w2)\<rparr>"
    using recalc_steps [OF rec(1)] by (auto split: if_splits)
  then show ?thesis using retotal_row [of g q "wdb w2" x] assms(2) w2 rec(2) by auto
qed

text \<open>
  C27. Posting with a source key is idempotent: after a posting that created the charge, the same
  posting, with whatever new identifiers and whether in a transaction or not, returns that charge,
  marked as not created, and changes nothing.
\<close>

theorem posting_replay:
  assumes "postCharge L now ids inTx f dto pers w = (Inr (c, ts, True), w1)" and "present (pe_sourceKey pers)"
  shows "postCharge L now' ids' inTx' f dto pers w1 = (Inr (c, [], False), w1)"
proof -
  obtain sd where chk: "posting_checked L f dto pers sd (wdb w)" and new: "posts_new L now ids f dto pers sd w c ts w1"
    using postCharge_Inr [OF assms(1)] by auto
  obtain fo where "sel1 (folioRow f (cc_propertyId dto)) (folios (wdb w)) = Some fo" "fo_status fo = FsOpen"
    using chk by (auto simp: posting_checked_def)
  then obtain fo' where fo': "sel1 (folioRow f (cc_propertyId dto)) (folios (wdb w1)) = Some fo'" "fo_status fo' = FsOpen"
    using posts_new_folios [OF new] by force
  have st: "storeCharge L (chargeOf (ids 0) f dto pers sd) = Inr c"
    and none: "\<not> list_ex (sameSource c) (charges (wdb w))"
    using new by (auto simp: posts_new_def insertCharge_iff list_ex_iff)
  have "chargeOf (ids' 0) f dto pers sd = (chargeOf (ids 0) f dto pers sd)\<lparr>ch_id := ids' 0\<rparr>" by (simp add: chargeOf_def)
  with st have st': "storeCharge L (chargeOf (ids' 0) f dto pers sd) = Inr (c\<lparr>ch_id := ids' 0\<rparr>)"
    using storeCharge_id [of L "ids' 0" "chargeOf (ids 0) f dto pers sd"] by simp
  have c: "ch_folioId c = Some f" "ch_propertyId c = cc_propertyId dto" "ch_sourceKey c = pe_sourceKey pers"
    using storeCharge_sel [OF st] by (simp_all add: chargeOf_def)
  note rows = posts_new_rows [OF new]
  have key: "pe_sourceKey pers \<noteq> None" using assms(2) by (cases "pe_sourceKey pers") auto
  have taken: "list_ex (sameSource (c\<lparr>ch_id := ids' 0\<rparr>)) (charges (wdb w1))"
    using rows c key by (simp add: sameSource_def)
  have "sel1 (\<lambda>x. ch_propertyId x = cc_propertyId dto \<and> ch_folioId x = Some f \<and> ch_sourceKey x = pe_sourceKey pers) (charges (wdb w)) = None"
    using none c key by (auto simp: find_None_iff list_ex_iff sameSource_def)
  then have found: "sel1 (\<lambda>x. ch_propertyId x = cc_propertyId dto \<and> ch_folioId x = Some f \<and> ch_sourceKey x = pe_sourceKey pers) (charges (wdb w1)) = Some c"
    using rows c by (simp add: find_append)
  obtain a where a: "newDecimal L (cc_amount dto) = Inr a" "\<not> (dec_lte L a (dec_int L 0) \<and> cc_type dto \<noteq> CtAdjustment)"
      "newDate (cc_serviceDate dto) = Inr sd" "\<not> cc_provenance dto"
      "\<not> (present (pe_revenueRole pers) \<and> (cc_type dto \<noteq> CtAdjustment \<or> take 8 (nvl (pe_sourceKey pers) []) \<noteq> ''deposit:''))"
    using chk by (auto simp: posting_checked_def)
  show ?thesis
    using a fo' st' taken found assms(2)
    by (simp add: postCharge_def bindS_Inr_iff guardS_Inr_iff findFolio_iff liftS_iff insertChargeOnce_iff getS_iff someS_Inr_iff
        returnS_iff)
qed


text \<open>A posting to the example folio: an adjustment with a source key.\<close>

definition demo_post :: createChargeDto where
  "demo_post = \<lparr>cc_propertyId = ''p'', cc_type = CtAdjustment, cc_description = ''Credit'', cc_amount = ''-100.00'', cc_currencyCode = ''EUR'',
     cc_taxAmount = None, cc_taxRate = None, cc_taxCode = None, cc_serviceDate = ''2024-02-28'', cc_postedBy = None,
     cc_guestId = None, cc_numberOfNights = None, cc_nightNumber = None, cc_skipTaxCalculation = False, cc_provenance = False\<rparr>"

definition demo_key :: chargePersistence where
  "demo_key = \<lparr>pe_parentChargeId = None, pe_sourceKey = Some ''credit:1'', pe_revenueRole = None\<rparr>"

lemma demo_day: "\<exists>sd. newDate ''2024-02-28'' = Inr sd"
proof -
  have "iso_pattern ''2024-02-28''" by code_simp
  then show ?thesis by (simp add: newDate_def parse_2024 Let_def)
qed

lemma demo_posting: "\<exists>c w1. postCharge ref_numlib 5 demo_ids False ''f1'' demo_post demo_key demo_ledger = (Inr (c, [], True), w1)"
proof -
  obtain sd where sd: "newDate ''2024-02-28'' = Inr sd" using demo_day by blast
  let ?row = "chargeOf (demo_ids 0) ''f1'' demo_post demo_key sd"
  let ?c = "?row\<lparr>ch_taxAmount := ''0.00''\<rparr>"
  let ?w = "demo_ledger\<lparr>wdb := put_charge ?c (wdb demo_ledger)\<rparr>"
  have st: "storeCharge ref_numlib ?row = Inr ?c"
    by (simp add: storeCharge_def chargeOf_def demo_post_def demo_key_def ledger_columns numericOptR_def)
  have free: "\<not> list_ex (\<lambda>x. sameSource ?c x \<or> sameDeposit ?c x) (charges (wdb demo_ledger))" "\<not> list_ex (sameSource ?c) (charges (wdb demo_ledger))"
    by (simp_all add: demo_ledger_def demo_charge_def sameSource_def sameDeposit_def chargeOf_def demo_key_def)
  have ins: "insertChargeOnce ref_numlib ?row demo_ledger = (Inr (Some ?c), ?w)"
    using st free by (simp add: insertChargeOnce_iff insertCharge_iff)
  have "(\<Sum>c\<leftarrow>folioCharges ''f1'' ''p'' (wdb ?w). charge_value c) = 0" "folioPayments ''f1'' ''p'' (wdb ?w) = []"
    by (simp_all add: folioCharges_def folioPayments_def demo_ledger_def demo_charge_def chargeOf_def demo_post_def charge_value_def ledger_texts)
  then have rec: "\<exists>w'. recalculateBalance ref_numlib 5 ''f1'' ''p'' ?w = (Inr (), w')"
    using ref_recalc [of "''f1''" "''p''" ?w 0 0 5] by (simp add: scaled_def)
  have "sel1 (folioRow ''f1'' ''p'') (folios (wdb demo_ledger)) = Some (demo_folio ''f1'' ''100.00'')"
    by (simp add: demo_ledger_def demo_folio_def)
  moreover have "newDecimal ref_numlib ''-100.00'' = Inr (- 100)" by (simp add: ref_newDecimal ledger_texts)
  ultimately show ?thesis
    using ins rec sd
    by (simp add: postCharge_def bindS_Inr_iff guardS_Inr_iff findFolio_iff liftS_iff returnS_iff emit_iff)
       (simp add: demo_post_def demo_key_def demo_folio_def chargeOf_def bindS_Inr_iff returnS_iff emit_iff)
qed

theorem posting_replay_witness:
  "\<exists>c w1. postCharge ref_numlib 5 demo_ids False ''f1'' demo_post demo_key demo_ledger = (Inr (c, [], True), w1)
     \<and> postCharge ref_numlib 9 demo_ids True ''f1'' demo_post demo_key w1 = (Inr (c, [], False), w1)"
proof -
  obtain c w1 where p: "postCharge ref_numlib 5 demo_ids False ''f1'' demo_post demo_key demo_ledger = (Inr (c, [], True), w1)"
    using demo_posting by blast
  have "present (pe_sourceKey demo_key)" by (simp add: demo_key_def)
  from posting_replay [OF p this] p show ?thesis by blast
qed

section \<open>Failures\<close>

text \<open>An operation that throws and leaves the tables as they were.\<close>

definition atomic_op :: "('db, 'a) op \<Rightarrow> bool" where
  "atomic_op m \<longleftrightarrow> (\<forall>w e w'. m w = (Inl e, w') \<longrightarrow> wdb w' = wdb w)"

definition reads :: "('db, 'a) op \<Rightarrow> bool" where
  "reads m \<longleftrightarrow> (\<forall>w r w'. m w = (r, w') \<longrightarrow> wdb w' = wdb w)"

definition returns :: "('db, 'a) op \<Rightarrow> bool" where
  "returns m \<longleftrightarrow> (\<forall>w e w'. m w \<noteq> (Inl e, w'))"

named_theorems atomicity \<open>how failures of composed operations behave\<close>

lemma reads_basic [atomicity]: "reads (returnS a)" "reads (guardS b e)" "reads (getS h)" "reads (liftS x)" "reads (someS y e)"
    "reads (emit n k i d p)"
  by (auto simp: reads_def op_defs emit_iff split: if_splits option.splits)

lemma reads_bind [atomicity]: "reads m \<Longrightarrow> (\<And>a. reads (k a)) \<Longrightarrow> reads (bindS m k)"
  by (fastforce simp: reads_def bindS_def split: prod.splits sum.splits)

lemma reads_find [atomicity]: "reads (findFolio i p)" "reads (findByIdRaw i p)"
  by (auto simp: findFolio_def findByIdRaw_def intro: atomicity)

lemma reads_if [atomicity]: "reads m \<Longrightarrow> reads n \<Longrightarrow> reads (if b then m else n)"
  by simp

lemma returns_basic [atomicity]: "returns (returnS a)" "returns (modifyS h)" "returns (emit n k i d p)"
  by (auto simp: returns_def returnS_def modifyS_def emit_iff)

lemma returns_bind [atomicity]: "returns m \<Longrightarrow> (\<And>a. returns (k a)) \<Longrightarrow> returns (bindS m k)"
  by (auto simp: returns_def bindS_Inl_iff)

lemma returns_if [atomicity]: "returns m \<Longrightarrow> returns n \<Longrightarrow> returns (if b then m else n)"
  by simp

lemma returns_posted [atomicity]: "returns (emitPosted f p cs)"
  by (induction cs) (auto intro: atomicity)

lemma atomic_transaction [atomicity]: "atomic_op (transactionS m)"
  by (auto simp: atomic_op_def transactionS_def split: prod.splits sum.splits)

lemma atomic_read: "reads m \<Longrightarrow> (\<And>a. atomic_op (k a)) \<Longrightarrow> atomic_op (bindS m k)"
  by (fastforce simp: reads_def atomic_op_def bindS_def split: prod.splits sum.splits)

lemma atomic_last: "atomic_op m \<Longrightarrow> (\<And>a. returns (k a)) \<Longrightarrow> atomic_op (bindS m k)"
  by (fastforce simp: returns_def atomic_op_def bindS_Inl_iff)

lemma atomic_returns: "returns m \<Longrightarrow> atomic_op m"
  by (auto simp: returns_def atomic_op_def)

lemma atomic_snapshot: "atomic_op (postChargeFromSnapshot L now ids f dto tax adj key)"
  unfolding postChargeFromSnapshot_def postChargeFromSnapshotWithOutcome_def emitSnapshotChargeWebhooks_def
  by (simp only: if_False) (intro atomic_last atomicity)

lemma atomic_settle: "atomic_op (settle L now f p)"
  unfolding settle_def Let_def by (intro atomic_read atomic_returns atomicity)

lemma atomic_close: "atomic_op (closeFolio now f p)"
  unfolding closeFolio_def Let_def by (intro atomic_read atomic_returns atomicity)

lemma atomic_update: "atomic_op (updateFolio now f p dto)"
  unfolding updateFolio_def Let_def by (intro atomic_read atomic_returns atomicity)

lemma atomic_create: "atomic_op (createFolio today now i inTx dto)"
  unfolding createFolio_def Let_def by (intro atomic_read atomic_returns atomicity)

lemma atomic_rule: "atomic_op (createRoutingRule i p dto)"
  unfolding createRoutingRule_def Let_def by (intro atomic_read atomic_returns atomicity)

lemma atomic_move: "atomic_op (moveTransactions L now p f t cid ct)"
  unfolding moveTransactions_def by (intro atomic_read atomic_last atomicity)

lemma atomic_reverse: "atomic_op (reverseCharge L now ids f i p)"
  unfolding reverseCharge_def by (intro atomic_last atomicity)

lemma atomic_transfer: "atomic_op (transferCharge L now f p dto)"
  unfolding transferCharge_def by (intro atomic_read atomicity)

lemma atomic_city: "atomic_op (transferToCityLedger L today now nowIso ids folioNew payNew f p dto)"
  unfolding transferToCityLedger_def by (rule atomic_transaction)


section \<open>Tax rates the charge table cannot hold\<close>

lemma storeCharge_error: "storeCharge L c = Inl e \<Longrightarrow> e = DatabaseError"
  by (auto simp: storeCharge_def bindR_def numeric12_2_def numericOptR_def numericR_def split: sum.splits option.splits if_splits)

lemma insertTax_result: "insertCharge L (taxRow i f dto sd parent item) w =
    (case storeCharge L (taxRow i f dto sd parent item) of Inl e \<Rightarrow> (Inl e, w)
     | Inr row \<Rightarrow> (Inr row, w\<lparr>wdb := put_charge row (wdb w)\<rparr>))"
proof (cases "storeCharge L (taxRow i f dto sd parent item)")
  case (Inl e)
  then show ?thesis by (simp add: insertCharge_def op_defs)
next
  case (Inr row)
  then have "ch_sourceKey row = None" using storeCharge_sel [OF Inr] by (simp add: taxRow_def)
  then have "\<not> list_ex (\<lambda>x. sameSource row x \<or> sameDeposit row x) (charges (wdb w))"
    by (simp add: list_ex_iff sameSource_def sameDeposit_def)
  with Inr have "insertCharge L (taxRow i f dto sd parent item) w = (Inr row, w\<lparr>wdb := put_charge row (wdb w)\<rparr>)"
    by (simp add: insertCharge_iff)
  with Inr show ?thesis by simp
qed

lemma postTaxes_fail:
  assumes "item \<in> set items" and "\<And>i. \<exists>e. storeCharge L (taxRow i f dto sd parent item) = Inl e"
  shows "\<exists>w' ts. postTaxes L ids f dto sd parent k items w = (Inl DatabaseError, w') \<and> charges (wdb w') = charges (wdb w) @ ts
    \<and> folios (wdb w') = folios (wdb w)"
  using assms(1)
proof (induction items arbitrary: k w)
  case Nil
  then show ?case by simp
next
  case (Cons x items)
  show ?case
  proof (cases "storeCharge L (taxRow (ids k) f dto sd parent x)")
    case (Inl e)
    then show ?thesis using storeCharge_error [OF Inl] by (simp add: insertTax_result bindS_def)
  next
    case (Inr row)
    then have "x \<noteq> item" using assms(2) [of "ids k"] by auto
    then obtain w' ts where "postTaxes L ids f dto sd parent (Suc k) items (w\<lparr>wdb := put_charge row (wdb w)\<rparr>) = (Inl DatabaseError, w')"
        "charges (wdb w') = (charges (wdb w) @ [row]) @ ts" "folios (wdb w') = folios (wdb w)"
      using Cons.IH [of "Suc k" "w\<lparr>wdb := put_charge row (wdb w)\<rparr>"] Cons.prems by auto
    then show ?thesis using Inr by (simp add: insertTax_result bindS_def)
  qed
qed

context numerics
begin

lemma high_rate_unstorable:
  assumes "decimal_text (ti_rate item) = Some x" and "round_dp 4 x = x" and "10 \<le> x"
  shows "\<exists>e. storeCharge L (taxRow i f dto sd parent item) = Inl e"
proof -
  have "pg_numeric L 5 4 (ti_rate item) = None" using numeric_overflow [OF assms(1), of 5 4] assms(2,3) by simp
  then show ?thesis by (auto simp: storeCharge_def taxRow_def numericOptR_def numericR_def bindR_def split: sum.splits)
qed

lemma lines_member: "lines_of items xs \<Longrightarrow> (r, v) \<in> set xs \<Longrightarrow> \<exists>i\<in>set items. ti_rate i = tr_rate r"
proof (induction xs arbitrary: items)
  case Nil
  then show ?case by simp
next
  case (Cons x xs)
  then obtain t ts where "items = t # ts" by (cases items) (auto simp: lines_of_def)
  with Cons show ?case by (cases x) (auto simp: lines_of_Cons)
qed

lemma exact_items_rule: "(r, v) \<in> set (exact_items ct opts g a rs x) \<Longrightarrow> r \<in> set rs"
  by (induction rs arbitrary: x) (auto simp: Let_def split: if_splits)

lemma high_rate_posting:
  assumes "posting_checked L f dto pers sd (wdb w)" and "\<not> present (pe_sourceKey pers)"
    and "insertCharge L (chargeOf (ids 0) f dto pers sd) w = (Inr c, w1)" and "taxed dto" and "postable dto (wdb w)"
    and "(r, v) \<in> set (exact_items (chargeTypeName (cc_type dto)) (post_opts dto) (taxGuest (post_opts dto) (wdb w))
           (text_val (cc_amount dto)) (activeRules (cc_propertyId dto) (take 10 (cc_serviceDate dto)) (wdb w)) (text_val (cc_amount dto)))"
    and "10 \<le> text_val (tr_rate r)"
  shows "\<exists>w' ts. postCharge L now ids inTx f dto pers w = (Inl DatabaseError, w') \<and> charges (wdb w') = charges (wdb w) @ c # ts
    \<and> folios (wdb w') = folios (wdb w)"
proof -
  let ?ct = "chargeTypeName (cc_type dto)" and ?a = "text_val (cc_amount dto)" and ?opts = "post_opts dto"
  let ?rs = "activeRules (cc_propertyId dto) (take 10 (cc_serviceDate dto)) (wdb w)" and ?g = "taxGuest (post_opts dto) (wdb w)"
  have w1: "w1 = w\<lparr>wdb := put_charge c (wdb w)\<rparr>" using assms(3) by (simp add: insertCharge_iff)
  have bounds: "list_all rule_ok ?rs" "opts_ok ?opts" "round_dp 2 ?a = ?a" "exact_gross ?ct ?opts ?g ?rs ?a \<le> 10 ^ 7"
    using assms(4-6) by (auto simp: postable_def Let_def untaxed_items)
  have a: "decimal_text (cc_amount dto) = Some ?a" "scaled 2 ?a" "0 \<le> ?a"
    using assms(4,5) posting_positive [OF assms(1)] bounds(3)
    by (auto simp: postable_def text_val_def round_dp_4_iff taxed_def)
  obtain items where items: "calculateTaxes L (cc_amount dto) ?ct (cc_propertyId dto) (cc_serviceDate dto) ?opts w1 = (Inr items, w1)"
      "lines_of items (exact_items ?ct ?opts ?g ?a ?rs ?a)"
    using calculateTaxes_val [of "cc_propertyId dto" "cc_serviceDate dto" w1 ?opts "cc_amount dto" ?a ?ct] bounds a by (auto simp: w1)
  obtain i where i: "i \<in> set items" "ti_rate i = tr_rate r" using lines_member [OF items(2) assms(6)] by blast
  obtain x where x: "decimal_text (ti_rate i) = Some x" "round_dp 4 x = x" "10 \<le> x"
    using bounds(1) exact_items_rule [OF assms(6)] assms(7) i(2) by (auto simp: list_all_iff rule_ok_def text_val_def split: option.splits)
  obtain w' ts where fail: "postTaxes L ids f dto sd (ch_id c) 1 items w1 = (Inl DatabaseError, w')"
      "charges (wdb w') = charges (wdb w1) @ ts" "folios (wdb w') = folios (wdb w1)"
    using postTaxes_fail [OF i(1) high_rate_unstorable [OF x]] by blast
  have ty: "ch_type c = cc_type dto" using assms(3) storeCharge_sel by (fastforce simp: insertCharge_iff)
  obtain am fo where chk: "newDecimal L (cc_amount dto) = Inr am" "\<not> (dec_lte L am (dec_int L 0) \<and> cc_type dto \<noteq> CtAdjustment)"
      "newDate (cc_serviceDate dto) = Inr sd" "\<not> cc_provenance dto"
      "\<not> (present (pe_revenueRole pers) \<and> (cc_type dto \<noteq> CtAdjustment \<or> take 8 (nvl (pe_sourceKey pers) []) \<noteq> ''deposit:''))"
      "findFolio f (cc_propertyId dto) w = (Inr fo, w)" "fo_status fo = FsOpen"
    using assms(1) by (auto simp: posting_checked_def findFolio_iff)
  have "postCharge L now ids inTx f dto pers w = (Inl DatabaseError, w')"
    using chk assms(2,3,4) ty fail(1) items(1)
    by (simp add: postCharge_def bindS_def guardS_def liftS_def returnS_def throwS_def Let_def taxed_def post_opts_def)
  then show ?thesis using fail(2,3) w1 by auto
qed

end


text \<open>
  C38. A tax rate of ten or more (per cent, or an amount per night or stay) does not fit the column
  \<open>charges.tax_rate numeric(5,4)\<close>: every posting such a rule applies to fails with a database error,
  outside a transaction it leaves the base charge in the journal, and the totals of the folio are not
  recalculated.
\<close>

theorem high_tax_rate_breaks_posting:
  assumes "numerics L dval" and "posting_checked L f dto pers sd (wdb w)" and "\<not> present (pe_sourceKey pers)"
    and "insertCharge L (chargeOf (ids 0) f dto pers sd) w = (Inr c, w1)" and "taxed dto" and "postable dto (wdb w)"
    and "(r, v) \<in> set (exact_items (chargeTypeName (cc_type dto)) (post_opts dto) (taxGuest (post_opts dto) (wdb w))
           (text_val (cc_amount dto)) (activeRules (cc_propertyId dto) (take 10 (cc_serviceDate dto)) (wdb w)) (text_val (cc_amount dto)))"
    and "10 \<le> text_val (tr_rate r)"
  shows "\<exists>w' ts. postCharge L now ids inTx f dto pers w = (Inl DatabaseError, w') \<and> charges (wdb w') = charges (wdb w) @ c # ts
    \<and> folios (wdb w') = folios (wdb w)"
  using numerics.high_rate_posting [OF assms(1), of f dto pers sd w ids c w1 r v now inTx] assms(2-) by blast

definition demo_room_charge :: createChargeDto where
  "demo_room_charge = demo_post\<lparr>cc_type := CtRoom, cc_description := ''Room'', cc_amount := ''100.00''\<rparr>"

lemma demo_room_rules: "activeRules ''p'' ''2024-02-28'' (wdb demo_ledger) = [demo_rule ''vat'' ''10.0000'' False 1]"
  by (simp add: activeRules_def getActiveTaxProfile_def demo_ledger_def demo_rule_def effectiveOn_def)

lemma demo_room_items: "exact_items ''room'' opts None 100 [demo_rule ''vat'' ''10.0000'' False 1] 100
    = [(demo_rule ''vat'' ''10.0000'' False 1, 10)]"
  by (simp add: ruleApplies_def demo_rule_def exact_tax_def demo_rates round_dp_def Let_def)

lemma demo_room_sel: "cc_propertyId demo_room_charge = ''p''" "cc_type demo_room_charge = CtRoom" "cc_amount demo_room_charge = ''100.00''"
    "cc_serviceDate demo_room_charge = ''2024-02-28''" "cc_taxAmount demo_room_charge = None" "cc_provenance demo_room_charge = False"
    "post_opts demo_room_charge = \<lparr>to_guestId = None, to_numberOfNights = None, to_nightNumber = None\<rparr>" "taxed demo_room_charge"
  by (simp_all add: demo_room_charge_def demo_post_def post_opts_def taxed_def)

theorem high_tax_rate_breaks_posting_witness:
  "\<exists>w' c ts. postCharge ref_numlib 5 demo_ids False ''f1'' demo_room_charge noPersistence demo_ledger = (Inl DatabaseError, w')
     \<and> charges (wdb w') = [demo_charge, c] @ ts \<and> folios (wdb w') = folios (wdb demo_ledger)"
proof -
  obtain sd where sd: "newDate ''2024-02-28'' = Inr sd" using demo_day by blast
  let ?row = "chargeOf (demo_ids 0) ''f1'' demo_room_charge noPersistence sd"
  let ?c = "?row\<lparr>ch_amount := ''100.00'', ch_taxAmount := ''0.00''\<rparr>"
  have st: "storeCharge ref_numlib ?row = Inr ?c"
    by (simp add: storeCharge_def chargeOf_def demo_room_charge_def demo_post_def noPersistence_def ledger_columns numericOptR_def)
  have ins: "insertCharge ref_numlib ?row demo_ledger = (Inr ?c, demo_ledger\<lparr>wdb := put_charge ?c (wdb demo_ledger)\<rparr>)"
    using st by (simp add: insertCharge_iff demo_ledger_def demo_charge_def sameSource_def sameDeposit_def chargeOf_def noPersistence_def)
  have none: "taxGuest \<lparr>to_guestId = None, to_numberOfNights = None, to_nightNumber = None\<rparr> db = None" for db :: "'x tax_db_scheme"
    by (simp add: taxGuest_def)
  have chk: "posting_checked ref_numlib ''f1'' demo_room_charge noPersistence sd (wdb demo_ledger)"
    using sd by (simp add: posting_checked_def demo_room_sel noPersistence_def ledger_columns demo_ledger_def demo_folio_def)
  have ok: "rule_ok (demo_rule ''vat'' ''10.0000'' False 1)"
    by (simp add: rule_ok_def demo_rule_def demo_rates round_dp_def)
  have gross: "exact_gross ''room'' opts None [demo_rule ''vat'' ''10.0000'' False 1] 100 = 110" for opts
    by (simp add: exact_gross_def demo_room_items del: exact_items.simps)
  have "opts_ok \<lparr>to_guestId = None, to_numberOfNights = None, to_nightNumber = None\<rparr>" by (simp add: opts_ok_def)
  then have pb: "postable demo_room_charge (wdb demo_ledger)"
    using ok by (simp add: postable_def demo_room_sel demo_room_rules ledger_texts none gross Let_def)
  have rate: "10 \<le> text_val (tr_rate (demo_rule ''vat'' ''10.0000'' False 1))" by (simp add: demo_rule_def demo_rates)
  have item: "(demo_rule ''vat'' ''10.0000'' False 1, 10) \<in> set (exact_items (chargeTypeName (cc_type demo_room_charge)) (post_opts demo_room_charge)
      (taxGuest (post_opts demo_room_charge) (wdb demo_ledger)) (text_val (cc_amount demo_room_charge))
      (activeRules (cc_propertyId demo_room_charge) (take 10 (cc_serviceDate demo_room_charge)) (wdb demo_ledger))
      (text_val (cc_amount demo_room_charge)))"
    by (simp add: demo_room_sel none ledger_texts demo_room_rules demo_room_items del: exact_items.simps)
  have "\<not> present (pe_sourceKey noPersistence)" by (simp add: noPersistence_def)
  with high_tax_rate_breaks_posting [OF ref.numerics_axioms, of "''f1''" demo_room_charge noPersistence sd demo_ledger demo_ids _ _ _ _ 5 False]
    chk ins demo_room_sel(8) pb item rate
  obtain w' ts where "postCharge ref_numlib 5 demo_ids False ''f1'' demo_room_charge noPersistence demo_ledger = (Inl DatabaseError, w')"
    "charges (wdb w') = charges (wdb demo_ledger) @ ?c # ts" "folios (wdb w') = folios (wdb demo_ledger)" by blast
  moreover have "charges (wdb demo_ledger) = [demo_charge]" by (simp add: demo_ledger_def)
  ultimately show ?thesis by (intro exI [of _ w'] exI [of _ ?c] exI [of _ ts]) simp
qed

section \<open>City ledger\<close>


definition demo_city :: transferCityLedgerDto where
  "demo_city = \<lparr>cl_companyName = ''ACME'', cl_billingAddress = None, cl_paymentTermsDays = None\<rparr>"

lemma demo_city_runs: "\<exists>w'. transferToCityLedger ref_numlib ''260101'' 5 ''2024-02-28'' demo_ids ''f9'' ''y9'' ''f1'' ''p'' demo_city demo_ledger
    = (Inr (Some (''f1'', ''f9'', ''100.00'')), w')"
proof -
  obtain sd where sd: "newDate ''2024-02-28'' = Inr sd" using demo_day by blast
  let ?src = "demo_folio ''f1'' ''100.00''"
  define w1 where "w1 = demo_ledger\<lparr>wdb := retotal 5 ''f1'' ''p'' ''100.00'' ''0.00'' ''100.00'' (wdb demo_ledger)\<rparr>"
  let ?city = "\<lparr>fo_id = ''f9'', fo_propertyId = ''p'', fo_reservationId = None, fo_bookingId = None, fo_guestId = ''g1'',
     fo_folioNumber = ''F-260101-0001'', fo_type = FtCityLedger, fo_status = FsOpen, fo_totalCharges = ''0.00'',
     fo_totalPayments = ''0.00'', fo_balance = ''0.00'', fo_currencyCode = ''EUR'', fo_companyName = Some ''ACME'',
     fo_billingAddress = None, fo_paymentTermsDays = None, fo_notes = None, fo_settledAt = None, fo_closedAt = None, fo_updatedAt = 5\<rparr>"
  define w2 where "w2 = w1\<lparr>wdb := (wdb w1)\<lparr>folios := folios (wdb w1) @ [?city]\<rparr>\<rparr>"
  let ?pay = "cityPayment ''y9'' 5 ''f1'' ''p'' ''100.00'' ''EUR'' ''ACME''"
  define w3 where "w3 = w2\<lparr>wdb := put_payment ?pay (wdb w2)\<rparr>"
  define w4 where "w4 = w3\<lparr>wdb := retotal 5 ''f1'' ''p'' ''100.00'' ''100.00'' ''0.00'' (wdb w3)\<rparr>"
  let ?dto = "cityCharge ''p'' ''f1'' ''100.00'' ''EUR'' ''2024-02-28''"
  let ?row = "(chargeOf (demo_ids 0) ''f9'' ?dto noPersistence sd)\<lparr>ch_taxAmount := ''0.00''\<rparr>"
  define w5 where "w5 = w4\<lparr>wdb := put_charge ?row (wdb w4)\<rparr>"
  have cv: "charge_value demo_charge = 100" by (simp add: charge_value_def demo_charge_def ledger_texts)
  have rows: "folioCharges ''f1'' ''p'' (wdb demo_ledger) = [demo_charge]" "folioPayments f p (wdb demo_ledger) = []" for f p
    by (simp_all add: folioCharges_def folioPayments_def demo_ledger_def demo_charge_def)
  have src: "sel1 (folioRow ''f1'' ''p'') (folios (wdb demo_ledger)) = Some ?src" by (simp add: demo_ledger_def demo_folio_def)
  have r1: "recalculateBalance ref_numlib 5 ''f1'' ''p'' demo_ledger = (Inr (), w1)"
    using ref_recalc [of "''f1''" "''p''" demo_ledger 100 0 5] rows cv by (simp add: ledger_shows scaled_def w1_def)
  have x: "sel1 (folioRow ''f1'' ''p'') (folios (wdb w1)) = Some (with_totals 5 ''100.00'' ''0.00'' ''100.00'' ?src)"
    by (simp add: w1_def demo_ledger_def retotal_def demo_folio_def with_totals_def)
  have num: "generateFolioNumber ''260101'' ''p'' (wdb w1) = ''F-260101-0001''"
    by (simp add: w1_def generateFolioNumber_def demo_ledger_def retotal_def demo_folio_def with_totals_def padStart4_def numeral_3_eq_3)
  have cr: "createFolio ''260101'' 5 ''f9'' True \<lparr>cf_propertyId = ''p'', cf_reservationId = None, cf_bookingId = None,
      cf_guestId = ''g1'', cf_type = FtCityLedger, cf_currencyCode = ''EUR'', cf_companyName = Some ''ACME'', cf_billingAddress = None,
      cf_paymentTermsDays = None, cf_notes = None\<rparr> w1 = (Inr ?city, w2)"
    by (simp add: createFolio_def op_defs num w2_def) (simp add: w1_def demo_ledger_def retotal_def demo_folio_def with_totals_def)
  have ip: "insertPayment ref_numlib ?pay w2 = (Inr ?pay, w3)"
    by (simp add: insertPayment_iff cityPayment_def ledger_columns w3_def)
  have "folioCharges ''f1'' ''p'' (wdb w3) = [demo_charge]" "folioPayments ''f1'' ''p'' (wdb w3) = [?pay]"
    using rows by (simp_all add: w1_def w2_def w3_def folioCharges_def folioPayments_def cityPayment_def folioPaymentSumWhere_def countedPayment_def)
  then have r2: "recalculateBalance ref_numlib 5 ''f1'' ''p'' w3 = (Inr (), w4)"
    using ref_recalc [of "''f1''" "''p''" w3 100 100 5] cv by (simp add: ledger_texts ledger_shows scaled_def cityPayment_def w4_def)
  have st: "storeCharge ref_numlib (chargeOf (demo_ids 0) ''f9'' ?dto noPersistence sd) = Inr ?row"
    by (simp add: storeCharge_def chargeOf_def cityCharge_def noPersistence_def ledger_columns numericOptR_def)
  have ins: "insertCharge ref_numlib (chargeOf (demo_ids 0) ''f9'' ?dto noPersistence sd) w4 = (Inr ?row, w5)"
    using st by (simp add: insertCharge_iff w5_def) (simp add: w1_def w2_def w3_def w4_def demo_ledger_def demo_charge_def sameSource_def sameDeposit_def chargeOf_def noPersistence_def)
  have "activeRules ''p'' ''2024-02-28'' (wdb w5) = [demo_rule ''vat'' ''10.0000'' False 1]"
    by (simp add: activeRules_def getActiveTaxProfile_def w1_def w2_def w3_def w4_def w5_def demo_ledger_def retotal_def demo_rule_def effectiveOn_def)
  then have tax: "calculateTaxes ref_numlib ''100.00'' ''fee'' ''p'' ''2024-02-28'' opts w5 = (Inr [], w5)" for opts
    by (auto simp: calculateTaxes_def activeRules_def op_defs calculateLoadedTaxes_def ruleApplies_def demo_rule_def ledger_columns
        split: option.splits)
  have "folioCharges ''f9'' ''p'' (wdb w5) = [?row]" "folioPayments ''f9'' ''p'' (wdb w5) = []" "charge_value ?row = 100"
    by (simp_all add: w1_def w2_def w3_def w4_def w5_def folioCharges_def folioPayments_def demo_ledger_def demo_charge_def cityPayment_def folioPaymentSumWhere_def
        chargeOf_def cityCharge_def charge_value_def ledger_texts)
  then obtain w6 where r3: "recalculateBalance ref_numlib 5 ''f9'' ''p'' w5 = (Inr (), w6)"
    using ref_recalc [of "''f9''" "''p''" w5 100 0 5] by (simp add: scaled_def)
  have cf: "sel1 (folioRow ''f9'' ''p'') (folios (wdb w4)) = Some ?city"
    by (simp add: w1_def w2_def w3_def w4_def demo_ledger_def retotal_def demo_folio_def with_totals_def)
  then have ff: "findFolio ''f9'' ''p'' w4 = (Inr ?city, w4)" by (simp add: findFolio_iff)
  have run: "postCharge ref_numlib 5 demo_ids True ''f9'' ?dto noPersistence w4 = (Inr (?row, [], True), w6)"
    using ins r3 ff sd tax
    by (simp add: postCharge_def cityCharge_def noPersistence_def chargeOf_def ledger_columns op_defs)
  have dto: "cl_companyName demo_city = ''ACME''" "cl_billingAddress demo_city = None" "cl_paymentTermsDays demo_city = None"
    by (simp_all add: demo_city_def)
  have sel: "fo_guestId ?src = ''g1''" "fo_currencyCode ?src = ''EUR''" "fo_folioNumber ?src = ''f1''" by (simp_all add: demo_folio_def)
  show ?thesis
    using src r1 x cr ip r2 run
    by (simp add: transferToCityLedger_def bindS_Inr_iff transactionS_Inr_iff findFolio_iff getS_iff liftS_iff returnS_iff Let_def
        ledger_columns ledger_shows dto sel) blast
qed



section \<open>Routing\<close>

lemma sorted_head:
  assumes "sort_key k xs = x # ys"
  shows "x \<in> set xs" and "\<forall>y\<in>set xs. k x \<le> k y"
proof -
  have s: "set xs = set (x # ys)" using assms by (metis set_sort)
  show "x \<in> set xs" using s by simp
  have "sorted (map k (x # ys))" using assms by (metis sorted_sort_key)
  then show "\<forall>y\<in>set xs. k x \<le> k y" using s by auto
qed

lemma resolve_iff:
  "resolveTargetFolio i p ct w = (Inr t, w') \<longleftrightarrow> w' = w \<and>
     (case rulesFor i p (\<lambda>r. fr_chargeType r = ct) (wdb w) of r # _ \<Rightarrow> t = fr_targetFolioId r
      | [] \<Rightarrow> \<exists>rv. sel1 (\<lambda>r. rv_id r = i \<and> rv_propertyId r = p) (reservations (wdb w)) = Some rv
          \<and> (if present (fromPreferences ct (rv_routing rv)) then t = the (fromPreferences ct (rv_routing rv))
             else \<exists>fo. sel1 (\<lambda>f. fo_reservationId f = Some i \<and> fo_propertyId f = p \<and> fo_type f = FtGuest)
                    (folios (wdb w)) = Some fo \<and> t = fo_id fo))"
proof (cases "rulesFor i p (\<lambda>r. fr_chargeType r = ct) (wdb w)")
  case Nil
  have d: "findDefaultFolio i p w = (Inr fo, w1) \<longleftrightarrow> w1 = w \<and>
      sel1 (\<lambda>f. fo_reservationId f = Some i \<and> fo_propertyId f = p \<and> fo_type f = FtGuest) (folios (wdb w)) = Some fo" for fo w1
    by (auto simp: findDefaultFolio_def bindS_Inr_iff getS_iff someS_Inr_iff)
  have r: "findByIdRaw i p w = (Inr rv, w1) \<longleftrightarrow> w1 = w \<and>
      sel1 (\<lambda>r. rv_id r = i \<and> rv_propertyId r = p) (reservations (wdb w)) = Some rv" for rv w1
    by (auto simp: findByIdRaw_def bindS_Inr_iff getS_iff someS_Inr_iff)
  have "resolveTargetFolio i p ct w = (Inr t, w') \<longleftrightarrow> (\<exists>rv. sel1 (\<lambda>r. rv_id r = i \<and> rv_propertyId r = p) (reservations (wdb w)) = Some rv
      \<and> (if present (fromPreferences ct (rv_routing rv)) then returnS (the (fromPreferences ct (rv_routing rv)))
         else bindS (findDefaultFolio i p) (\<lambda>f. returnS (fo_id f))) w = (Inr t, w'))"
    by (simp add: resolveTargetFolio_def bindS_Inr_iff getS_iff r Nil)
  also have "\<dots> \<longleftrightarrow> w' = w \<and> (\<exists>rv. sel1 (\<lambda>r. rv_id r = i \<and> rv_propertyId r = p) (reservations (wdb w)) = Some rv
      \<and> (if present (fromPreferences ct (rv_routing rv)) then t = the (fromPreferences ct (rv_routing rv))
             else \<exists>fo. sel1 (\<lambda>f. fo_reservationId f = Some i \<and> fo_propertyId f = p \<and> fo_type f = FtGuest)
                    (folios (wdb w)) = Some fo \<and> t = fo_id fo))"
    by (auto simp: bindS_Inr_iff returnS_iff d)
  finally show ?thesis by (simp add: Nil)
next
  case (Cons r rs)
  then show ?thesis by (auto simp: resolveTargetFolio_def bindS_Inr_iff getS_iff returnS_iff)
qed

lemma preferred: "present x \<Longrightarrow> x = Some (the x)"
  by (cases x) auto

text \<open>
  C35. Where a charge of a reservation is routed: to the target of a routing rule of highest priority for
  its type; without such a rule to the folio the reservation's preferences name for the type, or name
  as default; else to the guest folio of the reservation.
\<close>

theorem routing_target:
  assumes "resolveTargetFolio reservationId p ct w = (Inr t, w')"
  shows "w' = w \<and> (let matching = {r \<in> set (folioRoutingRules (wdb w)). fr_reservationId r = reservationId
         \<and> fr_propertyId r = p \<and> fr_chargeType r = ct} in
     if matching \<noteq> {} then \<exists>r\<in>matching. fr_targetFolioId r = t \<and> (\<forall>q\<in>matching. fr_priority q \<le> fr_priority r)
     else (\<exists>rv. sel1 (\<lambda>r. rv_id r = reservationId \<and> rv_propertyId r = p) (reservations (wdb w)) = Some rv
       \<and> (if present (fromPreferences ct (rv_routing rv)) then fromPreferences ct (rv_routing rv) = Some t
          else \<exists>f\<in>set (folios (wdb w)). fo_id f = t \<and> fo_reservationId f = Some reservationId \<and> fo_propertyId f = p
                 \<and> fo_type f = FtGuest)))"
proof -
  let ?xs = "filter (\<lambda>r. fr_reservationId r = reservationId \<and> fr_propertyId r = p \<and> fr_chargeType r = ct) (folioRoutingRules (wdb w))"
  define M where "M = {r \<in> set (folioRoutingRules (wdb w)). fr_reservationId r = reservationId
         \<and> fr_propertyId r = p \<and> fr_chargeType r = ct}"
  have M: "set ?xs = M" by (simp add: M_def)
  have rules: "rulesFor reservationId p (\<lambda>r. fr_chargeType r = ct) (wdb w) = sort_key (\<lambda>r. - fr_priority r) ?xs"
    by (simp add: rulesFor_def)
  have sorted_M: "set (sort_key (\<lambda>r. - fr_priority r) ?xs) = M" by (simp add: M_def)
  have res: "w' = w \<and> (case sort_key (\<lambda>r. - fr_priority r) ?xs of r # _ \<Rightarrow> t = fr_targetFolioId r
      | [] \<Rightarrow> \<exists>rv. sel1 (\<lambda>r. rv_id r = reservationId \<and> rv_propertyId r = p) (reservations (wdb w)) = Some rv
          \<and> (if present (fromPreferences ct (rv_routing rv)) then t = the (fromPreferences ct (rv_routing rv))
             else \<exists>fo. sel1 (\<lambda>f. fo_reservationId f = Some reservationId \<and> fo_propertyId f = p \<and> fo_type f = FtGuest)
                    (folios (wdb w)) = Some fo \<and> t = fo_id fo))"
    using resolve_iff [THEN iffD1, OF assms] by (simp only: rules)
  let ?rv = "\<lambda>rv. sel1 (\<lambda>r. rv_id r = reservationId \<and> rv_propertyId r = p) (reservations (wdb w)) = Some rv"
  let ?fo = "\<lambda>f. fo_reservationId f = Some reservationId \<and> fo_propertyId f = p \<and> fo_type f = FtGuest"
  let ?guest = "\<exists>f\<in>set (folios (wdb w)). fo_id f = t \<and> fo_reservationId f = Some reservationId \<and> fo_propertyId f = p \<and> fo_type f = FtGuest"
  have "w' = w \<and> (if M \<noteq> {} then \<exists>r\<in>M. fr_targetFolioId r = t \<and> (\<forall>q\<in>M. fr_priority q \<le> fr_priority r)
     else (\<exists>rv. ?rv rv \<and> (if present (fromPreferences ct (rv_routing rv)) then fromPreferences ct (rv_routing rv) = Some t else ?guest)))"
  proof (cases "sort_key (\<lambda>r. - fr_priority r) ?xs")
    case Nil
    then have none: "M = {}" using sorted_M by simp
    obtain rv where rv: "?rv rv" and t: "if present (fromPreferences ct (rv_routing rv)) then t = the (fromPreferences ct (rv_routing rv))
           else \<exists>fo. sel1 ?fo (folios (wdb w)) = Some fo \<and> t = fo_id fo"
      using res Nil by auto
    have "if present (fromPreferences ct (rv_routing rv)) then fromPreferences ct (rv_routing rv) = Some t else ?guest"
    proof (cases "present (fromPreferences ct (rv_routing rv))")
      case True
      then show ?thesis using t preferred [OF True] by simp
    next
      case False
      then obtain fo where "sel1 ?fo (folios (wdb w)) = Some fo" "t = fo_id fo" using t by auto
      then show ?thesis using find_SomeD [of ?fo "folios (wdb w)" fo] False by auto
    qed
    then show ?thesis using res rv none by auto
  next
    case (Cons r rs)
    have "r \<in> M" "\<forall>q\<in>M. fr_priority q \<le> fr_priority r" unfolding M [symmetric] using sorted_head [OF Cons] by auto
    moreover have "w' = w" "fr_targetFolioId r = t" using res Cons by simp_all
    ultimately show ?thesis by auto
  qed
  then show ?thesis unfolding M_def [symmetric] Let_def .
qed


definition demo_rules_db :: "routing_db world" where
  "demo_rules_db = demo_ledger\<lparr>wdb := (wdb demo_ledger)\<lparr>folioRoutingRules :=
     [\<lparr>fr_id = ''1'', fr_propertyId = ''p'', fr_reservationId = ''r1'', fr_chargeType = CtSpa, fr_targetFolioId = ''f1'', fr_priority = 0\<rparr>,
      \<lparr>fr_id = ''2'', fr_propertyId = ''p'', fr_reservationId = ''r1'', fr_chargeType = CtSpa, fr_targetFolioId = ''f2'', fr_priority = 5\<rparr>]\<rparr>\<rparr>"

theorem routing_target_witness:
  "\<exists>r\<in>set (folioRoutingRules (wdb demo_rules_db)). fr_targetFolioId r = ''f2'' \<and> fr_priority r = 5
     \<and> resolveTargetFolio ''r1'' ''p'' CtSpa demo_rules_db = (Inr ''f2'', demo_rules_db)"
proof -
  have run: "resolveTargetFolio ''r1'' ''p'' CtSpa demo_rules_db = (Inr ''f2'', demo_rules_db)"
    by (simp add: resolveTargetFolio_def rulesFor_def demo_rules_db_def demo_ledger_def op_defs)
  from routing_target [OF run] run show ?thesis by (auto simp: demo_rules_db_def demo_ledger_def Let_def)
qed

end
