(* ===== verification/Reservation.thy ===== *)
theory Reservation
  imports Availability Ledger "HOL-Library.Word"
begin

text \<open>
  The life of a stay: \<open>ReservationService\<close> of
  \<open>apps/api/src/modules/reservation/reservation.service.ts\<close>, over the modelled status machine,
  availability, room status, outbox and guest ledger. Payments, ancillary services and the
  settlement of deposits are the services of the environment record \<open>stay_env\<close>, which the
  service calls after its own writes; they are not modelled here.
\<close>

unbundle bit_operations_syntax

section \<open>Data\<close>

record createReservationDto =
  cr_propertyId :: uuid
  cr_guestId :: uuid
  cr_arrivalDate :: date
  cr_departureDate :: date
  cr_roomTypeId :: uuid
  cr_ratePlanId :: uuid
  cr_totalAmount :: string
  cr_currencyCode :: string
  cr_adults :: "int option"
  cr_children :: "int option"
  cr_specialRequests :: "string option"
  cr_source :: string
  cr_channelCode :: "string option"
  cr_externalConfirmation :: "string option"

record createOptions =
  co_confirmationNumber :: "string option"
  co_acceptedPricingSnapshot :: "AcceptedPricingSnapshot option"
  co_idempotencyKey :: "string option"
  co_integrationContext :: "string option"
  co_bookingId :: "uuid option"

record moveRoomDto =
  mr_roomId :: uuid
  mr_overrideDoNotMove :: bool
  mr_reason :: "string option"

record cancelReservationDto =
  cx_cancellationReason :: "string option"
  cx_reason :: "string option"

text \<open>\<open>registrationData\<close> is kept as its JSON text, \<open>depositAmount\<close> as \<open>String(n)\<close>.\<close>

record preRegisterDto =
  ci_idType :: "string option"
  ci_idNumber :: "string option"
  ci_idCountry :: "string option"
  ci_idExpiry :: "string option"
  ci_registrationSigned :: bool
  ci_registrationData :: "string option"

record checkInDto = preRegisterDto +
  ci_skipDepositAuth :: bool
  ci_depositAmount :: "string option"
  ci_paymentMethodId :: "string option"
  ci_gatewayPaymentToken :: "string option"
  ci_gatewayProvider :: "string option"
  ci_cardLastFour :: "string option"
  ci_cardBrand :: "string option"
  ci_roomId :: "uuid option"
  ci_specialRequests :: "string option"

record checkOutDto =
  xo_expressCheckout :: bool
  xo_lateCheckoutFee :: "string option"

record modifyReservationDto =
  mo_arrivalDate :: "date option"
  mo_departureDate :: "date option"
  mo_roomTypeId :: "uuid option"
  mo_ratePlanId :: "uuid option"
  mo_totalAmount :: "string option"
  mo_adults :: "int option"
  mo_children :: "int option"
  mo_specialRequests :: "string option"
  mo_doNotMove :: "bool option"

record authorizePaymentDto =
  au_folioId :: uuid
  au_propertyId :: uuid
  au_amount :: string
  au_currencyCode :: string
  au_gatewayProvider :: string
  au_gatewayPaymentToken :: string
  au_cardLastFour :: "string option"
  au_cardBrand :: "string option"
  au_preAuthExpiresAt :: "string option"
  au_notes :: "string option"

text \<open>
  What a reservation service is constructed with: the clock, whether it has an outbox and who
  listens, the cipher of the configured key (none without a key), and the services it only calls:
  \<open>evaluateCancellation\<close> with \<open>settleFromEvaluation\<close> (the penalty and whether the cancellation
  was free), the payment service, the ancillary service and the deposits.
\<close>

record 'db stay_env =
  en_clock :: clock
  en_today :: string
  en_outbox :: bool
  en_listeners :: "event \<Rightarrow> string \<Rightarrow> unit result"
  en_cipher :: "(string \<Rightarrow> string \<times> string \<times> string) option"
  en_settleCancellation :: "reservation \<Rightarrow> uuid \<Rightarrow> ('db, string \<times> bool) op"
  en_authorizePayment :: "authorizePaymentDto \<Rightarrow> ('db, uuid) op"
  en_ensurePackageComponents :: "uuid \<Rightarrow> uuid \<Rightarrow> ('db, unit) op"
  en_postOnceForReservation :: "uuid \<Rightarrow> uuid \<Rightarrow> ('db, unit) op"
  en_applyHeldDeposits :: "uuid \<Rightarrow> uuid \<Rightarrow> uuid \<Rightarrow> ('db, unit) op"
  en_capturePayment :: "uuid \<Rightarrow> uuid \<Rightarrow> ('db, unit) op"
  en_voidPayment :: "uuid \<Rightarrow> uuid \<Rightarrow> ('db, unit) op"

abbreviation en_now :: "'db stay_env \<Rightarrow> millis" where
  "en_now E \<equiv> clk_now (en_clock E)"

section \<open>Confirmation numbers\<close>

definition CROCKFORD :: string where
  "CROCKFORD = ''0123456789ABCDEFGHJKMNPQRSTVWXYZ''"

definition crockfordPair :: "8 word \<Rightarrow> string" where
  "crockfordPair b = [CROCKFORD ! unat (b AND 0x1f), CROCKFORD ! unat (drop_bit 5 b AND 0x1f)]"

text \<open>The bytes are what the source of entropy returned when asked for 16.\<close>

definition generateConfirmationNumber :: "8 word list \<Rightarrow> string result" where
  "generateConfirmationNumber bytes =
     (if length bytes \<noteq> 16 then Inl (Error ''Confirmation entropy source must return 16 bytes'')
      else Inr (''HAIP-'' @ concat (map crockfordPair bytes)))"

definition generateConfirmationToken :: "8 word list \<Rightarrow> string result" where
  "generateConfirmationToken bytes = bindR (generateConfirmationNumber bytes) (\<lambda>confirmation.
     Inr (if take 5 confirmation = ''HAIP-'' then drop 5 confirmation else confirmation))"

section \<open>Shared steps\<close>

abbreviation reservationRow :: "uuid \<Rightarrow> uuid \<Rightarrow> reservation \<Rightarrow> bool" where
  "reservationRow i p \<equiv> (\<lambda>r. rv_id r = i \<and> rv_propertyId r = p)"

abbreviation roomRow :: "uuid \<Rightarrow> uuid \<Rightarrow> room \<Rightarrow> bool" where
  "roomRow i p \<equiv> (\<lambda>r. ro_id r = i \<and> ro_propertyId r = p)"

definition updateReservation :: "(reservation \<Rightarrow> bool) \<Rightarrow> (reservation \<Rightarrow> reservation)
    \<Rightarrow> ('z stay_db_scheme, unit) op" where
  "updateReservation q f = modifyS (\<lambda>db. db\<lparr>reservations := upd q f (reservations db)\<rparr>)"

definition lockReservation :: "uuid \<Rightarrow> uuid \<Rightarrow> exn \<Rightarrow> ('z stay_db_scheme, reservation) op" where
  "lockReservation i p e = bindS (getS (\<lambda>db. sel1 (reservationRow i p) (reservations db))) (\<lambda>r. someS r e)"

definition assertSamePropertyFk :: "('db \<Rightarrow> 'r list) \<Rightarrow> ('r \<Rightarrow> uuid) \<Rightarrow> ('r \<Rightarrow> uuid) \<Rightarrow> uuid \<Rightarrow> uuid \<Rightarrow> string
    \<Rightarrow> ('db, unit) op" where
  "assertSamePropertyFk table idOf propertyOf i p label =
     bindS (getS (\<lambda>db. sel1 (\<lambda>x. idOf x = i \<and> propertyOf x = p) (table db))) (\<lambda>row.
     guardS (row \<noteq> None) (BadRequestException (label @ '' '' @ i @ '' not found in this property'')))"

definition lockInventory :: "uuid \<Rightarrow> uuid \<Rightarrow> ('z stay_db_scheme, unit) op" where
  "lockInventory p roomTypeId =
     bindS (getS (\<lambda>db. filter (\<lambda>t. rt_id t = roomTypeId \<and> rt_propertyId t = p) (roomTypes db))) (\<lambda>lockedRoomTypes.
     guardS (list_ex (\<lambda>t. rt_id t = roomTypeId) lockedRoomTypes)
       (NotFoundException (''room type '' @ roomTypeId @ '' not found in this property'')))"

text \<open>The conditional update, and the diagnosis when it matched no row.\<close>

definition claimTransition :: "uuid \<Rightarrow> uuid \<Rightarrow> ReservationStatus list \<Rightarrow> (reservation \<Rightarrow> reservation)
    \<Rightarrow> ReservationStatus \<Rightarrow> ('z stay_db_scheme, reservation) op" where
  "claimTransition i p allowedFromStatuses f targetStatus =
     bindS (getS (\<lambda>db. sel1 (\<lambda>r. reservationRow i p r \<and> rv_status r \<in> set allowedFromStatuses) (reservations db))) (\<lambda>claimed.
     bindS (updateReservation (\<lambda>r. reservationRow i p r \<and> rv_status r \<in> set allowedFromStatuses) f) (\<lambda>_.
     case claimed of Some r \<Rightarrow> returnS (f r)
     | None \<Rightarrow>
         bindS (getS (\<lambda>db. sel1 (reservationRow i p) (reservations db))) (\<lambda>found.
         bindS (someS found (NotFoundException (''Reservation '' @ i @ '' not found''))) (\<lambda>current.
         throwS (ConflictException (''Cannot transition reservation from '' @ quoted (reservationStatusName (rv_status current))
           @ '' to '' @ quoted (reservationStatusName targetStatus) @ '' (concurrent modification? expected one of: ''
           @ joinWith '', '' (map reservationStatusName allowedFromStatuses) @ '')''))))))"

text \<open>Another live reservation of the physical room for some of the nights.\<close>

definition roomConflict :: "uuid \<Rightarrow> uuid \<Rightarrow> reservation \<Rightarrow> 'z stay_db_scheme \<Rightarrow> reservation option" where
  "roomConflict p roomId r db = sel1 (\<lambda>x. rv_propertyId x = p \<and> rv_roomId x = Some roomId \<and> rv_id x \<noteq> rv_id r
     \<and> rv_status x \<notin> set excludedStatuses
     \<and> rv_arrivalDate x < rv_departureDate r \<and> rv_arrivalDate r < rv_departureDate x) (reservations db)"

definition inHouse :: "ReservationStatus \<Rightarrow> bool" where
  "inHouse s \<longleftrightarrow> s \<in> {RsCheckedIn, RsStayover, RsDueOut}"

definition encryptIdNumber :: "(string \<Rightarrow> string \<times> string \<times> string) option \<Rightarrow> string \<Rightarrow> string \<times> string \<times> string" where
  "encryptIdNumber key plainText = (case key of None \<Rightarrow> (''***REDACTED***'', '''', '''') | Some cipher \<Rightarrow> cipher plainText)"

definition idDocument :: "'db stay_env \<Rightarrow> 'x preRegisterDto_scheme \<Rightarrow> guestIdDocument option" where
  "idDocument E dto = (if present (ci_idNumber dto)
     then (case encryptIdNumber (en_cipher E) (the (ci_idNumber dto)) of (encrypted, iv, authTag) \<Rightarrow>
       Some \<lparr>gd_type = nvl (ci_idType dto) ''unknown'', gd_encryptedNumber = encrypted, gd_iv = iv,
         gd_authTag = authTag, gd_country = nvl (ci_idCountry dto) '''', gd_expiry = nvl (ci_idExpiry dto) ''''\<rparr>)
     else None)"

text \<open>The registration card columns, written when the request carries them.\<close>

definition with_registration :: "'db stay_env \<Rightarrow> 'x preRegisterDto_scheme \<Rightarrow> reservation \<Rightarrow> reservation" where
  "with_registration E dto r =
     (let r1 = (case idDocument E dto of None \<Rightarrow> r | d \<Rightarrow> r\<lparr>rv_guestIdDocument := d\<rparr>);
          r2 = (if ci_registrationSigned dto then r1\<lparr>rv_registrationSignedAt := Some (en_now E)\<rparr> else r1)
      in (case ci_registrationData dto of None \<Rightarrow> r2
          | d \<Rightarrow> r2\<lparr>rv_registrationData := d, rv_registrationSubmittedAt := Some (en_now E)\<rparr>))"

text \<open>\<open>fee && fee > 0\<close> for a fee kept as the text of the number.\<close>

definition positiveFee :: "string option \<Rightarrow> string option" where
  "positiveFee fee = (case fee of None \<Rightarrow> None
     | Some s \<Rightarrow> (case decimal_text s of None \<Rightarrow> None | Some v \<Rightarrow> if 0 < v then Some s else None))"

definition feeDto :: "uuid \<Rightarrow> string \<Rightarrow> string \<Rightarrow> string \<Rightarrow> string \<Rightarrow> createChargeDto" where
  "feeDto p description amount currencyCode serviceDate = \<lparr>cc_propertyId = p, cc_type = CtFee,
     cc_description = description, cc_amount = amount, cc_currencyCode = currencyCode, cc_taxAmount = None,
     cc_taxRate = None, cc_taxCode = None, cc_serviceDate = serviceDate, cc_postedBy = None, cc_guestId = None,
     cc_numberOfNights = None, cc_nightNumber = None, cc_skipTaxCalculation = False, cc_provenance = False\<rparr>"

text \<open>\<open>date.toISOString()\<close>, for the years with four digits.\<close>

definition toISOString :: "millis \<Rightarrow> string" where
  "toISOString n = (let ms = nat (n mod 86400000) in
     iso_of_day (nat (n div 86400000 + 719528)) @ ''T'' @ frac_digits 2 (ms div 3600000) @ '':''
       @ frac_digits 2 (ms div 60000 mod 60) @ '':'' @ frac_digits 2 (ms div 1000 mod 60) @ ''.''
       @ frac_digits 3 (ms mod 1000) @ ''Z'')"

definition postFee :: "'d numlib \<Rightarrow> 'db stay_env \<Rightarrow> (nat \<Rightarrow> uuid) \<Rightarrow> bool \<Rightarrow> uuid \<Rightarrow> reservation \<Rightarrow> string \<Rightarrow> string
    \<Rightarrow> ('z folio_db_scheme, posted) op" where
  "postFee L E ids inTx folioId r description amount =
     postCharge L (en_now E) ids inTx folioId
       (feeDto (rv_propertyId r) description amount (rv_currencyCode r) (toISOString (en_now E))) noPersistence"

section \<open>Booking\<close>

text \<open>\<open>Math.ceil\<close> of the days between two instants; \<open>None\<close> is \<open>NaN\<close>.\<close>

definition nightsBetween :: "date \<Rightarrow> date \<Rightarrow> int option" where
  "nightsBetween arrivalDate departureDate = (case (newDate arrivalDate, newDate departureDate) of
     (Inr arrival, Inr departure) \<Rightarrow> Some (- ((arrival - departure) div 86400000))
   | _ \<Rightarrow> None)"

text \<open>The booking is found (and owned by the property) or inserted under the constraints of its table.\<close>

definition bookingFor :: "uuid \<Rightarrow> string \<Rightarrow> createReservationDto \<Rightarrow> createOptions \<Rightarrow> ('z stay_db_scheme, booking) op" where
  "bookingFor newId confirmationNumber dto opts =
     (if present (co_bookingId opts)
      then bindS (getS (\<lambda>db. sel1 (\<lambda>b. bk_id b = the (co_bookingId opts) \<and> bk_propertyId b = cr_propertyId dto)
             (bookings db))) (\<lambda>b.
           someS b (NotFoundException ''Booking not found in this property''))
      else let b = \<lparr>bk_id = newId, bk_propertyId = cr_propertyId dto, bk_guestId = cr_guestId dto,
             bk_confirmationNumber = confirmationNumber, bk_externalConfirmation = cr_externalConfirmation dto,
             bk_idempotencyKey = co_idempotencyKey opts, bk_integrationContext = co_integrationContext opts,
             bk_source = cr_source dto, bk_channelCode = cr_channelCode dto\<rparr> in
        bindS (getS (\<lambda>db. list_ex (\<lambda>x. bk_confirmationNumber x = confirmationNumber
           \<or> (co_idempotencyKey opts \<noteq> None \<and> bk_propertyId x = cr_propertyId dto
              \<and> bk_idempotencyKey x = co_idempotencyKey opts)) (bookings db))) (\<lambda>taken.
        bindS (guardS (\<not> taken \<and> length confirmationNumber \<le> 50 \<and> length (nvl (cr_externalConfirmation dto) []) \<le> 100
           \<and> length (nvl (co_idempotencyKey opts) []) \<le> 200 \<and> length (nvl (cr_channelCode dto) []) \<le> 50)
           DatabaseError) (\<lambda>_.
        bindS (modifyS (\<lambda>db. db\<lparr>bookings := bookings db @ [b]\<rparr>)) (\<lambda>_. returnS b))))"

definition newReservation :: "uuid \<Rightarrow> millis \<Rightarrow> uuid \<Rightarrow> int \<Rightarrow> string \<Rightarrow> createReservationDto \<Rightarrow> createOptions \<Rightarrow> reservation" where
  "newReservation newId now bookingId nights amount dto opts = \<lparr>rv_id = newId, rv_propertyId = cr_propertyId dto,
     rv_bookingId = bookingId, rv_guestId = cr_guestId dto, rv_arrivalDate = cr_arrivalDate dto,
     rv_departureDate = cr_departureDate dto, rv_nights = nights, rv_roomTypeId = cr_roomTypeId dto, rv_roomId = None,
     rv_status = RsPending, rv_ratePlanId = cr_ratePlanId dto, rv_totalAmount = amount,
     rv_currencyCode = cr_currencyCode dto, rv_acceptedPricingSnapshot = co_acceptedPricingSnapshot opts,
     rv_adults = nvl (cr_adults dto) 1, rv_children = nvl (cr_children dto) 0,
     rv_specialRequests = cr_specialRequests dto, rv_routing = None, rv_checkedInAt = None, rv_checkedOutAt = None,
     rv_cancelledAt = None, rv_cancellationReason = None, rv_registrationData = None,
     rv_registrationSubmittedAt = None, rv_guestIdDocument = None, rv_actualArrivalTime = None,
     rv_actualDepartureTime = None, rv_isEarlyCheckin = False, rv_isLateCheckout = False, rv_earlyCheckinFee = None,
     rv_lateCheckoutFee = None, rv_registrationSignedAt = None, rv_doNotMove = False, rv_updatedAt = now\<rparr>"

definition insertReservation :: "'d numlib \<Rightarrow> uuid \<Rightarrow> millis \<Rightarrow> uuid \<Rightarrow> int option \<Rightarrow> createReservationDto \<Rightarrow> createOptions
    \<Rightarrow> ('z stay_db_scheme, reservation) op" where
  "insertReservation L newId now bookingId nights dto opts =
     bindS (someS nights DatabaseError) (\<lambda>n.
     bindS (liftS (numeric12_2 L (cr_totalAmount dto))) (\<lambda>amount.
     bindS (guardS (length (cr_currencyCode dto) \<le> 3) DatabaseError) (\<lambda>_.
     let r = newReservation newId now bookingId n amount dto opts in
     bindS (modifyS (\<lambda>db. db\<lparr>reservations := reservations db @ [r]\<rparr>)) (\<lambda>_. returnS r))))"

definition createInTransaction :: "'d numlib \<Rightarrow> 'db stay_env \<Rightarrow> (nat \<Rightarrow> uuid) \<Rightarrow> string \<Rightarrow> int option \<Rightarrow> createReservationDto
    \<Rightarrow> createOptions \<Rightarrow> ('z folio_db_scheme, reservation \<times> booking \<times> folio) op" where
  "createInTransaction L E ids confirmationNumber nights dto opts =
     bindS (lockInventory (cr_propertyId dto) (cr_roomTypeId dto)) (\<lambda>_.
     bindS (getS (\<lambda>db. searchAvailability (cr_propertyId dto) (cr_arrivalDate dto) (cr_departureDate dto)
        (Some (cr_roomTypeId dto)) noOptions db)) (\<lambda>found.
     bindS (liftS found) (\<lambda>availability.
     bindS (liftS (assertFullStayAvailability availability (cr_roomTypeId dto) (cr_arrivalDate dto)
        (cr_departureDate dto))) (\<lambda>_.
     bindS (bookingFor (ids 0) confirmationNumber dto opts) (\<lambda>booking.
     bindS (insertReservation L (ids 1) (en_now E) (bk_id booking) nights dto opts) (\<lambda>reservation.
     bindS (modifyS (\<lambda>db. db\<lparr>reservationGuests := reservationGuests db @ [\<lparr>rg_id = ids 2,
        rg_propertyId = cr_propertyId dto, rg_reservationId = rv_id reservation, rg_guestId = cr_guestId dto,
        rg_role = ''primary''\<rparr>]\<rparr>)) (\<lambda>_.
     bindS (createAutoFolio (en_today E) (en_now E) (ids 3) True reservation) (\<lambda>folio.
     returnS (reservation, booking, folio)))))))))"

definition createReservation :: "'d numlib \<Rightarrow> 'db stay_env \<Rightarrow> (nat \<Rightarrow> uuid) \<Rightarrow> 8 word list \<Rightarrow> bool \<Rightarrow> createReservationDto
    \<Rightarrow> createOptions \<Rightarrow> ('z folio_db_scheme, reservation \<times> booking \<times> folio) op" where
  "createReservation L E ids entropy inTx dto opts =
     bindS (getS (\<lambda>db. sel1 (\<lambda>g. gu_id g = cr_guestId dto) (guests db))) (\<lambda>found.
     bindS (someS found (NotFoundException (''Guest '' @ cr_guestId dto @ '' not found''))) (\<lambda>guest.
     bindS (guardS (\<not> gu_isDnr guest) (BadRequestException (''Guest '' @ cr_guestId dto
        @ '' is on the Do Not Rent list: '' @ nvl (gu_dnrReason guest) ''No reason given''))) (\<lambda>_.
     let nights = nightsBetween (cr_arrivalDate dto) (cr_departureDate dto) in
     bindS (guardS (case nights of None \<Rightarrow> True | Some n \<Rightarrow> 0 < n)
        (BadRequestException ''Departure date must be after arrival date'')) (\<lambda>_.
     bindS (case co_confirmationNumber opts of Some c \<Rightarrow> returnS c
        | None \<Rightarrow> liftS (generateConfirmationNumber entropy)) (\<lambda>confirmationNumber.
     bindS (assertSamePropertyFk roomTypes rt_id rt_propertyId (cr_roomTypeId dto) (cr_propertyId dto) ''room type'') (\<lambda>_.
     bindS (assertSamePropertyFk ratePlans rp_id rp_propertyId (cr_ratePlanId dto) (cr_propertyId dto) ''rate plan'') (\<lambda>_.
     bindS (getS (assertSellable None (cr_propertyId dto) (cr_ratePlanId dto) (cr_arrivalDate dto)
        (cr_departureDate dto))) (\<lambda>sellable.
     bindS (liftS sellable) (\<lambda>_.
     bindS ((if inTx then (\<lambda>m. m) else transactionS)
        (createInTransaction L E ids confirmationNumber nights dto opts)) (\<lambda>result.
     bindS (whenS (\<not> inTx) (emit ''reservation.created'' ''reservation'' (rv_id (fst result))
        [(''reservationId'', Some (rv_id (fst result))), (''arrivalDate'', Some (rv_arrivalDate (fst result))),
         (''departureDate'', Some (rv_departureDate (fst result))), (''roomTypeId'', Some (rv_roomTypeId (fst result)))]
        (Some (cr_propertyId dto)))) (\<lambda>_.
     returnS result)))))))))))"

definition confirm :: "'db stay_env \<Rightarrow> uuid \<Rightarrow> uuid \<Rightarrow> ('z stay_db_scheme, reservation) op" where
  "confirm E i p =
     bindS (findByIdRaw i p) (\<lambda>r.
     bindS (liftS (assertTransition (rv_status r) RsConfirmed)) (\<lambda>_.
     claimTransition i p [RsPending] (\<lambda>x. x\<lparr>rv_status := RsConfirmed, rv_updatedAt := en_now E\<rparr>) RsConfirmed))"

section \<open>Rooms\<close>

definition assigned :: "'db stay_env \<Rightarrow> uuid \<Rightarrow> reservation \<Rightarrow> reservation" where
  "assigned E roomId r = r\<lparr>rv_roomId := Some roomId, rv_status := RsAssigned, rv_updatedAt := en_now E\<rparr>"

definition assignInTransaction :: "'db stay_env \<Rightarrow> uuid \<Rightarrow> uuid \<Rightarrow> uuid \<Rightarrow> ('z stay_db_scheme, reservation) op" where
  "assignInTransaction E i p roomId =
     bindS (lockReservation i p (NotFoundException (''Reservation '' @ i @ '' not found''))) (\<lambda>r.
     bindS (liftS (assertTransition (rv_status r) RsAssigned)) (\<lambda>_.
     bindS (getS (\<lambda>db. sel1 (roomRow roomId p) (rooms db))) (\<lambda>found.
     bindS (someS (case found of None \<Rightarrow> None | Some x \<Rightarrow> if ro_isActive x then Some x else None)
        (NotFoundException (''Room '' @ roomId @ '' not found or inactive in this property''))) (\<lambda>room.
     bindS (guardS (ro_roomTypeId room = rv_roomTypeId r) (BadRequestException (''Room '' @ roomId @ '' is type ''
        @ ro_roomTypeId room @ '', but reservation requires type '' @ rv_roomTypeId r))) (\<lambda>_.
     bindS (guardS (ro_status room \<in> {GuestReady, VacantClean}) (BadRequestException (''Room '' @ roomId
        @ '' is not available (status: '' @ roomStatusName (ro_status room) @ ''). Must be ''
        @ quoted ''guest_ready'' @ '' or '' @ quoted ''vacant_clean'' @ ''.''))) (\<lambda>_.
     bindS (assertReady (en_clock E) (ro_id room) p (Some (rv_arrivalDate r)) (Some (rv_departureDate r))) (\<lambda>_.
     bindS (getS (roomConflict p roomId r)) (\<lambda>conflict.
     bindS (guardS (conflict = None) (ConflictException (''Room '' @ ro_number room
        @ '' is already reserved for these dates''))) (\<lambda>_.
     let q = (\<lambda>x. reservationRow i p x \<and> rv_status x = RsConfirmed) in
     bindS (getS (\<lambda>db. sel1 q (reservations db))) (\<lambda>claimed.
     bindS (updateReservation q (assigned E roomId)) (\<lambda>_.
     bindS (someS claimed (ConflictException ''Reservation changed while assigning the room'')) (\<lambda>x.
     returnS (assigned E roomId x)))))))))))))"

definition assignRoom :: "'db stay_env \<Rightarrow> bool \<Rightarrow> uuid \<Rightarrow> uuid \<Rightarrow> uuid \<Rightarrow> ('z stay_db_scheme, reservation) op" where
  "assignRoom E inTx i p roomId =
     (if inTx then assignInTransaction E i p roomId else transactionS (assignInTransaction E i p roomId))"

definition rehoused :: "'db stay_env \<Rightarrow> uuid \<Rightarrow> reservation \<Rightarrow> reservation" where
  "rehoused E roomId r = r\<lparr>rv_roomId := Some roomId, rv_updatedAt := en_now E\<rparr>"

text \<open>The guest in house leaves the previous room, which is dirty then, and occupies the target.\<close>

definition switchRooms :: "'db stay_env \<Rightarrow> uuid \<Rightarrow> room option \<Rightarrow> room \<Rightarrow> ('z inventory_db_scheme, unit) op" where
  "switchRooms E p previous tgt =
     bindS (case previous of None \<Rightarrow> returnS ()
       | Some x \<Rightarrow> if ro_status x = Occupied then bindS (markVacantDirty (en_clock E) (ro_id x) p) (\<lambda>_. returnS ())
           else guardS (ro_status x = VacantDirty) (ConflictException ''Previous room status does not match the stay'')) (\<lambda>_.
     bindS (markOccupied (en_clock E) (ro_id tgt) p) (\<lambda>_. returnS ()))"

text \<open>What the transaction of a move returns: the row, the previous room, the target and whether in house.\<close>

definition moveInTransaction :: "'db stay_env \<Rightarrow> uuid \<Rightarrow> uuid \<Rightarrow> moveRoomDto
    \<Rightarrow> ('z stay_db_scheme, reservation \<times> room option \<times> room \<times> bool) op" where
  "moveInTransaction E i p dto =
     bindS (lockReservation i p (NotFoundException ''Reservation not found'')) (\<lambda>r.
     bindS (guardS (rv_status r = RsAssigned \<or> inHouse (rv_status r))
        (BadRequestException ''Cannot move room for reservation in current status'')) (\<lambda>_.
     bindS (guardS (\<not> (rv_doNotMove r \<and> \<not> mr_overrideDoNotMove dto)) (BadRequestException
        ''Reservation is marked do-not-move: pass overrideDoNotMove to proceed'')) (\<lambda>_.
     bindS (guardS (mr_roomId dto \<noteq> [] \<and> rv_roomId r \<noteq> Some (mr_roomId dto))
        (BadRequestException ''A different target roomId is required'')) (\<lambda>_.
     bindS (getS (\<lambda>db. sort_key ro_id (filter (\<lambda>x. ro_propertyId x = p
        \<and> (ro_id x = mr_roomId dto \<or> (present (rv_roomId r) \<and> Some (ro_id x) = rv_roomId r))) (rooms db)))) (\<lambda>locked.
     bindS (someS (case sel1 (\<lambda>x. ro_id x = mr_roomId dto) locked of None \<Rightarrow> None
          | Some x \<Rightarrow> if ro_isActive x then Some x else None)
        (NotFoundException ''Room not found or inactive in this property'')) (\<lambda>tgt.
     bindS (guardS (ro_roomTypeId tgt = rv_roomTypeId r)
        (BadRequestException ''Target room does not match the booked room type'')) (\<lambda>_.
     bindS (guardS (ro_status tgt \<in> {GuestReady, VacantClean}) (BadRequestException ''Target room is not available'')) (\<lambda>_.
     bindS (assertReady (en_clock E) (ro_id tgt) p (if rv_status r = RsAssigned then Some (rv_arrivalDate r) else None)
        (Some (rv_departureDate r))) (\<lambda>_.
     bindS (getS (roomConflict p (mr_roomId dto) r)) (\<lambda>overlap.
     bindS (guardS (overlap = None) (ConflictException ''Target room is already reserved for these dates'')) (\<lambda>_.
     let f = rehoused E (mr_roomId dto);
         previous = sel1 (\<lambda>x. Some (ro_id x) = rv_roomId r) locked in
     bindS (updateReservation (reservationRow i p) f) (\<lambda>_.
     bindS (whenS (inHouse (rv_status r)) (switchRooms E p previous tgt)) (\<lambda>_.
     returnS (f r, previous, tgt, inHouse (rv_status r)))))))))))))))"

definition emitRoomStatus :: "uuid \<Rightarrow> room \<Rightarrow> RoomStatus \<Rightarrow> ('db, unit) op" where
  "emitRoomStatus p x newStatus = emit ''room.status_changed'' ''room'' (ro_id x)
     [(''previousStatus'', Some (roomStatusName (ro_status x))), (''newStatus'', Some (roomStatusName newStatus)),
      (''roomNumber'', Some (ro_number x))] (Some p)"

definition moveRoom :: "'db stay_env \<Rightarrow> uuid \<Rightarrow> uuid \<Rightarrow> moveRoomDto \<Rightarrow> ('z stay_db_scheme, reservation) op" where
  "moveRoom E i p dto =
     bindS (transactionS (moveInTransaction E i p dto)) (\<lambda>(updated, previous, tgt, wasInHouse).
     bindS (whenS wasInHouse
        (bindS (case previous of None \<Rightarrow> returnS ()
           | Some x \<Rightarrow> whenS (ro_status x = Occupied) (emitRoomStatus p x VacantDirty)) (\<lambda>_.
         emitRoomStatus p tgt Occupied))) (\<lambda>_.
     bindS (emit ''reservation.room_moved'' ''reservation'' i [(''reservationId'', Some i),
        (''previousRoomId'', map_option ro_id previous), (''newRoomId'', Some (mr_roomId dto)), (''reason'', mr_reason dto),
        (''status'', Some (reservationStatusName (rv_status updated)))] (Some p)) (\<lambda>_.
     returnS updated)))"

section \<open>Leaving before arrival\<close>

definition resolveCancellationReason :: "cancelReservationDto \<Rightarrow> string option" where
  "resolveCancellationReason dto = (case cx_cancellationReason dto of None \<Rightarrow> cx_reason dto | Some s \<Rightarrow> Some s)"

text \<open>The settlement is attempted after the claim; what it throws is swallowed.\<close>

definition cancel :: "('z stay_db_scheme) stay_env \<Rightarrow> uuid \<Rightarrow> uuid \<Rightarrow> cancelReservationDto
    \<Rightarrow> ('z stay_db_scheme, reservation \<times> (string \<times> bool) option) op" where
  "cancel E i p dto =
     bindS (findByIdRaw i p) (\<lambda>r.
     bindS (liftS (assertTransition (rv_status r) RsCancelled)) (\<lambda>_.
     let cancellationReason = resolveCancellationReason dto in
     bindS (claimTransition i p [RsPending, RsConfirmed, RsAssigned]
        (\<lambda>x. x\<lparr>rv_status := RsCancelled, rv_cancelledAt := Some (en_now E),
               rv_cancellationReason := (case cancellationReason of None \<Rightarrow> rv_cancellationReason x | v \<Rightarrow> v),
               rv_updatedAt := en_now E\<rparr>) RsCancelled) (\<lambda>updated.
     bindS (catchS (bindS (en_settleCancellation E r (rv_id updated)) (\<lambda>v. returnS (Some v))) (\<lambda>_. returnS None)) (\<lambda>settlement.
     bindS (emit ''reservation.cancelled'' ''reservation'' (rv_id updated) [(''reservationId'', Some (rv_id updated)),
        (''arrivalDate'', Some (rv_arrivalDate updated)), (''departureDate'', Some (rv_departureDate updated)),
        (''roomTypeId'', Some (rv_roomTypeId updated)), (''cancellationReason'', cancellationReason),
        (''penaltyAmount'', map_option fst settlement),
        (''withinFreeWindow'', map_option (\<lambda>v. if snd v then ''true'' else ''false'') settlement)]
        (Some (rv_propertyId updated))) (\<lambda>_.
     returnS (updated, settlement))))))"

definition markNoShow :: "'db stay_env \<Rightarrow> uuid \<Rightarrow> uuid \<Rightarrow> ('z stay_db_scheme, reservation) op" where
  "markNoShow E i p =
     bindS (findByIdRaw i p) (\<lambda>r.
     bindS (liftS (assertTransition (rv_status r) RsNoShow)) (\<lambda>_.
     bindS (claimTransition i p [RsConfirmed, RsAssigned]
        (\<lambda>x. x\<lparr>rv_status := RsNoShow, rv_updatedAt := en_now E\<rparr>) RsNoShow) (\<lambda>updated.
     bindS (emit ''reservation.no_show'' ''reservation'' (rv_id updated) [(''reservationId'', Some (rv_id updated)),
        (''arrivalDate'', Some (rv_arrivalDate updated)), (''roomTypeId'', Some (rv_roomTypeId updated))]
        (Some (rv_propertyId updated))) (\<lambda>_.
     returnS updated))))"

section \<open>Arrival\<close>

definition preRegister :: "'db stay_env \<Rightarrow> uuid \<Rightarrow> uuid \<Rightarrow> 'x preRegisterDto_scheme \<Rightarrow> ('z stay_db_scheme, reservation) op" where
  "preRegister E i p dto =
     bindS (findByIdRaw i p) (\<lambda>r.
     bindS (guardS (rv_status r \<in> {RsConfirmed, RsAssigned}) (BadRequestException
        (''Pre-register is only allowed for confirmed or assigned reservations (current: ''
          @ reservationStatusName (rv_status r) @ '')''))) (\<lambda>_.
     let f = (\<lambda>x. with_registration E dto (x\<lparr>rv_updatedAt := en_now E\<rparr>)) in
     bindS (updateReservation (reservationRow i p) f) (\<lambda>_.
     bindS (emit ''reservation.pre_registered'' ''reservation'' (rv_id r)
        [(''registrationSigned'', Some (if ci_registrationSigned dto then ''true'' else ''false'')),
         (''hasRegistrationData'', Some (if ci_registrationData dto \<noteq> None then ''true'' else ''false'')),
         (''hasIdDocument'', Some (if idDocument E dto \<noteq> None then ''true'' else ''false''))] (Some p)) (\<lambda>_.
     returnS (f r)))))"

text \<open>The room of a check-in: the one of the request or the assigned one, validated.\<close>

definition roomForCheckIn :: "'db stay_env \<Rightarrow> uuid \<Rightarrow> reservation \<Rightarrow> checkInDto \<Rightarrow> ('z stay_db_scheme, room) op" where
  "roomForCheckIn E p r dto =
     (let roomId = (case ci_roomId dto of None \<Rightarrow> rv_roomId r | v \<Rightarrow> v); requested = nvl (ci_roomId dto) ''undefined'' in
      if \<not> present roomId
      then throwS (BadRequestException ''No room assigned: assign a room first or provide roomId'')
      else bindS (getS (\<lambda>db. sel1 (roomRow (the roomId) (rv_propertyId r)) (rooms db))) (\<lambda>found.
        bindS (someS (case found of None \<Rightarrow> None | Some x \<Rightarrow> if ro_isActive x then Some x else None)
           (NotFoundException ''Room not found or inactive in this property'')) (\<lambda>room.
        bindS (guardS (ro_roomTypeId room = rv_roomTypeId r) (BadRequestException (''Room '' @ requested @ '' is type ''
           @ ro_roomTypeId room @ '', but reservation requires type '' @ rv_roomTypeId r))) (\<lambda>_.
        bindS (guardS (ro_status room \<in> {GuestReady, VacantClean}) (BadRequestException (''Room '' @ requested
           @ '' is not available (status: '' @ roomStatusName (ro_status room) @ '')''))) (\<lambda>_.
        bindS (assertReady (en_clock E) (ro_id room) p None (Some (rv_departureDate r))) (\<lambda>_.
        bindS (getS (roomConflict p (the roomId) r)) (\<lambda>overlap.
        bindS (guardS (overlap = None) (ConflictException ''Room is taken by another reservation for these dates'')) (\<lambda>_.
        returnS room))))))))"

text \<open>Whether the guest is early, and the fee the property takes for it.\<close>

definition earlyCheckIn :: "'db stay_env \<Rightarrow> property option \<Rightarrow> bool \<times> string option" where
  "earlyCheckIn E q = (case q of None \<Rightarrow> (False, None)
     | Some x \<Rightarrow> if clk_before (en_clock E) (nvl (pr_timezone x) ''UTC'') (nvl (pr_checkInTime x) ''15:00'')
         then (True, positiveFee (pr_earlyCheckInFee x)) else (False, None))"

definition checkedIn :: "'db stay_env \<Rightarrow> checkInDto \<Rightarrow> uuid \<Rightarrow> bool \<Rightarrow> string option \<Rightarrow> reservation \<Rightarrow> reservation" where
  "checkedIn E dto roomId isEarly fee r =
     (let x = with_registration E dto (r\<lparr>rv_status := RsCheckedIn, rv_checkedInAt := Some (en_now E),
            rv_actualArrivalTime := Some (en_now E), rv_roomId := Some roomId, rv_isEarlyCheckin := isEarly,
            rv_updatedAt := en_now E\<rparr>);
          y = (case fee of None \<Rightarrow> x | v \<Rightarrow> x\<lparr>rv_earlyCheckinFee := v\<rparr>)
      in if present (ci_specialRequests dto)
         then y\<lparr>rv_specialRequests := (if present (rv_specialRequests r)
            then Some (the (rv_specialRequests r) @ [CHR 0x0A] @ the (ci_specialRequests dto))
            else ci_specialRequests dto)\<rparr>
         else y)"

definition checkInEvent :: "uuid \<Rightarrow> reservation \<Rightarrow> uuid \<Rightarrow> uuid \<Rightarrow> bool \<Rightarrow> payload" where
  "checkInEvent p r roomId folioId isEarly = \<lparr>ev_name = ''reservation.checked_in'', ev_entityType = ''reservation'',
     ev_entityId = rv_id r, ev_propertyId = Some p, ev_data = [(''roomId'', Some roomId), (''folioId'', Some folioId),
       (''isEarlyCheckin'', Some (if isEarly then ''true'' else ''false''))], pl_schemaVersion = None\<rparr>"

text \<open>
  The rest of the transaction after the claim: the room, the folio, the fee, the outbox. \<open>ids\<close> are
  in turn the two logical event ids, the two outbox rows, the folio, and the charges of the fee.
\<close>

definition completeCheckIn :: "'d numlib \<Rightarrow> 'db stay_env \<Rightarrow> (nat \<Rightarrow> uuid) \<Rightarrow> uuid \<Rightarrow> reservation \<Rightarrow> reservation \<Rightarrow> room
    \<Rightarrow> bool \<Rightarrow> string option \<Rightarrow> ('z folio_db_scheme, folio) op" where
  "completeCheckIn L E ids p r updated room isEarly fee =
     bindS (markOccupied (en_clock E) (ro_id room) p) (\<lambda>_.
     bindS (createAutoFolio (en_today E) (en_now E) (ids 4) True updated) (\<lambda>folio.
     bindS (case fee of None \<Rightarrow> returnS ()
        | Some amount \<Rightarrow> bindS (postFee L E (\<lambda>k. ids (k + 5)) True (fo_id folio) r ''Early check-in fee'' amount) (\<lambda>_. returnS ())) (\<lambda>_.
     bindS (whenS (en_outbox E)
        (bindS (persist (ids 2) (en_now E) (statusChanged (ro_id room) p room Occupied) (ids 0)) (\<lambda>_.
         persist (ids 3) (en_now E) (checkInEvent p updated (ro_id room) (fo_id folio) isEarly) (ids 1)))) (\<lambda>_.
     returnS folio))))"

definition checkInTx :: "'d numlib \<Rightarrow> 'db stay_env \<Rightarrow> (nat \<Rightarrow> uuid) \<Rightarrow> uuid \<Rightarrow> uuid \<Rightarrow> checkInDto
    \<Rightarrow> ('z folio_db_scheme, reservation \<times> reservation \<times> folio \<times> room \<times> bool) op" where
  "checkInTx L E ids i p dto =
     bindS (lockReservation i p (NotFoundException ''Reservation not found'')) (\<lambda>r.
     bindS (liftS (assertTransition (rv_status r) RsCheckedIn)) (\<lambda>_.
     bindS (getS (\<lambda>db. sel1 (\<lambda>g. gu_id g = rv_guestId r) (guests db))) (\<lambda>guest.
     bindS (guardS (case guest of None \<Rightarrow> True | Some g \<Rightarrow> \<not> gu_isDnr g)
        (BadRequestException ''Cannot check in: guest is on the Do Not Rent list'')) (\<lambda>_.
     bindS (roomForCheckIn E p r dto) (\<lambda>room.
     bindS (getS (\<lambda>db. sel1 (\<lambda>q. pr_id q = rv_propertyId r) (properties db))) (\<lambda>property.
     bindS (guardS (case property of None \<Rightarrow> True | Some q \<Rightarrow> \<not> pr_guestRegistrationRequired q \<or> ci_registrationSigned dto)
        (BadRequestException ''Guest registration card must be signed before check-in for this property'')) (\<lambda>_.
     let isEarly = fst (earlyCheckIn E property); fee = snd (earlyCheckIn E property) in
     bindS (liftS (numericOptR L 12 2 fee)) (\<lambda>storedFee.
     let f = checkedIn E dto (ro_id room) isEarly storedFee; q = (\<lambda>x. reservationRow i p x \<and> rv_status x = RsAssigned) in
     bindS (getS (\<lambda>db. sel1 q (reservations db))) (\<lambda>claimed.
     bindS (updateReservation q f) (\<lambda>_.
     bindS (someS (map_option f claimed) (ConflictException ''The reservation changed during check-in'')) (\<lambda>updated.
     bindS (completeCheckIn L E ids p r updated room isEarly fee) (\<lambda>folio.
     returnS (r, updated, folio, room, isEarly)))))))))))))"

definition depositAmountOf :: "'d numlib \<Rightarrow> checkInDto \<Rightarrow> reservation \<Rightarrow> string result" where
  "depositAmountOf L dto r = (if ci_depositAmount dto \<noteq> None \<and> decimal_text (the (ci_depositAmount dto)) \<noteq> Some 0
     then Inr (the (ci_depositAmount dto))
     else bindR (newDecimal L (rv_totalAmount r)) (\<lambda>x. bindR (newDecimal L ''1.2'') (\<lambda>y.
       Inr (dec_toFixed L 2 (dec_times L x y)))))"

definition authorizeDeposit :: "'d numlib \<Rightarrow> 'db stay_env \<Rightarrow> checkInDto \<Rightarrow> reservation \<Rightarrow> uuid \<Rightarrow> ('db, uuid option) op" where
  "authorizeDeposit L E dto r folioId =
     (let paymentToken = (case ci_paymentMethodId dto of None \<Rightarrow> ci_gatewayPaymentToken dto | v \<Rightarrow> v) in
      if \<not> ci_skipDepositAuth dto \<and> present paymentToken
      then bindS (liftS (depositAmountOf L dto r)) (\<lambda>depositAmount.
        catchS (bindS (en_authorizePayment E \<lparr>au_folioId = folioId, au_propertyId = rv_propertyId r, au_amount = depositAmount,
          au_currencyCode = rv_currencyCode r, au_gatewayProvider = nvl (ci_gatewayProvider dto) ''stripe'',
          au_gatewayPaymentToken = the paymentToken, au_cardLastFour = ci_cardLastFour dto, au_cardBrand = ci_cardBrand dto,
          au_preAuthExpiresAt = None, au_notes = None\<rparr>)
            (\<lambda>a. returnS (Some a))) (\<lambda>_. returnS None))
      else returnS None)"

definition checkIn :: "'d numlib \<Rightarrow> ('z folio_db_scheme) stay_env \<Rightarrow> (nat \<Rightarrow> uuid) \<Rightarrow> uuid \<Rightarrow> uuid \<Rightarrow> checkInDto
    \<Rightarrow> ('z folio_db_scheme, reservation \<times> folio \<times> uuid option) op" where
  "checkIn L E ids i p dto =
     bindS (transactionS (checkInTx L E ids i p dto)) (\<lambda>(r, updated, folio, room, isEarly).
     bindS (whenS (\<not> en_outbox E) (emitRoomStatus p room Occupied)) (\<lambda>_.
     bindS (authorizeDeposit L E dto r (fo_id folio)) (\<lambda>depositAuth.
     bindS (catchS (bindS (en_ensurePackageComponents E (rv_id updated) p) (\<lambda>_. en_postOnceForReservation E (rv_id updated) p))
        (\<lambda>_. returnS ())) (\<lambda>_.
     bindS (catchS (en_applyHeldDeposits E (rv_id updated) p (fo_id folio)) (\<lambda>_. returnS ())) (\<lambda>_.
     bindS (if en_outbox E
        then catchS (bindS (deliver (en_listeners E) (en_now E) p (ids 0)) (\<lambda>_.
               deliver (en_listeners E) (en_now E) p (ids 1))) (\<lambda>_. returnS ())
        else emit ''reservation.checked_in'' ''reservation'' (rv_id updated)
               (ev_data (checkInEvent p updated (ro_id room) (fo_id folio) isEarly)) (Some (rv_propertyId r))) (\<lambda>_.
     returnS (updated, folio, depositAuth)))))))"

section \<open>Departure\<close>

text \<open>\<open>FolioService.list\<close> for one reservation: the first page of 100 in the order of creation.\<close>

definition foliosOf :: "uuid \<Rightarrow> uuid \<Rightarrow> 'z folio_db_scheme \<Rightarrow> folio list" where
  "foliosOf reservationId p db = take 100 (filter (\<lambda>f. fo_propertyId f = p \<and> fo_reservationId f = Some reservationId) (folios db))"

definition lateCheckOut :: "'db stay_env \<Rightarrow> checkOutDto \<Rightarrow> property option \<Rightarrow> bool \<times> string option" where
  "lateCheckOut E dto q = (case q of None \<Rightarrow> (False, None)
     | Some x \<Rightarrow> if clk_after (en_clock E) (nvl (pr_timezone x) ''UTC'') (nvl (pr_checkOutTime x) ''11:00'')
         then (True, positiveFee (case xo_lateCheckoutFee dto of None \<Rightarrow> pr_lateCheckoutFee x | v \<Rightarrow> v)) else (False, None))"

text \<open>The late fee goes on the first open folio that was listed.\<close>

definition postLateFee :: "'d numlib \<Rightarrow> 'db stay_env \<Rightarrow> (nat \<Rightarrow> uuid) \<Rightarrow> reservation \<Rightarrow> folio list \<Rightarrow> string option
    \<Rightarrow> ('z folio_db_scheme, unit) op" where
  "postLateFee L E ids r listed fee = (case (fee, sel1 (\<lambda>f. fo_status f = FsOpen) listed) of
     (Some amount, Some openFolio) \<Rightarrow>
       bindS (postFee L E ids False (fo_id openFolio) r ''Late checkout fee'' amount) (\<lambda>_. returnS ())
   | _ \<Rightarrow> returnS ())"

definition assertSettled :: "'d numlib \<Rightarrow> bool \<Rightarrow> uuid \<Rightarrow> folio \<Rightarrow> ('z folio_db_scheme, unit) op" where
  "assertSettled L express p f = whenS (fo_status f = FsOpen)
     (bindS (findFolio (fo_id f) p) (\<lambda>refreshed.
      bindS (liftS (newDecimal L (fo_balance refreshed))) (\<lambda>balance.
      bindS (liftS (newDecimal L ''0.01'')) (\<lambda>cent.
      guardS (\<not> dec_gt L (dec_abs L balance) cent) (BadRequestException
        ((if express then ''Cannot express checkout'' else ''Cannot checkout'') @ '': folio '' @ fo_folioNumber refreshed
          @ '' has outstanding balance of '' @ fo_balance refreshed))))))"

definition authorizedPayments :: "uuid \<Rightarrow> uuid \<Rightarrow> 'z folio_db_scheme \<Rightarrow> payment list" where
  "authorizedPayments folioId p db =
     filter (\<lambda>y. py_folioId y = Some folioId \<and> py_propertyId y = p \<and> py_status y = PsAuthorized) (payments db)"

text \<open>Captures or voids every authorized payment of a folio; a refusal does not stop the loop.\<close>

definition finishPayments :: "(uuid \<Rightarrow> uuid \<Rightarrow> ('z folio_db_scheme, unit) op) \<Rightarrow> uuid \<Rightarrow> folio \<Rightarrow> ('z folio_db_scheme, unit) op" where
  "finishPayments finish p f =
     bindS (getS (authorizedPayments (fo_id f) p)) (\<lambda>ys.
     bindS (mapS (\<lambda>y. catchS (finish (py_id y) p) (\<lambda>_. returnS ())) ys) (\<lambda>_. returnS ()))"

definition checkedOut :: "'db stay_env \<Rightarrow> bool \<Rightarrow> string option \<Rightarrow> reservation \<Rightarrow> reservation" where
  "checkedOut E isLate fee r = (let x = r\<lparr>rv_status := RsCheckedOut, rv_checkedOutAt := Some (en_now E),
       rv_actualDepartureTime := Some (en_now E), rv_isLateCheckout := isLate, rv_updatedAt := en_now E\<rparr> in
     case fee of None \<Rightarrow> x | v \<Rightarrow> x\<lparr>rv_lateCheckoutFee := v\<rparr>)"

text \<open>The folio summary: id, balance and status of each folio. \<open>ids\<close>: outbox row, event, charges of the fee.\<close>

definition checkOut :: "'d numlib \<Rightarrow> ('z folio_db_scheme) stay_env \<Rightarrow> (nat \<Rightarrow> uuid) \<Rightarrow> uuid \<Rightarrow> uuid \<Rightarrow> checkOutDto
    \<Rightarrow> ('z folio_db_scheme, reservation \<times> (uuid \<times> string \<times> folioStatus) list) op" where
  "checkOut L E ids i p dto =
     bindS (findByIdRaw i p) (\<lambda>r.
     bindS (liftS (assertTransition (rv_status r) RsCheckedOut)) (\<lambda>_.
     bindS (getS (\<lambda>db. sel1 (\<lambda>q. pr_id q = rv_propertyId r) (properties db))) (\<lambda>property.
     let isLate = fst (lateCheckOut E dto property); fee = snd (lateCheckOut E dto property);
         express = xo_expressCheckout dto in
     bindS (getS (foliosOf (rv_id r) (rv_propertyId r))) (\<lambda>listed.
     bindS (whenS express (postLateFee L E (\<lambda>k. ids (k + 2)) r listed fee)) (\<lambda>_.
     bindS (mapS (assertSettled L express (rv_propertyId r)) listed) (\<lambda>_.
     bindS (liftS (numericOptR L 12 2 fee)) (\<lambda>storedFee.
     bindS (claimTransition i p [RsCheckedIn, RsStayover, RsDueOut] (checkedOut E isLate storedFee) RsCheckedOut) (\<lambda>updated.
     bindS (whenS (\<not> express) (postLateFee L E (\<lambda>k. ids (k + 2)) r listed fee)) (\<lambda>_.
     bindS (if express
        then bindS (mapS (\<lambda>f. whenS (fo_status f = FsOpen)
                 (finishPayments (en_capturePayment E) (rv_propertyId r) f)) listed) (\<lambda>_.
             bindS (mapS (\<lambda>f. bindS (settle L (en_now E) (fo_id f) (rv_propertyId r)) (\<lambda>_.
                 returnS (fo_id f, ''0.00'', FsSettled))) (filter (\<lambda>f. fo_status f = FsOpen) listed)) (\<lambda>xs. returnS xs))
        else bindS (mapS (finishPayments (en_voidPayment E) (rv_propertyId r)) listed) (\<lambda>_.
             returnS (map (\<lambda>f. (fo_id f, fo_balance f, fo_status f)) listed))) (\<lambda>folioSummary.
     bindS (whenS (present (rv_roomId r))
        (bindS (transitionStatus (en_outbox E) (en_listeners E) (en_clock E) (ids 0) (ids 1) (the (rv_roomId r))
           (rv_propertyId r) VacantDirty None) (\<lambda>_. returnS ()))) (\<lambda>_.
     bindS (emit ''reservation.checked_out'' ''reservation'' (rv_id updated)
        [(''isLateCheckout'', Some (if isLate then ''true'' else ''false'')),
         (''expressCheckout'', Some (if express then ''true'' else ''false''))] (Some (rv_propertyId r))) (\<lambda>_.
     returnS (updated, folioSummary)))))))))))))"

definition expressCheckOut :: "'d numlib \<Rightarrow> ('z folio_db_scheme) stay_env \<Rightarrow> (nat \<Rightarrow> uuid) \<Rightarrow> uuid \<Rightarrow> uuid
    \<Rightarrow> ('z folio_db_scheme, reservation \<times> (uuid \<times> string \<times> folioStatus) list) op" where
  "expressCheckOut L E ids i p = checkOut L E ids i p \<lparr>xo_expressCheckout = True, xo_lateCheckoutFee = None\<rparr>"

section \<open>Groups\<close>

record groupCheckInItem =
  gi_reservationId :: uuid
  gi_roomId :: "uuid option"
  gi_skipDepositAuth :: bool

text \<open>The outcome of one item; the exception stands for its message.\<close>

definition attempt :: "('db, 'a) op \<Rightarrow> ('db, exn option) op" where
  "attempt m = catchS (bindS m (\<lambda>_. returnS None)) (\<lambda>e. returnS (Some e))"

definition groupItemDto :: "groupCheckInItem \<Rightarrow> checkInDto" where
  "groupItemDto item = \<lparr>ci_idType = None, ci_idNumber = None, ci_idCountry = None, ci_idExpiry = None,
     ci_registrationSigned = False, ci_registrationData = None, ci_skipDepositAuth = gi_skipDepositAuth item,
     ci_depositAmount = None, ci_paymentMethodId = None, ci_gatewayPaymentToken = None, ci_gatewayProvider = None,
     ci_cardLastFour = None, ci_cardBrand = None, ci_roomId = gi_roomId item, ci_specialRequests = None\<rparr>"

definition groupCheckInOne :: "'d numlib \<Rightarrow> ('z folio_db_scheme) stay_env \<Rightarrow> (nat \<Rightarrow> uuid) \<Rightarrow> uuid \<Rightarrow> groupCheckInItem
    \<Rightarrow> ('z folio_db_scheme, reservation \<times> folio \<times> uuid option) op" where
  "groupCheckInOne L E ids p item =
     bindS (findByIdRaw (gi_reservationId item) p) (\<lambda>r.
     bindS (whenS (rv_status r = RsConfirmed)
        (let roomToAssign = (case gi_roomId item of None \<Rightarrow> rv_roomId r | v \<Rightarrow> v) in
         bindS (guardS (present roomToAssign) (BadRequestException (''Reservation '' @ gi_reservationId item
            @ '' has no room assigned: provide a roomId''))) (\<lambda>_.
         bindS (assignRoom E False (gi_reservationId item) p (the roomToAssign)) (\<lambda>_. returnS ())))) (\<lambda>_.
     checkIn L E ids (gi_reservationId item) p (groupItemDto item)))"

text \<open>Each result is the reservation id and the error, if any; then total, succeeded and failed.\<close>

type_synonym groupResult = "(uuid \<times> exn option) list \<times> nat \<times> nat \<times> nat"

definition summary :: "(uuid \<times> exn option) list \<Rightarrow> groupResult" where
  "summary results = (results, length results, length (filter (\<lambda>x. snd x = None) results),
     length (filter (\<lambda>x. snd x \<noteq> None) results))"

definition groupCheckIn :: "'d numlib \<Rightarrow> ('z folio_db_scheme) stay_env \<Rightarrow> (uuid \<Rightarrow> nat \<Rightarrow> uuid) \<Rightarrow> uuid
    \<Rightarrow> groupCheckInItem list \<Rightarrow> ('z folio_db_scheme, groupResult) op" where
  "groupCheckIn L E ids p items =
     bindS (mapS (\<lambda>item. let foreign = BadRequestException (''Reservation '' @ gi_reservationId item
            @ '' does not belong to property '' @ p) in
          bindS (catchS (findByIdRaw (gi_reservationId item) p) (\<lambda>_. throwS foreign)) (\<lambda>r.
          guardS (rv_propertyId r = p) foreign)) items) (\<lambda>_.
     bindS (mapS (\<lambda>item. bindS (attempt (groupCheckInOne L E (ids (gi_reservationId item)) p item)) (\<lambda>e.
          returnS (gi_reservationId item, e))) items) (\<lambda>results.
     returnS (summary results)))"

datatype bulkActionKind = BulkCheckIn | BulkCheckOut | BulkCancel

definition noCheckIn :: checkInDto where
  "noCheckIn = groupItemDto \<lparr>gi_reservationId = [], gi_roomId = None, gi_skipDepositAuth = False\<rparr>"

fun bulkOne :: "'d numlib \<Rightarrow> ('z folio_db_scheme) stay_env \<Rightarrow> (nat \<Rightarrow> uuid) \<Rightarrow> uuid \<Rightarrow> bulkActionKind \<Rightarrow> string option
    \<Rightarrow> uuid \<Rightarrow> ('z folio_db_scheme, unit) op" where
  "bulkOne L E ids p BulkCheckIn why i = bindS (checkIn L E ids i p noCheckIn) (\<lambda>_. returnS ())"
| "bulkOne L E ids p BulkCheckOut why i =
     bindS (checkOut L E ids i p \<lparr>xo_expressCheckout = False, xo_lateCheckoutFee = None\<rparr>) (\<lambda>_. returnS ())"
| "bulkOne L E ids p BulkCancel why i =
     bindS (cancel E i p \<lparr>cx_cancellationReason = why, cx_reason = None\<rparr>) (\<lambda>_. returnS ())"

fun bulkActionName :: "bulkActionKind \<Rightarrow> string" where
  "bulkActionName BulkCheckIn = ''check_in''"
| "bulkActionName BulkCheckOut = ''check_out''"
| "bulkActionName BulkCancel = ''cancel''"

definition bulkAction :: "'d numlib \<Rightarrow> ('z folio_db_scheme) stay_env \<Rightarrow> (uuid \<Rightarrow> nat \<Rightarrow> uuid) \<Rightarrow> uuid \<Rightarrow> uuid list
    \<Rightarrow> bulkActionKind \<Rightarrow> string option \<Rightarrow> ('z folio_db_scheme, groupResult) op" where
  "bulkAction L E ids p is action why =
     bindS (mapS (\<lambda>i. bindS (attempt (bulkOne L E (ids i) p action why i)) (\<lambda>e. returnS (i, e))) is) (\<lambda>results.
     let (_, n, ok, failed) = summary results in
     bindS (emit ''reservation.bulk_action_completed'' ''reservation'' p [(''action'', Some (bulkActionName action)),
        (''total'', Some (show_nat n)), (''succeeded'', Some (show_nat ok)), (''failed'', Some (show_nat failed))] (Some p)) (\<lambda>_.
     returnS (summary results)))"

section \<open>Changing a stay\<close>

record ReservationAmendmentResult =
  am_reservation :: reservation
  am_previousArrivalDate :: date
  am_previousDepartureDate :: date
  am_previousTotalAmount :: string
  am_newTotalAmount :: string

definition amendmentResult :: "reservation \<Rightarrow> reservation \<Rightarrow> ReservationAmendmentResult" where
  "amendmentResult previous r = \<lparr>am_reservation = r, am_previousArrivalDate = rv_arrivalDate previous,
     am_previousDepartureDate = rv_departureDate previous, am_previousTotalAmount = rv_totalAmount previous,
     am_newTotalAmount = rv_totalAmount r\<rparr>"

definition nonModifiable :: "ReservationStatus list" where
  "nonModifiable = [RsCheckedOut, RsNoShow, RsCancelled]"

definition changed :: "'a option \<Rightarrow> 'a \<Rightarrow> bool" where
  "changed x old \<longleftrightarrow> x \<noteq> None \<and> x \<noteq> Some old"

definition changesAcceptedPricing :: "'d numlib \<Rightarrow> modifyReservationDto \<Rightarrow> reservation \<Rightarrow> bool result" where
  "changesAcceptedPricing L dto r =
     (if changed (mo_arrivalDate dto) (rv_arrivalDate r) \<or> changed (mo_departureDate dto) (rv_departureDate r)
         \<or> changed (mo_roomTypeId dto) (rv_roomTypeId r) \<or> changed (mo_ratePlanId dto) (rv_ratePlanId r)
      then Inr True
      else bindR (case mo_totalAmount dto of None \<Rightarrow> Inr False
          | Some t \<Rightarrow> bindR (newDecimal L t) (\<lambda>x. bindR (newDecimal L (rv_totalAmount r)) (\<lambda>y. Inr (\<not> dec_eq L x y))))
        (\<lambda>total. Inr (total \<or> changed (mo_adults dto) (rv_adults r) \<or> changed (mo_children dto) (rv_children r))))"

text \<open>\<open>dto.x && dto.x !== reservation.x\<close>\<close>

definition changedText :: "string option \<Rightarrow> string \<Rightarrow> bool" where
  "changedText x old \<longleftrightarrow> present x \<and> x \<noteq> Some old"

definition modified :: "'db stay_env \<Rightarrow> modifyReservationDto \<Rightarrow> int option \<Rightarrow> string option \<Rightarrow> reservation \<Rightarrow> reservation" where
  "modified E dto nights amount r = r\<lparr>
     rv_arrivalDate := (if present (mo_arrivalDate dto) then the (mo_arrivalDate dto) else rv_arrivalDate r),
     rv_departureDate := (if present (mo_departureDate dto) then the (mo_departureDate dto) else rv_departureDate r),
     rv_nights := nvl nights (rv_nights r),
     rv_roomTypeId := (if present (mo_roomTypeId dto) then the (mo_roomTypeId dto) else rv_roomTypeId r),
     rv_ratePlanId := (if present (mo_ratePlanId dto) then the (mo_ratePlanId dto) else rv_ratePlanId r),
     rv_totalAmount := nvl amount (rv_totalAmount r),
     rv_adults := nvl (mo_adults dto) (rv_adults r), rv_children := nvl (mo_children dto) (rv_children r),
     rv_specialRequests := (case mo_specialRequests dto of None \<Rightarrow> rv_specialRequests r | v \<Rightarrow> v),
     rv_doNotMove := nvl (mo_doNotMove dto) (rv_doNotMove r), rv_updatedAt := en_now E\<rparr>"

text \<open>
  The rows of the search with one unit given back on every night that the stay itself holds, and
  the check over them; its refusal is a conflict here.
\<close>

definition adjustedAvailability :: "reservation \<Rightarrow> bool \<Rightarrow> uuid \<Rightarrow> date \<Rightarrow> date \<Rightarrow> AvailabilityResult list \<Rightarrow> AvailabilityResult list" where
  "adjustedAvailability r roomTypeChanged newRoomTypeId newArrival newDeparture rows =
     (let currentCountsItself = (\<not> roomTypeChanged \<and> rv_arrivalDate r < newDeparture \<and> newArrival < rv_departureDate r) in
      map (\<lambda>row. if av_roomTypeId row \<noteq> newRoomTypeId then row
        else row\<lparr>av_available := av_available row
          + (if currentCountsItself \<and> rv_arrivalDate r \<le> av_date row \<and> av_date row < rv_departureDate r then 1 else 0)\<rparr>) rows)"

definition asConflict :: "unit result \<Rightarrow> unit result" where
  "asConflict x = (case x of Inl (BadRequestException m) \<Rightarrow> Inl (ConflictException m) | y \<Rightarrow> y)"

definition recheckStay :: "uuid \<Rightarrow> reservation \<Rightarrow> modifyReservationDto \<Rightarrow> ('z stay_db_scheme, unit) op" where
  "recheckStay p r dto =
     (let newArrival = nvl (mo_arrivalDate dto) (rv_arrivalDate r); newDeparture = nvl (mo_departureDate dto) (rv_departureDate r);
          newRoomTypeId = nvl (mo_roomTypeId dto) (rv_roomTypeId r) in
      bindS (lockInventory p newRoomTypeId) (\<lambda>_.
      bindS (whenS (present (rv_roomId r))
         (bindS (lockRoom (the (rv_roomId r)) p) (\<lambda>_.
          assertInventoryAvailable (the (rv_roomId r)) p newDeparture))) (\<lambda>_.
      bindS (getS (\<lambda>db. searchAvailability (rv_propertyId r) newArrival newDeparture (Some newRoomTypeId) noOptions db)) (\<lambda>found.
      bindS (liftS found) (\<lambda>availability.
      liftS (asConflict (assertFullStayAvailability
        (adjustedAvailability r (changedText (mo_roomTypeId dto) (rv_roomTypeId r)) newRoomTypeId newArrival newDeparture availability)
        newRoomTypeId newArrival newDeparture)))))))"

definition modifyInTransaction :: "'d numlib \<Rightarrow> 'db stay_env \<Rightarrow> uuid \<Rightarrow> uuid \<Rightarrow> reservation \<Rightarrow> int option
    \<Rightarrow> modifyReservationDto \<Rightarrow> ('z stay_db_scheme, reservation) op" where
  "modifyInTransaction L E i p r nights dto =
     bindS (getS (\<lambda>db. sel1 (reservationRow i p) (reservations db))) (\<lambda>found.
     bindS (someS (case found of None \<Rightarrow> None
          | Some x \<Rightarrow> if rv_updatedAt x div 1000 = rv_updatedAt r div 1000 then Some x else None)
        (ConflictException ''The reservation changed, reload it before changing the stay'')) (\<lambda>current.
     bindS (whenS (changedText (mo_arrivalDate dto) (rv_arrivalDate r) \<or> changedText (mo_departureDate dto) (rv_departureDate r)
          \<or> changedText (mo_roomTypeId dto) (rv_roomTypeId r)) (recheckStay p r dto)) (\<lambda>_.
     bindS (if present (mo_totalAmount dto) then bindS (liftS (numeric12_2 L (the (mo_totalAmount dto)))) (\<lambda>a. returnS (Some a))
        else returnS None) (\<lambda>amount.
     bindS (updateReservation (reservationRow i p) (modified E dto nights amount)) (\<lambda>_.
     returnS (modified E dto nights amount current))))))"

definition modify :: "'d numlib \<Rightarrow> 'db stay_env \<Rightarrow> uuid \<Rightarrow> uuid \<Rightarrow> modifyReservationDto
    \<Rightarrow> ('z stay_db_scheme, ReservationAmendmentResult) op" where
  "modify L E i p dto =
     bindS (findByIdRaw i p) (\<lambda>r.
     bindS (if rv_acceptedPricingSnapshot r \<noteq> None then liftS (changesAcceptedPricing L dto r) else returnS False) (\<lambda>frozen.
     bindS (guardS (\<not> frozen) (ConflictException (''A Stay Amendment is required before changing accepted pricing, ''
        @ ''stay dates, room type, rate plan, occupancy, or total''))) (\<lambda>_.
     bindS (guardS (rv_status r \<notin> set nonModifiable) (BadRequestException (''Cannot modify reservation in ''
        @ quoted (reservationStatusName (rv_status r)) @ '' status''))) (\<lambda>_.
     bindS (if present (mo_arrivalDate dto) \<or> present (mo_departureDate dto)
        then bindS (liftS (stayDates (nvl (mo_arrivalDate dto) (rv_arrivalDate r)) (nvl (mo_departureDate dto) (rv_departureDate r))))
               (\<lambda>ds. returnS (Some (int (length ds))))
        else returnS None) (\<lambda>nights.
     bindS (whenS (present (mo_roomTypeId dto))
        (assertSamePropertyFk roomTypes rt_id rt_propertyId (the (mo_roomTypeId dto)) p ''room type'')) (\<lambda>_.
     bindS (whenS (present (mo_ratePlanId dto))
        (assertSamePropertyFk ratePlans rp_id rp_propertyId (the (mo_ratePlanId dto)) p ''rate plan'')) (\<lambda>_.
     bindS (transactionS (modifyInTransaction L E i p r nights dto)) (\<lambda>updated.
     bindS (emit ''reservation.modified'' ''reservation'' (rv_id updated) [(''reservationId'', Some (rv_id updated)),
        (''arrivalDate'', Some (rv_arrivalDate updated)), (''departureDate'', Some (rv_departureDate updated)),
        (''roomTypeId'', Some (rv_roomTypeId updated)), (''previousArrivalDate'', Some (rv_arrivalDate r)),
        (''previousDepartureDate'', Some (rv_departureDate r)), (''previousRoomTypeId'', Some (rv_roomTypeId r))]
        (Some (rv_propertyId updated))) (\<lambda>_.
     returnS (amendmentResult r updated))))))))))"

definition modifyAcceptedStay :: "'d numlib \<Rightarrow> 'db stay_env \<Rightarrow> reservation \<Rightarrow> uuid \<Rightarrow> date \<Rightarrow> date \<Rightarrow> string
    \<Rightarrow> AcceptedPricingSnapshot \<Rightarrow> ('z stay_db_scheme, ReservationAmendmentResult) op" where
  "modifyAcceptedStay L E r p arrivalDate departureDate totalAmount snapshot =
     bindS (guardS (rv_propertyId r = p \<and> rv_acceptedPricingSnapshot r \<noteq> None)
        (ConflictException ''Reservation is not eligible for an accepted stay amendment'')) (\<lambda>_.
     bindS (guardS (rv_status r \<notin> set nonModifiable) (BadRequestException (''Cannot modify reservation in ''
        @ quoted (reservationStatusName (rv_status r)) @ '' status''))) (\<lambda>_.
     bindS (liftS (stayDates arrivalDate departureDate)) (\<lambda>ds.
     bindS (whenS (present (rv_roomId r))
        (bindS (lockRoom (the (rv_roomId r)) p) (\<lambda>_.
         assertInventoryAvailable (the (rv_roomId r)) p departureDate))) (\<lambda>_.
     bindS (if ap_currencyCode snapshot \<noteq> rv_currencyCode r then returnS True
        else bindS (liftS (newDecimal L totalAmount)) (\<lambda>t. returnS (ap_grandTotal snapshot \<noteq> dec_toFixed L 2 t))) (\<lambda>differs.
     bindS (guardS (\<not> differs) (ConflictException ''Amended pricing does not match the reservation currency and total'')) (\<lambda>_.
     bindS (guardS (map apn_date (ap_nights snapshot) = ds)
        (ConflictException ''Amended pricing does not cover the complete stay window'')) (\<lambda>_.
     bindS (liftS (numeric12_2 L (ap_grandTotal snapshot))) (\<lambda>amount.
     let f = (\<lambda>x. x\<lparr>rv_arrivalDate := arrivalDate, rv_departureDate := departureDate, rv_nights := int (length ds),
            rv_totalAmount := amount, rv_acceptedPricingSnapshot := Some snapshot, rv_updatedAt := en_now E\<rparr>) in
     bindS (getS (\<lambda>db. sel1 (reservationRow (rv_id r) p) (reservations db))) (\<lambda>claimed.
     bindS (updateReservation (reservationRow (rv_id r) p) f) (\<lambda>_.
     bindS (someS claimed (ConflictException ''Reservation changed while applying the stay amendment'')) (\<lambda>x.
     returnS (amendmentResult r (f x)))))))))))))"

end
