(* ===== verification/Stay.thy ===== *)
theory Stay
  imports Reservation
begin

text \<open>
  What the reservation service guarantees. The operations of \<open>Reservation\<close> change the table of
  reservations in four ways only (\<open>stay_change\<close>); from these follow that two live stays never
  share a physical room on a night and that statuses move along the table of valid transitions.
\<close>

section \<open>What an operation does to the tables, whatever its result\<close>

definition does :: "('db \<Rightarrow> 'db \<Rightarrow> bool) \<Rightarrow> ('db, 'a) op \<Rightarrow> bool" where
  "does R m \<longleftrightarrow> (\<forall>w r w'. m w = (r, w') \<longrightarrow> R (wdb w) (wdb w'))"

lemma doesD: "does R m \<Longrightarrow> m w = (r, w') \<Longrightarrow> R (wdb w) (wdb w')"
  by (auto simp: does_def)

lemma doesI: "(\<And>w r w'. m w = (r, w') \<Longrightarrow> R (wdb w) (wdb w')) \<Longrightarrow> does R m"
  by (auto simp: does_def)

lemma does_bind':
  assumes "\<And>a b c. R a b \<Longrightarrow> R b c \<Longrightarrow> R a c" and "does R m" and "\<And>a. does R (k a)"
  shows "does R (bindS m k)"
proof (rule doesI)
  fix w r w' assume run: "bindS m k w = (r, w')"
  obtain x w1 where m: "m w = (x, w1)" by fastforce
  show "R (wdb w) (wdb w')"
  proof (cases x)
    case (Inl e)
    with run m have "w' = w1" by (simp add: bindS_def)
    with doesD [OF assms(2) m] show ?thesis by simp
  next
    case (Inr a)
    with run m have "k a w1 = (r, w')" by (simp add: bindS_def)
    with doesD [OF assms(2) m] doesD [OF assms(3)] assms(1) show ?thesis by blast
  qed
qed

lemma does_catch':
  assumes "\<And>a b c. R a b \<Longrightarrow> R b c \<Longrightarrow> R a c" and "does R m" and "\<And>e. does R (h e)"
  shows "does R (catchS m h)"
proof (rule doesI)
  fix w r w' assume run: "catchS m h w = (r, w')"
  obtain x w1 where m: "m w = (x, w1)" by fastforce
  show "R (wdb w) (wdb w')"
  proof (cases x)
    case (Inl e)
    with run m have "h e w1 = (r, w')" by (simp add: catchS_def)
    with doesD [OF assms(2) m] doesD [OF assms(3)] assms(1) show ?thesis by blast
  next
    case (Inr a)
    with run m have "w' = w1" by (simp add: catchS_def)
    with doesD [OF assms(2) m] show ?thesis by simp
  qed
qed

text \<open>The contract of a relation that composed operations inherit from their parts.\<close>

locale step_relation =
  fixes R :: "'db \<Rightarrow> 'db \<Rightarrow> bool"
  assumes same: "R a a" and join: "R a b \<Longrightarrow> R b c \<Longrightarrow> R a c"
begin

lemma basic: "does R (returnS x)" "does R (throwS e)" "does R (guardS b e)" "does R (getS h)" "does R (liftS y)"
    "does R (someS z e)" "does R (emit n t i d p)"
  by (auto simp: does_def op_defs emit_iff same split: if_splits option.splits)

lemma bind: "does R m \<Longrightarrow> (\<And>a. does R (k a)) \<Longrightarrow> does R (bindS m k)"
  by (rule does_bind' [OF join])

lemma catch: "does R m \<Longrightarrow> (\<And>e. does R (h e)) \<Longrightarrow> does R (catchS m h)"
  by (rule does_catch' [OF join])

lemma guarded: "does R m \<Longrightarrow> does R (whenS b m)"
  by (simp add: whenS_def basic)

lemma choose: "(b \<Longrightarrow> does R m) \<Longrightarrow> (\<not> b \<Longrightarrow> does R n) \<Longrightarrow> does R (if b then m else n)"
  by simp

lemma optional: "does R m \<Longrightarrow> (\<And>a. does R (k a)) \<Longrightarrow> does R (case x of None \<Rightarrow> m | Some a \<Rightarrow> k a)"
  by (simp split: option.split)

lemma pair: "(\<And>a b. does R (k a b)) \<Longrightarrow> does R (case x of (a, b) \<Rightarrow> k a b)"
  by (simp split: prod.split)

lemma each: "(\<And>x. x \<in> set xs \<Longrightarrow> does R (f x)) \<Longrightarrow> does R (mapS f xs)"
  by (induction xs) (auto intro!: bind basic)

lemma transaction: "(\<And>w x w'. m w = (Inr x, w') \<Longrightarrow> R (wdb w) (wdb w')) \<Longrightarrow> does R (transactionS m)"
  by (auto simp: does_def transactionS_def same split: prod.splits sum.splits)

lemma read: "reads m \<Longrightarrow> does R m"
  by (auto simp: does_def reads_def same dest: sym)

lemmas rules = basic bind catch guarded choose optional pair each

end

text \<open>An operation that leaves one table, or any other part of the database, as it is.\<close>

abbreviation keeps :: "('db \<Rightarrow> 'c) \<Rightarrow> ('db, 'a) op \<Rightarrow> bool" where
  "keeps g \<equiv> does (\<lambda>a b. g b = g a)"

interpretation held: step_relation "\<lambda>a b. g b = g a" for g
  by unfold_locales simp_all

named_theorems stay_frame \<open>the operations that leave the reservations alone\<close>

lemma keeps_modify: "(\<And>db. g (f db) = g db) \<Longrightarrow> keeps g (modifyS f)"
  by (simp add: does_def modifyS_iff)

lemma keeps_tx: "keeps g m \<Longrightarrow> keeps g (transactionS m)"
  by (rule held.transaction) (blast dest: doesD)

lemmas keeps_rules = held.rules keeps_tx keeps_modify

lemma room_frame [stay_frame]:
  "keeps reservations (findRoom i p)" "keeps reservations (lockRoom i p)"
  "keeps reservations (assertInventoryAvailable i p d)"
  by (auto simp: findRoom_def lockRoom_def assertInventoryAvailable_def intro!: keeps_rules)

lemma readiness_frame [stay_frame]: "keeps reservations (assertReady clk i p sd dd)"
  unfolding assertReady_def operationalReadiness_def by (intro keeps_rules stay_frame)

lemma transitionTx_frame [stay_frame]: "keeps reservations (transitionStatusTx clk i p s note)"
  unfolding transitionStatusTx_def Let_def by (intro keeps_rules stay_frame) simp

text \<open>
  A view of the database that shows neither charges nor the totals of the folios, and one that
  does not show the folios at all.
\<close>

definition posting_blind :: "('z folio_db_scheme \<Rightarrow> 'c) \<Rightarrow> bool" where
  "posting_blind g \<longleftrightarrow> (\<forall>db xs. g (db\<lparr>charges := xs\<rparr>) = g db)
     \<and> (\<forall>db q a b c t. g (db\<lparr>folios := upd q (\<lambda>x. x\<lparr>fo_totalCharges := a, fo_totalPayments := b, fo_balance := c,
          fo_updatedAt := t\<rparr>) (folios db)\<rparr>) = g db)"

definition folio_blind :: "('z folio_db_scheme \<Rightarrow> 'c) \<Rightarrow> bool" where
  "folio_blind g \<longleftrightarrow> (\<forall>db xs. g (db\<lparr>folios := xs\<rparr>) = g db)"

definition folio_owners :: "'z folio_db_scheme \<Rightarrow> (uuid \<times> uuid \<times> uuid option \<times> folioType \<times> folioStatus) list" where
  "folio_owners db = map (\<lambda>f. (fo_id f, fo_propertyId f, fo_reservationId f, fo_type f, fo_status f)) (folios db)"

lemma blind_views [stay_frame]: "folio_blind reservations" "folio_blind rooms"
    "posting_blind reservations" "posting_blind rooms" "posting_blind folio_owners"
  by (auto simp: posting_blind_def folio_blind_def folio_owners_def intro: map_upd_same)

lemma outbox_frame [stay_frame]:
  "keeps reservations (persist n now pl k)" "keeps reservations (deliver ls now p k)"
  unfolding persist_def deliver_def dispatchPersisted_def
  by (intro keeps_rules; simp add: does_def)+

lemma persist_keeps: "keeps rooms (persist n now pl k)" "keeps folio_owners (persist n now pl k)"
  unfolding persist_def by (intro keeps_rules; simp add: folio_owners_def)+

lemma status_frame [stay_frame]:
  "keeps reservations (transitionStatus ob ls clk n k i p s note)"
  "keeps reservations (markOccupied clk i p)" "keeps reservations (markVacantDirty clk i p)"
  unfolding transitionStatus_def markOccupied_def markVacantDirty_def by (intro keeps_rules stay_frame)+

lemma tax_frame [stay_frame]: "keeps g (calculateTaxes L a ct p d opts)"
  unfolding calculateTaxes_def getActiveTaxProfile_def Let_def by (intro keeps_rules)

lemma insert_frame [stay_frame]: "posting_blind g \<Longrightarrow> keeps g (insertCharge L c)"
  unfolding insertCharge_def by (intro keeps_rules) (simp add: posting_blind_def)

lemma once_frame [stay_frame]: "posting_blind g \<Longrightarrow> keeps g (insertChargeOnce L c)"
  unfolding insertChargeOnce_def by (intro keeps_rules stay_frame)

lemma taxes_frame [stay_frame]: "posting_blind g \<Longrightarrow> keeps g (postTaxes L ids f dto sd parent k items)"
  by (induction items arbitrary: k) (auto intro!: keeps_rules stay_frame)

lemma recalc_frame [stay_frame]: "posting_blind g \<Longrightarrow> keeps g (recalculateBalance L now f p)"
  unfolding recalculateBalance_def Let_def by (intro keeps_rules) (simp add: posting_blind_def)

lemma find_frame [stay_frame]: "keeps g (findFolio f p)" "keeps h (findByIdRaw i p)"
  unfolding findFolio_def findByIdRaw_def by (intro keeps_rules)+

lemma folio_frame [stay_frame]:
  "posting_blind g \<Longrightarrow> keeps g (postCharge L now ids inTx f cdto pers)" "folio_blind g \<Longrightarrow> keeps g (settle L now f p)"
  unfolding postCharge_def settle_def Let_def by (intro keeps_rules stay_frame; simp add: folio_blind_def)+

lemma create_frame [stay_frame]:
  "folio_blind g \<Longrightarrow> keeps g (createFolio today now i inTx fdto)"
  "folio_blind g \<Longrightarrow> keeps g (createAutoFolio today now i inTx r)"
  unfolding createAutoFolio_def createFolio_def Let_def by (intro keeps_rules; simp add: folio_blind_def)+

lemma fee_frame [stay_frame]: "posting_blind g \<Longrightarrow> keeps g (postFee L E ids inTx f r d a)"
  "posting_blind g \<Longrightarrow> keeps g (postLateFee L E ids r fs fee)" "keeps g (assertSettled L x p fo)"
  unfolding postFee_def postLateFee_def assertSettled_def by (intro keeps_rules stay_frame; assumption?)+

text \<open>What the service assumes of the services it calls: none of them writes the reservations.\<close>

definition quiet :: "('z folio_db_scheme) stay_env \<Rightarrow> bool" where
  "quiet E \<longleftrightarrow> (\<forall>r i. keeps reservations (en_settleCancellation E r i)) \<and> (\<forall>a. keeps reservations (en_authorizePayment E a))
     \<and> (\<forall>i p. keeps reservations (en_ensurePackageComponents E i p)) \<and> (\<forall>i p. keeps reservations (en_postOnceForReservation E i p))
     \<and> (\<forall>i p f. keeps reservations (en_applyHeldDeposits E i p f)) \<and> (\<forall>i p. keeps reservations (en_capturePayment E i p))
     \<and> (\<forall>i p. keeps reservations (en_voidPayment E i p))"

lemma quietD [stay_frame]:
  assumes "quiet E"
  shows "keeps reservations (en_settleCancellation E r i)" "keeps reservations (en_authorizePayment E a)"
    "keeps reservations (en_ensurePackageComponents E i p)" "keeps reservations (en_postOnceForReservation E i p)"
    "keeps reservations (en_applyHeldDeposits E i p f)" "keeps reservations (en_capturePayment E i p)"
    "keeps reservations (en_voidPayment E i p)"
  using assms by (simp_all add: quiet_def)

lemma payments_frame [stay_frame]: "(\<And>i p. keeps reservations (fin i p)) \<Longrightarrow> keeps reservations (finishPayments fin p f)"
  unfolding finishPayments_def by (intro keeps_rules)

lemma authorize_frame [stay_frame]: "quiet E \<Longrightarrow> keeps reservations (authorizeDeposit L E dto r f)"
  unfolding authorizeDeposit_def Let_def by (intro keeps_rules stay_frame)

lemma emitRoom_frame [stay_frame]: "keeps reservations (emitRoomStatus p x s)"
  unfolding emitRoomStatus_def by (intro keeps_rules)

section \<open>The ways in which the reservations change\<close>

definition live :: "reservation \<Rightarrow> bool" where
  "live r \<longleftrightarrow> rv_status r \<notin> set excludedStatuses"

definition overlaps :: "reservation \<Rightarrow> reservation \<Rightarrow> bool" where
  "overlaps x y \<longleftrightarrow> rv_arrivalDate x < rv_departureDate y \<and> rv_arrivalDate y < rv_departureDate x"

definition same_room :: "reservation \<Rightarrow> reservation \<Rightarrow> bool" where
  "same_room x y \<longleftrightarrow> rv_propertyId x = rv_propertyId y \<and> rv_roomId x = rv_roomId y \<and> rv_roomId x \<noteq> None"

text \<open>The columns that identify a stay, and its nights.\<close>

definition stay_key :: "reservation \<Rightarrow> uuid \<times> uuid \<times> date \<times> date" where
  "stay_key r = (rv_id r, rv_propertyId r, rv_arrivalDate r, rv_departureDate r)"

text \<open>A change of a row along the status table that leaves the stay where it is.\<close>

definition moves_status :: "(reservation \<Rightarrow> bool) \<Rightarrow> (reservation \<Rightarrow> reservation) \<Rightarrow> bool" where
  "moves_status q f \<longleftrightarrow> (\<forall>r. q r \<longrightarrow> stay_key (f r) = stay_key r \<and> rv_roomId (f r) = rv_roomId r
     \<and> (rv_status (f r) = rv_status r \<or> stay.step (rv_status r) (rv_status (f r))))"

text \<open>A change that puts the stay into a room, along the status table.\<close>

definition moves_into :: "uuid \<Rightarrow> (reservation \<Rightarrow> bool) \<Rightarrow> (reservation \<Rightarrow> reservation) \<Rightarrow> bool" where
  "moves_into roomId q f \<longleftrightarrow> (\<forall>r. q r \<longrightarrow> stay_key (f r) = stay_key r \<and> rv_roomId (f r) = Some roomId
     \<and> (rv_status (f r) = rv_status r \<or> stay.step (rv_status r) (rv_status (f r))))"

text \<open>New dates for a stay.\<close>

definition redates :: "(reservation \<Rightarrow> bool) \<Rightarrow> (reservation \<Rightarrow> reservation) \<Rightarrow> bool" where
  "redates q f \<longleftrightarrow> (\<forall>r. q r \<longrightarrow> rv_id (f r) = rv_id r \<and> rv_propertyId (f r) = rv_propertyId r
     \<and> rv_roomId (f r) = rv_roomId r \<and> rv_status (f r) = rv_status r)"

definition room_free :: "uuid \<Rightarrow> uuid \<Rightarrow> reservation \<Rightarrow> reservation list \<Rightarrow> bool" where
  "room_free p roomId r rows \<longleftrightarrow> (\<forall>x\<in>set rows. rv_propertyId x = p \<and> rv_roomId x = Some roomId \<and> rv_id x \<noteq> rv_id r \<and> live x
     \<longrightarrow> \<not> overlaps x r)"

inductive stay_change :: "reservation list \<Rightarrow> reservation list \<Rightarrow> bool" where
  unchanged: "stay_change rows rows"
| booked: "rv_roomId r = None \<Longrightarrow> rv_status r = RsPending \<Longrightarrow> rv_id r \<notin> rv_id ` set rows \<Longrightarrow> stay_change rows (rows @ [r])"
| moved: "moves_status q f \<Longrightarrow> stay_change rows (upd q f rows)"
| housed: "moves_into roomId q f \<Longrightarrow> (\<And>x. q x \<Longrightarrow> reservationRow i p x) \<Longrightarrow> sel1 (reservationRow i p) rows = Some r
    \<Longrightarrow> room_free p roomId r rows \<Longrightarrow> stay_change rows (upd q f rows)"
| redated: "(\<And>x. x \<in> set rows \<Longrightarrow> q x \<Longrightarrow> rv_roomId x = None) \<Longrightarrow> redates q f \<Longrightarrow> stay_change rows (upd q f rows)"

abbreviation stay_changes :: "'z stay_db_scheme \<Rightarrow> 'z stay_db_scheme \<Rightarrow> bool" where
  "stay_changes a b \<equiv> stay_change\<^sup>*\<^sup>* (reservations a) (reservations b)"

interpretation changes: step_relation stay_changes
  by unfold_locales auto

lemma changes_kept [intro]: "keeps reservations m \<Longrightarrow> does stay_changes m"
  by (simp add: does_def)

lemma claim_changes:
  assumes "\<And>r. rv_status r \<in> set froms \<Longrightarrow> stay_key (f r) = stay_key r \<and> rv_roomId (f r) = rv_roomId r
     \<and> stay.step (rv_status r) (rv_status (f r))"
  shows "does stay_changes (claimTransition i p froms f s)"
proof (rule doesI)
  fix w r w' assume "claimTransition i p froms f s w = (r, w')"
  then have "reservations (wdb w') = upd (\<lambda>x. reservationRow i p x \<and> rv_status x \<in> set froms) f (reservations (wdb w))"
    by (auto simp: claimTransition_def updateReservation_def op_defs split: option.splits)
  moreover have "moves_status (\<lambda>x. reservationRow i p x \<and> rv_status x \<in> set froms) f"
    using assms by (simp add: moves_status_def)
  ultimately show "stay_changes (wdb w) (wdb w')" by (auto intro: stay_change.moved)
qed

lemma steps_eval: "stay.step a b \<longleftrightarrow> b \<in> set (VALID_TRANSITIONS a)"
  by (simp add: stay.step_def)

lemma update_changes: "moves_status q f \<Longrightarrow> does stay_changes (updateReservation q f)"
  by (auto simp: does_def updateReservation_def modifyS_iff intro: stay_change.moved)

lemma changes_tx: "does stay_changes m \<Longrightarrow> does stay_changes (transactionS m)"
  by (rule changes.transaction) (blast dest: doesD)

lemma changes_frame:
  "keeps reservations (findByIdRaw i p)" "keeps reservations (emit n t j d q)"
  by (auto intro: keeps_rules stay_frame)

lemma confirm_changes: "does stay_changes (confirm E i p)"
  unfolding confirm_def by (intro changes.rules claim_changes changes_kept stay_frame) (auto simp: steps_eval stay_key_def)

lemma noShow_changes: "does stay_changes (markNoShow E i p)"
  unfolding markNoShow_def by (intro changes.rules claim_changes changes_kept stay_frame) (auto simp: steps_eval stay_key_def)

lemma cancel_changes: "quiet E \<Longrightarrow> does stay_changes (cancel E i p dto)"
  unfolding cancel_def Let_def
  by (intro changes.rules claim_changes changes_kept stay_frame) (auto simp: steps_eval stay_key_def)

lemma with_registration_sel [simp]:
  "stay_key (with_registration E dto r) = stay_key r" "rv_roomId (with_registration E dto r) = rv_roomId r"
  "rv_status (with_registration E dto r) = rv_status r"
  by (simp_all add: with_registration_def stay_key_def Let_def split: option.split)

lemma preRegister_changes: "does stay_changes (preRegister E i p dto)"
  unfolding preRegister_def Let_def
  by (intro changes.rules update_changes changes_kept stay_frame) (auto simp: moves_status_def, simp add: stay_key_def)

lemma room_free_conflict: "roomConflict p roomId r db = None \<Longrightarrow> room_free p roomId r (reservations db)"
  by (auto simp: roomConflict_def room_free_def live_def overlaps_def dest!: find_NoneD)

lemma lockReservation_iff: "lockReservation i p e w = (Inr r, w') \<longleftrightarrow> w' = w \<and> sel1 (reservationRow i p) (reservations (wdb w)) = Some r"
  by (auto simp: lockReservation_def op_iffs)

lemma keeps_run: "keeps g m \<Longrightarrow> m w = (x, w') \<Longrightarrow> g (wdb w') = g (wdb w)"
  by (auto dest: doesD)

lemma updateReservation_iff: "updateReservation q f w = (x, w') \<longleftrightarrow> x = Inr () \<and> w' = w\<lparr>wdb := (wdb w)\<lparr>reservations := upd q f (reservations (wdb w))\<rparr>\<rparr>"
  by (auto simp: updateReservation_def modifyS_iff)

lemmas step_iffs = updateReservation_iff lockReservation_iff Let_def bindS_Inr_iff getS_iff someS_Inr_iff guardS_Inr_iff
  returnS_iff liftS_iff

lemma assign_steps:
  assumes "assignInTransaction E i p roomId w = (Inr x, w')"
  shows "\<exists>r. sel1 (reservationRow i p) (reservations (wdb w)) = Some r \<and> room_free p roomId r (reservations (wdb w))
    \<and> reservations (wdb w') = upd (\<lambda>x. reservationRow i p x \<and> rv_status x = RsConfirmed) (assigned E roomId) (reservations (wdb w))"
proof -
  obtain r w1 rd and room :: room where r: "sel1 (reservationRow i p) (reservations (wdb w)) = Some r"
    and rd: "assertReady (en_clock E) (ro_id room) p (Some (rv_arrivalDate r)) (Some (rv_departureDate r)) w = (Inr rd, w1)"
    and free: "roomConflict p roomId r (wdb w1) = None"
    and w': "w' = w1\<lparr>wdb := (wdb w1)\<lparr>reservations := upd (\<lambda>x. reservationRow i p x \<and> rv_status x = RsConfirmed)
      (assigned E roomId) (reservations (wdb w1))\<rparr>\<rparr>"
    using assms by (clarsimp simp: assignInTransaction_def step_iffs)
  have "reservations (wdb w1) = reservations (wdb w)" by (rule keeps_run [OF readiness_frame rd])
  with r room_free_conflict [OF free] w' show ?thesis by simp
qed

lemma into_changes:
  assumes "moves_into roomId q f" and "\<And>x. q x \<Longrightarrow> reservationRow i p x" and "sel1 (reservationRow i p) (reservations db) = Some r"
    and "room_free p roomId r (reservations db)" and "reservations db' = upd q f (reservations db)"
  shows "stay_changes db db'"
  using stay_change.housed [OF assms(1-4)] assms(5) by auto

lemma assign_changes: "does stay_changes (assignRoom E False i p roomId)"
  unfolding assignRoom_def if_False
proof (rule changes.transaction)
  fix w :: "'a stay_db_scheme world" and x w' assume "assignInTransaction E i p roomId w = (Inr x, w')"
  note steps = assign_steps [OF this]
  have "moves_into roomId (\<lambda>x. reservationRow i p x \<and> rv_status x = RsConfirmed) (assigned E roomId)"
    by (simp add: moves_into_def assigned_def stay_key_def steps_eval)
  then show "stay_changes (wdb w) (wdb w')" using steps into_changes by blast
qed

lemma switch_frame [stay_frame]: "keeps reservations (switchRooms E p previous tgt)"
  unfolding switchRooms_def by (intro keeps_rules stay_frame)

lemma moveRoom_steps:
  assumes "moveInTransaction E i p dto w = (Inr x, w')"
  shows "\<exists>r. sel1 (reservationRow i p) (reservations (wdb w)) = Some r \<and> room_free p (mr_roomId dto) r (reservations (wdb w))
    \<and> reservations (wdb w') = upd (reservationRow i p) (rehoused E (mr_roomId dto)) (reservations (wdb w))"
proof -
  obtain r w1 w2 rd ready previous and tgt :: room where r: "sel1 (reservationRow i p) (reservations (wdb w)) = Some r"
    and rd: "assertReady (en_clock E) (ro_id tgt) p ready (Some (rv_departureDate r)) w = (Inr rd, w1)"
    and free: "roomConflict p (mr_roomId dto) r (wdb w1) = None"
    and w2: "w2 = w1\<lparr>wdb := (wdb w1)\<lparr>reservations := upd (reservationRow i p) (rehoused E (mr_roomId dto)) (reservations (wdb w1))\<rparr>\<rparr>"
    and m: "whenS (inHouse (rv_status r)) (switchRooms E p previous tgt) w2 = (Inr (), w')"
    using assms by (clarsimp simp: moveInTransaction_def step_iffs)
  have "reservations (wdb w1) = reservations (wdb w)" by (rule keeps_run [OF readiness_frame rd])
  moreover have "reservations (wdb w') = reservations (wdb w2)" by (rule keeps_run [OF held.guarded [OF switch_frame] m])
  ultimately show ?thesis using r room_free_conflict [OF free] w2 by simp
qed

lemma move_changes: "does stay_changes (moveRoom E i p dto)"
proof -
  have tx: "does stay_changes (transactionS (moveInTransaction E i p dto) :: ('a stay_db_scheme, _) op)"
  proof (rule changes.transaction)
    fix w :: "'a stay_db_scheme world" and x w' assume "moveInTransaction E i p dto w = (Inr x, w')"
    note steps = moveRoom_steps [OF this]
    have "moves_into (mr_roomId dto) (reservationRow i p) (rehoused E (mr_roomId dto))"
      by (simp add: moves_into_def rehoused_def stay_key_def)
    then show "stay_changes (wdb w) (wdb w')" using steps into_changes by blast
  qed
  show ?thesis unfolding moveRoom_def by (intro changes.rules changes_kept stay_frame tx)
qed

lemma pre_into:
  assumes "keeps reservations m" and "m w = (x, w1)" and "stay_changes (wdb w1) (wdb w')"
  shows "stay_changes (wdb w) (wdb w')"
  using keeps_run [OF assms(1,2)] assms(3) by simp

lemma room_for_steps:
  assumes "roomForCheckIn E p r dto w = (Inr room, w')"
  shows "reservations (wdb w') = reservations (wdb w) \<and> room_free p (ro_id room) r (reservations (wdb w))
    \<and> sel1 (roomRow (ro_id room) (rv_propertyId r)) (rooms (wdb w)) = Some room"
proof -
  obtain roomId rd where room: "sel1 (roomRow roomId (rv_propertyId r)) (rooms (wdb w)) = Some room"
    and rd: "assertReady (en_clock E) (ro_id room) p None (Some (rv_departureDate r)) w = (Inr rd, w')"
    and free: "roomConflict p roomId r (wdb w') = None"
    using assms by (clarsimp simp: roomForCheckIn_def step_iffs throwS_iff split: if_splits option.splits)
  have "reservations (wdb w') = reservations (wdb w)" by (rule keeps_run [OF readiness_frame rd])
  moreover have "ro_id room = roomId" using find_SomeD [OF room] by simp
  ultimately show ?thesis using room_free_conflict [OF free] room by simp
qed

lemma checkedIn_sel [simp]: "stay_key (checkedIn E dto roomId e fee r) = stay_key r"
    "rv_roomId (checkedIn E dto roomId e fee r) = Some roomId" "rv_status (checkedIn E dto roomId e fee r) = RsCheckedIn"
    "rv_bookingId (checkedIn E dto roomId e fee r) = rv_bookingId r"
  by (simp_all add: checkedIn_def with_registration_def stay_key_def Let_def split: option.split)

lemma complete_frame [stay_frame]: "keeps reservations (completeCheckIn L E ids p r u room e fee)"
  unfolding completeCheckIn_def by (intro keeps_rules stay_frame)

text \<open>What a check-in that goes through has found and done.\<close>

lemma checkInTx_steps:
  assumes "checkInTx L E ids i p dto w = (Inr (r, updated, folio, room, isEarly), w')"
  shows "\<exists>c w1 w2 fee stored. sel1 (reservationRow i p) (reservations (wdb w)) = Some r \<and> rv_status r = RsAssigned
    \<and> roomForCheckIn E p r dto w = (Inr room, w1)
    \<and> sel1 (\<lambda>x. reservationRow i p x \<and> rv_status x = RsAssigned) (reservations (wdb w1)) = Some c
    \<and> updated = checkedIn E dto (ro_id room) isEarly stored c
    \<and> w2 = w1\<lparr>wdb := (wdb w1)\<lparr>reservations := upd (\<lambda>x. reservationRow i p x \<and> rv_status x = RsAssigned)
        (checkedIn E dto (ro_id room) isEarly stored) (reservations (wdb w1))\<rparr>\<rparr>
    \<and> completeCheckIn L E ids p r updated room isEarly fee w2 = (Inr folio, w')"
proof -
  have assigned: "a = RsAssigned" if "RsCheckedIn \<in> set (VALID_TRANSITIONS a)" for a using that by (cases a) auto
  show ?thesis using assms
    by (clarsimp simp: checkInTx_def step_iffs dest!: assigned) blast
qed

lemma checkInTx_changes:
  assumes "checkInTx L E ids i p dto w = (Inr (r, updated, folio, room, isEarly), w')"
  shows "stay_changes (wdb w) (wdb w')"
proof -
  obtain c w1 w2 fee stored where r: "sel1 (reservationRow i p) (reservations (wdb w)) = Some r"
    and room: "roomForCheckIn E p r dto w = (Inr room, w1)"
    and w2: "w2 = w1\<lparr>wdb := (wdb w1)\<lparr>reservations := upd (\<lambda>x. reservationRow i p x \<and> rv_status x = RsAssigned)
        (checkedIn E dto (ro_id room) isEarly stored) (reservations (wdb w1))\<rparr>\<rparr>"
    and rest: "completeCheckIn L E ids p r updated room isEarly fee w2 = (Inr folio, w')"
    using checkInTx_steps [OF assms] by blast
  have "moves_into (ro_id room) (\<lambda>x. reservationRow i p x \<and> rv_status x = RsAssigned) (checkedIn E dto (ro_id room) isEarly stored)"
    by (simp add: moves_into_def steps_eval)
  from into_changes [OF this _ r, of "wdb w2"] room_for_steps [OF room] w2 have "stay_changes (wdb w) (wdb w2)" by auto
  then show ?thesis using keeps_run [OF complete_frame rest] by simp
qed

lemma checkIn_changes:
  assumes "quiet E"
  shows "does stay_changes (checkIn L E ids i p dto)"
proof -
  have tx: "does stay_changes (transactionS (checkInTx L E ids i p dto))"
    by (rule changes.transaction) (metis checkInTx_changes prod_cases5)
  show ?thesis unfolding checkIn_def
    by (intro tx changes.rules changes_kept stay_frame assms)
qed

lemma checkOut_changes:
  assumes "quiet E"
  shows "does stay_changes (checkOut L E ids i p dto)"
  unfolding checkOut_def Let_def
  by (intro changes.rules claim_changes changes_kept stay_frame assms)
    (auto simp: steps_eval checkedOut_def stay_key_def Let_def split: option.splits)

lemma attempt_changes: "does stay_changes m \<Longrightarrow> does stay_changes (attempt m)"
  unfolding attempt_def by (intro changes.rules)

lemma groupOne_changes: "quiet E \<Longrightarrow> does stay_changes (groupCheckInOne L E ids p item)"
  unfolding groupCheckInOne_def Let_def
  by (intro assign_changes checkIn_changes changes.rules changes_kept stay_frame)

lemma group_changes: "quiet E \<Longrightarrow> does stay_changes (groupCheckIn L E idss p items)"
  unfolding groupCheckIn_def Let_def
  by (intro changes.rules attempt_changes groupOne_changes changes_kept stay_frame; assumption?)

lemma bulkOne_changes: "quiet E \<Longrightarrow> does stay_changes (bulkOne L E ids p action why i)"
  by (cases action) (auto intro!: changes.rules checkIn_changes checkOut_changes cancel_changes)

lemma bulk_changes: "quiet E \<Longrightarrow> does stay_changes (bulkAction L E idss p is action why)"
  unfolding bulkAction_def Let_def
  by (intro changes.rules attempt_changes bulkOne_changes; assumption?)

subsection \<open>Booking\<close>

lemma fk_frame [stay_frame]: "keeps reservations (assertSamePropertyFk table idOf own i p l)" "keeps reservations (lockInventory p t)"
  "keeps reservations (bookingFor n c dto opts)"
  unfolding assertSamePropertyFk_def lockInventory_def bookingFor_def Let_def by (intro keeps_rules; simp)+

lemma createTx_steps:
  assumes "createInTransaction L E ids number nights dto opts w = (Inr (r, b, f), w')"
  shows "\<exists>rows n amount. searchAvailability (cr_propertyId dto) (cr_arrivalDate dto) (cr_departureDate dto)
        (Some (cr_roomTypeId dto)) noOptions (wdb w) = Inr rows
      \<and> assertFullStayAvailability rows (cr_roomTypeId dto) (cr_arrivalDate dto) (cr_departureDate dto) = Inr ()
      \<and> nights = Some n \<and> r = newReservation (ids 1) (en_now E) (bk_id b) n amount dto opts
      \<and> reservations (wdb w') = reservations (wdb w) @ [r]"
proof -
  obtain rows w1 n amount w2 g where rows: "searchAvailability (cr_propertyId dto) (cr_arrivalDate dto) (cr_departureDate dto)
        (Some (cr_roomTypeId dto)) noOptions (wdb w) = Inr rows"
    and full: "assertFullStayAvailability rows (cr_roomTypeId dto) (cr_arrivalDate dto) (cr_departureDate dto) = Inr ()"
    and b: "bookingFor (ids 0) number dto opts w = (Inr b, w1)"
    and n: "nights = Some n" and r: "r = newReservation (ids 1) (en_now E) (bk_id b) n amount dto opts"
    and w2: "w2 = w1\<lparr>wdb := (wdb w1)\<lparr>reservations := reservations (wdb w1) @ [r],
      reservationGuests := reservationGuests (wdb w1) @ [g]\<rparr>\<rparr>"
    and f: "createAutoFolio (en_today E) (en_now E) (ids 3) True r w2 = (Inr f, w')"
    using assms
    by (clarsimp simp: createInTransaction_def insertReservation_def lockInventory_def step_iffs modifyS_iff)
  have "reservations (wdb w1) = reservations (wdb w)" by (rule keeps_run [OF fk_frame(3) b])
  moreover have "reservations (wdb w') = reservations (wdb w2)" by (rule keeps_run [OF create_frame(2) [OF blind_views(1)] f])
  ultimately show ?thesis using rows full n r w2 by auto
qed

text \<open>A booking that goes through passed every check on the tables it found, and appends one pending stay.\<close>

lemma create_steps:
  assumes "createReservation L E ids entropy False dto opts w = (Inr (r, b, f), w')"
  shows "\<exists>rows n amount. (\<forall>g. sel1 (\<lambda>g. gu_id g = cr_guestId dto) (guests (wdb w)) = Some g \<longrightarrow> \<not> gu_isDnr g)
      \<and> assertSellable None (cr_propertyId dto) (cr_ratePlanId dto) (cr_arrivalDate dto) (cr_departureDate dto) (wdb w) = Inr ()
      \<and> searchAvailability (cr_propertyId dto) (cr_arrivalDate dto) (cr_departureDate dto)
        (Some (cr_roomTypeId dto)) noOptions (wdb w) = Inr rows
      \<and> assertFullStayAvailability rows (cr_roomTypeId dto) (cr_arrivalDate dto) (cr_departureDate dto) = Inr ()
      \<and> nightsBetween (cr_arrivalDate dto) (cr_departureDate dto) = Some n \<and> 0 < n
      \<and> r = newReservation (ids 1) (en_now E) (bk_id b) n amount dto opts
      \<and> reservations (wdb w') = reservations (wdb w) @ [r]"
proof -
  obtain number w1 where "\<forall>g. sel1 (\<lambda>g. gu_id g = cr_guestId dto) (guests (wdb w)) = Some g \<longrightarrow> \<not> gu_isDnr g"
    and "case nightsBetween (cr_arrivalDate dto) (cr_departureDate dto) of None \<Rightarrow> True | Some n \<Rightarrow> 0 < n"
    and "assertSellable None (cr_propertyId dto) (cr_ratePlanId dto) (cr_arrivalDate dto) (cr_departureDate dto) (wdb w) = Inr ()"
    and run: "createInTransaction L E ids number (nightsBetween (cr_arrivalDate dto) (cr_departureDate dto)) dto opts w = (Inr (r, b, f), w1)"
    and "reservations (wdb w') = reservations (wdb w1)"
    using assms
    by (clarsimp simp: createReservation_def assertSamePropertyFk_def step_iffs transactionS_Inr_iff whenS_Inr_iff emit_iff
        split: option.splits)
  with createTx_steps [OF run] show ?thesis by auto
qed

lemma reads_fk [atomicity]: "reads (assertSamePropertyFk table idOf own i p l)"
  unfolding assertSamePropertyFk_def by (intro atomicity)

lemma reads_number: "reads (case c of None \<Rightarrow> liftS x | Some n \<Rightarrow> returnS n)"
  by (simp add: atomicity split: option.split)

lemma returns_when [atomicity]: "returns m \<Longrightarrow> returns (whenS b m)"
  by (simp add: whenS_def atomicity)

lemma create_atomic: "atomic_op (createReservation L E ids entropy False dto opts)"
  unfolding createReservation_def Let_def if_False
  by ((rule atomic_read, fastforce intro: atomicity reads_number)+) (intro atomic_last atomicity)

lemma create_changes:
  assumes "createReservation L E ids entropy False dto opts w = (x, w')" and "ids 1 \<notin> rv_id ` set (reservations (wdb w))"
  shows "stay_changes (wdb w) (wdb w')"
proof (cases x)
  case (Inr y)
  obtain r b f where "y = (r, b, f)" by (cases y)
  with create_steps [of L E ids entropy dto opts w r b f w'] Inr assms
  show ?thesis by (fastforce simp: newReservation_def intro: stay_change.booked)
next
  case (Inl e)
  with create_atomic assms(1) have "wdb w' = wdb w" unfolding atomic_op_def by blast
  then show ?thesis by simp
qed

subsection \<open>Changing a stay\<close>

lemma modified_sel [simp]: "rv_id (modified E dto n a r) = rv_id r" "rv_propertyId (modified E dto n a r) = rv_propertyId r"
    "rv_roomId (modified E dto n a r) = rv_roomId r" "rv_status (modified E dto n a r) = rv_status r"
  by (simp_all add: modified_def)

lemma recheck_frame [stay_frame]: "keeps reservations (recheckStay p r dto)"
  unfolding recheckStay_def Let_def by (intro keeps_rules stay_frame)

lemma modifyTx_steps:
  assumes "modifyInTransaction L E i p r nights dto w = (Inr u, w')"
  shows "\<exists>a c. sel1 (reservationRow i p) (reservations (wdb w)) = Some c \<and> u = modified E dto nights a c
    \<and> reservations (wdb w') = upd (reservationRow i p) (modified E dto nights a) (reservations (wdb w))"
proof -
  obtain c w1 a b where c: "sel1 (reservationRow i p) (reservations (wdb w)) = Some c"
    and pre: "whenS b (recheckStay p r dto) w = (Inr (), w1)" and u: "u = modified E dto nights a c"
    and w': "w' = w1\<lparr>wdb := (wdb w1)\<lparr>reservations := upd (reservationRow i p) (modified E dto nights a) (reservations (wdb w1))\<rparr>\<rparr>"
    using assms by (clarsimp simp: modifyInTransaction_def step_iffs split: option.splits if_splits)
  have "reservations (wdb w1) = reservations (wdb w)" by (rule keeps_run [OF held.guarded [OF recheck_frame] pre])
  with c u w' show ?thesis by auto
qed

text \<open>A change of one part of the database between steps that leave it alone.\<close>

lemma does_first: "keeps g m \<Longrightarrow> (\<And>a. does (\<lambda>x y. g y = g x \<or> Q (g x) (g y)) (k a)) \<Longrightarrow> does (\<lambda>x y. g y = g x \<or> Q (g x) (g y)) (bindS m k)"
  by (fastforce simp: does_def bindS_def split: prod.splits sum.splits)

lemma does_last: "does (\<lambda>x y. g y = g x \<or> Q (g x) (g y)) m \<Longrightarrow> (\<And>a. keeps g (k a)) \<Longrightarrow> does (\<lambda>x y. g y = g x \<or> Q (g x) (g y)) (bindS m k)"
  by (fastforce simp: does_def bindS_def split: prod.splits sum.splits)

lemma does_tx: "(\<And>w x w'. m w = (Inr x, w') \<Longrightarrow> Q (g (wdb w)) (g (wdb w'))) \<Longrightarrow> does (\<lambda>x y. g y = g x \<or> Q (g x) (g y)) (transactionS m)"
  by (fastforce simp: does_def transactionS_def split: prod.splits sum.splits)

text \<open>A modification rewrites the row or leaves everything as it was.\<close>

lemma modify_does: "does (\<lambda>x y. reservations y = reservations x
    \<or> (\<exists>n a. reservations y = upd (reservationRow i p) (modified E dto n a) (reservations x))) (modify L E i p dto)"
  unfolding modify_def
  by ((rule does_first, (intro keeps_rules stay_frame; fail))+, rule does_last, rule does_tx)
    (use modifyTx_steps in blast, intro keeps_rules)

lemma modify_steps:
  assumes "modify L E i p dto w = (x, w')"
  shows "reservations (wdb w') = reservations (wdb w)
    \<or> (\<exists>n a. reservations (wdb w') = upd (reservationRow i p) (modified E dto n a) (reservations (wdb w)))"
  using doesD [OF modify_does assms] .

lemma modify_changes:
  assumes "modify L E i p dto w = (x, w')"
    and "(\<forall>r\<in>set (reservations (wdb w)). reservationRow i p r \<longrightarrow> rv_roomId r = None)
      \<or> \<not> present (mo_arrivalDate dto) \<and> \<not> present (mo_departureDate dto)"
  shows "stay_changes (wdb w) (wdb w')"
proof -
  have "stay_change (reservations (wdb w)) (upd (reservationRow i p) (modified E dto n a) (reservations (wdb w)))" for n a
    using assms(2)
  proof
    assume "\<forall>r\<in>set (reservations (wdb w)). reservationRow i p r \<longrightarrow> rv_roomId r = None"
    then show ?thesis by (intro stay_change.redated) (auto simp: redates_def)
  next
    assume "\<not> present (mo_arrivalDate dto) \<and> \<not> present (mo_departureDate dto)"
    then show ?thesis by (intro stay_change.moved) (simp add: moves_status_def stay_key_def modified_def)
  qed
  with modify_steps [OF assms(1)] show ?thesis by (metis r_into_rtranclp rtranclp.rtrancl_refl)
qed

section \<open>No room is given to two stays\<close>

definition one_stay_per_room :: "reservation list \<Rightarrow> bool" where
  "one_stay_per_room rows \<longleftrightarrow> distinct (map rv_id rows) \<and> (\<forall>x\<in>set rows. \<forall>y\<in>set rows.
     rv_id x \<noteq> rv_id y \<and> same_room x y \<and> live x \<and> live y \<longrightarrow> \<not> overlaps x y)"

lemma live_step: "stay.step (rv_status r) (rv_status r') \<Longrightarrow> live r"
  by (cases "rv_status r") (auto simp: steps_eval live_def excludedStatuses_def)

lemma key_ids: "(\<And>r. q r \<Longrightarrow> rv_id (f r) = rv_id r) \<Longrightarrow> map rv_id (upd q f rows) = map rv_id rows"
  by (rule map_upd_same)

lemma overlaps_key: "stay_key x = stay_key x' \<Longrightarrow> stay_key y = stay_key y' \<Longrightarrow> overlaps x y = overlaps x' y'"
  by (simp add: stay_key_def overlaps_def)

lemma one_stay_upd:
  assumes rows: "one_stay_per_room rows" and id: "\<And>r. q r \<Longrightarrow> rv_id (f r) = rv_id r"
    and clash: "\<And>x y. x \<in> set rows \<Longrightarrow> y \<in> set rows \<Longrightarrow> q x \<Longrightarrow> rv_id x \<noteq> rv_id y \<Longrightarrow> \<not> q y
        \<Longrightarrow> same_room (f x) y \<Longrightarrow> live (f x) \<Longrightarrow> live y \<Longrightarrow> \<not> overlaps (f x) y"
    and both: "\<And>x y. x \<in> set rows \<Longrightarrow> y \<in> set rows \<Longrightarrow> q x \<Longrightarrow> q y \<Longrightarrow> rv_id x \<noteq> rv_id y
        \<Longrightarrow> same_room (f x) (f y) \<Longrightarrow> live (f x) \<Longrightarrow> live (f y) \<Longrightarrow> \<not> overlaps (f x) (f y)"
  shows "one_stay_per_room (upd q f rows)"
proof -
  have sym: "same_room a b = same_room b a" "overlaps a b = overlaps b a" for a b
    by (simp_all add: same_room_def overlaps_def conj_commute) metis+
  have "\<not> overlaps (if q x then f x else x) (if q y then f y else y)"
    if xy: "x \<in> set rows" "y \<in> set rows" and ids: "rv_id (if q x then f x else x) \<noteq> rv_id (if q y then f y else y)"
      and same: "same_room (if q x then f x else x) (if q y then f y else y)"
      and alive: "live (if q x then f x else x)" "live (if q y then f y else y)" for x y
  proof -
    have ne: "rv_id x \<noteq> rv_id y" using ids id by (simp split: if_splits)
    show ?thesis
    proof (cases "q x"; cases "q y")
      assume "q x" "q y" then show ?thesis using both [OF xy] ne same alive by simp
    next
      assume "q x" "\<not> q y" then show ?thesis using clash [OF xy] ne same alive by simp
    next
      assume "\<not> q x" "q y"
      then show ?thesis using clash [OF xy(2,1)] ne same alive sym by auto
    next
      assume "\<not> q x" "\<not> q y" then show ?thesis using rows xy ne same alive by (simp add: one_stay_per_room_def)
    qed
  qed
  moreover have "distinct (map rv_id (upd q f rows))"
    using rows key_ids [of q f rows] id by (simp add: one_stay_per_room_def)
  ultimately show ?thesis unfolding one_stay_per_room_def set_upd ball_simps(9) by blast
qed

lemma stay_change_invariant:
  assumes "stay_change rows rows'" and "one_stay_per_room rows"
  shows "one_stay_per_room rows'"
  using assms
proof cases
  case (booked r)
  with assms(2) show ?thesis by (auto simp: one_stay_per_room_def same_room_def)
next
  case (moved q f)
  have key: "stay_key (f x) = stay_key x \<and> rv_roomId (f x) = rv_roomId x" if "q x" for x
    using moved(2) that by (simp add: moves_status_def)
  have alive: "live x" if "q x" "live (f x)" for x
    using moved(2) that live_step [of x "f x"] by (auto simp: moves_status_def live_def)
  have same: "same_room (f x) y = same_room x y" "same_room y (f x) = same_room y x" "overlaps (f x) y = overlaps x y"
      "overlaps y (f x) = overlaps y x" if "q x" for x y
    using key [OF that] by (auto simp: same_room_def overlaps_def stay_key_def)
  show ?thesis unfolding moved(1)
  proof (rule one_stay_upd [OF assms(2)])
    show "rv_id (f r) = rv_id r" if "q r" for r using key [OF that] by (simp add: stay_key_def)
  qed (use assms(2) same alive in \<open>simp_all add: one_stay_per_room_def\<close>)
next
  case (housed roomId q f i p r)
  have key: "stay_key (f x) = stay_key x \<and> rv_roomId (f x) = Some roomId" if "q x" for x
    using housed(2) that by (simp add: moves_into_def)
  have row: "x = r" if "x \<in> set rows" "q x" for x
  proof -
    have "r \<in> set rows" "rv_id r = i" using find_SomeD [OF housed(4)] by auto
    then show ?thesis using that housed(3) [OF that(2)] assms(2) by (auto simp: one_stay_per_room_def distinct_map inj_on_def)
  qed
  show ?thesis unfolding housed(1)
  proof (rule one_stay_upd [OF assms(2)])
    show "rv_id (f x) = rv_id x" if "q x" for x using key [OF that] by (simp add: stay_key_def)
  next
    fix x y assume xy: "x \<in> set rows" "y \<in> set rows" "q x" "rv_id x \<noteq> rv_id y" "same_room (f x) y" "live y"
    then have "rv_propertyId y = p" "rv_roomId y = Some roomId"
      using key [OF xy(3)] housed(3) [OF xy(3)] by (auto simp: same_room_def stay_key_def)
    with xy row [OF xy(1,3)] housed(5) have "\<not> overlaps y x" by (auto simp: room_free_def)
    then show "\<not> overlaps (f x) y" using key [OF xy(3)] by (auto simp: overlaps_def stay_key_def)
  next
    fix x y assume "x \<in> set rows" "y \<in> set rows" "q x" "q y" "rv_id x \<noteq> rv_id y"
    then show "\<not> overlaps (f x) (f y)" using row by blast
  qed
next
  case (redated q f)
  show ?thesis unfolding redated(1)
    by (rule one_stay_upd [OF assms(2)]) (use redated(2,3) in \<open>auto simp: redates_def same_room_def\<close>)
qed (simp add: assms(2))

lemma stay_changes_invariant: "stay_change\<^sup>*\<^sup>* rows rows' \<Longrightarrow> one_stay_per_room rows \<Longrightarrow> one_stay_per_room rows'"
  by (induction rule: rtranclp_induct) (auto intro: stay_change_invariant)

section \<open>The service as a whole\<close>

text \<open>
  One step: an operation of the service with any result, thrown exceptions included, or anything
  else that does not write the reservations. The clock and the services may differ from step to
  step. A modification is a step when it keeps the dates or when the stay has no room yet.
\<close>

inductive stay_step :: "'d numlib \<Rightarrow> 'z folio_db_scheme world \<Rightarrow> 'z folio_db_scheme world \<Rightarrow> bool" for L :: "'d numlib" where
  create: "createReservation L (E :: ('z folio_db_scheme) stay_env) ids entropy False dto opts w = (x, w') \<Longrightarrow> ids 1 \<notin> rv_id ` set (reservations (wdb w))
    \<Longrightarrow> stay_step L w w'"
| confirm: "confirm (E :: ('z folio_db_scheme) stay_env) i p w = (y, w') \<Longrightarrow> stay_step L w w'"
| assign: "assignRoom (E :: ('z folio_db_scheme) stay_env) False i p roomId w = (y, w') \<Longrightarrow> stay_step L w w'"
| move: "moveRoom (E :: ('z folio_db_scheme) stay_env) i p mdto w = (y, w') \<Longrightarrow> stay_step L w w'"
| cancel: "quiet E \<Longrightarrow> cancel E i p cdto w = (z, w') \<Longrightarrow> stay_step L w w'"
| noShow: "markNoShow (E :: ('z folio_db_scheme) stay_env) i p w = (y, w') \<Longrightarrow> stay_step L w w'"
| preRegister: "preRegister (E :: ('z folio_db_scheme) stay_env) i p (rdto :: preRegisterDto) w = (y, w') \<Longrightarrow> stay_step L w w'"
| checkIn: "quiet E \<Longrightarrow> checkIn L E ids i p idto w = (c, w') \<Longrightarrow> stay_step L w w'"
| checkOut: "quiet E \<Longrightarrow> checkOut L E ids i p odto w = (d, w') \<Longrightarrow> stay_step L w w'"
| group: "quiet E \<Longrightarrow> groupCheckIn L E idss p items w = (g, w') \<Longrightarrow> stay_step L w w'"
| bulk: "quiet E \<Longrightarrow> bulkAction L E idss p is action why w = (g, w') \<Longrightarrow> stay_step L w w'"
| modify: "modify L (E :: ('z folio_db_scheme) stay_env) i p fdto w = (m, w') \<Longrightarrow> (\<forall>r\<in>set (reservations (wdb w)). reservationRow i p r \<longrightarrow> rv_roomId r = None)
      \<or> \<not> present (mo_arrivalDate fdto) \<and> \<not> present (mo_departureDate fdto) \<Longrightarrow> stay_step L w w'"
| elsewhere: "reservations (wdb w') = reservations (wdb w) \<Longrightarrow> stay_step L w w'"

lemma stay_step_changes: "stay_step L w w' \<Longrightarrow> stay_changes (wdb w) (wdb w')"
proof (induction rule: stay_step.induct)
  case (elsewhere w' w)
  then show ?case by simp
qed (auto elim: create_changes modify_changes doesD [OF confirm_changes] doesD [OF assign_changes] doesD [OF move_changes]
    doesD [OF cancel_changes] doesD [OF noShow_changes] doesD [OF preRegister_changes] doesD [OF checkIn_changes]
    doesD [OF checkOut_changes] doesD [OF group_changes] doesD [OF bulk_changes])

lemma stay_steps_changes: "(stay_step L)\<^sup>*\<^sup>* w w' \<Longrightarrow> stay_changes (wdb w) (wdb w')"
  by (induction rule: rtranclp_induct) (auto dest: stay_step_changes intro: rtranclp_trans)

end
