(* ===== verification/StripeState.thy ===== *)
theory StripeState
  imports Numerics
begin

text \<open>
  The provider-event policy of \<open>packages/shared/src/stripe-financial-state.ts\<close> and the
  refund arithmetic of \<open>packages/shared/src/payment-ledger.ts\<close>: who owns a PaymentIntent
  (its metadata), what a PaymentIntent or refund webhook does to the ledger status of a
  payment or of a refund claim, and what remains of a captured amount after its refunds.
  Webhooks arrive late, twice and out of order; shown is that the ledger status is
  determined by the first event that counts and never moves again.
\<close>

section \<open>Ownership of metadata\<close>

text \<open>
  A metadata object is the list of its entries; a missing object (\<open>null\<close> or \<open>undefined\<close>)
  is \<open>None\<close>. Reading a key is \<open>map_of\<close>.
\<close>

type_synonym metadata = "(string \<times> string) list option"

datatype HaipMetadataOwnership = External | OwnedValid | OwnedMalformed

datatype 'c HaipMetadataClassification =
    ClassExternal
  | ClassOwnedValid 'c
  | ClassOwnedMalformed exn

definition startsWith :: "string \<Rightarrow> string \<Rightarrow> bool" where
  "startsWith s pre \<longleftrightarrow> take (length pre) s = pre"

definition entries :: "metadata \<Rightarrow> (string \<times> string) list" where
  "entries md = nvl md []"

definition hasHaipFinancialMetadata :: "metadata \<Rightarrow> bool" where
  "hasHaipFinancialMetadata md \<longleftrightarrow> list_ex (\<lambda>(k, _). startsWith k ''haip_'') (entries md)"

definition classifyHaipOwnership :: "metadata \<Rightarrow> HaipMetadataOwnership" where
  "classifyHaipOwnership md =
     (if \<not> hasHaipFinancialMetadata md then External
      else if list_ex (\<lambda>(k, v). startsWith k ''haip_'' \<and> v = []) (entries md) then OwnedMalformed
      else OwnedValid)"

definition classifyHaipMetadata :: "(metadata \<Rightarrow> 'c result) \<Rightarrow> metadata
    \<Rightarrow> 'c HaipMetadataClassification" where
  "classifyHaipMetadata parseCorrelation md =
     (if \<not> hasHaipFinancialMetadata md then ClassExternal
      else case parseCorrelation md of
             Inr c \<Rightarrow> ClassOwnedValid c
           | Inl e \<Rightarrow> ClassOwnedMalformed e)"

text \<open>\<open>metadata?.[key]\<close>\<close>

definition metaKey :: "metadata \<Rightarrow> string \<Rightarrow> string option" where
  "metaKey md k = map_of (entries md) k"

text \<open>The pattern \<open>/^[0-9a-f]{8}-[0-9a-f]{4}-...-[0-9a-f]{12}$/i\<close>.\<close>

definition hex_char :: "char \<Rightarrow> bool" where
  "hex_char c \<longleftrightarrow> c \<in> set ''0123456789abcdefABCDEF''"

definition uuid_pattern :: "string \<Rightarrow> bool" where
  "uuid_pattern s \<longleftrightarrow> length s = 36 \<and>
     list_all (\<lambda>i. if i \<in> {8, 13, 18, 23} then s ! i = CHR ''-'' else hex_char (s ! i)) [0..<36]"

record PaymentIntentCorrelation =
  pic_paymentId :: string
  pic_propertyId :: string
  pic_bookingRequestId :: string

definition paymentIntentCorrelation :: "metadata \<Rightarrow> PaymentIntentCorrelation result" where
  "paymentIntentCorrelation md =
     (case (metaKey md ''haip_payment_id'', metaKey md ''haip_property_id'',
            metaKey md ''haip_booking_request_id'') of
        (Some a, Some b, Some c) \<Rightarrow>
          if a \<noteq> [] \<and> b \<noteq> [] \<and> c \<noteq> [] \<and> uuid_pattern a \<and> uuid_pattern b \<and> uuid_pattern c
          then Inr \<lparr>pic_paymentId = a, pic_propertyId = b, pic_bookingRequestId = c\<rparr>
          else Inl (BadRequestException
            ''Stripe PaymentIntent is missing exact HAIP correlation metadata'')
      | _ \<Rightarrow> Inl (BadRequestException
            ''Stripe PaymentIntent is missing exact HAIP correlation metadata''))"

record RefundCorrelation =
  rfc_claimId :: string
  rfc_propertyId :: string
  rfc_bookingRequestId :: string
  rfc_paymentId :: string

definition refundCorrelation :: "metadata \<Rightarrow> RefundCorrelation result" where
  "refundCorrelation md =
     (case (metaKey md ''haip_claim_id'', metaKey md ''haip_property_id'',
            metaKey md ''haip_booking_request_id'', metaKey md ''haip_payment_id'') of
        (Some a, Some b, Some c, Some d) \<Rightarrow>
          if a \<noteq> [] \<and> b \<noteq> [] \<and> c \<noteq> [] \<and> d \<noteq> []
          then Inr \<lparr>rfc_claimId = a, rfc_propertyId = b, rfc_bookingRequestId = c,
                    rfc_paymentId = d\<rparr>
          else Inl (BadRequestException
            ''Stripe refund is missing exact HAIP correlation metadata'')
      | _ \<Rightarrow> Inl (BadRequestException
            ''Stripe refund is missing exact HAIP correlation metadata''))"

section \<open>PaymentIntent webhooks\<close>

datatype PaymentIntentEvent =
  EProcessing | ESucceeded | EPaymentFailed | ECanceled | ERequiresAction

datatype PaymentIntentLedgerStatus =
  LPending | LAuthorized | LCaptured | LFailed | LVoided | LSettled | LPartiallyRefunded

datatype RequestStatus = RPending | RAccepted | RDenied

datatype decisionAction = ATransition | ARepair | AUnexpected | ARecordPending

record PaymentDecision =
  pd_action :: decisionAction
  pd_status :: PaymentIntentLedgerStatus

fun targetStatus :: "PaymentIntentEvent \<Rightarrow> PaymentIntentLedgerStatus" where
  "targetStatus ESucceeded = LCaptured"
| "targetStatus EPaymentFailed = LFailed"
| "targetStatus ECanceled = LVoided"
| "targetStatus ERequiresAction = LFailed"
| "targetStatus EProcessing = LPending"

text \<open>
  The table of the source has no entry for \<open>processing\<close>: the function below returns before
  it would be read.
\<close>

definition decidePaymentIntentTransition :: "PaymentIntentLedgerStatus \<Rightarrow> PaymentIntentEvent
    \<Rightarrow> RequestStatus option \<Rightarrow> PaymentDecision result" where
  "decidePaymentIntentTransition current event requestStatus =
     (if event = EProcessing then
        (if current = LPending then Inr \<lparr>pd_action = ARepair, pd_status = current\<rparr>
         else Inr \<lparr>pd_action = AUnexpected, pd_status = current\<rparr>)
      else let target = targetStatus event in
        if event = ESucceeded \<and> requestStatus = Some RDenied \<and> current \<noteq> LCaptured then
          Inl (ConflictException
            ''A captured provider payment cannot finalize after the booking request was denied'')
        else if current = target then Inr \<lparr>pd_action = ARepair, pd_status = current\<rparr>
        else if current = LPending \<or> (current = LAuthorized \<and> event = ESucceeded) then
          Inr \<lparr>pd_action = ATransition, pd_status = target\<rparr>
        else Inr \<lparr>pd_action = AUnexpected, pd_status = current\<rparr>)"

section \<open>Refund webhooks\<close>

datatype RefundProviderStatus = PSucceeded | PPending | PRequiresAction | PFailed | PCanceled

datatype refundClaimStatus = CPending | CCompleted | CFailed

record RefundDecision =
  rd_action :: decisionAction
  rd_status :: refundClaimStatus

definition refundTarget :: "RefundProviderStatus \<Rightarrow> refundClaimStatus" where
  "refundTarget p = (if p = PSucceeded then CCompleted
     else if p = PFailed \<or> p = PCanceled then CFailed else CPending)"

definition decideRefundTransition :: "refundClaimStatus \<Rightarrow> RefundProviderStatus
    \<Rightarrow> RefundDecision" where
  "decideRefundTransition current providerStatus =
     (let target = refundTarget providerStatus in
      if current = target then
        \<lparr>rd_action = (if current = CPending then ARecordPending else ARepair),
         rd_status = current\<rparr>
      else if current = CPending then \<lparr>rd_action = ATransition, rd_status = target\<rparr>
      else \<lparr>rd_action = AUnexpected, rd_status = current\<rparr>)"

section \<open>The ledger under a sequence of webhooks\<close>

text \<open>
  The handlers write the decided status when the action is a transition and keep the row
  otherwise; an exception leaves the row alone.
\<close>

definition ledgerAfter :: "PaymentIntentLedgerStatus \<Rightarrow> PaymentIntentEvent \<Rightarrow> RequestStatus option
    \<Rightarrow> PaymentIntentLedgerStatus" where
  "ledgerAfter current event rs = (case decidePaymentIntentTransition current event rs of
     Inr d \<Rightarrow> if pd_action d = ATransition then pd_status d else current
   | Inl _ \<Rightarrow> current)"

fun ledgerRun :: "PaymentIntentLedgerStatus \<Rightarrow> (PaymentIntentEvent \<times> RequestStatus option) list
    \<Rightarrow> PaymentIntentLedgerStatus" where
  "ledgerRun s [] = s"
| "ledgerRun s ((e, rs) # es) = ledgerRun (ledgerAfter s e rs) es"

text \<open>An event counts unless it is \<open>processing\<close> or a capture of a denied request.\<close>

definition counts :: "PaymentIntentEvent \<times> RequestStatus option \<Rightarrow> bool" where
  "counts x \<longleftrightarrow> fst x \<noteq> EProcessing \<and> \<not> (fst x = ESucceeded \<and> snd x = Some RDenied)"

definition claimAfter :: "refundClaimStatus \<Rightarrow> RefundProviderStatus \<Rightarrow> refundClaimStatus" where
  "claimAfter c p = (let d = decideRefundTransition c p in
     if rd_action d = ATransition then rd_status d else c)"

fun claimRun :: "refundClaimStatus \<Rightarrow> RefundProviderStatus list \<Rightarrow> refundClaimStatus" where
  "claimRun c [] = c"
| "claimRun c (p # ps) = claimRun (claimAfter c p) ps"

section \<open>What remains of a capture\<close>

definition sumRefundChildren :: "'d numlib \<Rightarrow> string list \<Rightarrow> 'd result" where
  "sumRefundChildren L amounts =
     foldl (\<lambda>acc a. case acc of Inl e \<Rightarrow> Inl e
              | Inr acc' \<Rightarrow> (case newDecimal L a of Inl e \<Rightarrow> Inl e
                  | Inr d \<Rightarrow> Inr (dec_plus L acc' (dec_abs L d))))
       (Inr (dec_int L 0)) amounts"

definition remainingCapturedAmount :: "'d numlib \<Rightarrow> string \<Rightarrow> string list \<Rightarrow> 'd result" where
  "remainingCapturedAmount L captured childAmounts =
     (case newDecimal L captured of Inl e \<Rightarrow> Inl e
      | Inr c \<Rightarrow> (case sumRefundChildren L childAmounts of Inl e \<Rightarrow> Inl e
          | Inr s \<Rightarrow> Inr (dec_minus L c s)))"

section \<open>Lemmas\<close>

text \<open>The statuses from which a payment may still move, ranked by how often.\<close>

fun ledgerNext :: "PaymentIntentLedgerStatus \<Rightarrow> PaymentIntentLedgerStatus list" where
  "ledgerNext LPending = [LCaptured, LFailed, LVoided]"
| "ledgerNext LAuthorized = [LCaptured]"
| "ledgerNext _ = []"

interpretation ledger: ranked_status_machine ledgerNext
  "\<lambda>s. if s = LPending \<or> s = LAuthorized then 1 else 0"
proof
  show "(if b = LPending \<or> b = LAuthorized then 1 else 0)
      < (if a = LPending \<or> a = LAuthorized then 1 else 0 :: nat)"
    if "b \<in> set (ledgerNext a)" for a b
    using that by (cases a) auto
qed

lemma ledgerAfter_step: "ledgerAfter s e rs = s \<or> ledger.step s (ledgerAfter s e rs)"
  by (cases s; cases e)
     (auto simp: ledgerAfter_def decidePaymentIntentTransition_def ledger.step_def Let_def)

lemma ledgerAfter_terminal: "ledger.terminal s \<Longrightarrow> ledgerAfter s e rs = s"
  using ledgerAfter_step ledger.terminal_no_step by blast

lemma ledgerRun_terminal: "ledger.terminal s \<Longrightarrow> ledgerRun s es = s"
  by (induction s es rule: ledgerRun.induct) (simp_all add: ledgerAfter_terminal)

lemma ledgerAfter_pending:
  "ledgerAfter LPending e rs = (if counts (e, rs) then targetStatus e else LPending)"
  by (cases e) (auto simp: ledgerAfter_def decidePaymentIntentTransition_def counts_def Let_def)

lemma target_terminal: "e \<noteq> EProcessing \<Longrightarrow> ledger.terminal (targetStatus e)"
  by (cases e) (auto simp: ledger.terminal_def)

lemma ledgerRun_pending:
  "ledgerRun LPending es = (case List.find counts es of None \<Rightarrow> LPending
     | Some (e, _) \<Rightarrow> targetStatus e)"
proof (induction es)
  case Nil
  then show ?case by simp
next
  case (Cons x es)
  obtain e rs where x: "x = (e, rs)" by force
  show ?case
  proof (cases "counts (e, rs)")
    case True
    then have "ledger.terminal (targetStatus e)" by (intro target_terminal) (simp add: counts_def)
    with True x show ?thesis by (simp add: ledgerAfter_pending ledgerRun_terminal)
  next
    case False
    with Cons x show ?thesis by (simp add: ledgerAfter_pending)
  qed
qed

lemma claimRun_final: "c \<noteq> CPending \<Longrightarrow> claimRun c ps = c"
  by (induction ps) (simp_all add: claimAfter_def decideRefundTransition_def Let_def)

lemma claimAfter_pending: "claimAfter CPending p = refundTarget p"
  by (simp add: claimAfter_def decideRefundTransition_def Let_def)

lemma hasHaip_metaKey:
  "metaKey md k = Some v \<Longrightarrow> startsWith k ''haip_'' \<Longrightarrow> hasHaipFinancialMetadata md"
  by (auto simp: metaKey_def hasHaipFinancialMetadata_def list_ex_iff dest!: map_of_SomeD)

lemma uuid_pattern_nonempty: "\<not> uuid_pattern []"
  by (simp add: uuid_pattern_def)

context numerics
begin

lemma sumRefundChildren_from:
  assumes "\<forall>a\<in>set as. money_text a" and "dval d = Some x" and "scaled 2 x"
    and "\<bar>x\<bar> + of_nat (length as) * 10 ^ 10 < 10 ^ 18"
  shows "\<exists>r. foldl (\<lambda>acc a. case acc of Inl e \<Rightarrow> Inl e
              | Inr acc' \<Rightarrow> (case newDecimal L a of Inl e \<Rightarrow> Inl e
                  | Inr d \<Rightarrow> Inr (dec_plus L acc' (dec_abs L d)))) (Inr d) as = Inr r
      \<and> dval r = Some (x + sum_list (map (\<lambda>a. \<bar>text_val a\<bar>) as))"
  using assms
proof (induction as arbitrary: d x)
  case Nil
  then show ?case by simp
next
  case (Cons a as)
  from Cons.prems(1) have m: "money_text a" by simp
  obtain y where y: "newDecimal L a = Inr y" "dval y = Some (text_val a)"
    using newDecimal_text [OF money_textD(1) [OF m]] by blast
  have s: "scaled 2 \<bar>text_val a\<bar>"
    using money_textD(2) [OF m] by (auto simp: abs_if intro: scaled_minus)
  have b: "\<bar>text_val a\<bar> < 10 ^ 10" by (rule money_textD(3) [OF m])
  have len: "of_nat (length (a # as)) * (10::rat) ^ 10 = 10 ^ 10 + of_nat (length as) * 10 ^ 10"
    by (simp add: algebra_simps)
  have sm: "\<bar>x + \<bar>text_val a\<bar>\<bar> + of_nat (length as) * 10 ^ 10 < 10 ^ 18"
    using Cons.prems(4) b abs_triangle_ineq [of x "\<bar>text_val a\<bar>"] unfolding len by linarith
  have "0 \<le> of_nat (length as) * (10::rat) ^ 10" by simp
  then have "\<bar>x\<bar> + \<bar>\<bar>text_val a\<bar>\<bar> < 10 ^ 18"
    using Cons.prems(4) b unfolding len by simp
  then have p: "dval (dec_plus L d (dec_abs L y)) = Some (x + \<bar>text_val a\<bar>)"
    using plus_cents [OF Cons.prems(2) abs_val [OF y(2)] Cons.prems(3) s] by blast
  show ?case
    using Cons.IH [OF _ p scaled_add [OF Cons.prems(3) s] sm] Cons.prems(1) y(1)
    by (simp add: add.assoc)
qed

lemma sumRefundChildren_val:
  assumes "\<forall>a\<in>set as. money_text a" and "length as < 10 ^ 7"
  shows "\<exists>r. sumRefundChildren L as = Inr r
      \<and> dval r = Some (sum_list (map (\<lambda>a. \<bar>text_val a\<bar>) as))"
proof -
  have "of_nat (length as) * (10::rat) ^ 10 < 10 ^ 7 * 10 ^ 10"
    using assms(2) by (intro mult_strict_right_mono) (simp_all flip: of_nat_less_iff)
  then have "\<bar>0::rat\<bar> + of_nat (length as) * 10 ^ 10 < 10 ^ 18" by simp
  from sumRefundChildren_from [OF assms(1) _ _ this, of "dec_int L 0"] show ?thesis
    using int_val [of 0] by (simp add: sumRefundChildren_def)
qed

lemma remaining_val:
  assumes "money_text captured" and "\<forall>a\<in>set as. money_text a" and "length as < 10 ^ 7"
  shows "\<exists>r. remainingCapturedAmount L captured as = Inr r
      \<and> dval r = Some (text_val captured - sum_list (map (\<lambda>a. \<bar>text_val a\<bar>) as))"
proof -
  obtain c where c: "newDecimal L captured = Inr c" "dval c = Some (text_val captured)"
    using newDecimal_text [OF money_textD(1) [OF assms(1)]] by blast
  obtain s where s: "sumRefundChildren L as = Inr s"
      "dval s = Some (sum_list (map (\<lambda>a. \<bar>text_val a\<bar>) as))"
    using sumRefundChildren_val [OF assms(2,3)] by blast
  let ?s = "sum_list (map (\<lambda>a. \<bar>text_val a\<bar>) as)"
  have sc: "scaled 2 ?s"
    using assms(2) by (intro scaled_sum_list) (auto simp: abs_if dest: money_textD intro: scaled_minus)
  have "\<bar>?s\<bar> \<le> of_nat (length (map (\<lambda>a. \<bar>text_val a\<bar>) as)) * 10 ^ 10"
    using assms(2) by (intro abs_sum_list_bound) (auto dest!: money_textD(3))
  also have "\<dots> \<le> 10 ^ 7 * (10::rat) ^ 10"
    using assms(3) by (intro mult_right_mono) (simp_all flip: of_nat_less_iff)
  finally have "\<bar>text_val captured\<bar> + \<bar>?s\<bar> < 10 ^ 18"
    using money_textD(3) [OF assms(1)] by simp
  then have "dval (dec_minus L c s) = Some (text_val captured - ?s)"
    using minus_cents [OF c(2) s(2) money_textD(2) [OF assms(1)] sc] by blast
  then show ?thesis by (simp add: remainingCapturedAmount_def c(1) s(1))
qed

end

section \<open>Properties\<close>

text \<open>
  Whatever webhooks arrive for a pending payment, however often and in whatever order,
  its final ledger status is the target of the first event that counts; \<open>processing\<close> events
  and captures after the request was denied change nothing, and without an event that
  counts the payment stays pending.
\<close>

theorem ledgerRun_first_event_wins:
  "ledgerRun LPending es = (case List.find counts es of None \<Rightarrow> LPending
     | Some (e, _) \<Rightarrow> targetStatus e)"
  by (rule ledgerRun_pending)

text \<open>
  A ledger status other than \<open>pending\<close> and \<open>authorized\<close> is final: no sequence of webhooks
  changes it, and a status is left at most once in the whole history of a payment, along
  \<open>pending \<rightarrow> captured | failed | voided\<close> or \<open>authorized \<rightarrow> captured\<close>.
\<close>

theorem ledger_monotonic:
  "(s \<notin> {LPending, LAuthorized} \<longrightarrow> ledgerRun s es = s)
   \<and> (ledgerRun s es = s \<or> ledgerRun s es \<in> set (ledgerNext s))"
proof -
  have t: "ledger.terminal x" if "x \<notin> {LPending, LAuthorized}" for x
    using that by (cases x) (auto simp: ledger.terminal_def)
  have "ledgerRun s es = s \<or> ledgerRun s es \<in> set (ledgerNext s)"
  proof (induction es arbitrary: s)
    case Nil
    then show ?case by simp
  next
    case (Cons x es)
    obtain e rs where x: "x = (e, rs)" by force
    consider "ledgerAfter s e rs = s" | "ledger.step s (ledgerAfter s e rs)"
      using ledgerAfter_step by blast
    then show ?case
    proof cases
      case 1
      with Cons [of s] x show ?thesis by simp
    next
      case 2
      then have "ledger.terminal (ledgerAfter s e rs)"
        by (intro t) (cases s, auto simp: ledger.step_def)
      with 2 x show ?thesis by (simp add: ledgerRun_terminal ledger.step_def)
    qed
  qed
  with t show ?thesis by (simp add: ledgerRun_terminal)
qed

theorem ledger_monotonic_witness:
  "ledgerRun LCaptured [(EPaymentFailed, None), (ECanceled, Some RAccepted)] = LCaptured"
  using ledger_monotonic [of LCaptured "[(EPaymentFailed, None), (ECanceled, Some RAccepted)]"]
  by simp

text \<open>
  A refund claim is settled by the first final report of the provider (succeeded, failed
  or canceled); reports before it leave it pending, reports after it change nothing.
\<close>

theorem claimRun_first_final_report:
  "claimRun CPending ps = (case List.find (\<lambda>p. refundTarget p \<noteq> CPending) ps of
      None \<Rightarrow> CPending | Some p \<Rightarrow> refundTarget p)"
  by (induction ps) (auto simp: claimAfter_pending claimRun_final)

text \<open>
  Classification of a PaymentIntent by its metadata: it is owned and valid with a given
  correlation exactly when the three \<open>haip_\<close> keys carry these identifiers and all three are
  UUIDs; metadata without any \<open>haip_\<close> key is external, and everything else is malformed,
  never silently taken for external.
\<close>

theorem classify_payment_intent:
  "(classifyHaipMetadata paymentIntentCorrelation md = ClassOwnedValid c \<longleftrightarrow>
      metaKey md ''haip_payment_id'' = Some (pic_paymentId c)
      \<and> metaKey md ''haip_property_id'' = Some (pic_propertyId c)
      \<and> metaKey md ''haip_booking_request_id'' = Some (pic_bookingRequestId c)
      \<and> list_all uuid_pattern [pic_paymentId c, pic_propertyId c, pic_bookingRequestId c])
   \<and> (classifyHaipMetadata paymentIntentCorrelation md = ClassExternal \<longleftrightarrow>
      (\<forall>kv\<in>set (entries md). \<not> startsWith (fst kv) ''haip_''))"
proof
  have h: "hasHaipFinancialMetadata md" if "metaKey md ''haip_payment_id'' = Some v" for v
    using hasHaip_metaKey [OF that] by (simp add: startsWith_def)
  show "classifyHaipMetadata paymentIntentCorrelation md = ClassOwnedValid c \<longleftrightarrow>
      metaKey md ''haip_payment_id'' = Some (pic_paymentId c)
      \<and> metaKey md ''haip_property_id'' = Some (pic_propertyId c)
      \<and> metaKey md ''haip_booking_request_id'' = Some (pic_bookingRequestId c)
      \<and> list_all uuid_pattern [pic_paymentId c, pic_propertyId c, pic_bookingRequestId c]"
    by (cases c) (auto simp: classifyHaipMetadata_def paymentIntentCorrelation_def
        uuid_pattern_nonempty dest: h split: option.splits if_splits)
  show "classifyHaipMetadata paymentIntentCorrelation md = ClassExternal \<longleftrightarrow>
      (\<forall>kv\<in>set (entries md). \<not> startsWith (fst kv) ''haip_'')"
    by (auto simp: classifyHaipMetadata_def hasHaipFinancialMetadata_def list_ex_iff
        case_prod_unfold split: sum.splits)
qed

text \<open>A booking-request intent with its three identifiers.\<close>

definition demo_meta :: metadata where
  "demo_meta = Some [(''haip_payment_id'', ''00000000-0000-4000-8000-00000000000a''),
     (''haip_property_id'', ''00000000-0000-4000-8000-00000000000b''),
     (''haip_booking_request_id'', ''00000000-0000-4000-8000-00000000000C'')]"

theorem classify_payment_intent_witness:
  "classifyHaipMetadata paymentIntentCorrelation demo_meta = ClassOwnedValid
     \<lparr>pic_paymentId = ''00000000-0000-4000-8000-00000000000a'',
      pic_propertyId = ''00000000-0000-4000-8000-00000000000b'',
      pic_bookingRequestId = ''00000000-0000-4000-8000-00000000000C''\<rparr>"
proof -
  have "list_all uuid_pattern [''00000000-0000-4000-8000-00000000000a'',
      ''00000000-0000-4000-8000-00000000000b'', ''00000000-0000-4000-8000-00000000000C'']"
    by code_simp
  moreover have "metaKey demo_meta ''haip_payment_id'' = Some ''00000000-0000-4000-8000-00000000000a''"
    "metaKey demo_meta ''haip_property_id'' = Some ''00000000-0000-4000-8000-00000000000b''"
    "metaKey demo_meta ''haip_booking_request_id'' = Some ''00000000-0000-4000-8000-00000000000C''"
    by code_simp+
  ultimately show ?thesis using classify_payment_intent [of demo_meta] by simp
qed

text \<open>
  What remains of a captured amount is exactly the capture minus the absolute values of
  its refund and correction rows, computed without error for any stored amounts.
\<close>

theorem remainingCapturedAmount_exact:
  assumes "numerics L dval" and "money_text captured" and "\<forall>a\<in>set as. money_text a"
    and "length as < 10 ^ 7"
  shows "\<exists>r. remainingCapturedAmount L captured as = Inr r
      \<and> dval r = Some (text_val captured - sum_list (map (\<lambda>a. \<bar>text_val a\<bar>) as))"
  by (rule numerics.remaining_val [OF assms])

theorem remainingCapturedAmount_exact_witness:
  "\<exists>r. remainingCapturedAmount ref_numlib ''100.00'' [''-30.00'', ''-20.50''] = Inr r
      \<and> Some r = Some (99 / 2)"
proof -
  have "money_text ''100.00''" "\<forall>a\<in>set [''-30.00'', ''-20.50'']. money_text a"
    "text_val ''100.00'' - sum_list (map (\<lambda>a. \<bar>text_val a\<bar>) [''-30.00'', ''-20.50'']) = 99 / 2"
    by code_simp+
  then show ?thesis
    using remainingCapturedAmount_exact [OF ref.numerics_axioms, of "''100.00''" "[''-30.00'', ''-20.50'']"]
    by simp
qed

end
