(* ===== verification/Payment.thy ===== *)
theory Payment
  imports Reservation StripeState
begin

text \<open>
  Payments: \<open>PaymentService\<close> of \<open>apps/api/src/modules/payment/payment.service.ts\<close> over the payments
  of the guest ledger, and the handlers of \<open>stripe-webhook.controller.ts\<close> that change them from
  outside. A refund or a correction is a negative child of the payment; the folio is
  recalculated after each change. The payment processor is the record \<open>gateway\<close>: its calls leave the
  process, so each of them is an operation that returns or throws and during which the tables
  may change. The handler of Booking Request payments is a parameter too.
\<close>

section \<open>Data\<close>

record gatewayResult =
  gr_success :: bool
  gr_transactionId :: string
  gr_errorMessage :: "string option"

text \<open>
  Token or transaction, the amount, then the options: the idempotency key and the currency.
\<close>

record ('d, 'db) gateway =
  gw_authorize :: "string \<Rightarrow> 'd \<Rightarrow> string \<Rightarrow> ('db, gatewayResult) op"
  gw_capture :: "string option \<Rightarrow> 'd \<Rightarrow> string \<Rightarrow> string \<Rightarrow> ('db, gatewayResult) op"
  gw_void :: "string option \<Rightarrow> string \<Rightarrow> ('db, gatewayResult) op"
  gw_refund :: "string \<Rightarrow> 'd \<Rightarrow> string \<Rightarrow> string \<Rightarrow> ('db, gatewayResult) op"

record createPaymentDto =
  cp_folioId :: uuid
  cp_propertyId :: uuid
  cp_method :: paymentMethod
  cp_amount :: string
  cp_currencyCode :: string
  cp_gatewayProvider :: "string option"
  cp_gatewayPaymentToken :: "string option"
  cp_gatewayTransactionId :: "string option"
  cp_cardLastFour :: "string option"
  cp_cardBrand :: "string option"
  cp_notes :: "string option"
  cp_processedAt :: "string option"

record safePayment =
  sp_id :: uuid
  sp_propertyId :: uuid
  sp_folioId :: "uuid option"
  sp_houseAccountId :: "uuid option"
  sp_bookingRequestId :: "uuid option"
  sp_method :: paymentMethod
  sp_status :: paymentStatus
  sp_amount :: string
  sp_currencyCode :: string
  sp_gatewayProvider :: "string option"
  sp_cardLastFour :: "string option"
  sp_cardBrand :: "string option"
  sp_isPreAuthorization :: bool
  sp_preAuthExpiresAt :: "millis option"
  sp_originalPaymentId :: "uuid option"
  sp_notes :: "string option"
  sp_processedAt :: "millis option"
  sp_createdAt :: millis
  sp_updatedAt :: millis

definition safePaymentResponse :: "payment \<Rightarrow> safePayment" where
  "safePaymentResponse y = \<lparr>sp_id = py_id y, sp_propertyId = py_propertyId y, sp_folioId = py_folioId y,
     sp_houseAccountId = py_houseAccountId y, sp_bookingRequestId = py_bookingRequestId y, sp_method = py_method y,
     sp_status = py_status y, sp_amount = py_amount y, sp_currencyCode = py_currencyCode y,
     sp_gatewayProvider = py_gatewayProvider y, sp_cardLastFour = py_cardLastFour y, sp_cardBrand = py_cardBrand y,
     sp_isPreAuthorization = py_isPreAuthorization y, sp_preAuthExpiresAt = py_preAuthExpiresAt y,
     sp_originalPaymentId = py_originalPaymentId y, sp_notes = py_notes y, sp_processedAt = py_processedAt y,
     sp_createdAt = py_createdAt y, sp_updatedAt = py_updatedAt y\<rparr>"

fun paymentStatusName :: "paymentStatus \<Rightarrow> string" where
  "paymentStatusName PsPending = ''pending''"
| "paymentStatusName PsAuthorized = ''authorized''"
| "paymentStatusName PsCaptured = ''captured''"
| "paymentStatusName PsSettled = ''settled''"
| "paymentStatusName PsRefunded = ''refunded''"
| "paymentStatusName PsPartiallyRefunded = ''partially_refunded''"
| "paymentStatusName PsFailed = ''failed''"
| "paymentStatusName PsVoided = ''voided''"

fun paymentMethodName :: "paymentMethod \<Rightarrow> string" where
  "paymentMethodName PmCreditCard = ''credit_card''"
| "paymentMethodName PmDebitCard = ''debit_card''"
| "paymentMethodName PmCash = ''cash''"
| "paymentMethodName PmBankTransfer = ''bank_transfer''"
| "paymentMethodName PmPix = ''pix''"
| "paymentMethodName PmCityLedger = ''city_ledger''"
| "paymentMethodName PmVcc = ''vcc''"
| "paymentMethodName PmOther = ''other''"

definition CARD_METHODS :: "paymentMethod list" where
  "CARD_METHODS = [PmCreditCard, PmDebitCard, PmVcc]"

section \<open>Rows\<close>

abbreviation paymentRow :: "uuid \<Rightarrow> uuid \<Rightarrow> payment \<Rightarrow> bool" where
  "paymentRow i p \<equiv> (\<lambda>y. py_id y = i \<and> py_propertyId y = p)"

text \<open>
  A payment as its columns hold it, owned by a folio, a house account or a booking request, with
  the idempotency key, if there is one, unique in the property.
\<close>

definition storedPayment :: "'d numlib \<Rightarrow> payment \<Rightarrow> payment result" where
  "storedPayment L y = bindR (numeric12_2 L (py_amount y)) (\<lambda>amount.
     if length (py_currencyCode y) \<le> 3 \<and> length (nvl (py_gatewayProvider y) []) \<le> 20
        \<and> length (nvl (py_gatewayTransactionId y) []) \<le> 255 \<and> length (nvl (py_gatewayPaymentToken y) []) \<le> 255
        \<and> length (nvl (py_cardLastFour y) []) \<le> 4 \<and> length (nvl (py_cardBrand y) []) \<le> 20
        \<and> length (nvl (py_idempotencyKey y) []) \<le> 255
        \<and> (py_folioId y \<noteq> None \<or> py_houseAccountId y \<noteq> None \<or> py_bookingRequestId y \<noteq> None)
     then Inr (y\<lparr>py_amount := amount\<rparr>) else Inl DatabaseError)"

definition sameRequest :: "payment \<Rightarrow> payment \<Rightarrow> bool" where
  "sameRequest y x \<longleftrightarrow> py_idempotencyKey y \<noteq> None \<and> py_propertyId x = py_propertyId y \<and> py_idempotencyKey x = py_idempotencyKey y"

definition addPayment :: "'d numlib \<Rightarrow> payment \<Rightarrow> ('z folio_db_scheme, payment) op" where
  "addPayment L y =
     bindS (liftS (storedPayment L y)) (\<lambda>row.
     bindS (getS (\<lambda>db. list_ex (sameRequest row) (payments db))) (\<lambda>taken.
     bindS (guardS (\<not> taken) DatabaseError) (\<lambda>_.
     bindS (modifyS (\<lambda>db. db\<lparr>payments := payments db @ [row]\<rparr>)) (\<lambda>_. returnS row))))"

definition updatePayment :: "(payment \<Rightarrow> bool) \<Rightarrow> (payment \<Rightarrow> payment) \<Rightarrow> ('z folio_db_scheme, unit) op" where
  "updatePayment q f = modifyS (\<lambda>db. db\<lparr>payments := upd q f (payments db)\<rparr>)"

definition findPaymentRow :: "uuid \<Rightarrow> uuid \<Rightarrow> ('z folio_db_scheme, payment) op" where
  "findPaymentRow i p = bindS (getS (\<lambda>db. sel1 (paymentRow i p) (payments db))) (\<lambda>y.
     someS y (NotFoundException (''Payment '' @ i @ '' not found'')))"

definition assertGenericAccessAllowed :: "payment \<Rightarrow> ('z folio_db_scheme, unit) op" where
  "assertGenericAccessAllowed y = guardS (\<not> present (py_bookingRequestId y))
     (ConflictException (''Request-targeted payments must be accessed or changed through the Booking Request ''
       @ ''payment endpoint''))"

text \<open>The recalculation for a payment that may not be on a folio: then it touches no row.\<close>

definition recalculateFor :: "'d numlib \<Rightarrow> millis \<Rightarrow> uuid option \<Rightarrow> uuid \<Rightarrow> ('z folio_db_scheme, unit) op" where
  "recalculateFor L now f p = (case f of None \<Rightarrow> returnS () | Some i \<Rightarrow> recalculateBalance L now i p)"

definition newPayment :: "uuid \<Rightarrow> millis \<Rightarrow> uuid \<Rightarrow> uuid option \<Rightarrow> paymentMethod \<Rightarrow> string \<Rightarrow> string \<Rightarrow> paymentStatus \<Rightarrow> payment" where
  "newPayment i now p f method amount currency status = \<lparr>py_id = i, py_propertyId = p, py_folioId = f,
     py_houseAccountId = None, py_bookingRequestId = None, py_idempotencyKey = None, py_method = method,
     py_status = status, py_amount = amount, py_currencyCode = currency, py_gatewayProvider = None,
     py_gatewayTransactionId = None, py_gatewayPaymentToken = None, py_cardLastFour = None, py_cardBrand = None,
     py_isPreAuthorization = False, py_preAuthExpiresAt = None, py_originalPaymentId = None, py_notes = None,
     py_processedAt = None, py_createdAt = now, py_updatedAt = now\<rparr>"

section \<open>Taking a payment\<close>

text \<open>A text that is no date makes the insert throw; nothing happens in between.\<close>

definition recordPayment :: "'d numlib \<Rightarrow> millis \<Rightarrow> uuid \<Rightarrow> createPaymentDto \<Rightarrow> ('z folio_db_scheme, safePayment) op" where
  "recordPayment L now newId dto =
     bindS (guardS (cp_method dto \<noteq> PmVcc) (BadRequestException
        ''VCC payments must use the authorize flow. Use POST /payments/authorize instead.'')) (\<lambda>_.
     bindS (guardS (\<not> (cp_method dto \<in> set CARD_METHODS \<and> present (cp_gatewayPaymentToken dto))) (BadRequestException
        (''Card payments with a gateway token must use the authorize flow. '' @ ''Use POST /payments/authorize instead.''))) (\<lambda>_.
     bindS (guardS (\<not> (cp_method dto \<in> set CARD_METHODS \<and> present (cp_gatewayProvider dto) \<and> \<not> present (cp_gatewayTransactionId dto)))
        (BadRequestException (''A card payment naming a gateway must either carry gatewayTransactionId ''
          @ ''(a payment already taken there) or use POST /payments/authorize to take one.''))) (\<lambda>_.
     bindS (findFolio (cp_folioId dto) (cp_propertyId dto)) (\<lambda>folio.
     bindS (guardS (fo_status folio = FsOpen) (BadRequestException ''Cannot record payment on a folio that is not open'')) (\<lambda>_.
     bindS (if present (cp_processedAt dto) then liftS (newDate (the (cp_processedAt dto))) else returnS now) (\<lambda>processedAt.
     bindS (guardS (\<not> now < processedAt) (BadRequestException ''processedAt cannot be in the future'')) (\<lambda>_.
     bindS (addPayment L ((newPayment newId now (cp_propertyId dto) (Some (cp_folioId dto)) (cp_method dto) (cp_amount dto)
        (cp_currencyCode dto) PsCaptured)\<lparr>py_gatewayProvider := cp_gatewayProvider dto,
        py_gatewayPaymentToken := cp_gatewayPaymentToken dto, py_gatewayTransactionId := cp_gatewayTransactionId dto,
        py_cardLastFour := cp_cardLastFour dto, py_cardBrand := cp_cardBrand dto, py_notes := cp_notes dto,
        py_processedAt := Some processedAt\<rparr>)) (\<lambda>payment.
     bindS (recalculateBalance L now (cp_folioId dto) (cp_propertyId dto)) (\<lambda>_.
     bindS (emit ''payment.received'' ''payment'' (py_id payment) [(''folioId'', Some (cp_folioId dto)),
        (''method'', Some (paymentMethodName (py_method payment))), (''amount'', Some (py_amount payment)),
        (''status'', Some ''captured'')] (Some (cp_propertyId dto))) (\<lambda>_.
     returnS (safePaymentResponse payment)))))))))))"

definition authorization :: "uuid \<Rightarrow> millis \<Rightarrow> authorizePaymentDto \<Rightarrow> string \<Rightarrow> paymentStatus \<Rightarrow> payment" where
  "authorization newId now dto transactionId status =
     (newPayment newId now (au_propertyId dto) (Some (au_folioId dto)) PmCreditCard (au_amount dto) (au_currencyCode dto) status)
       \<lparr>py_gatewayProvider := Some (au_gatewayProvider dto), py_gatewayPaymentToken := Some (au_gatewayPaymentToken dto),
        py_gatewayTransactionId := Some transactionId, py_cardLastFour := au_cardLastFour dto, py_cardBrand := au_cardBrand dto\<rparr>"

definition authorizePayment :: "'d numlib \<Rightarrow> ('d, 'z folio_db_scheme) gateway \<Rightarrow> millis \<Rightarrow> uuid \<Rightarrow> authorizePaymentDto
    \<Rightarrow> ('z folio_db_scheme, safePayment) op" where
  "authorizePayment L G now newId dto =
     bindS (findFolio (au_folioId dto) (au_propertyId dto)) (\<lambda>folio.
     bindS (guardS (fo_status folio = FsOpen) (BadRequestException ''Cannot authorize payment on a folio that is not open'')) (\<lambda>_.
     bindS (liftS (newDecimal L (au_amount dto))) (\<lambda>amount.
     bindS (gw_authorize G (au_gatewayPaymentToken dto) amount (au_currencyCode dto)) (\<lambda>result.
     if \<not> gr_success result then
       bindS (addPayment L ((authorization newId now dto (gr_transactionId result) PsFailed)
          \<lparr>py_notes := gr_errorMessage result\<rparr>)) (\<lambda>failed.
       bindS (emit ''payment.failed'' ''payment'' (py_id failed) [(''folioId'', Some (au_folioId dto)),
          (''error'', gr_errorMessage result)] (Some (au_propertyId dto))) (\<lambda>_.
       throwS (BadRequestException (''Authorization failed: '' @ nvl (gr_errorMessage result) ''undefined''))))
     else
       bindS (if present (au_preAuthExpiresAt dto) then liftS (newDate (the (au_preAuthExpiresAt dto)))
          else returnS (now + 7 * 24 * 60 * 60 * 1000)) (\<lambda>preAuthExpiry.
       bindS (addPayment L ((authorization newId now dto (gr_transactionId result) PsAuthorized)
          \<lparr>py_isPreAuthorization := True, py_preAuthExpiresAt := Some preAuthExpiry, py_notes := au_notes dto\<rparr>)) (\<lambda>payment.
       bindS (emit ''payment.received'' ''payment'' (py_id payment) [(''folioId'', Some (au_folioId dto)),
          (''status'', Some ''authorized''), (''amount'', Some (py_amount payment))] (Some (au_propertyId dto))) (\<lambda>_.
       returnS (safePaymentResponse payment))))))))"

section \<open>Capturing and voiding a hold\<close>

text \<open>The conditional update out of \<open>authorized\<close>, and the diagnosis when it matched no row.\<close>

definition claimPayment :: "string \<Rightarrow> uuid \<Rightarrow> uuid \<Rightarrow> (payment \<Rightarrow> payment) \<Rightarrow> ('z folio_db_scheme, payment) op" where
  "claimPayment what i p f =
     bindS (getS (\<lambda>db. sel1 (\<lambda>y. paymentRow i p y \<and> py_status y = PsAuthorized) (payments db))) (\<lambda>claimed.
     bindS (updatePayment (\<lambda>y. paymentRow i p y \<and> py_status y = PsAuthorized) f) (\<lambda>_.
     case claimed of Some y \<Rightarrow> returnS (f y)
     | None \<Rightarrow> bindS (getS (\<lambda>db. sel1 (paymentRow i p) (payments db))) (\<lambda>existing.
         bindS (someS existing (NotFoundException (''Payment '' @ i @ '' not found''))) (\<lambda>y.
         throwS (ConflictException (''Cannot '' @ what @ '' payment with status '' @ quoted (paymentStatusName (py_status y))
           @ '' (expected '' @ quoted ''authorized'' @ '')''))))))"

definition capturePayment :: "'d numlib \<Rightarrow> ('d, 'z folio_db_scheme) gateway \<Rightarrow> millis \<Rightarrow> uuid \<Rightarrow> uuid
    \<Rightarrow> ('z folio_db_scheme, safePayment) op" where
  "capturePayment L G now i p =
     bindS (findPaymentRow i p) (\<lambda>target.
     bindS (assertGenericAccessAllowed target) (\<lambda>_.
     bindS (claimPayment ''capture'' i p
        (\<lambda>y. y\<lparr>py_status := PsCaptured, py_processedAt := Some now, py_updatedAt := now\<rparr>)) (\<lambda>claimed.
     bindS (liftS (newDecimal L (py_amount claimed))) (\<lambda>amount.
     bindS (gw_capture G (py_gatewayTransactionId claimed) amount (''cap_'' @ i) (py_currencyCode claimed)) (\<lambda>result.
     if \<not> gr_success result then
       bindS (updatePayment (paymentRow i p)
          (\<lambda>y. y\<lparr>py_status := PsAuthorized, py_processedAt := None, py_updatedAt := now\<rparr>)) (\<lambda>_.
       throwS (BadRequestException (''Capture failed: '' @ nvl (gr_errorMessage result) ''undefined'')))
     else
       bindS (recalculateFor L now (py_folioId claimed) p) (\<lambda>_.
       bindS (emit ''payment.received'' ''payment'' (py_id claimed) [(''folioId'', py_folioId claimed),
          (''status'', Some ''captured''), (''amount'', Some (py_amount claimed))] (Some p)) (\<lambda>_.
       returnS (safePaymentResponse claimed))))))))"

definition voidPayment :: "('d, 'z folio_db_scheme) gateway \<Rightarrow> millis \<Rightarrow> uuid \<Rightarrow> uuid \<Rightarrow> ('z folio_db_scheme, safePayment) op" where
  "voidPayment G now i p =
     bindS (findPaymentRow i p) (\<lambda>target.
     bindS (assertGenericAccessAllowed target) (\<lambda>_.
     bindS (claimPayment ''void'' i p (\<lambda>y. y\<lparr>py_status := PsVoided, py_updatedAt := now\<rparr>)) (\<lambda>claimed.
     bindS (gw_void G (py_gatewayTransactionId claimed) (''void_'' @ i)) (\<lambda>result.
     if \<not> gr_success result then
       bindS (updatePayment (paymentRow i p) (\<lambda>y. y\<lparr>py_status := PsAuthorized, py_updatedAt := now\<rparr>)) (\<lambda>_.
       throwS (BadRequestException (''Void failed: '' @ nvl (gr_errorMessage result) ''undefined'')))
     else
       bindS (emit ''payment.failed'' ''payment'' (py_id claimed) [(''folioId'', py_folioId claimed),
          (''status'', Some ''voided'')] (Some p)) (\<lambda>_.
       returnS (safePaymentResponse claimed))))))"

section \<open>Refunds\<close>

definition refundChildren :: "uuid \<Rightarrow> uuid \<Rightarrow> 'z folio_db_scheme \<Rightarrow> payment list" where
  "refundChildren i p db = filter (\<lambda>y. py_originalPaymentId y = Some i \<and> py_propertyId y = p) (payments db)"

text \<open>The row of an earlier refund with the key, which must be about the same money.\<close>

definition replayOf :: "'d numlib \<Rightarrow> uuid \<Rightarrow> uuid \<Rightarrow> string option \<Rightarrow> 'd \<Rightarrow> ('z folio_db_scheme, payment option) op" where
  "replayOf L i p key refundAmount =
     (if \<not> present key then returnS None
      else bindS (getS (\<lambda>db. sel1 (\<lambda>y. py_propertyId y = p \<and> py_idempotencyKey y = key) (payments db))) (\<lambda>found.
        case found of None \<Rightarrow> returnS None
        | Some replay \<Rightarrow>
            bindS (if py_originalPaymentId replay \<noteq> Some i then returnS False
               else bindS (liftS (newDecimal L (py_amount replay))) (\<lambda>d. returnS (dec_eq L (dec_abs L d) refundAmount))) (\<lambda>same.
            bindS (guardS same (ConflictException ''Refund idempotency key was already used for different refund data'')) (\<lambda>_.
            returnS (Some replay)))))"

text \<open>The original, the refunded total after this refund, the amount, and the replayed row.\<close>

definition prepareRefund :: "'d numlib \<Rightarrow> uuid \<Rightarrow> uuid \<Rightarrow> string option \<Rightarrow> string option
    \<Rightarrow> ('z folio_db_scheme, payment \<times> 'd \<times> 'd \<times> payment option) op" where
  "prepareRefund L i p amount key =
     bindS (findPaymentRow i p) (\<lambda>original.
     bindS (assertGenericAccessAllowed original) (\<lambda>_.
     bindS (guardS (py_status original \<in> {PsCaptured, PsSettled, PsPartiallyRefunded}) (BadRequestException
        (''Cannot refund payment with status '' @ quoted (paymentStatusName (py_status original))))) (\<lambda>_.
     bindS (liftS (newDecimal L (nvl amount (py_amount original)))) (\<lambda>refundAmount.
     bindS (liftS (newDecimal L (py_amount original))) (\<lambda>originalAmount.
     bindS (guardS (\<not> dec_lte L refundAmount (dec_int L 0)) (BadRequestException ''Refund amount must be positive'')) (\<lambda>_.
     bindS (guardS (present (py_gatewayTransactionId original)) (BadRequestException
        (''Payment '' @ i @ '' has no gateway transaction to refund''))) (\<lambda>_.
     bindS (replayOf L i p key refundAmount) (\<lambda>replay.
     case replay of Some y \<Rightarrow> returnS (original, originalAmount, refundAmount, Some y)
     | None \<Rightarrow>
       bindS (getS (\<lambda>db. sumRefundChildren L (map py_amount (refundChildren i p db)))) (\<lambda>sum.
       bindS (liftS sum) (\<lambda>alreadyRefunded.
       let remaining = dec_minus L originalAmount alreadyRefunded in
       bindS (guardS (\<not> dec_lte L remaining (dec_int L 0)) (BadRequestException
          (''Payment '' @ i @ '' is already fully refunded''))) (\<lambda>_.
       bindS (guardS (\<not> dec_gt L refundAmount remaining) (BadRequestException
          (''Refund amount '' @ dec_toFixed L 2 refundAmount @ '' exceeds remaining refundable amount ''
            @ dec_toFixed L 2 remaining))) (\<lambda>_.
       returnS (original, dec_plus L alreadyRefunded refundAmount, refundAmount, None)))))))))))))"

definition refundRow :: "'d numlib \<Rightarrow> uuid \<Rightarrow> millis \<Rightarrow> uuid \<Rightarrow> uuid \<Rightarrow> string option \<Rightarrow> payment \<Rightarrow> string \<Rightarrow> 'd \<Rightarrow> payment" where
  "refundRow L newId now i p key locked transactionId amount =
     (newPayment newId now p (py_folioId locked) (py_method locked) (dec_toFixed L 2 (dec_neg L amount))
        (py_currencyCode locked) PsCaptured)\<lparr>py_bookingRequestId := py_bookingRequestId locked, py_idempotencyKey := key,
        py_originalPaymentId := Some i, py_gatewayProvider := py_gatewayProvider locked,
        py_gatewayTransactionId := Some transactionId, py_processedAt := Some now,
        py_notes := Some (''Refund of payment '' @ i)\<rparr>"

text \<open>After the call: what the tables already know about the refund decides what is still to be booked.\<close>

definition bookRefund :: "'d numlib \<Rightarrow> millis \<Rightarrow> uuid \<Rightarrow> uuid \<Rightarrow> uuid \<Rightarrow> string option \<Rightarrow> 'd \<Rightarrow> 'd \<Rightarrow> string
    \<Rightarrow> ('z folio_db_scheme, payment \<times> bool) op" where
  "bookRefund L now newId i p key totalAfter refund transactionId =
     bindS (findPaymentRow i p) (\<lambda>locked.
     bindS (getS (refundChildren i p)) (\<lambda>existingRefunds.
     bindS (liftS (sumRefundChildren L (map py_amount existingRefunds))) (\<lambda>alreadyRefunded.
     bindS (replayOf L i p key refund) (\<lambda>replay.
     case replay of Some y \<Rightarrow> returnS (y, False)
     | None \<Rightarrow>
       (case (if transactionId = [] then None
              else List.find (\<lambda>y. py_gatewayTransactionId y = Some transactionId) existingRefunds) of
          Some y \<Rightarrow> returnS (y, False)
        | None \<Rightarrow>
          if dec_gte L alreadyRefunded totalAfter \<and> existingRefunds \<noteq> [] then returnS (last existingRefunds, False)
          else (let rest = dec_minus L totalAfter alreadyRefunded;
                    ledgerRefund = (if dec_lte L refund rest then refund else rest) in
            bindS (guardS (\<not> dec_lte L ledgerRefund (dec_int L 0)) (ConflictException
               (''Payment '' @ i @ '' refundable amount changed during gateway refund''))) (\<lambda>_.
            bindS (addPayment L (refundRow L newId now i p key locked transactionId ledgerRefund)) (\<lambda>row.
            returnS (row, True))))))))) "

definition refundPayment :: "'d numlib \<Rightarrow> ('d, 'z folio_db_scheme) gateway \<Rightarrow> millis \<Rightarrow> uuid \<Rightarrow> uuid \<Rightarrow> uuid \<Rightarrow> string option
    \<Rightarrow> string option \<Rightarrow> ('z folio_db_scheme, safePayment) op" where
  "refundPayment L G now newId i p amount key =
     bindS (transactionS (prepareRefund L i p amount key)) (\<lambda>(original, totalAfter, refund, replay).
     case replay of Some y \<Rightarrow> returnS (safePaymentResponse y)
     | None \<Rightarrow>
       bindS (gw_refund G (the (py_gatewayTransactionId original)) refund
          (nvl key (''ref_'' @ i @ ''_'' @ dec_toFixed L 2 totalAfter)) (py_currencyCode original)) (\<lambda>result.
       bindS (guardS (gr_success result) (BadRequestException (''Refund failed: '' @ nvl (gr_errorMessage result) ''undefined''))) (\<lambda>_.
       bindS (transactionS (bookRefund L now newId i p key totalAfter refund (gr_transactionId result))) (\<lambda>(row, isNew).
       bindS (whenS isNew
         (bindS (recalculateFor L now (py_folioId original) p) (\<lambda>_.
          emit ''payment.refunded'' ''payment'' (py_id row) [(''folioId'', py_folioId original),
            (''originalPaymentId'', Some i), (''refundAmount'', Some (dec_toFixed L 2 refund))] (Some p)))) (\<lambda>_.
       returnS (safePaymentResponse row))))))"

section \<open>Corrections\<close>

datatype correctionOp = OpVoid | OpRefund | OpAdjust

fun correctionOpName :: "correctionOp \<Rightarrow> string" where
  "correctionOpName OpVoid = ''void''"
| "correctionOpName OpRefund = ''refund''"
| "correctionOpName OpAdjust = ''adjust''"

definition isGatewayCard :: "payment \<Rightarrow> bool" where
  "isGatewayCard y \<longleftrightarrow> py_method y \<in> set CARD_METHODS \<and> present (py_gatewayTransactionId y)"

definition legalOp :: "millis \<Rightarrow> payment \<Rightarrow> correctionOp" where
  "legalOp now y =
     (if py_status y = PsAuthorized then OpVoid
      else if (py_method y = PmCash \<or> py_method y = PmPix) \<and> now - py_createdAt y \<le> 24 * 60 * 60 * 1000 then OpVoid
      else if isGatewayCard y \<and> py_status y \<in> {PsCaptured, PsSettled, PsPartiallyRefunded} then OpRefund
      else OpAdjust)"

definition emitCorrected :: "uuid \<Rightarrow> uuid \<Rightarrow> correctionOp \<Rightarrow> payment \<Rightarrow> string option \<Rightarrow> ('z folio_db_scheme, unit) op" where
  "emitCorrected i p what y adjustmentAmount = emit ''payment.corrected'' ''payment'' i
     ([(''op'', Some (correctionOpName what)), (''method'', Some (paymentMethodName (py_method y)))]
       @ (case adjustmentAmount of None \<Rightarrow> [] | a \<Rightarrow> [(''adjustmentAmount'', a)])) (Some p)"

definition voidTender :: "'d numlib \<Rightarrow> millis \<Rightarrow> uuid \<Rightarrow> uuid \<Rightarrow> payment \<Rightarrow> ('z folio_db_scheme, safePayment) op" where
  "voidTender L now i p payment =
     (let q = (\<lambda>y. paymentRow i p y \<and> py_status y = py_status payment);
          f = (\<lambda>y. y\<lparr>py_status := PsVoided, py_updatedAt := now\<rparr>) in
      bindS (getS (\<lambda>db. sel1 q (payments db))) (\<lambda>claimed.
      bindS (updatePayment q f) (\<lambda>_.
      bindS (someS (map_option f claimed) (ConflictException (''Payment '' @ i @ '' is no longer in ''
         @ quoted (paymentStatusName (py_status payment)) @ '' state: concurrent correction?''))) (\<lambda>voided.
      bindS (recalculateFor L now (py_folioId voided) p) (\<lambda>_.
      bindS (emit ''payment.failed'' ''payment'' (py_id voided) [(''folioId'', py_folioId voided),
         (''status'', Some ''voided'')] (Some p)) (\<lambda>_.
      returnS (safePaymentResponse voided)))))))"

definition adjustmentRow :: "uuid \<Rightarrow> millis \<Rightarrow> uuid \<Rightarrow> uuid \<Rightarrow> payment \<Rightarrow> string \<Rightarrow> payment" where
  "adjustmentRow newId now i p locked amount =
     (newPayment newId now p (py_folioId locked) (py_method locked) amount (py_currencyCode locked) PsCaptured)
       \<lparr>py_originalPaymentId := Some i, py_processedAt := Some now, py_notes := Some (''Correction of payment '' @ i)\<rparr>"

text \<open>The locked payment, and the new row unless the payment does not count in the balance.\<close>

definition adjustInTransaction :: "'d numlib \<Rightarrow> millis \<Rightarrow> uuid \<Rightarrow> uuid \<Rightarrow> uuid
    \<Rightarrow> ('z folio_db_scheme, payment \<times> string \<times> payment option) op" where
  "adjustInTransaction L now newId i p =
     bindS (findPaymentRow i p) (\<lambda>locked.
     bindS (liftS (fixedNeg L (py_amount locked))) (\<lambda>adjustmentAmount.
     if \<not> parentCountsTowardFolioBalance (py_status locked) then returnS (locked, adjustmentAmount, None)
     else
       bindS (addPayment L (adjustmentRow newId now i p locked adjustmentAmount)) (\<lambda>row.
       bindS (recalculateFor L now (py_folioId locked) p) (\<lambda>_.
       returnS (locked, adjustmentAmount, Some row)))))"

definition correctionCharge :: "uuid \<Rightarrow> uuid \<Rightarrow> string \<Rightarrow> string \<Rightarrow> string \<Rightarrow> createChargeDto" where
  "correctionCharge p i amount currencyCode serviceDate = \<lparr>cc_propertyId = p, cc_type = CtAdjustment,
     cc_description = ''Correction of payment '' @ i, cc_amount = amount, cc_currencyCode = currencyCode,
     cc_taxAmount = None, cc_taxRate = None, cc_taxCode = None, cc_serviceDate = serviceDate, cc_postedBy = None,
     cc_guestId = None, cc_numberOfNights = None, cc_nightNumber = None, cc_skipTaxCalculation = True,
     cc_provenance = False\<rparr>"

definition adjustPayment :: "'d numlib \<Rightarrow> millis \<Rightarrow> uuid \<Rightarrow> (nat \<Rightarrow> uuid) \<Rightarrow> uuid \<Rightarrow> uuid \<Rightarrow> payment
    \<Rightarrow> ('z folio_db_scheme, safePayment + posted) op" where
  "adjustPayment L now newId ids i p payment =
     bindS (guardS (py_folioId payment \<noteq> None) (BadRequestException
        (''Cannot adjust payment '' @ i @ '': it is not linked to a folio''))) (\<lambda>_.
     bindS (transactionS (adjustInTransaction L now newId i p)) (\<lambda>(locked, adjustmentAmount, row).
     case row of
       None \<Rightarrow>
         bindS (postCharge L now ids False (the (py_folioId locked))
           (correctionCharge p i adjustmentAmount (py_currencyCode locked) (toISOString now)) noPersistence) (\<lambda>posted.
         bindS (emitCorrected i p OpAdjust payment (Some adjustmentAmount)) (\<lambda>_.
         returnS (Inr posted)))
     | Some y \<Rightarrow>
         bindS (emitCorrected i p OpAdjust payment (Some adjustmentAmount)) (\<lambda>_.
         returnS (Inl (safePaymentResponse y)))))"

definition correctPayment :: "'d numlib \<Rightarrow> ('d, 'z folio_db_scheme) gateway \<Rightarrow> millis \<Rightarrow> uuid \<Rightarrow> (nat \<Rightarrow> uuid) \<Rightarrow> uuid \<Rightarrow> uuid
    \<Rightarrow> correctionOp option \<Rightarrow> ('z folio_db_scheme, correctionOp \<times> (safePayment + posted)) op" where
  "correctPayment L G now newId ids i p opOverride =
     bindS (findPaymentRow i p) (\<lambda>payment.
     bindS (assertGenericAccessAllowed payment) (\<lambda>_.
     let legal = legalOp now payment in
     bindS (guardS (opOverride = None \<or> opOverride = Some legal)
        (if opOverride = Some OpVoid \<and> isGatewayCard payment \<and> py_status payment \<in> {PsCaptured, PsSettled, PsPartiallyRefunded}
         then BadRequestException ''A captured card payment cannot be voided: it must be refunded (KB 14.1)''
         else BadRequestException (''Operation '' @ quoted (correctionOpName (the opOverride)) @ '' is not legal for payment '' @ i
           @ '' in state '' @ quoted (paymentStatusName (py_status payment)) @ '' (method ''
           @ quoted (paymentMethodName (py_method payment)) @ ''). Legal op is '' @ quoted (correctionOpName legal) @ ''.''))) (\<lambda>_.
     case legal of
       OpVoid \<Rightarrow>
         bindS (if py_status payment = PsAuthorized \<and> isGatewayCard payment then voidPayment G now i p
            else voidTender L now i p payment) (\<lambda>result.
         bindS (emitCorrected i p OpVoid payment None) (\<lambda>_. returnS (OpVoid, Inl result)))
     | OpRefund \<Rightarrow>
         bindS (refundPayment L G now newId i p None None) (\<lambda>result.
         bindS (emitCorrected i p OpRefund payment None) (\<lambda>_. returnS (OpRefund, Inl result)))
     | OpAdjust \<Rightarrow>
         bindS (adjustPayment L now newId ids i p payment) (\<lambda>result. returnS (OpAdjust, result)))))"

section \<open>Webhooks of the processor\<close>

record stripeIntent =
  si_id :: string
  si_metadata :: metadata
  si_lastPaymentError :: "string option"

record stripeCharge =
  sc_id :: string
  sc_paymentIntent :: "string option"
  sc_amountRefunded :: int

datatype stripeEvent = IntentSucceeded stripeIntent | IntentFailed stripeIntent | IntentCanceled stripeIntent
  | IntentProcessing stripeIntent | IntentRequiresAction stripeIntent | RefundUpdated string
  | ChargeRefunded stripeCharge | OtherEvent string

text \<open>The optional handler of the payments of Booking Requests, which is another package.\<close>

record 'db requestHandler =
  rh_intent :: "stripeEvent \<Rightarrow> payment option \<Rightarrow> ('db, unit) op"
  rh_refundUpdated :: "string \<Rightarrow> ('db, unit) op"

definition findPaymentByGatewayTransactionId :: "string \<Rightarrow> ('z folio_db_scheme, payment option) op" where
  "findPaymentByGatewayTransactionId t = getS (\<lambda>db. sel1 (\<lambda>y. py_gatewayTransactionId y = Some t) (payments db))"

definition paymentHasBookingRequestId :: "payment \<Rightarrow> bool" where
  "paymentHasBookingRequestId y \<longleftrightarrow> present (py_bookingRequestId y)"

definition shouldDelegate :: "'db requestHandler option \<Rightarrow> payment \<Rightarrow> bool" where
  "shouldDelegate H y \<longleftrightarrow> paymentHasBookingRequestId y \<and> H \<noteq> None"

text \<open>
  The three intent handlers differ in the status they set, the notes and time stamps, and the event;
  an intent without a payment is ignored.
\<close>

definition setStatus :: "'d numlib \<Rightarrow> millis \<Rightarrow> payment \<Rightarrow> paymentStatus \<Rightarrow> (payment \<Rightarrow> payment) \<Rightarrow> string
    \<Rightarrow> (string \<times> string option) list \<Rightarrow> ('z folio_db_scheme, unit) op" where
  "setStatus L now y status g name payload =
     (if py_status y = status then returnS ()
      else bindS (updatePayment (paymentRow (py_id y) (py_propertyId y)) (\<lambda>x. g (x\<lparr>py_status := status, py_updatedAt := now\<rparr>))) (\<lambda>_.
        bindS (recalculateFor L now (py_folioId y) (py_propertyId y)) (\<lambda>_.
        emit name ''payment'' (py_id y) ((''folioId'', py_folioId y) # payload) (Some (py_propertyId y)))))"

definition handleIntent :: "'d numlib \<Rightarrow> ('z folio_db_scheme) requestHandler option \<Rightarrow> stripeEvent \<Rightarrow> stripeIntent
    \<Rightarrow> (payment \<Rightarrow> ('z folio_db_scheme, unit) op) \<Rightarrow> ('z folio_db_scheme, unit) op" where
  "handleIntent L H ev intent k =
     bindS (findPaymentByGatewayTransactionId (si_id intent)) (\<lambda>found.
     case found of None \<Rightarrow> returnS ()
     | Some y \<Rightarrow> if shouldDelegate H y then rh_intent (the H) ev (Some y) else k y)"

definition handlePaymentIntentSucceeded :: "'d numlib \<Rightarrow> ('z folio_db_scheme) requestHandler option \<Rightarrow> millis \<Rightarrow> stripeIntent
    \<Rightarrow> ('z folio_db_scheme, unit) op" where
  "handlePaymentIntentSucceeded L H now intent = handleIntent L H (IntentSucceeded intent) intent (\<lambda>y.
     setStatus L now y PsCaptured (\<lambda>x. x\<lparr>py_processedAt := Some now\<rparr>) ''payment.received''
       [(''status'', Some ''captured''), (''stripeEvent'', Some (si_id intent))])"

definition handlePaymentIntentFailed :: "'d numlib \<Rightarrow> ('z folio_db_scheme) requestHandler option \<Rightarrow> millis \<Rightarrow> stripeIntent
    \<Rightarrow> ('z folio_db_scheme, unit) op" where
  "handlePaymentIntentFailed L H now intent = handleIntent L H (IntentFailed intent) intent (\<lambda>y.
     let errorMessage = nvl (si_lastPaymentError intent) ''Payment failed'' in
     setStatus L now y PsFailed (\<lambda>x. x\<lparr>py_notes := Some errorMessage\<rparr>) ''payment.failed''
       [(''error'', Some errorMessage), (''stripeEvent'', Some (si_id intent))])"

definition handlePaymentIntentCanceled :: "'d numlib \<Rightarrow> ('z folio_db_scheme) requestHandler option \<Rightarrow> millis \<Rightarrow> stripeIntent
    \<Rightarrow> ('z folio_db_scheme, unit) op" where
  "handlePaymentIntentCanceled L H now intent = handleIntent L H (IntentCanceled intent) intent (\<lambda>y.
     setStatus L now y PsVoided (\<lambda>x. x) ''payment.failed''
       [(''status'', Some ''voided''), (''stripeEvent'', Some (si_id intent))])"

text \<open>Processing and required actions concern the other handler only; no payment stands for a placeholder.\<close>

definition handlePaymentIntentPending :: "('z folio_db_scheme) requestHandler option \<Rightarrow> stripeEvent \<Rightarrow> stripeIntent
    \<Rightarrow> ('z folio_db_scheme, unit) op" where
  "handlePaymentIntentPending H ev intent = (case H of None \<Rightarrow> returnS ()
     | Some h \<Rightarrow> bindS (findPaymentByGatewayTransactionId (si_id intent)) (\<lambda>found.
         if (case found of None \<Rightarrow> False | Some y \<Rightarrow> \<not> shouldDelegate H y) then returnS () else rh_intent h ev found))"

definition handleRefundUpdated :: "('z folio_db_scheme) requestHandler option \<Rightarrow> string \<Rightarrow> ('z folio_db_scheme, unit) op" where
  "handleRefundUpdated H refund = (case H of None \<Rightarrow> returnS () | Some h \<Rightarrow> rh_refundUpdated h refund)"

definition webhookRefundRow :: "'d numlib \<Rightarrow> uuid \<Rightarrow> millis \<Rightarrow> string \<Rightarrow> string \<Rightarrow> payment \<Rightarrow> 'd \<Rightarrow> payment" where
  "webhookRefundRow L newId now chargeId ledgerKey parent delta =
     (newPayment newId now (py_propertyId parent) (py_folioId parent) (py_method parent) (dec_toFixed L 2 (dec_neg L delta))
        (py_currencyCode parent) PsCaptured)\<lparr>py_originalPaymentId := Some (py_id parent),
        py_gatewayProvider := py_gatewayProvider parent, py_gatewayTransactionId := Some ledgerKey,
        py_processedAt := Some now, py_notes := Some (''Stripe refund '' @ chargeId)\<rparr>"

text \<open>The event carries the cumulative refunded amount; only what the children do not cover yet is booked.\<close>

definition chargeRefundedTx :: "'d numlib \<Rightarrow> millis \<Rightarrow> uuid \<Rightarrow> stripeCharge \<Rightarrow> payment
    \<Rightarrow> ('z folio_db_scheme, (payment \<times> payment \<times> 'd) option) op" where
  "chargeRefundedTx L now newId charge payment =
     (let stripeRefunded = dec_div L (dec_int L (sc_amountRefunded charge)) (dec_int L 100);
          ledgerKey = ''stripe_refund:'' @ sc_id charge @ '':'' @ dec_toFixed L 2 stripeRefunded in
      bindS (getS (\<lambda>db. sel1 (paymentRow (py_id payment) (py_propertyId payment)) (payments db))) (\<lambda>found.
      case found of None \<Rightarrow> returnS None
      | Some parent \<Rightarrow>
        bindS (findPaymentByGatewayTransactionId ledgerKey) (\<lambda>existingForLedger.
        if existingForLedger \<noteq> None then returnS None
        else
          bindS (getS (\<lambda>db. sumRefundChildren L (map py_amount (refundChildren (py_id parent) (py_propertyId parent) db)))) (\<lambda>sum.
          bindS (liftS sum) (\<lambda>alreadyRefunded.
          let delta = dec_minus L stripeRefunded alreadyRefunded in
          if dec_lte L delta (dec_int L 0) then returnS None
          else
            bindS (addPayment L (webhookRefundRow L newId now (sc_id charge) ledgerKey parent delta)) (\<lambda>row.
            bindS (recalculateFor L now (py_folioId parent) (py_propertyId parent)) (\<lambda>_.
            returnS (Some (row, parent, delta)))))))))"

definition handleChargeRefunded :: "'d numlib \<Rightarrow> ('z folio_db_scheme) requestHandler option \<Rightarrow> millis \<Rightarrow> uuid \<Rightarrow> stripeCharge
    \<Rightarrow> ('z folio_db_scheme, unit) op" where
  "handleChargeRefunded L H now newId charge =
     (if \<not> present (sc_paymentIntent charge) then returnS ()
      else bindS (findPaymentByGatewayTransactionId (the (sc_paymentIntent charge))) (\<lambda>found.
        case found of None \<Rightarrow> returnS ()
        | Some payment \<Rightarrow>
          if shouldDelegate H payment then rh_intent (the H) (ChargeRefunded charge) (Some payment)
          else bindS (transactionS (chargeRefundedTx L now newId charge payment)) (\<lambda>recorded.
            case recorded of None \<Rightarrow> returnS ()
            | Some (row, parent, delta) \<Rightarrow>
              emit ''payment.refunded'' ''payment'' (py_id row) [(''folioId'', py_folioId parent),
                (''originalPaymentId'', Some (py_id parent)), (''refundAmount'', Some (dec_toFixed L 2 delta)),
                (''stripeEvent'', Some (sc_id charge))] (Some (py_propertyId parent)))))"

fun handleEvent :: "'d numlib \<Rightarrow> ('z folio_db_scheme) requestHandler option \<Rightarrow> millis \<Rightarrow> uuid \<Rightarrow> stripeEvent
    \<Rightarrow> ('z folio_db_scheme, unit) op" where
  "handleEvent L H now newId (IntentSucceeded x) = handlePaymentIntentSucceeded L H now x"
| "handleEvent L H now newId (IntentFailed x) = handlePaymentIntentFailed L H now x"
| "handleEvent L H now newId (IntentCanceled x) = handlePaymentIntentCanceled L H now x"
| "handleEvent L H now newId (IntentProcessing x) = handlePaymentIntentPending H (IntentProcessing x) x"
| "handleEvent L H now newId (IntentRequiresAction x) = handlePaymentIntentPending H (IntentRequiresAction x) x"
| "handleEvent L H now newId (RefundUpdated r) = handleRefundUpdated H r"
| "handleEvent L H now newId (ChargeRefunded c) = handleChargeRefunded L H now newId c"
| "handleEvent L H now newId (OtherEvent t) = returnS ()"

text \<open>A verified event: whatever its handler throws is logged, and the answer is 200.\<close>

definition handleWebhook :: "'d numlib \<Rightarrow> ('z folio_db_scheme) requestHandler option \<Rightarrow> millis \<Rightarrow> uuid \<Rightarrow> stripeEvent
    \<Rightarrow> ('z folio_db_scheme, unit) op" where
  "handleWebhook L H now newId ev = catchS (handleEvent L H now newId ev) (\<lambda>_. returnS ())"

section \<open>Reads\<close>

definition findPaymentById :: "uuid \<Rightarrow> uuid \<Rightarrow> ('z folio_db_scheme, safePayment) op" where
  "findPaymentById i p =
     bindS (findPaymentRow i p) (\<lambda>payment.
     bindS (assertGenericAccessAllowed payment) (\<lambda>_.
     returnS (safePaymentResponse payment)))"

record listPaymentsDto =
  lp_propertyId :: uuid
  lp_folioId :: "uuid option"
  lp_status :: "paymentStatus option"
  lp_method :: "paymentMethod option"
  lp_page :: "int option"
  lp_limit :: "int option"

record paymentPage =
  pg_data :: "safePayment list"
  pg_total :: nat
  pg_page :: int
  pg_limit :: int

text \<open>Payments of one instant keep the order of the table; a negative limit or offset is refused by the database.\<close>

definition listPayments :: "listPaymentsDto \<Rightarrow> ('z folio_db_scheme, paymentPage) op" where
  "listPayments dto =
     (let whereClause = (\<lambda>y. py_propertyId y = lp_propertyId dto \<and> py_bookingRequestId y = None
            \<and> (present (lp_folioId dto) \<longrightarrow> py_folioId y = lp_folioId dto)
            \<and> (lp_status dto \<noteq> None \<longrightarrow> Some (py_status y) = lp_status dto)
            \<and> (lp_method dto \<noteq> None \<longrightarrow> Some (py_method y) = lp_method dto));
          page = nvl (lp_page dto) 1;
          limit = nvl (lp_limit dto) 20;
          offset = (page - 1) * limit in
      bindS (guardS (0 \<le> limit \<and> 0 \<le> offset) DatabaseError) (\<lambda>_.
      bindS (getS (\<lambda>db. filter whereClause (payments db))) (\<lambda>rows.
      returnS \<lparr>pg_data = map safePaymentResponse (take (nat limit) (drop (nat offset) (sort_key py_createdAt rows))),
        pg_total = length rows, pg_page = page, pg_limit = limit\<rparr>)))"

end
