(* ===== verification/PaymentStates.thy ===== *)
theory PaymentStates
  imports Stay Payment
begin

text \<open>
  What may happen to a payment. The rows of a payment and of its refunds are abstracted to a
  \<open>tender\<close>: held, taken or gone, its amount and how much of it was given back. The operations of
  \<^theory_text>\<open>Payment\<close> implement the transition system \<open>tender_step\<close>; with it goes the invariant
  \<open>tenders_ok\<close>, that refunds belong to payments and stay within their amount.
\<close>

section \<open>Well-formed payments\<close>

abbreviation parentRow :: "uuid \<Rightarrow> uuid \<Rightarrow> payment \<Rightarrow> bool" where
  "parentRow i p \<equiv> (\<lambda>y. py_id y = i \<and> py_propertyId y = p \<and> py_originalPaymentId y = None)"

definition refunded :: "uuid \<Rightarrow> uuid \<Rightarrow> 'z folio_db_scheme \<Rightarrow> rat" where
  "refunded i p db = (\<Sum>y\<leftarrow>refundChildren i p db. \<bar>text_val (py_amount y)\<bar>)"

text \<open>A refund is a negative row of a payment of the property that is itself no refund.\<close>

definition tender_ok :: "'z folio_db_scheme \<Rightarrow> payment \<Rightarrow> bool" where
  "tender_ok db y \<longleftrightarrow> money_text (py_amount y) \<and> (case py_originalPaymentId y of
     None \<Rightarrow> 0 \<le> text_val (py_amount y) \<and> refunded (py_id y) (py_propertyId y) db \<le> text_val (py_amount y)
   | Some i \<Rightarrow> text_val (py_amount y) \<le> 0 \<and> sel1 (parentRow i (py_propertyId y)) (payments db) \<noteq> None)"

definition tenders_ok :: "'z folio_db_scheme \<Rightarrow> bool" where
  "tenders_ok db \<longleftrightarrow> distinct (map py_id (payments db)) \<and> (\<forall>y\<in>set (payments db). tender_ok db y)"

section \<open>The abstract payment\<close>

datatype phase = Hold | Took | Gone

datatype tender = Absent | Pay phase rat rat

fun phaseOf :: "paymentStatus \<Rightarrow> phase" where
  "phaseOf PsPending = Hold"
| "phaseOf PsAuthorized = Hold"
| "phaseOf PsCaptured = Took"
| "phaseOf PsSettled = Took"
| "phaseOf PsRefunded = Took"
| "phaseOf PsPartiallyRefunded = Took"
| "phaseOf PsFailed = Gone"
| "phaseOf PsVoided = Gone"

definition tender :: "'z folio_db_scheme \<Rightarrow> uuid \<Rightarrow> uuid \<Rightarrow> tender" where
  "tender db i p = (case sel1 (parentRow i p) (payments db) of None \<Rightarrow> Absent
     | Some y \<Rightarrow> Pay (phaseOf (py_status y)) (text_val (py_amount y)) (refunded i p db))"

text \<open>\<open>b\<close>: the reports of the processor on a payment intent, which may set any status, are steps too.\<close>

definition allowed :: "bool \<Rightarrow> phase \<Rightarrow> phase \<Rightarrow> bool" where
  "allowed b h h' \<longleftrightarrow> b \<or> h' = h \<or> h' = Gone \<or> (h = Hold \<and> h' = Took)"

inductive tender_step :: "bool \<Rightarrow> tender \<Rightarrow> tender \<Rightarrow> bool" for b :: bool where
  new: "0 \<le> a \<Longrightarrow> tender_step b Absent (Pay h a 0)"
| move: "allowed b h h' \<Longrightarrow> tender_step b (Pay h a r) (Pay h' a r)"
| refund: "r \<le> r' \<Longrightarrow> r' \<le> a \<Longrightarrow> tender_step b (Pay h a r) (Pay h a r')"

inductive_simps tender_step_Pay: "tender_step b (Pay h a r) t"
inductive_simps tender_step_Absent: "tender_step b Absent t"

text \<open>Well-formedness is kept and every payment makes steps.\<close>

definition evolves :: "bool \<Rightarrow> 'z folio_db_scheme \<Rightarrow> 'z folio_db_scheme \<Rightarrow> bool" where
  "evolves b db db' \<longleftrightarrow> (tenders_ok db \<longrightarrow> tenders_ok db' \<and> (\<forall>i p. (tender_step b)\<^sup>*\<^sup>* (tender db i p) (tender db' i p)))"

interpretation evolving: step_relation "evolves b" for b
proof unfold_locales
  show "evolves b a a" for b and a :: "'b folio_db_scheme" by (simp add: evolves_def)
  show "evolves b a d" if "evolves b a c" and "evolves b c d" for b and a c d :: "'b folio_db_scheme"
    using that unfolding evolves_def by (meson rtranclp_trans)
qed

lemma tenders_cong:
  assumes "payments db' = payments db"
  shows "tenders_ok db' = tenders_ok db" and "tender db' i p = tender db i p" and "refunded i p db' = refunded i p db"
proof -
  have r: "refunded i p db' = refunded i p db" for i p using assms by (simp add: refunded_def refundChildren_def)
  then show "refunded i p db' = refunded i p db" .
  have "tender_ok db' y = tender_ok db y" for y by (simp add: tender_ok_def r assms split: option.split)
  then show "tenders_ok db' = tenders_ok db" by (simp add: tenders_ok_def assms)
  show "tender db' i p = tender db i p" by (simp add: tender_def r assms split: option.split)
qed

lemma evolves_same:
  assumes "payments db' = payments db"
  shows "evolves b db db'"
  unfolding evolves_def tenders_cong(1) [OF assms] tenders_cong(2) [OF assms] by blast

lemma evolves_kept: "keeps payments m \<Longrightarrow> does (evolves b) m"
  by (auto simp: does_def intro: evolves_same)

lemma tender_amount:
  assumes "(tender_step b)\<^sup>*\<^sup>* (Pay h a r) t"
  shows "\<exists>h' r'. t = Pay h' a r' \<and> r \<le> r' \<and> (r \<le> a \<longrightarrow> r' \<le> a)"
  using assms by (induction rule: rtranclp_induct) (auto simp: tender_step_Pay)

section \<open>How rows change\<close>

lemma find_parent: "tenders_ok db \<Longrightarrow> y \<in> set (payments db) \<Longrightarrow> py_originalPaymentId y = None \<Longrightarrow>
    sel1 (parentRow (py_id y) (py_propertyId y)) (payments db) = Some y"
  by (intro find_key [of py_id]) (auto simp: tenders_ok_def)

lemma no_parent_no_children:
  assumes "tenders_ok db" and "sel1 (parentRow i p) (payments db) = None"
  shows "refundChildren i p db = []"
  using assms by (fastforce simp: tenders_ok_def tender_ok_def refundChildren_def filter_empty_conv)

lemma fresh_no_parent: "i \<notin> py_id ` set (payments db) \<Longrightarrow> sel1 (parentRow i p) (payments db) = None"
  by (auto simp: find_None_iff)

lemma refunded_add: "payments db' = payments db @ [y] \<Longrightarrow> refunded i p db' = refunded i p db
    + (if py_originalPaymentId y = Some i \<and> py_propertyId y = p then \<bar>text_val (py_amount y)\<bar> else 0)"
  by (simp add: refunded_def refundChildren_def)

lemma add_parent:
  assumes "payments db' = payments db @ [y]" and "py_originalPaymentId y = None" and "money_text (py_amount y)"
    and "0 \<le> text_val (py_amount y)" and "py_id y \<notin> py_id ` set (payments db)"
  shows "evolves b db db'"
  unfolding evolves_def
proof
  assume ok: "tenders_ok db"
  have ref: "refunded i p db' = refunded i p db" for i p using assms(2) by (simp add: refunded_add [OF assms(1)])
  have zero: "refunded (py_id y) p db = 0" for p
    using no_parent_no_children [OF ok fresh_no_parent [OF assms(5)]] by (simp add: refunded_def)
  have "tender_ok db' x" if "x \<in> set (payments db)" for x
  proof -
    have "tender_ok db x" using ok that by (simp add: tenders_ok_def)
    then show ?thesis by (auto simp: tender_ok_def ref assms(1) find_append split: option.splits)
  qed
  moreover have "tender_ok db' y" using assms(2-4) zero by (simp add: tender_ok_def ref)
  ultimately have ok': "tenders_ok db'" using ok assms(1,5) by (auto simp: tenders_ok_def)
  have "(tender_step b)\<^sup>*\<^sup>* (tender db i p) (tender db' i p)" for i p
  proof (cases "sel1 (parentRow i p) (payments db)")
    case None
    then show ?thesis using assms(2,4) zero
      by (auto simp: tender_def assms(1) find_append ref intro!: r_into_rtranclp tender_step.new)
  next
    case (Some x)
    then show ?thesis by (simp add: tender_def assms(1) find_append ref)
  qed
  with ok' show "tenders_ok db' \<and> (\<forall>i p. (tender_step b)\<^sup>*\<^sup>* (tender db i p) (tender db' i p))" by blast
qed

lemma add_child:
  assumes "payments db' = payments db @ [y]" and "py_originalPaymentId y = Some k" and "money_text (py_amount y)"
    and "text_val (py_amount y) \<le> 0" and "py_id y \<notin> py_id ` set (payments db)"
    and "sel1 (parentRow k (py_propertyId y)) (payments db) = Some x"
    and "refunded k (py_propertyId y) db + \<bar>text_val (py_amount y)\<bar> \<le> text_val (py_amount x)"
  shows "evolves b db db'"
  unfolding evolves_def
proof
  assume ok: "tenders_ok db"
  note ref = refunded_add [OF assms(1)]
  have par: "sel1 (parentRow i p) (payments db') = sel1 (parentRow i p) (payments db)" for i p
    using assms(2) by (auto simp: assms(1) find_append split: option.split)
  have "tender_ok db' z" if z: "z \<in> set (payments db)" for z
  proof -
    have "tender_ok db z" using ok z by (simp add: tenders_ok_def)
    moreover have "z = x" if "py_originalPaymentId z = None" "py_id z = k" "py_propertyId z = py_propertyId y"
      using find_parent [OF ok z that(1)] assms(6) that(2,3) by simp
    ultimately show ?thesis using assms(2,7) by (auto simp: tender_ok_def ref par split: option.splits)
  qed
  moreover have "tender_ok db' y" using assms(2-4,6) by (simp add: tender_ok_def par)
  ultimately have ok': "tenders_ok db'" using ok assms(1,5) by (auto simp: tenders_ok_def)
  have "(tender_step b)\<^sup>*\<^sup>* (tender db i p) (tender db' i p)" for i p
  proof (cases "i = k \<and> p = py_propertyId y")
    case True
    have "tender_step b (Pay h (text_val (py_amount x)) (refunded k p db))
        (Pay h (text_val (py_amount x)) (refunded k p db + \<bar>text_val (py_amount y)\<bar>))" for h
      using assms(7) True by (intro tender_step.refund) simp_all
    with True assms(2,6) show ?thesis by (simp add: tender_def par ref r_into_rtranclp)
  next
    case False
    then show ?thesis using assms(2) by (auto simp: tender_def par ref split: option.split)
  qed
  with ok' show "tenders_ok db' \<and> (\<forall>i p. (tender_step b)\<^sup>*\<^sup>* (tender db i p) (tender db' i p))" by blast
qed

lemma refunded_upd:
  assumes "\<And>y. q y \<Longrightarrow> py_propertyId (f y) = py_propertyId y \<and> py_amount (f y) = py_amount y
     \<and> py_originalPaymentId (f y) = py_originalPaymentId y"
  shows "(\<Sum>y\<leftarrow>filter (\<lambda>y. py_originalPaymentId y = Some i \<and> py_propertyId y = p) (upd q f ys). \<bar>text_val (py_amount y)\<bar>)
    = (\<Sum>y\<leftarrow>filter (\<lambda>y. py_originalPaymentId y = Some i \<and> py_propertyId y = p) ys. \<bar>text_val (py_amount y)\<bar>)"
  using assms by (induction ys) auto

lemma upd_status:
  assumes "payments db' = upd q f (payments db)"
    and f: "\<And>y. q y \<Longrightarrow> py_id (f y) = py_id y \<and> py_propertyId (f y) = py_propertyId y \<and> py_amount (f y) = py_amount y
       \<and> py_originalPaymentId (f y) = py_originalPaymentId y"
    and "\<forall>y\<in>set (payments db). q y \<longrightarrow> allowed b (phaseOf (py_status y)) (phaseOf (py_status (f y)))"
  shows "evolves b db db'"
  unfolding evolves_def
proof
  assume ok: "tenders_ok db"
  have ref: "refunded i p db' = refunded i p db" for i p
    unfolding refunded_def refundChildren_def assms(1) by (rule refunded_upd) (use f in blast)
  have par: "sel1 (parentRow i p) (payments db') = map_option (\<lambda>y. if q y then f y else y) (sel1 (parentRow i p) (payments db))" for i p
    unfolding assms(1) by (rule find_upd) (use f in simp)
  have keep: "tender_ok db' (if q y then f y else y) = tender_ok db y" for y
    using f [of y] by (simp add: tender_ok_def ref par split: option.split)
  have "map py_id (payments db') = map py_id (payments db)"
    unfolding assms(1) by (rule map_upd_same) (use f in blast)
  moreover have "tender_ok db' z" if "z \<in> set (payments db')" for z
  proof -
    obtain y where "y \<in> set (payments db)" "z = (if q y then f y else y)" using \<open>z \<in> set (payments db')\<close> by (auto simp: assms(1) set_upd)
    then show ?thesis using keep [of y] ok by (simp add: tenders_ok_def)
  qed
  ultimately have ok': "tenders_ok db'" using ok by (simp add: tenders_ok_def)
  have "(tender_step b)\<^sup>*\<^sup>* (tender db i p) (tender db' i p)" for i p
  proof (cases "sel1 (parentRow i p) (payments db)")
    case None
    then show ?thesis by (simp add: tender_def par)
  next
    case (Some y)
    show ?thesis
    proof (cases "q y")
      case True
      then have "tender_step b (tender db i p) (tender db' i p)"
        using Some f [OF True] assms(3) find_SomeD [OF Some] by (simp add: tender_def par ref tender_step.move)
      then show ?thesis by blast
    next
      case False
      with Some show ?thesis by (simp add: tender_def par ref)
    qed
  qed
  with ok' show "tenders_ok db' \<and> (\<forall>i p. (tender_step b)\<^sup>*\<^sup>* (tender db i p) (tender db' i p))" by blast
qed

section \<open>New rows under a fresh key\<close>

definition from_fresh :: "uuid \<Rightarrow> bool \<Rightarrow> ('z folio_db_scheme, 'a) op \<Rightarrow> bool" where
  "from_fresh n b m \<longleftrightarrow> (\<forall>w r w'. n \<notin> py_id ` set (payments (wdb w)) \<longrightarrow> m w = (r, w') \<longrightarrow> evolves b (wdb w) (wdb w'))"

lemma from_freshD: "from_fresh n b m \<Longrightarrow> n \<notin> py_id ` set (payments (wdb w)) \<Longrightarrow> m w = (r, w') \<Longrightarrow> evolves b (wdb w) (wdb w')"
  by (simp add: from_fresh_def)

lemma fresh_any: "does (evolves b) m \<Longrightarrow> from_fresh n b m"
  by (auto simp: from_fresh_def does_def)

lemma fresh_after:
  assumes "keeps payments m" and "\<And>a. from_fresh n b (k a)"
  shows "from_fresh n b (bindS m k)"
  unfolding from_fresh_def
proof (intro allI impI)
  fix w r w' assume n: "n \<notin> py_id ` set (payments (wdb w))" and run: "bindS m k w = (r, w')"
  obtain x w1 where m: "m w = (x, w1)" by fastforce
  have same: "payments (wdb w1) = payments (wdb w)" using doesD [OF assms(1) m] .
  show "evolves b (wdb w) (wdb w')"
  proof (cases x)
    case (Inl e)
    with run m same show ?thesis by (simp add: bindS_def evolves_same)
  next
    case (Inr a)
    with run m have "k a w1 = (r, w')" by (simp add: bindS_def)
    with from_freshD [OF assms(2)] n same have "evolves b (wdb w1) (wdb w')" by auto
    with evolves_same [OF same] show ?thesis by (rule evolving.join)
  qed
qed

lemma fresh_then:
  assumes "from_fresh n b m" and "\<And>a. does (evolves b) (k a)"
  shows "from_fresh n b (bindS m k)"
  unfolding from_fresh_def
proof (intro allI impI)
  fix w r w' assume n: "n \<notin> py_id ` set (payments (wdb w))" and run: "bindS m k w = (r, w')"
  obtain x w1 where m: "m w = (x, w1)" by fastforce
  have e: "evolves b (wdb w) (wdb w1)" using from_freshD [OF assms(1) n m] .
  show "evolves b (wdb w) (wdb w')"
  proof (cases x)
    case (Inl err)
    with run m e show ?thesis by (simp add: bindS_def)
  next
    case (Inr a)
    with run m have "k a w1 = (r, w')" by (simp add: bindS_def)
    with e doesD [OF assms(2)] show ?thesis by (blast intro: evolving.join)
  qed
qed

lemma fresh_choose: "(c \<Longrightarrow> from_fresh n b m) \<Longrightarrow> (\<not> c \<Longrightarrow> from_fresh n b m') \<Longrightarrow> from_fresh n b (if c then m else m')"
  by simp

lemma addPayment_cases: "addPayment L y w = (r, w') \<Longrightarrow> (\<exists>e. r = Inl e \<and> w' = w) \<or>
    (\<exists>a. numeric12_2 L (py_amount y) = Inr a \<and> r = Inr (y\<lparr>py_amount := a\<rparr>)
      \<and> w' = w\<lparr>wdb := put_payment (y\<lparr>py_amount := a\<rparr>) (wdb w)\<rparr>)"
  by (auto simp: addPayment_def storedPayment_def bindR_def op_defs put_payment_def split: sum.splits if_splits prod.splits)

context numerics
begin

lemma addPayment_fresh:
  assumes "py_id y = n" and "py_originalPaymentId y = None" and "decimal_text (py_amount y) \<noteq> None"
    and "0 \<le> text_val (py_amount y)"
  shows "from_fresh n b (addPayment L y)"
  unfolding from_fresh_def
proof (intro allI impI)
  fix w :: "'z folio_db_scheme world" and r w'
  assume n: "n \<notin> py_id ` set (payments (wdb w))" and run: "addPayment L y w = (r, w')"
  from addPayment_cases [OF run] show "evolves b (wdb w) (wdb w')"
  proof (elim disjE exE conjE)
    fix a assume a: "numeric12_2 L (py_amount y) = Inr a" and w': "w' = w\<lparr>wdb := put_payment (y\<lparr>py_amount := a\<rparr>) (wdb w)\<rparr>"
    have "money_text a" "0 \<le> text_val a"
      using numeric12_2_money [OF assms(3) a] round_dp_mono [OF assms(4), of 2] by simp_all
    with w' n assms(1,2) show ?thesis by (intro add_parent [of _ _ "y\<lparr>py_amount := a\<rparr>"]) simp_all
  qed (simp add: evolving.same)
qed

end

lemmas fresh_rules = fresh_after fresh_then fresh_choose

section \<open>The operations\<close>

lemma blind_payments [stay_frame]: "posting_blind payments"
  by (simp add: posting_blind_def)

lemma recalculateFor_frame [stay_frame]: "posting_blind g \<Longrightarrow> keeps g (recalculateFor L now f p)"
  unfolding recalculateFor_def by (intro keeps_rules stay_frame)

lemma read_frame [stay_frame]: "keeps g (findPaymentRow i p)" "keeps g (assertGenericAccessAllowed y)"
    "keeps g (findPaymentByGatewayTransactionId t)" "keeps g (emitCorrected i p what y a)"
    "keeps g (replayOf L i p key d)" "keeps g (prepareRefund L i p amount key)"
  unfolding findPaymentRow_def assertGenericAccessAllowed_def findPaymentByGatewayTransactionId_def emitCorrected_def
    replayOf_def prepareRefund_def Let_def
  by (intro keeps_rules)+

text \<open>What is asked of the processor: its calls leave the tables alone, but for refunds, during which payments may evolve.\<close>

definition calm :: "('d, 'z folio_db_scheme) gateway \<Rightarrow> bool" where
  "calm G \<longleftrightarrow> (\<forall>t a c. keeps (\<lambda>db. db) (gw_authorize G t a c)) \<and> (\<forall>t a k c. keeps (\<lambda>db. db) (gw_capture G t a k c))
     \<and> (\<forall>t k. keeps (\<lambda>db. db) (gw_void G t k))"

definition fair_refunds :: "uuid \<Rightarrow> bool \<Rightarrow> ('d, 'z folio_db_scheme) gateway \<Rightarrow> bool" where
  "fair_refunds n b G \<longleftrightarrow> (\<forall>t a k c. does (\<lambda>db db'. evolves b db db'
     \<and> (n \<notin> py_id ` set (payments db) \<longrightarrow> n \<notin> py_id ` set (payments db'))) (gw_refund G t a k c))"

lemma calmD:
  assumes "calm G"
  shows "keeps g (gw_authorize G t a c)" "keeps g (gw_capture G t' a k c)" "keeps g (gw_void G t' k)"
  using assms by (auto simp: calm_def does_def)

lemma claim_cases:
  assumes "claimPayment what i p f w = (r, w')"
  shows "(\<exists>e. r = Inl e \<and> w' = w) \<or> (\<exists>y. sel1 (\<lambda>y. paymentRow i p y \<and> py_status y = PsAuthorized) (payments (wdb w)) = Some y
    \<and> r = Inr (f y) \<and> w' = w\<lparr>wdb := (wdb w)\<lparr>payments := upd (\<lambda>y. paymentRow i p y \<and> py_status y = PsAuthorized) f (payments (wdb w))\<rparr>\<rparr>)"
proof (cases "sel1 (\<lambda>y. paymentRow i p y \<and> py_status y = PsAuthorized) (payments (wdb w))")
  case None
  then have "upd (\<lambda>y. paymentRow i p y \<and> py_status y = PsAuthorized) f (payments (wdb w)) = payments (wdb w)"
    by (intro upd_idle) (auto dest: find_NoneD)
  with None assms show ?thesis
    by (auto simp: claimPayment_def updatePayment_def op_defs split: option.splits)
next
  case (Some y)
  with assms show ?thesis by (auto simp: claimPayment_def updatePayment_def op_defs)
qed

text \<open>A claim whose continuation leaves the payments alone or puts the payment back on hold.\<close>

definition same_tender :: "(payment \<Rightarrow> payment) \<Rightarrow> bool" where
  "same_tender f \<longleftrightarrow> (\<forall>y. py_id (f y) = py_id y \<and> py_propertyId (f y) = py_propertyId y \<and> py_amount (f y) = py_amount y
     \<and> py_originalPaymentId (f y) = py_originalPaymentId y)"

lemma put_back:
  assumes "tenders_ok db" and "same_tender f" and "same_tender g" and "\<And>y. phaseOf (py_status (g y)) = Hold"
    and "sel1 (\<lambda>y. paymentRow i p y \<and> py_status y = PsAuthorized) (payments db) = Some y"
    and "payments db' = upd (paymentRow i p) g (upd (\<lambda>y. paymentRow i p y \<and> py_status y = PsAuthorized) f (payments db))"
  shows "evolves b db db'"
proof (rule upd_status)
  let ?h = "\<lambda>y. g (if py_status y = PsAuthorized then f y else y)"
  have "upd (paymentRow i p) g (upd (\<lambda>y. paymentRow i p y \<and> py_status y = PsAuthorized) f ys) = upd (paymentRow i p) ?h ys" for ys
    using assms(2) by (induction ys) (auto simp: same_tender_def)
  with assms(6) show "payments db' = upd (paymentRow i p) ?h (payments db)" by simp
  show "py_id (?h z) = py_id z \<and> py_propertyId (?h z) = py_propertyId z \<and> py_amount (?h z) = py_amount z
       \<and> py_originalPaymentId (?h z) = py_originalPaymentId z" for z
    using assms(2,3) by (simp add: same_tender_def)
  have "z = y" if "z \<in> set (payments db)" "paymentRow i p z" for z
    using find_key [of py_id "payments db" z "paymentRow i p"] find_SomeD [OF assms(5)] assms(1) that
      find_key [of py_id "payments db" y "paymentRow i p"] by (auto simp: tenders_ok_def)
  then show "\<forall>z\<in>set (payments db). paymentRow i p z \<longrightarrow> allowed b (phaseOf (py_status z)) (phaseOf (py_status (?h z)))"
  proof (intro ballI impI)
    fix z assume "z \<in> set (payments db)" "paymentRow i p z"
    then have "py_status z = PsAuthorized" using find_SomeD [OF assms(5)] \<open>\<And>z. z \<in> set (payments db) \<Longrightarrow> paymentRow i p z \<Longrightarrow> z = y\<close> by blast
    then show "allowed b (phaseOf (py_status z)) (phaseOf (py_status (?h z)))" by (simp add: allowed_def assms(4))
  qed
qed

lemma claimed_evolves:
  assumes f: "same_tender f" "\<And>y. allowed b Hold (phaseOf (py_status (f y)))"
    and g: "same_tender g" "\<And>y. phaseOf (py_status (g y)) = Hold"
    and k: "\<And>y w1 r w'. k y w1 = (r, w') \<Longrightarrow> payments (wdb w') = payments (wdb w1) \<or> payments (wdb w') = upd (paymentRow i p) g (payments (wdb w1))"
  shows "does (evolves b) (bindS (claimPayment what i p f) k)"
proof (rule doesI)
  fix w r w' assume run: "bindS (claimPayment what i p f) k w = (r, w')"
  obtain x w1 where c: "claimPayment what i p f w = (x, w1)" by fastforce
  from claim_cases [OF c] show "evolves b (wdb w) (wdb w')"
  proof (elim disjE exE conjE)
    fix e assume "x = Inl e" "w1 = w"
    with run c show ?thesis by (simp add: bindS_def evolving.same)
  next
    fix y assume y: "sel1 (\<lambda>y. paymentRow i p y \<and> py_status y = PsAuthorized) (payments (wdb w)) = Some y" and x: "x = Inr (f y)"
      and w1: "w1 = w\<lparr>wdb := (wdb w)\<lparr>payments := upd (\<lambda>y. paymentRow i p y \<and> py_status y = PsAuthorized) f (payments (wdb w))\<rparr>\<rparr>"
    from run c x have "k (f y) w1 = (r, w')" by (simp add: bindS_def)
    from k [OF this] show ?thesis
    proof
      assume "payments (wdb w') = payments (wdb w1)"
      then show ?thesis using f w1
        by (intro upd_status [of _ "\<lambda>y. paymentRow i p y \<and> py_status y = PsAuthorized" f]) (auto simp: same_tender_def)
    next
      assume "payments (wdb w') = upd (paymentRow i p) g (payments (wdb w1))"
      then show ?thesis using put_back [OF _ f(1) g y] by (cases "tenders_ok (wdb w)") (simp_all add: w1 evolves_def)
    qed
  qed
qed

text \<open>A call of the processor, then either a put-back that throws or steps that keep the payments.\<close>

lemma call_then:
  assumes "m w1 = (r, w')" and "m = bindS call (\<lambda>result. if declined result then bindS (updatePayment q g) (\<lambda>_. throwS (e result)) else n result)"
    and "keeps payments call" and "\<And>x. keeps payments (n x)"
  shows "payments (wdb w') = payments (wdb w1) \<or> payments (wdb w') = upd q g (payments (wdb w1))"
proof -
  obtain x w2 where c: "call w1 = (x, w2)" by fastforce
  have same: "payments (wdb w2) = payments (wdb w1)" using doesD [OF assms(3) c] .
  show ?thesis
  proof (cases x)
    case (Inl e)
    with assms(1,2) c same show ?thesis by (simp add: bindS_def)
  next
    case (Inr a)
    show ?thesis
    proof (cases "declined a")
      case True
      with assms(1,2) c Inr same show ?thesis by (auto simp: op_defs updatePayment_def)
    next
      case False
      with assms(1,2) c Inr have "n a w2 = (r, w')" by (simp add: bindS_def)
      with doesD [OF assms(4)] same show ?thesis by auto
    qed
  qed
qed

lemma accessed:
  "does (evolves b) m \<Longrightarrow> does (evolves b) (bindS (findPaymentRow i p) (\<lambda>y. bindS (assertGenericAccessAllowed y) (\<lambda>_. m)))"
  by (intro evolving.bind evolves_kept [OF read_frame(1)] evolves_kept [OF read_frame(2)])

lemma capture_evolves:
  assumes "calm G"
  shows "does (evolves b) (capturePayment L G now i p)"
proof -
  let ?f = "\<lambda>y. y\<lparr>py_status := PsCaptured, py_processedAt := Some now, py_updatedAt := now\<rparr>"
    and ?g = "\<lambda>y. y\<lparr>py_status := PsAuthorized, py_processedAt := None, py_updatedAt := now\<rparr>"
  have rest: "payments (wdb w') = payments (wdb w1) \<or> payments (wdb w') = upd (paymentRow i p) ?g (payments (wdb w1))"
    if "bindS (liftS (newDecimal L (py_amount claimed))) (\<lambda>amount.
     bindS (gw_capture G (py_gatewayTransactionId claimed) amount (''cap_'' @ i) (py_currencyCode claimed)) (\<lambda>result.
     if \<not> gr_success result then
       bindS (updatePayment (paymentRow i p) ?g) (\<lambda>_. throwS (e result))
     else
       bindS (recalculateFor L now (py_folioId claimed) p) (\<lambda>_.
       bindS (emit n1 t1 (py_id claimed) (pl claimed) (Some p)) (\<lambda>_.
       returnS (safePaymentResponse claimed))))) w1 = (r, w')" for claimed w1 r w' e n1 t1 and pl :: "payment \<Rightarrow> (string \<times> string option) list"
  proof (cases "newDecimal L (py_amount claimed)")
    case (Inl err)
    with that show ?thesis by (simp add: op_defs)
  next
    case (Inr amount)
    with that have "(\<lambda>w. bindS (gw_capture G (py_gatewayTransactionId claimed) amount (''cap_'' @ i) (py_currencyCode claimed)) (\<lambda>result.
       if \<not> gr_success result then bindS (updatePayment (paymentRow i p) ?g) (\<lambda>_. throwS (e result))
       else bindS (recalculateFor L now (py_folioId claimed) p) (\<lambda>_. bindS (emit n1 t1 (py_id claimed) (pl claimed) (Some p)) (\<lambda>_.
         returnS (safePaymentResponse claimed)))) w) w1 = (r, w')" by (simp add: bindS_def liftS_def)
    then show ?thesis
      by (rule call_then [where declined = "\<lambda>r. \<not> gr_success r"]) (auto intro!: keeps_rules stay_frame calmD [OF assms])
  qed
  show ?thesis
    unfolding capturePayment_def
    by (rule accessed, rule claimed_evolves [where g = ?g, OF _ _ _ _ rest]) (simp_all add: same_tender_def allowed_def)
qed

lemma void_evolves:
  assumes "calm G"
  shows "does (evolves b) (voidPayment G now i p)"
proof -
  let ?g = "\<lambda>y. y\<lparr>py_status := PsAuthorized, py_updatedAt := now\<rparr>"
  have rest: "payments (wdb w') = payments (wdb w1) \<or> payments (wdb w') = upd (paymentRow i p) ?g (payments (wdb w1))"
    if "bindS (gw_void G (py_gatewayTransactionId claimed) (''void_'' @ i)) (\<lambda>result.
     if \<not> gr_success result then bindS (updatePayment (paymentRow i p) ?g) (\<lambda>_. throwS (e result))
     else bindS (emit n1 t1 (py_id claimed) (pl claimed) (Some p)) (\<lambda>_. returnS (safePaymentResponse claimed))) w1 = (r, w')"
    for claimed w1 r w' e n1 t1 and pl :: "payment \<Rightarrow> (string \<times> string option) list"
    using that by (rule call_then [where declined = "\<lambda>r. \<not> gr_success r"]) (auto intro!: keeps_rules calmD [OF assms])
  show ?thesis
    unfolding voidPayment_def
    by (rule accessed, rule claimed_evolves [where g = ?g, OF _ _ _ _ rest]) (simp_all add: same_tender_def allowed_def)
qed

lemma voidTender_evolves: "does (evolves b) (voidTender L now i p y)"
proof -
  have "does (evolves b) (updatePayment q (\<lambda>y. y\<lparr>py_status := PsVoided, py_updatedAt := now\<rparr>))" for q
    by (auto simp: does_def updatePayment_def modifyS_iff allowed_def
        intro!: upd_status [of _ q "\<lambda>y. y\<lparr>py_status := PsVoided, py_updatedAt := now\<rparr>"])
  then show ?thesis
    unfolding voidTender_def Let_def by (intro evolving.rules evolves_kept [OF recalculateFor_frame] blind_payments)
qed

lemma setStatus_evolves:
  assumes "same_tender g" and "\<And>x. py_status (g x) = py_status x"
  shows "does (evolves True) (setStatus L now y s g name pl)"
proof -
  have "does (evolves True) (updatePayment q (\<lambda>x. g (x\<lparr>py_status := s, py_updatedAt := now\<rparr>)))" for q
    using assms(1) by (auto simp: does_def updatePayment_def modifyS_iff allowed_def same_tender_def
        intro!: upd_status [of _ q "\<lambda>x. g (x\<lparr>py_status := s, py_updatedAt := now\<rparr>)"])
  then show ?thesis
    unfolding setStatus_def by (intro evolving.rules evolves_kept [OF recalculateFor_frame] blind_payments)
qed

context numerics
begin

lemma record_evolves:
  assumes "decimal_text (cp_amount dto) \<noteq> None" and "0 \<le> text_val (cp_amount dto)"
  shows "from_fresh n b (recordPayment L now n dto)"
  unfolding recordPayment_def
  by (intro fresh_after fresh_then addPayment_fresh fresh_choose keeps_rules evolving.rules stay_frame
      evolves_kept [OF recalc_frame] blind_payments) (use assms in \<open>auto simp: newPayment_def\<close>)

lemma authorize_evolves:
  assumes "calm G" and "decimal_text (au_amount dto) \<noteq> None" and "0 \<le> text_val (au_amount dto)"
  shows "from_fresh n b (authorizePayment L G now n dto)"
  unfolding authorizePayment_def
  by (intro fresh_after fresh_then addPayment_fresh fresh_choose keeps_rules evolving.rules stay_frame calmD [OF assms(1)])
     (use assms in \<open>auto simp: authorization_def newPayment_def\<close>)

lemma sum_from:
  assumes "\<forall>a\<in>set as. money_text a" and "dval d = Some x" and "scaled 2 x" and "0 \<le> x"
    and "x + sum_list (map (\<lambda>a. \<bar>text_val a\<bar>) as) < 10 ^ 18"
  shows "\<exists>r. foldl (\<lambda>acc a. case acc of Inl e \<Rightarrow> Inl e
              | Inr acc' \<Rightarrow> (case newDecimal L a of Inl e \<Rightarrow> Inl e
                  | Inr d \<Rightarrow> Inr (dec_plus L acc' (dec_abs L d)))) (Inr d) as = Inr r
      \<and> dval r = Some (x + sum_list (map (\<lambda>a. \<bar>text_val a\<bar>) as))"
  using assms
proof (induction as arbitrary: d x)
  case Nil
  then show ?case by simp
next
  case (Cons a as)
  have m: "money_text a" using Cons.prems(1) by simp
  obtain e where e: "newDecimal L a = Inr e" "dval e = Some (text_val a)"
    using newDecimal_text [OF money_textD(1) [OF m]] by blast
  have rest: "0 \<le> sum_list (map (\<lambda>a. \<bar>text_val a\<bar>) as)" by (intro sum_list_nonneg) auto
  have sc: "scaled 2 \<bar>text_val a\<bar>" using money_textD(2) [OF m] by (auto simp: abs_if intro: scaled_minus)
  have "dval (dec_plus L d (dec_abs L e)) = Some (x + \<bar>text_val a\<bar>)"
    using Cons.prems e sc rest by (intro plus_cents abs_val) auto
  with Cons.IH [of "dec_plus L d (dec_abs L e)" "x + \<bar>text_val a\<bar>"] Cons.prems sc show ?case
    by (simp add: e(1) scaled_add add.assoc)
qed

lemma sum_children:
  assumes "tenders_ok db"
  shows "\<exists>r. sumRefundChildren L (map py_amount (refundChildren i p db)) = Inr r \<and> dval r = Some (refunded i p db)
    \<and> scaled 2 (refunded i p db) \<and> 0 \<le> refunded i p db \<and> refunded i p db < 10 ^ 10"
proof -
  have money: "\<forall>y\<in>set (refundChildren i p db). money_text (py_amount y)"
    using assms by (auto simp: tenders_ok_def tender_ok_def refundChildren_def)
  have nonneg: "0 \<le> refunded i p db" unfolding refunded_def by (intro sum_list_nonneg) auto
  have "scaled 2 (refunded i p db)"
    unfolding refunded_def by (rule scaled_sum_list) (use money in \<open>auto simp: abs_if dest: money_textD(2) intro: scaled_minus\<close>)
  moreover have "refunded i p db < 10 ^ 10"
  proof (cases "sel1 (parentRow i p) (payments db)")
    case None
    then show ?thesis using no_parent_no_children [OF assms None] by (simp add: refunded_def)
  next
    case (Some x)
    then have "tender_ok db x" "py_id x = i" "py_propertyId x = p" "py_originalPaymentId x = None"
      using find_SomeD [OF Some] assms by (auto simp: tenders_ok_def)
    then show ?thesis using money_textD(3) [of "py_amount x"] by (auto simp: tender_ok_def)
  qed
  ultimately show ?thesis
    using sum_from [of "map py_amount (refundChildren i p db)" "dec_int L 0" 0] money nonneg int_val [of 0]
    by (auto simp: sumRefundChildren_def refunded_def comp_def)
qed

end

section \<open>Refunds\<close>

lemma bindS_getS: "bindS (getS f) k w = k (f (wdb w)) w" and bindS_liftS: "bindS (liftS (Inr a)) k = k a"
  by (auto simp: bindS_def getS_def liftS_def)

lemma bindS_run: "m w = (Inr a, w') \<Longrightarrow> bindS m k w = k a w'"
  by (simp add: bindS_def)

lemma replayOf_same: "replayOf L i p key d w = (r, w') \<Longrightarrow> w' = w"
  by (auto simp: replayOf_def op_defs split: if_splits option.splits sum.splits)

lemma replay_Inr: "replayOf L i p key d w = (Inr (Some y), w') \<Longrightarrow>
    key \<noteq> None \<and> sel1 (\<lambda>y. py_propertyId y = p \<and> py_idempotencyKey y = key) (payments (wdb w)) = Some y
    \<and> py_originalPaymentId y = Some i"
  by (cases key) (auto simp: replayOf_def op_iffs split: if_splits option.splits)

definition cents :: "string option \<Rightarrow> bool" where
  "cents a \<longleftrightarrow> (case a of None \<Rightarrow> True | Some s \<Rightarrow> money_text s)"

lemma prepare_steps:
  assumes "prepareRefund L i p amount key w = (Inr (y, tot, ref, replay), w')"
  shows "w' = w \<and> sel1 (paymentRow i p) (payments (wdb w)) = Some y \<and> py_status y \<in> {PsCaptured, PsSettled, PsPartiallyRefunded}
    \<and> \<not> present (py_bookingRequestId y) \<and> present (py_gatewayTransactionId y)
    \<and> newDecimal L (nvl amount (py_amount y)) = Inr ref \<and> \<not> dec_lte L ref (dec_int L 0)
    \<and> (case replay of Some z \<Rightarrow> replayOf L i p key ref w = (Inr (Some z), w)
       | None \<Rightarrow> \<exists>a s. replayOf L i p key ref w = (Inr None, w) \<and> newDecimal L (py_amount y) = Inr a
          \<and> sumRefundChildren L (map py_amount (refundChildren i p (wdb w))) = Inr s
          \<and> \<not> dec_lte L (dec_minus L a s) (dec_int L 0) \<and> \<not> dec_gt L ref (dec_minus L a s) \<and> tot = dec_plus L s ref)"
proof -
  obtain found w1 a where y: "sel1 (paymentRow i p) (payments (wdb w)) = Some y" "\<not> present (py_bookingRequestId y)"
      "py_status y \<in> {PsCaptured, PsSettled, PsPartiallyRefunded}" "newDecimal L (nvl amount (py_amount y)) = Inr ref"
      "newDecimal L (py_amount y) = Inr a" "\<not> dec_lte L ref (dec_int L 0)" "present (py_gatewayTransactionId y)"
    and rp: "replayOf L i p key ref w = (Inr found, w1)"
    and rest: "(case found of Some z \<Rightarrow> returnS (y, a, ref, Some z)
     | None \<Rightarrow>
       bindS (getS (\<lambda>db. sumRefundChildren L (map py_amount (refundChildren i p db)))) (\<lambda>sum.
       bindS (liftS sum) (\<lambda>alreadyRefunded.
       bindS (guardS (\<not> dec_lte L (dec_minus L a alreadyRefunded) (dec_int L 0)) (BadRequestException
          (''Payment '' @ i @ '' is already fully refunded''))) (\<lambda>_.
       bindS (guardS (\<not> dec_gt L ref (dec_minus L a alreadyRefunded)) (BadRequestException
          (''Refund amount '' @ dec_toFixed L 2 ref @ '' exceeds remaining refundable amount ''
            @ dec_toFixed L 2 (dec_minus L a alreadyRefunded)))) (\<lambda>_.
       returnS (y, dec_plus L alreadyRefunded ref, ref, None)))))) w1 = (Inr (y, tot, ref, replay), w')"
    using assms
    by (clarsimp simp: prepareRefund_def bindS_Inr_iff findPaymentRow_def getS_iff someS_Inr_iff assertGenericAccessAllowed_def
      guardS_Inr_iff liftS_iff Let_def)
       (auto split: option.splits simp: bindS_Inr_iff getS_iff liftS_iff guardS_Inr_iff returnS_iff)
  have "w1 = w" using replayOf_same [OF rp] .
  with y rp rest show ?thesis
    by (cases found) (auto simp: bindS_Inr_iff getS_iff guardS_Inr_iff liftS_iff returnS_iff)
qed

context numerics
begin

lemma prepare_value:
  assumes "prepareRefund L i p amount key w = (Inr (y, tot, ref, replay), w')" and "tenders_ok (wdb w)" and "cents amount"
  shows "\<exists>u. dval ref = Some u \<and> u = text_val (nvl amount (py_amount y)) \<and> scaled 2 u \<and> 0 < u"
    and "replay = None \<Longrightarrow> sel1 (parentRow i p) (payments (wdb w)) = Some y
      \<and> dval tot = Some (refunded i p (wdb w) + text_val (nvl amount (py_amount y)))
      \<and> refunded i p (wdb w) + text_val (nvl amount (py_amount y)) \<le> text_val (py_amount y)"
proof -
  let ?u = "text_val (nvl amount (py_amount y))" and ?r = "refunded i p (wdb w)"
  note steps = prepare_steps [OF assms(1)]
  have y: "y \<in> set (payments (wdb w))" "py_id y = i" "py_propertyId y = p" using steps find_SomeD [of "paymentRow i p" "payments (wdb w)" y] by simp_all
  then have ok: "tender_ok (wdb w) y" using assms(2) by (simp add: tenders_ok_def)
  then have my: "money_text (py_amount y)" by (simp add: tender_ok_def)
  then have mu: "money_text (nvl amount (py_amount y))" using assms(3) by (cases amount) (auto simp: cents_def)
  then have ref: "dval ref = Some ?u" using newDecimal_eq [OF money_textD(1) [OF mu]] steps by blast
  have pos: "0 < ?u" using steps lte_val [OF ref, of "dec_int L 0" 0] int_val [of 0] by simp
  from ref money_textD(2) [OF mu] pos show "\<exists>u. dval ref = Some u \<and> u = ?u \<and> scaled 2 u \<and> 0 < u" by blast
  assume "replay = None"
  with steps obtain a s where a: "newDecimal L (py_amount y) = Inr a"
    and s: "sumRefundChildren L (map py_amount (refundChildren i p (wdb w))) = Inr s"
    and le: "\<not> dec_lte L (dec_minus L a s) (dec_int L 0)" "\<not> dec_gt L ref (dec_minus L a s)" and tot: "tot = dec_plus L s ref"
    by auto
  have av: "dval a = Some (text_val (py_amount y))" using newDecimal_eq [OF money_textD(1) [OF my] a] .
  have sv: "dval s = Some ?r" "scaled 2 ?r" "0 \<le> ?r" "?r < 10 ^ 10" using sum_children [OF assms(2), of i p] s by auto
  have d: "dval (dec_minus L a s) = Some (text_val (py_amount y) - ?r)"
    using av sv money_textD(2,3) [OF my] by (intro minus_cents) auto
  have rem: "0 < text_val (py_amount y) - ?r" "?u \<le> text_val (py_amount y) - ?r"
    using le lte_val [OF d, of "dec_int L 0" 0] lt_val [OF d ref] int_val [of 0] by simp_all
  have "py_originalPaymentId y = None"
  proof (rule ccontr)
    assume "py_originalPaymentId y \<noteq> None"
    then obtain k where "py_originalPaymentId y = Some k" by blast
    with ok rem(1) sv(3) show False by (simp add: tender_ok_def)
  qed
  then have "sel1 (parentRow i p) (payments (wdb w)) = Some y" using find_parent [OF assms(2) y(1)] y(2,3) by simp
  moreover have "dval tot = Some (?r + ?u)"
    unfolding tot using sv ref money_textD(2,3) [OF mu] pos by (intro plus_cents) auto
  ultimately show "sel1 (parentRow i p) (payments (wdb w)) = Some y \<and> dval tot = Some (?r + ?u) \<and> ?r + ?u \<le> text_val (py_amount y)"
    using rem(2) by simp
qed

text \<open>Booking adds the part of the refund that the rows do not show yet, or nothing.\<close>

lemma book_cases:
  assumes "bookRefund L now n i p key tot ref t w = (r, w')" and "tenders_ok (wdb w)"
    and "sel1 (parentRow i p) (payments (wdb w)) = Some x" and "dval tot = Some v" and "dval ref = Some u"
    and "scaled 2 v" and "scaled 2 u" and "0 < u" and "v < 10 ^ 10" and "u < 10 ^ 10" and "0 \<le> v"
  shows "(w' = w \<and> (\<forall>row. r \<noteq> Inr (row, True))
      \<and> (\<forall>row. r = Inr (row, False) \<and> replayOf L i p key ref w = (Inr None, w)
            \<and> (t = [] \<or> (\<forall>y\<in>set (refundChildren i p (wdb w)). py_gatewayTransactionId y \<noteq> Some t)) \<longrightarrow> v \<le> refunded i p (wdb w)))
    \<or> (\<exists>row. r = Inr (row, True) \<and> w' = w\<lparr>wdb := put_payment row (wdb w)\<rparr> \<and> py_id row = n \<and> py_propertyId row = p
        \<and> py_originalPaymentId row = Some i \<and> py_folioId row = py_folioId x \<and> py_status row = PsCaptured \<and> money_text (py_amount row)
        \<and> text_val (py_amount row) = - min u (v - refunded i p (wdb w)) \<and> 0 < min u (v - refunded i p (wdb w))
        \<and> py_houseAccountId row = None)"
proof -
  let ?kids = "refundChildren i p (wdb w)" and ?already = "refunded i p (wdb w)"
  have row: "sel1 (paymentRow i p) (payments (wdb w)) = Some x"
    using find_key [of py_id "payments (wdb w)" x "paymentRow i p"] find_SomeD [OF assms(3)] assms(2) by (auto simp: tenders_ok_def)
  obtain s where s: "sumRefundChildren L (map py_amount ?kids) = Inr s" and sv: "dval s = Some ?already" "scaled 2 ?already"
      "0 \<le> ?already" "?already < 10 ^ 10" using sum_children [OF assms(2), of i p] by blast
  let ?rest = "dec_minus L tot s"
  let ?l = "if dec_lte L ref ?rest then ref else ?rest"
  have rest: "dval ?rest = Some (v - ?already)" using assms sv by (intro minus_cents) auto
  have l: "dval ?l = Some (min u (v - ?already))" using lte_val [OF assms(5) rest] assms(5) rest by (auto simp: min_def)
  have lsc: "scaled 2 (min u (v - ?already))" using assms(6,7) sv(2) by (auto simp: min_def intro: scaled_diff)
  let ?go = "bindS (guardS (\<not> dec_lte L ?l (dec_int L 0)) (ConflictException
               (''Payment '' @ i @ '' refundable amount changed during gateway refund''))) (\<lambda>_.
            bindS (addPayment L (refundRow L n now i p key x t ?l)) (\<lambda>row. returnS (row, True)))"
  have pre: "bookRefund L now n i p key tot ref t w = bindS (replayOf L i p key ref) (\<lambda>replay. case replay of Some y \<Rightarrow> returnS (y, False)
     | None \<Rightarrow> (case (if t = [] then None else List.find (\<lambda>y. py_gatewayTransactionId y = Some t) ?kids) of
          Some y \<Rightarrow> returnS (y, False)
        | None \<Rightarrow> if dec_gte L s tot \<and> ?kids \<noteq> [] then returnS (last ?kids, False) else ?go)) w"
  proof -
    have f: "findPaymentRow i p w = (Inr x, w)" by (simp add: findPaymentRow_def op_defs row)
    have g: "bindS (getS h) k w = k (h (wdb w)) w" for h :: "_ \<Rightarrow> 'e" and k :: "'e \<Rightarrow> (_, 'c) op" by (simp add: bindS_def getS_def)
    have e: "bindS (liftS (Inr d)) k w = k d w" for d :: 'e and k :: "'e \<Rightarrow> (_, 'c) op" by (simp add: bindS_def liftS_def)
    show ?thesis unfolding bookRefund_def by (simp only: bindS_run [of "findPaymentRow i p" w x w, OF f] g s e Let_def)
  qed
  have add: "w' = w \<and> (\<forall>row new. r \<noteq> Inr (row, new)) \<or> (\<exists>row. r = Inr (row, True) \<and> w' = w\<lparr>wdb := put_payment row (wdb w)\<rparr>
        \<and> py_id row = n \<and> py_propertyId row = p \<and> py_originalPaymentId row = Some i \<and> py_folioId row = py_folioId x
        \<and> py_status row = PsCaptured \<and> money_text (py_amount row) \<and> text_val (py_amount row) = - min u (v - ?already)
        \<and> 0 < min u (v - ?already) \<and> py_houseAccountId row = None)" if go: "?go w = (r, w')"
  proof (cases "dec_lte L ?l (dec_int L 0)")
    case True
    with go show ?thesis by (auto simp: bindS_def guardS_def throwS_def)
  next
    case False
    then have pos: "0 < min u (v - ?already)" using lte_val [OF l, of "dec_int L 0" 0] int_val [of 0] by (simp add: not_le)
    obtain z w1 where z: "addPayment L (refundRow L n now i p key x t ?l) w = (z, w1)" by fastforce
    from addPayment_cases [OF z] show ?thesis
    proof (elim disjE exE conjE)
      fix e assume "z = Inl e" "w1 = w"
      with go z False show ?thesis by (auto simp: bindS_def guardS_def returnS_def)
    next
      let ?row = "refundRow L n now i p key x t ?l"
      fix a assume a: "numeric12_2 L (py_amount ?row) = Inr a" and z': "z = Inr (?row\<lparr>py_amount := a\<rparr>)"
        "w1 = w\<lparr>wdb := put_payment (?row\<lparr>py_amount := a\<rparr>) (wdb w)\<rparr>"
      have "dval (dec_neg L ?l) = Some (- min u (v - ?already))" using neg_val [OF l] .
      then have "decimal_text a = Some (- min u (v - ?already)) \<and> \<bar>min u (v - ?already)\<bar> < 10 ^ 10"
        using store_fixed_eq [of "dec_neg L ?l" "- min u (v - ?already)" a] a lsc
        by (simp add: refundRow_def newPayment_def round_dp_scaled)
      then have "money_text a" "text_val a = - min u (v - ?already)"
        using lsc by (auto intro: money_textI scaled_minus simp: text_val_Some)
      moreover have "r = Inr (?row\<lparr>py_amount := a\<rparr>, True) \<and> w' = w1"
        using go z z'(1) False by (auto simp: bindS_def guardS_def returnS_def)
      moreover have "py_id ?row = n" "py_propertyId ?row = p" "py_originalPaymentId ?row = Some i" "py_folioId ?row = py_folioId x"
        "py_status ?row = PsCaptured" "py_houseAccountId ?row = None"
        by (simp_all add: refundRow_def newPayment_def)
      ultimately show ?thesis using z'(2) pos by simp
    qed
  qed
  obtain rp w1 where rp: "replayOf L i p key ref w = (rp, w1)" by fastforce
  have w1: "w1 = w" using replayOf_same [OF rp] .
  show ?thesis
  proof (cases rp)
    case (Inl e)
    with assms(1) pre rp w1 show ?thesis by (auto simp: bindS_def)
  next
    case (Inr found)
    show ?thesis
    proof (cases found)
      case (Some z)
      with assms(1) pre rp w1 Inr show ?thesis by (auto simp: bindS_def returnS_def)
    next
      case None
      let ?known = "if t = [] then None else List.find (\<lambda>y. py_gatewayTransactionId y = Some t) ?kids"
      show ?thesis
      proof (cases ?known)
        case (Some z)
        then have "\<exists>y\<in>set ?kids. py_gatewayTransactionId y = Some t" "t \<noteq> []" by (auto split: if_splits dest: find_SomeD)
        with assms(1) pre rp w1 Inr None Some show ?thesis by (auto simp: bindS_def returnS_def)
      next
        case no: None
        show ?thesis
        proof (cases "dec_gte L s tot \<and> ?kids \<noteq> []")
          case True
          then have "v \<le> ?already" using lte_val [OF assms(4) sv(1)] by simp
          with assms(1) pre rp w1 Inr None no True show ?thesis by (auto simp: bindS_def returnS_def)
        next
          case False
          have "replayOf L i p key ref w = (Inr None, w)" using rp w1 Inr None by simp
          from pre [unfolded bindS_run [of "replayOf L i p key ref" w None w, OF this]] have "?go w = (r, w')"
            unfolding assms(1) option.case no if_not_P [OF False] by simp
          from add [OF this] show ?thesis by blast
        qed
      qed
    qed
  qed
qed

end

lemma parent_later:
  assumes "(tender_step b)\<^sup>*\<^sup>* (tender db i p) (tender db' i p)" and "sel1 (parentRow i p) (payments db) = Some y"
  shows "\<exists>x. sel1 (parentRow i p) (payments db') = Some x \<and> text_val (py_amount x) = text_val (py_amount y)"
  using tender_amount [of b _ "text_val (py_amount y)" _ "tender db' i p"] assms
  by (auto simp: tender_def split: option.splits)

lemma put_payment_evolves:
  assumes "tenders_ok db" and "py_id row \<notin> py_id ` set (payments db)" and "py_originalPaymentId row = Some i" and "money_text (py_amount row)"
    and "sel1 (parentRow i (py_propertyId row)) (payments db) = Some x" and "text_val (py_amount row) = - u" and "0 \<le> u"
    and "refunded i (py_propertyId row) db + u \<le> text_val (py_amount x)"
  shows "evolves b db (put_payment row db)"
  using assms by (intro add_child [of _ _ row i x]) simp_all

text \<open>A refund ends early, at the processor, or with the outcome of the booking.\<close>

lemma refund_steps:
  assumes "refundPayment L G now n i p amount key w = (r, w')"
  shows "payments (wdb w') = payments (wdb w)
    \<or> (\<exists>y tot ref g w2. prepareRefund L i p amount key w = (Inr (y, tot, ref, None), w)
       \<and> gw_refund G (the (py_gatewayTransactionId y)) ref (nvl key (''ref_'' @ i @ ''_'' @ dec_toFixed L 2 tot)) (py_currencyCode y) w = (g, w2)
       \<and> (w' = w2 \<and> (\<forall>z. r \<noteq> Inr z)
          \<or> (\<exists>result bk w3. g = Inr result \<and> gr_success result
              \<and> transactionS (bookRefund L now n i p key tot ref (gr_transactionId result)) w2 = (bk, w3)
              \<and> (case bk of Inl e \<Rightarrow> w' = w3 \<and> r = Inl e
                 | Inr (row, isNew) \<Rightarrow> bindS (whenS isNew (bindS (recalculateFor L now (py_folioId y) p) (\<lambda>_.
                    emit ''payment.refunded'' ''payment'' (py_id row) [(''folioId'', py_folioId y),
                      (''originalPaymentId'', Some i), (''refundAmount'', Some (dec_toFixed L 2 ref))] (Some p))))
                    (\<lambda>_. returnS (safePaymentResponse row)) w3 = (r, w')))))"
proof -
  obtain x w1 where pre: "transactionS (prepareRefund L i p amount key) w = (x, w1)" by fastforce
  have same: "payments (wdb w1) = payments (wdb w)" by (rule doesD [OF keeps_tx [OF read_frame(6)] pre])
  show ?thesis
  proof (cases x)
    case (Inl e)
    with assms pre same show ?thesis by (simp add: refundPayment_def bindS_def)
  next
    case (Inr res)
    obtain y tot ref replay where res: "res = (y, tot, ref, replay)" by (cases res) auto
    have prep: "prepareRefund L i p amount key w = (Inr (y, tot, ref, replay), w1)"
      using pre Inr res by (simp add: transactionS_Inr_iff)
    have w1: "w1 = w" using prepare_steps [OF prep] by simp
    show ?thesis
    proof (cases replay)
      case (Some z)
      with assms pre Inr res w1 show ?thesis by (simp add: refundPayment_def bindS_def returnS_def)
    next
      case None
      let ?call = "gw_refund G (the (py_gatewayTransactionId y)) ref (nvl key (''ref_'' @ i @ ''_'' @ dec_toFixed L 2 tot)) (py_currencyCode y)"
      obtain g w2 where call: "?call w = (g, w2)" by fastforce
      have rest: "bindS ?call (\<lambda>result. bindS (guardS (gr_success result)
            (BadRequestException (''Refund failed: '' @ nvl (gr_errorMessage result) ''undefined''))) (\<lambda>_.
          bindS (transactionS (bookRefund L now n i p key tot ref (gr_transactionId result))) (\<lambda>(row, isNew).
          bindS (whenS isNew (bindS (recalculateFor L now (py_folioId y) p) (\<lambda>_.
             emit ''payment.refunded'' ''payment'' (py_id row) [(''folioId'', py_folioId y),
               (''originalPaymentId'', Some i), (''refundAmount'', Some (dec_toFixed L 2 ref))] (Some p)))) (\<lambda>_.
          returnS (safePaymentResponse row))))) w = (r, w')"
        using assms pre Inr res w1 None by (simp add: refundPayment_def bindS_run [of "transactionS (prepareRefund L i p amount key)" w])
      show ?thesis
      proof (cases "\<exists>result. g = Inr result \<and> gr_success result")
        case False
        with rest call have "w' = w2 \<and> (\<forall>z. r \<noteq> Inr z)" by (cases g) (auto simp: bindS_def guardS_def throwS_def)
        with prep w1 None call show ?thesis by blast
      next
        case True
        then obtain result where g: "g = Inr result" "gr_success result" by blast
        obtain bk w3 where bk: "transactionS (bookRefund L now n i p key tot ref (gr_transactionId result)) w2 = (bk, w3)" by fastforce
        let ?book = "transactionS (bookRefund L now n i p key tot ref (gr_transactionId result))"
        have c: "?call w = (Inr result, w2)" using call g(1) by simp
        have "bindS ?book (\<lambda>(row, isNew). bindS (whenS isNew (bindS (recalculateFor L now (py_folioId y) p) (\<lambda>_.
             emit ''payment.refunded'' ''payment'' (py_id row) [(''folioId'', py_folioId y),
               (''originalPaymentId'', Some i), (''refundAmount'', Some (dec_toFixed L 2 ref))] (Some p)))) (\<lambda>_.
          returnS (safePaymentResponse row))) w2 = (r, w')"
          using rest [unfolded bindS_run [of ?call w, OF c]] g(2) by simp
        then have "(case bk of Inl e \<Rightarrow> w' = w3 \<and> r = Inl e
                 | Inr (row, isNew) \<Rightarrow> bindS (whenS isNew (bindS (recalculateFor L now (py_folioId y) p) (\<lambda>_.
                    emit ''payment.refunded'' ''payment'' (py_id row) [(''folioId'', py_folioId y),
                      (''originalPaymentId'', Some i), (''refundAmount'', Some (dec_toFixed L 2 ref))] (Some p))))
                    (\<lambda>_. returnS (safePaymentResponse row)) w3 = (r, w'))"
          using bk unfolding bindS_def [of ?book] by (cases bk) (auto split: prod.split)
        with prep w1 None call g bk show ?thesis by blast
      qed
    qed
  qed
qed

context numerics
begin

lemma book_evolves:
  assumes "transactionS (bookRefund L now n i p key tot ref t) w = (bk, w')" and "tenders_ok (wdb w)" and "n \<notin> py_id ` set (payments (wdb w))"
    and "sel1 (parentRow i p) (payments (wdb w)) = Some x" and "dval tot = Some v" and "dval ref = Some u"
    and "scaled 2 v" and "scaled 2 u" and "0 < u" and "u \<le> v" and "v \<le> text_val (py_amount x)"
  shows "evolves b (wdb w) (wdb w')"
proof (cases bk)
  case (Inl e)
  then show ?thesis using transactionS_rollback assms(1) by (metis evolving.same)
next
  case (Inr z)
  then have run: "bookRefund L now n i p key tot ref t w = (Inr z, w')" using assms(1) by (simp add: transactionS_Inr_iff)
  have "tender_ok (wdb w) x" using assms(2) find_SomeD [OF assms(4)] by (simp add: tenders_ok_def)
  then have "text_val (py_amount x) < 10 ^ 10" using money_textD(3) [of "py_amount x"] by (simp add: tender_ok_def)
  with book_cases [OF run assms(2,4-9)] assms(9-11)
  consider "w' = w" | row where "w' = w\<lparr>wdb := put_payment row (wdb w)\<rparr>" "py_id row = n" "py_propertyId row = p"
      "py_originalPaymentId row = Some i" "money_text (py_amount row)" "text_val (py_amount row) = - min u (v - refunded i p (wdb w))"
      "0 < min u (v - refunded i p (wdb w))"
    by auto
  then show ?thesis
  proof cases
    case 1
    then show ?thesis by (simp add: evolving.same)
  next
    case (2 row)
    have "evolves b (wdb w) (put_payment row (wdb w))"
      by (rule put_payment_evolves [OF assms(2) _ 2(4,5) _ 2(6)]) (use 2(2,3,7) assms in auto)
    with 2(1) show ?thesis by simp
  qed
qed

lemma refund_evolves:
  assumes "fair_refunds n b G" and "cents amount"
  shows "from_fresh n b (refundPayment L G now n i p amount key)"
  unfolding from_fresh_def
proof (intro allI impI)
  fix w r w'
  assume n: "n \<notin> py_id ` set (payments (wdb w))" and run: "refundPayment L G now n i p amount key w = (r, w')"
  have after: "does (evolves b) (bindS (whenS c (bindS (recalculateFor L now f p) (\<lambda>_. emit n1 n2 j pl q))) (\<lambda>_. returnS v))"
    for c f n1 n2 j pl q and v :: safePayment
    by (intro evolving.rules evolves_kept [OF recalculateFor_frame] blind_payments)
  show "evolves b (wdb w) (wdb w')"
  proof (cases "tenders_ok (wdb w)")
    case ok: True
    from refund_steps [OF run] show ?thesis
    proof (elim disjE exE conjE)
      fix y :: payment and tot ref g w2 result bk w3
      let ?call = "gw_refund G (the (py_gatewayTransactionId y)) ref (nvl key (''ref_'' @ i @ ''_'' @ dec_toFixed L 2 tot)) (py_currencyCode y)"
      assume prep: "prepareRefund L i p amount key w = (Inr (y, tot, ref, None), w)" and call: "?call w = (g, w2)"
        and bk: "transactionS (bookRefund L now n i p key tot ref (gr_transactionId result)) w2 = (bk, w3)"
        and rest: "case bk of Inl e \<Rightarrow> w' = w3 \<and> r = Inl e
                 | Inr (row, isNew) \<Rightarrow> bindS (whenS isNew (bindS (recalculateFor L now (py_folioId y) p) (\<lambda>_.
                    emit ''payment.refunded'' ''payment'' (py_id row) [(''folioId'', py_folioId y),
                      (''originalPaymentId'', Some i), (''refundAmount'', Some (dec_toFixed L 2 ref))] (Some p))))
                    (\<lambda>_. returnS (safePaymentResponse row)) w3 = (r, w')"
      obtain u where u: "dval ref = Some u" "u = text_val (nvl amount (py_amount y))" "scaled 2 u" "0 < u"
        using prepare_value(1) [OF prep ok assms(2)] by blast
      note val = prepare_value(2) [OF prep ok assms(2) refl, folded u(2)]
      have e2: "evolves b (wdb w) (wdb w2)" "n \<notin> py_id ` set (payments (wdb w2))"
        using assms(1) n doesD [of _ ?call, OF _ call] unfolding fair_refunds_def by blast+
      then have ok2: "tenders_ok (wdb w2)" and t2: "(tender_step b)\<^sup>*\<^sup>* (tender (wdb w) i p) (tender (wdb w2) i p)"
        using ok by (simp_all add: evolves_def)
      obtain x2 where x2: "sel1 (parentRow i p) (payments (wdb w2)) = Some x2" "text_val (py_amount x2) = text_val (py_amount y)"
        using parent_later [OF t2] val by blast
      have kids: "scaled 2 (refunded i p (wdb w))" "0 \<le> refunded i p (wdb w)" using sum_children [OF ok, of i p] by auto
      have "evolves b (wdb w2) (wdb w3)"
        by (rule book_evolves [OF bk ok2 e2(2) x2(1) _ u(1) scaled_add [OF kids(1) u(3)] u(3,4)]) (use val kids x2(2) in auto)
      moreover have "evolves b (wdb w3) (wdb w')"
        using rest by (auto split: sum.splits prod.splits intro: evolving.same dest: doesD [OF after])
      ultimately show ?thesis using e2(1) by (blast intro: evolving.join)
    next
      fix y :: payment and tot ref g w2
      let ?call = "gw_refund G (the (py_gatewayTransactionId y)) ref (nvl key (''ref_'' @ i @ ''_'' @ dec_toFixed L 2 tot)) (py_currencyCode y)"
      assume "?call w = (g, w2)" and "w' = w2"
      then show ?thesis using assms(1) doesD [of _ ?call w g w2] unfolding fair_refunds_def by blast
    qed (rule evolves_same)
  qed (simp add: evolves_def)
qed

end

end
