(* ===== verification/PaymentRuns.thy ===== *)
theory PaymentRuns
  imports PaymentStates
begin

text \<open>
  Every sequence of payment operations: corrections and the reports of the processor evolve the
  rows too, so any run of \<open>payment_step\<close> keeps the payments well-formed and is, for each payment,
  a run of \<open>tender_step\<close>. Two places where a payment leaves the books twice or too early are
  shown on concrete runs.
\<close>

section \<open>Corrections and webhooks\<close>

text \<open>The other handler, when there is one, lets payments evolve too.\<close>

definition fair_handler :: "bool \<Rightarrow> ('z folio_db_scheme) requestHandler option \<Rightarrow> bool" where
  "fair_handler b H \<longleftrightarrow> (case H of None \<Rightarrow> True
     | Some h \<Rightarrow> (\<forall>ev y. does (evolves b) (rh_intent h ev y)) \<and> (\<forall>r. does (evolves b) (rh_refundUpdated h r)))"

text \<open>An event of the processor is about a payment, of which it never gives back more than the amount.\<close>

definition refund_report_ok :: "stripeCharge \<Rightarrow> 'z folio_db_scheme \<Rightarrow> bool" where
  "refund_report_ok c db \<longleftrightarrow> \<bar>sc_amountRefunded c\<bar> < 2 ^ 53 \<and> (\<forall>y. sel1 (\<lambda>y. py_gatewayTransactionId y = sc_paymentIntent c) (payments db) = Some y
     \<longrightarrow> py_originalPaymentId y = None \<and> of_int (sc_amountRefunded c) / 100 \<le> text_val (py_amount y))"

fun reports :: "stripeEvent \<Rightarrow> bool" where
  "reports (IntentSucceeded x) = True"
| "reports (IntentFailed x) = True"
| "reports (IntentCanceled x) = True"
| "reports _ = False"

fun event_ok :: "bool \<Rightarrow> stripeEvent \<Rightarrow> 'z folio_db_scheme \<Rightarrow> bool" where
  "event_ok b (ChargeRefunded c) db = refund_report_ok c db"
| "event_ok b ev db = (reports ev \<longrightarrow> b)"

lemma intent_evolves:
  assumes "fair_handler b H" and "\<And>y. does (evolves b) (k y)"
  shows "does (evolves b) (handleIntent L H ev x k)"
proof -
  have "does (evolves b) (rh_intent (the H) ev (Some y))" if "shouldDelegate H y" for y
    using assms that by (cases H) (simp_all add: shouldDelegate_def fair_handler_def)
  with assms(2) show ?thesis
    unfolding handleIntent_def by (intro evolving.rules evolves_kept [OF read_frame(3)]) auto
qed

lemma reports_evolve:
  assumes "fair_handler True H"
  shows "does (evolves True) (handlePaymentIntentSucceeded L H now x)" "does (evolves True) (handlePaymentIntentFailed L H now x)"
    "does (evolves True) (handlePaymentIntentCanceled L H now x)"
  unfolding handlePaymentIntentSucceeded_def handlePaymentIntentFailed_def handlePaymentIntentCanceled_def Let_def
  by (intro intent_evolves [OF assms] setStatus_evolves; simp add: same_tender_def)+

lemma pending_evolves:
  assumes "fair_handler b H"
  shows "does (evolves b) (handlePaymentIntentPending H ev x)" "does (evolves b) (handleRefundUpdated H r)"
proof -
  have h: "does (evolves b) (rh_intent h ev y)" "does (evolves b) (rh_refundUpdated h r)" if "H = Some h" for h y
    using assms that by (simp_all add: fair_handler_def)
  show "does (evolves b) (handlePaymentIntentPending H ev x)"
  proof (cases H)
    case (Some k)
    show ?thesis unfolding handlePaymentIntentPending_def Some option.case
      by (intro evolving.rules evolves_kept [OF read_frame(3)] h(1) [OF Some])
  qed (simp add: handlePaymentIntentPending_def evolving.rules)
  show "does (evolves b) (handleRefundUpdated H r)"
    using h(2) by (cases H) (simp_all add: handleRefundUpdated_def evolving.rules)
qed

context numerics
begin

lemma charge_tx_evolves:
  assumes "chargeRefundedTx L now n c y w = (r, w')" and "n \<notin> py_id ` set (payments (wdb w))" and "tenders_ok (wdb w)"
    and "sel1 (\<lambda>y. py_gatewayTransactionId y = sc_paymentIntent c) (payments (wdb w)) = Some y" and "refund_report_ok c (wdb w)"
  shows "evolves b (wdb w) (wdb w')"
proof -
  let ?v = "of_int (sc_amountRefunded c) / 100 :: rat" and ?i = "py_id y" and ?p = "py_propertyId y"
  let ?d = "dec_div L (dec_int L (sc_amountRefunded c)) (dec_int L 100)"
  have y: "y \<in> set (payments (wdb w))" "py_originalPaymentId y = None" "?v \<le> text_val (py_amount y)"
    using find_SomeD [OF assms(4)] assms(4,5) by (auto simp: refund_report_ok_def)
  have row: "sel1 (paymentRow ?i ?p) (payments (wdb w)) = Some y" "sel1 (parentRow ?i ?p) (payments (wdb w)) = Some y"
    using y assms(3) by (intro find_key [of py_id]; simp add: tenders_ok_def)+
  have big: "\<bar>sc_amountRefunded c\<bar> < 2 ^ 53" using assms(5) by (simp add: refund_report_ok_def)
  have sv: "scaled 2 ?v" by (simp add: scaled_def)
  have "\<bar>rat_of_int (sc_amountRefunded c)\<bar> < 2 ^ 53" using big by (metis of_int_abs of_int_less_iff of_int_numeral of_int_power)
  then have vb: "\<bar>?v\<bar> < 10 ^ 17" by simp
  have d: "dval ?d = Some ?v"
    using int_val [OF big] int_val [of 100] vb by (intro div_val digits20_cents sv) auto
  obtain s where s: "sumRefundChildren L (map py_amount (refundChildren ?i ?p (wdb w))) = Inr s" "dval s = Some (refunded ?i ?p (wdb w))"
      "scaled 2 (refunded ?i ?p (wdb w))" "0 \<le> refunded ?i ?p (wdb w)" "refunded ?i ?p (wdb w) < 10 ^ 10"
    using sum_children [OF assms(3), of ?i ?p] by blast
  let ?delta = "dec_minus L ?d s" and ?u = "?v - refunded ?i ?p (wdb w)"
  have delta: "dval ?delta = Some ?u" using d s sv vb by (intro minus_cents) auto
  let ?row = "\<lambda>k. webhookRefundRow L n now (sc_id c) k y ?delta"
  have sel: "py_id (?row k) = n" "py_propertyId (?row k) = ?p" "py_originalPaymentId (?row k) = Some ?i"
      "py_amount (?row k) = dec_toFixed L 2 (dec_neg L ?delta)" for k
    by (simp_all add: webhookRefundRow_def newPayment_def)
  have kept: "keeps payments (bindS (recalculateFor L now f q) (\<lambda>_. returnS z))" for f q and z :: "(payment \<times> payment \<times> 'd) option"
    by (intro keeps_rules recalculateFor_frame blind_payments)
  have "payments (wdb w') = payments (wdb w) \<or> (\<exists>k a. \<not> dec_lte L ?delta (dec_int L 0)
      \<and> numeric12_2 L (dec_toFixed L 2 (dec_neg L ?delta)) = Inr a \<and> payments (wdb w') = payments (wdb w) @ [?row k\<lparr>py_amount := a\<rparr>])"
  proof -
    let ?k = "''stripe_refund:'' @ sc_id c @ '':'' @ dec_toFixed L 2 ?d"
    have stored: "(if sel1 (\<lambda>y. py_gatewayTransactionId y = Some ?k) (payments (wdb w)) \<noteq> None then returnS None
        else if dec_lte L ?delta (dec_int L 0) then returnS None
          else bindS (addPayment L (?row ?k)) (\<lambda>row. bindS (recalculateFor L now (py_folioId y) ?p) (\<lambda>_. returnS (Some (row, y, ?delta))))) w = (r, w')"
      using assms(1) row(1) s(1)
      by (simp add: chargeRefundedTx_def findPaymentByGatewayTransactionId_def Let_def bindS_getS bindS_liftS if_distribR cong: if_cong)
    obtain k where k: "(if sel1 (\<lambda>y. py_gatewayTransactionId y = Some k) (payments (wdb w)) \<noteq> None then returnS None
        else if dec_lte L ?delta (dec_int L 0) then returnS None
          else bindS (addPayment L (?row k)) (\<lambda>row. bindS (recalculateFor L now (py_folioId y) ?p) (\<lambda>_. returnS (Some (row, y, ?delta))))) w = (r, w')"
      using stored by (rule that)
    show ?thesis
    proof (cases "sel1 (\<lambda>y. py_gatewayTransactionId y = Some k) (payments (wdb w)) \<noteq> None \<or> dec_lte L ?delta (dec_int L 0)")
      case True
      with k show ?thesis by (auto simp: returnS_def split: if_splits)
    next
      case False
      then have go: "bindS (addPayment L (?row k)) (\<lambda>row. bindS (recalculateFor L now (py_folioId y) ?p) (\<lambda>_. returnS (Some (row, y, ?delta)))) w = (r, w')"
        using k by simp
      obtain z w1 where z: "addPayment L (?row k) w = (z, w1)" by fastforce
      from addPayment_cases [OF z] show ?thesis
      proof (elim disjE exE conjE)
        fix e assume "z = Inl e" "w1 = w"
        with go z show ?thesis by (simp add: bindS_def)
      next
        fix a assume a: "numeric12_2 L (py_amount (?row k)) = Inr a" "z = Inr (?row k\<lparr>py_amount := a\<rparr>)"
          "w1 = w\<lparr>wdb := put_payment (?row k\<lparr>py_amount := a\<rparr>) (wdb w)\<rparr>"
        from go have "bindS (recalculateFor L now (py_folioId y) ?p) (\<lambda>_. returnS (Some (?row k\<lparr>py_amount := a\<rparr>, y, ?delta))) w1 = (r, w')"
          unfolding bindS_run [of "addPayment L (?row k)" w, OF z [unfolded a(2)]] .
        from doesD [OF kept this] a False show ?thesis by (auto simp: sel(4))
      qed
    qed
  qed
  then show ?thesis
  proof (elim disjE exE conjE)
    fix k a assume pos: "\<not> dec_lte L ?delta (dec_int L 0)" and a: "numeric12_2 L (dec_toFixed L 2 (dec_neg L ?delta)) = Inr a"
      and w': "payments (wdb w') = payments (wdb w) @ [?row k\<lparr>py_amount := a\<rparr>]"
    have up: "0 < ?u" using pos lte_val [OF delta, of "dec_int L 0" 0] int_val [of 0] by simp
    have sc: "scaled 2 (- ?u)" using sv s(3) by (intro scaled_minus scaled_diff)
    have "decimal_text a = Some (- ?u)" "\<bar>- ?u\<bar> < 10 ^ 10"
      using store_fixed_eq [OF neg_val [OF delta] a] by (simp_all only: round_dp_scaled [OF sc])
    then have "money_text a" "text_val a = - ?u" using sc by (auto intro: money_textI simp: text_val_Some)
    then show ?thesis using w' assms(2) row(2) up y(3)
      by (intro add_child [OF w', of ?i y]) (simp_all add: sel)
  qed (rule evolves_same)
qed

lemma charge_evolves:
  assumes "fair_handler b H" and "handleChargeRefunded L H now n c w = (r, w')" and "n \<notin> py_id ` set (payments (wdb w))"
    and "refund_report_ok c (wdb w)"
  shows "evolves b (wdb w) (wdb w')"
proof (cases "tenders_ok (wdb w) \<and> present (sc_paymentIntent c)")
  case False
  with assms(2) show ?thesis by (auto simp: handleChargeRefunded_def evolves_def returnS_def)
next
  case True
  then obtain t where t: "sc_paymentIntent c = Some t" by (auto simp: present_def split: option.splits)
  show ?thesis
  proof (cases "sel1 (\<lambda>y. py_gatewayTransactionId y = sc_paymentIntent c) (payments (wdb w))")
    case None
    with assms(2) True t show ?thesis
      by (simp add: handleChargeRefunded_def findPaymentByGatewayTransactionId_def bindS_def getS_def returnS_def evolving.same)
  next
    case (Some y)
    show ?thesis
    proof (cases "shouldDelegate H y")
      case True
      then obtain h where h: "H = Some h" by (auto simp: shouldDelegate_def)
      with assms(2) True Some t \<open>tenders_ok (wdb w) \<and> present (sc_paymentIntent c)\<close> have "rh_intent h (ChargeRefunded c) (Some y) w = (r, w')"
        by (simp add: handleChargeRefunded_def findPaymentByGatewayTransactionId_def bindS_def getS_def)
      with assms(1) h show ?thesis by (auto simp: fair_handler_def dest: doesD)
    next
      case False
      obtain z w1 where tx: "transactionS (chargeRefundedTx L now n c y) w = (z, w1)" by fastforce
      have "evolves b (wdb w) (wdb w1)"
        using tx charge_tx_evolves [OF _ assms(3) _ Some assms(4)] True
        by (auto simp: transactionS_def evolving.same split: prod.splits sum.splits)
      moreover have "wdb w' = wdb w1"
        using assms(2) tx False Some t True
        by (cases z) (auto simp: handleChargeRefunded_def findPaymentByGatewayTransactionId_def bindS_def getS_def returnS_def emit_def
            split: option.splits prod.splits)
      ultimately show ?thesis by simp
    qed
  qed
qed

lemma webhook_evolves:
  assumes "fair_handler b H" and "handleWebhook L H now n ev w = (r, w')" and "n \<notin> py_id ` set (payments (wdb w))"
    and "event_ok b ev (wdb w)"
  shows "evolves b (wdb w) (wdb w')"
proof -
  obtain x where x: "handleEvent L H now n ev w = (x, w')"
    using assms(2) by (auto simp: handleWebhook_def catchS_def returnS_def split: prod.splits sum.splits)
  show ?thesis
  proof (cases "\<exists>c. ev = ChargeRefunded c")
    case True
    with x assms show ?thesis by (auto intro: charge_evolves [OF assms(1) _ assms(3)])
  next
    case False
    have "does (evolves b) (handleEvent L H now n ev)"
    proof (cases "reports ev")
      case True
      then have "b = True" using assms(4) by (cases ev) auto
      with True show ?thesis using reports_evolve [of H] assms(1) by (cases ev) simp_all
    next
      case other: False
      with False show ?thesis using pending_evolves [OF assms(1)] by (cases ev) (simp_all add: evolving.basic)
    qed
    from doesD [OF this x] show ?thesis .
  qed
qed

lemma correct_evolves:
  assumes "calm G" and "fair_refunds n b G" and "correctPayment L G now n ids i p what w = (r, w')"
    and "n \<notin> py_id ` set (payments (wdb w))" and "\<And>y. sel1 (paymentRow i p) (payments (wdb w)) = Some y \<Longrightarrow> legalOp now y \<noteq> OpAdjust"
  shows "evolves b (wdb w) (wdb w')"
proof (cases "sel1 (paymentRow i p) (payments (wdb w))")
  case None
  with assms(3) show ?thesis
    by (simp add: correctPayment_def findPaymentRow_def bindS_def getS_def someS_def throwS_def evolving.same)
next
  case (Some y)
  let ?close = "\<lambda>what x. bindS (emitCorrected i p what y None) (\<lambda>_. returnS (what, Inl x :: safePayment + posted))"
  have "from_fresh n b (bindS (assertGenericAccessAllowed y) (\<lambda>_. bindS (guardS g e) (\<lambda>_.
      case legalOp now y of
        OpVoid \<Rightarrow> bindS (if py_status y = PsAuthorized \<and> isGatewayCard y then voidPayment G now i p else voidTender L now i p y) (?close OpVoid)
      | OpRefund \<Rightarrow> bindS (refundPayment L G now n i p None None) (?close OpRefund)
      | OpAdjust \<Rightarrow> bindS (adjustPayment L now n ids i p y) (\<lambda>x. returnS (OpAdjust, x)))))" for g e
  proof (intro fresh_after read_frame keeps_rules)
    show "from_fresh n b (case legalOp now y of
        OpVoid \<Rightarrow> bindS (if py_status y = PsAuthorized \<and> isGatewayCard y then voidPayment G now i p else voidTender L now i p y) (?close OpVoid)
      | OpRefund \<Rightarrow> bindS (refundPayment L G now n i p None None) (?close OpRefund)
      | OpAdjust \<Rightarrow> bindS (adjustPayment L now n ids i p y) (\<lambda>x. returnS (OpAdjust, x)))"
    proof (cases "legalOp now y")
      case OpVoid
      show ?thesis unfolding OpVoid correctionOp.case
        by (intro fresh_any evolving.rules evolves_kept [OF read_frame(4)] void_evolves [OF assms(1)] voidTender_evolves)
    next
      case OpRefund
      show ?thesis unfolding OpRefund correctionOp.case
        by (intro fresh_then refund_evolves [OF assms(2)] evolving.rules evolves_kept [OF read_frame(4)]) (simp add: cents_def)
    qed (use assms(5) [OF Some] in simp)
  qed
  note step = from_freshD [OF this assms(4)]
  have f: "findPaymentRow i p w = (Inr y, w)" using Some by (simp add: findPaymentRow_def bindS_def getS_def someS_def returnS_def)
  from assms(3) show ?thesis unfolding correctPayment_def Let_def bindS_run [of "findPaymentRow i p" w, OF f] by (rule step)
qed

end

section \<open>Runs\<close>

text \<open>
  The operations of the payment service and the webhooks, each with a row identifier not used yet;
  amounts are what the request validation lets through, and what the other services do leaves the
  payments alone.
\<close>

inductive payment_step :: "bool \<Rightarrow> 'd numlib \<Rightarrow> 'z folio_db_scheme world \<Rightarrow> 'z folio_db_scheme world \<Rightarrow> bool"
  for b :: bool and L :: "'d numlib" where
  taken: "recordPayment L now n dto w = (r, w') \<Longrightarrow> n \<notin> py_id ` set (payments (wdb w))
    \<Longrightarrow> decimal_text (cp_amount dto) \<noteq> None \<Longrightarrow> 0 \<le> text_val (cp_amount dto) \<Longrightarrow> payment_step b L w w'"
| authorize: "authorizePayment L G now n adto w = (r, w') \<Longrightarrow> n \<notin> py_id ` set (payments (wdb w)) \<Longrightarrow> calm G
    \<Longrightarrow> decimal_text (au_amount adto) \<noteq> None \<Longrightarrow> 0 \<le> text_val (au_amount adto) \<Longrightarrow> payment_step b L w w'"
| capture: "capturePayment L G now i p w = (r, w') \<Longrightarrow> calm G \<Longrightarrow> payment_step b L w w'"
| void: "voidPayment (G :: ('d, 'z folio_db_scheme) gateway) now i p w = (r, w') \<Longrightarrow> calm G \<Longrightarrow> payment_step b L w w'"
| refund: "refundPayment L G now n i p amount key w = (r, w') \<Longrightarrow> n \<notin> py_id ` set (payments (wdb w))
    \<Longrightarrow> fair_refunds n b G \<Longrightarrow> cents amount \<Longrightarrow> payment_step b L w w'"
| correct: "correctPayment L G now n ids i p what w = (r', w') \<Longrightarrow> n \<notin> py_id ` set (payments (wdb w)) \<Longrightarrow> calm G
    \<Longrightarrow> fair_refunds n b G \<Longrightarrow> (\<And>y. sel1 (paymentRow i p) (payments (wdb w)) = Some y \<Longrightarrow> legalOp now y \<noteq> OpAdjust)
    \<Longrightarrow> payment_step b L w w'"
| webhook: "handleWebhook L H now n ev w = (r'', w') \<Longrightarrow> n \<notin> py_id ` set (payments (wdb w)) \<Longrightarrow> fair_handler b H
    \<Longrightarrow> event_ok b ev (wdb w) \<Longrightarrow> payment_step b L w w'"
| elsewhere: "payments (wdb w') = payments (wdb w) \<Longrightarrow> payment_step b L w w'"

context numerics
begin

lemma payment_step_evolves: "payment_step b L w w' \<Longrightarrow> evolves b (wdb w) (wdb w')"
proof (induction rule: payment_step.induct)
  case (taken now n dto w r w')
  then show ?case using from_freshD [OF record_evolves] by blast
next
  case (authorize G now n adto w r w')
  then show ?case using from_freshD [OF authorize_evolves] by blast
next
  case (capture G now i p w r w')
  then show ?case using doesD [OF capture_evolves] by blast
next
  case (void G now i p w r w')
  then show ?case using doesD [OF void_evolves] by blast
next
  case (refund G now n i p amount key w r w')
  then show ?case using from_freshD [OF refund_evolves] by blast
next
  case (correct G now n ids i p what w r' w')
  then show ?case by (intro correct_evolves [OF correct(3,4,1,2)])
next
  case (webhook H now n ev w r'' w')
  then show ?case by (intro webhook_evolves [OF webhook(3,1,2,4)])
next
  case (elsewhere w' w)
  then show ?case by (rule evolves_same)
qed

lemma payment_run_evolves: "(payment_step b L)\<^sup>*\<^sup>* w w' \<Longrightarrow> evolves b (wdb w) (wdb w')"
  by (induction rule: rtranclp_induct) (auto intro: evolving.same evolving.join payment_step_evolves)

end

lemma gone_stays: "(tender_step False)\<^sup>*\<^sup>* (Pay h a r) t \<Longrightarrow> h \<noteq> Hold \<Longrightarrow> \<exists>h' r'. t = Pay h' a r' \<and> (h' = h \<or> h' = Gone)"
  by (induction rule: rtranclp_induct) (auto simp: tender_step_Pay allowed_def)

section \<open>Outcomes\<close>

text \<open>A processor that leaves the tables alone and names every refund anew.\<close>

definition prompt :: "('d, 'z folio_db_scheme) gateway \<Rightarrow> 'z folio_db_scheme world \<Rightarrow> bool" where
  "prompt G w \<longleftrightarrow> (\<forall>t a k c. keeps (\<lambda>db. db) (gw_refund G t a k c))
     \<and> (\<forall>t a k c v res v'. gw_refund G t a k c v = (Inr res, v') \<longrightarrow> gr_transactionId res = []
        \<or> (\<forall>y\<in>set (payments (wdb w)). py_gatewayTransactionId y \<noteq> Some (gr_transactionId res)))"

lemma replay_none: "replayOf L i p None d = returnS None"
  by (simp add: replayOf_def present_def)

lemma refund_Inr:
  assumes "refundPayment L G now n i p amount key w = (Inr sp, w')"
  shows "w' = w \<and> (\<exists>y tot ref z. prepareRefund L i p amount key w = (Inr (y, tot, ref, Some z), w)) \<or>
    (\<exists>y tot ref w2 result row isNew w3. prepareRefund L i p amount key w = (Inr (y, tot, ref, None), w)
      \<and> gw_refund G (the (py_gatewayTransactionId y)) ref (nvl key (''ref_'' @ i @ ''_'' @ dec_toFixed L 2 tot)) (py_currencyCode y) w = (Inr result, w2)
      \<and> bookRefund L now n i p key tot ref (gr_transactionId result) w2 = (Inr (row, isNew), w3) \<and> sp = safePaymentResponse row
      \<and> (if isNew then \<exists>w4. recalculateFor L now (py_folioId y) p w3 = (Inr (), w4) \<and> wdb w' = wdb w4 else w' = w3))"
proof -
  obtain a w1 where pre: "prepareRefund L i p amount key w = (Inr a, w1)"
    and rest: "(case a of (y, tot, ref, rep) \<Rightarrow> case rep of Some y \<Rightarrow> returnS (safePaymentResponse y)
     | None \<Rightarrow>
       bindS (gw_refund G (the (py_gatewayTransactionId y)) ref
          (nvl key (''ref_'' @ i @ ''_'' @ dec_toFixed L 2 tot)) (py_currencyCode y)) (\<lambda>result.
       bindS (guardS (gr_success result) (BadRequestException (''Refund failed: '' @ nvl (gr_errorMessage result) ''undefined''))) (\<lambda>_.
       bindS (transactionS (bookRefund L now n i p key tot ref (gr_transactionId result))) (\<lambda>(row, isNew).
       bindS (whenS isNew
         (bindS (recalculateFor L now (py_folioId y) p) (\<lambda>_.
          emit ''payment.refunded'' ''payment'' (py_id row) [(''folioId'', py_folioId y),
            (''originalPaymentId'', Some i), (''refundAmount'', Some (dec_toFixed L 2 ref))] (Some p)))) (\<lambda>_.
       returnS (safePaymentResponse row)))))) w1 = (Inr sp, w')"
    using assms unfolding refundPayment_def bindS_Inr_iff [of "transactionS (prepareRefund L i p amount key)"] transactionS_Inr_iff by blast
  obtain y tot ref rep where a: "a = (y, tot, ref, rep)" by (cases a) auto
  have prep: "prepareRefund L i p amount key w = (Inr (y, tot, ref, rep), w1)" using pre a by simp
  then have "w1 = w" using prepare_steps [OF prep] by simp
  with prep rest [unfolded a prod.case] show ?thesis
    by (cases rep)
      (fastforce simp: bindS_Inr_iff transactionS_Inr_iff guardS_Inr_iff whenS_Inr_iff returnS_iff emit_iff split: prod.splits if_splits)+
qed

context numerics
begin

lemma refund_gives_back:
  assumes "refundPayment L G now n i p amount None w = (Inr sp, w')" and "tenders_ok (wdb w)" and "cents amount" and "prompt G w"
  shows "\<exists>y. sel1 (parentRow i p) (payments (wdb w)) = Some y \<and> 0 < text_val (nvl amount (py_amount y))
    \<and> refunded i p (wdb w) + text_val (nvl amount (py_amount y)) \<le> text_val (py_amount y)
    \<and> refunded i p (wdb w') = refunded i p (wdb w) + text_val (nvl amount (py_amount y))
    \<and> text_val (sp_amount sp) = - text_val (nvl amount (py_amount y))"
proof -
  have "prepareRefund L i p amount None w \<noteq> (Inr (y, tot, ref, Some z), w)" for y tot ref z
    using prepare_steps [of L i p amount None w y tot ref "Some z" w] by (auto simp: replay_none returnS_iff)
  with refund_Inr [OF assms(1)] obtain y tot ref w2 result row isNew w3 where
    prep: "prepareRefund L i p amount None w = (Inr (y, tot, ref, None), w)"
    and call: "gw_refund G (the (py_gatewayTransactionId y)) ref (nvl None (''ref_'' @ i @ ''_'' @ dec_toFixed L 2 tot)) (py_currencyCode y) w = (Inr result, w2)"
    and bk: "bookRefund L now n i p None tot ref (gr_transactionId result) w2 = (Inr (row, isNew), w3)" and sp: "sp = safePaymentResponse row"
    and fin: "if isNew then \<exists>w4. recalculateFor L now (py_folioId y) p w3 = (Inr (), w4) \<and> wdb w' = wdb w4 else w' = w3"
    by blast
  let ?u = "text_val (nvl amount (py_amount y))" and ?r = "refunded i p (wdb w)"
  have u: "dval ref = Some ?u" "scaled 2 ?u" "0 < ?u" using prepare_value(1) [OF prep assms(2,3)] by blast+
  have tot: "sel1 (parentRow i p) (payments (wdb w)) = Some y" "dval tot = Some (?r + ?u)" "?r + ?u \<le> text_val (py_amount y)"
    using prepare_value(2) [OF prep assms(2,3) refl] by blast+
  have "keeps (\<lambda>db. db) (gw_refund G t a k c)" for t a k c using assms(4) by (simp add: prompt_def)
  from doesD [OF this call] have w2: "wdb w2 = wdb w" by simp
  have kids: "scaled 2 ?r" "0 \<le> ?r" using sum_children [OF assms(2), of i p] by auto
  have "tender_ok (wdb w) y" using assms(2) find_SomeD [OF tot(1)] by (simp add: tenders_ok_def)
  then have "text_val (py_amount y) < 10 ^ 10" using money_textD(3) [of "py_amount y"] by (simp add: tender_ok_def)
  note cases = book_cases [OF bk, unfolded w2, OF assms(2) tot(1,2) u(1) scaled_add [OF kids(1) u(2)] u(2,3)]
  have new: "gr_transactionId result = [] \<or> (\<forall>y\<in>set (refundChildren i p (wdb w)). py_gatewayTransactionId y \<noteq> Some (gr_transactionId result))"
    using assms(4) call by (fastforce simp: prompt_def refundChildren_def)
  have rp: "replayOf L i p None ref w2 = (Inr None, w2)" by (simp add: replay_none returnS_def)
  have booked: "isNew \<and> w3 = w2\<lparr>wdb := put_payment row (wdb w)\<rparr> \<and> py_propertyId row = p \<and> py_originalPaymentId row = Some i
      \<and> text_val (py_amount row) = - ?u"
    using cases new rp u(3) kids tot(3) \<open>text_val (py_amount y) < 10 ^ 10\<close> by auto
  from fin booked obtain w4 where "recalculateFor L now (py_folioId y) p w3 = (Inr (), w4)" "wdb w' = wdb w4" by auto
  then have "payments (wdb w') = payments (wdb w) @ [row]"
    using doesD [OF recalculateFor_frame [OF blind_payments]] booked by fastforce
  then have "refunded i p (wdb w') = ?r + ?u" using booked u(3) by (simp add: refunded_add)
  moreover have "sp_amount sp = py_amount row" by (simp add: sp safePaymentResponse_def)
  ultimately show ?thesis using tot u(3) booked by auto
qed

lemma refund_too_much:
  assumes "tenders_ok (wdb w)" and "sel1 (parentRow i p) (payments (wdb w)) = Some y" and "money_text s"
    and "text_val (py_amount y) < refunded i p (wdb w) + text_val s" and "0 < text_val s"
    and "py_status y \<in> {PsCaptured, PsSettled, PsPartiallyRefunded}" and "\<not> present (py_bookingRequestId y)"
    and "present (py_gatewayTransactionId y)"
  shows "\<exists>m. refundPayment L G now n i p (Some s) None w = (Inl (BadRequestException m), w)"
proof -
  have my: "money_text (py_amount y)" using assms(1) find_SomeD [OF assms(2)] by (simp add: tenders_ok_def tender_ok_def)
  have f: "findPaymentRow i p w = (Inr y, w)"
    using find_key [of py_id "payments (wdb w)" y "paymentRow i p"] find_SomeD [OF assms(2)] assms(1)
    by (simp add: findPaymentRow_def op_defs tenders_ok_def)
  obtain d where d: "newDecimal L s = Inr d" "dval d = Some (text_val s)" using newDecimal_text [OF money_textD(1) [OF assms(3)]] by blast
  obtain a where a: "newDecimal L (py_amount y) = Inr a" "dval a = Some (text_val (py_amount y))"
    using newDecimal_text [OF money_textD(1) [OF my]] by blast
  obtain t where t: "sumRefundChildren L (map py_amount (refundChildren i p (wdb w))) = Inr t" "dval t = Some (refunded i p (wdb w))"
    "scaled 2 (refunded i p (wdb w))" "0 \<le> refunded i p (wdb w)" "refunded i p (wdb w) < 10 ^ 10"
    using sum_children [OF assms(1), of i p] by blast
  have rem: "dval (dec_minus L a t) = Some (text_val (py_amount y) - refunded i p (wdb w))"
    using a t money_textD(2,3) [OF my] by (intro minus_cents) auto
  have gt: "dec_gt L d (dec_minus L a t)" "\<not> dec_lte L d (dec_int L 0)"
    using lt_val [OF rem d(2)] lte_val [OF d(2), of "dec_int L 0" 0] int_val [of 0] assms(4,5) by simp_all
  have "\<exists>m. prepareRefund L i p (Some s) None w = (Inl (BadRequestException m), w)"
    unfolding prepareRefund_def bindS_run [of "findPaymentRow i p" w, OF f]
    using gt by (auto simp: op_defs assertGenericAccessAllowed_def assms(6-8) d(1) a(1) t(1) replay_none Let_def)
  then show ?thesis by (auto simp: refundPayment_def bindS_def transactionS_def)
qed

end

section \<open>Two corrections, and a late report\<close>

lemma setStatus_rows:
  assumes "setStatus L now y s g name pl w = (r, w')" and "py_status y \<noteq> s"
  shows "payments (wdb w') = upd (paymentRow (py_id y) (py_propertyId y)) (\<lambda>x. g (x\<lparr>py_status := s, py_updatedAt := now\<rparr>)) (payments (wdb w))"
proof -
  let ?k = "\<lambda>_ :: unit. bindS (recalculateFor L now (py_folioId y) (py_propertyId y)) (\<lambda>_.
        emit name ''payment'' (py_id y) ((''folioId'', py_folioId y) # pl) (Some (py_propertyId y)))"
  have "keeps payments (?k ())" by (intro keeps_rules recalculateFor_frame blind_payments)
  then show ?thesis using assms by (auto simp: setStatus_def bindS_def updatePayment_def modifyS_def dest: doesD)
qed

lemma failed_report_rows:
  assumes "handleWebhook L H now n (IntentFailed x) w = (r, w')" and "\<not> shouldDelegate H y" and "py_status y \<noteq> PsFailed"
    and "sel1 (\<lambda>y. py_gatewayTransactionId y = Some (si_id x)) (payments (wdb w)) = Some y"
  shows "\<exists>g. (\<forall>z. py_id (g z) = py_id z \<and> py_propertyId (g z) = py_propertyId z \<and> py_amount (g z) = py_amount z
      \<and> py_originalPaymentId (g z) = py_originalPaymentId z \<and> py_status (g z) = PsFailed)
    \<and> payments (wdb w') = upd (paymentRow (py_id y) (py_propertyId y)) g (payments (wdb w))"
proof -
  let ?g = "\<lambda>z. (z\<lparr>py_status := PsFailed, py_updatedAt := now\<rparr>)\<lparr>py_notes := Some (nvl (si_lastPaymentError x) ''Payment failed'')\<rparr>"
  obtain r' where "handlePaymentIntentFailed L H now x w = (r', w')"
    using assms(1) by (auto simp: handleWebhook_def catchS_def returnS_def split: prod.splits sum.splits)
  then have "setStatus L now y PsFailed (\<lambda>z. z\<lparr>py_notes := Some (nvl (si_lastPaymentError x) ''Payment failed'')\<rparr>) ''payment.failed''
      [(''error'', Some (nvl (si_lastPaymentError x) ''Payment failed'')), (''stripeEvent'', Some (si_id x))] w = (r', w')"
    using assms(2,4) by (simp add: handlePaymentIntentFailed_def handleIntent_def findPaymentByGatewayTransactionId_def bindS_getS Let_def)
  from setStatus_rows [OF this assms(3)] show ?thesis by (intro exI [of _ ?g]) simp
qed

context numerics
begin

lemma adjusted_row:
  assumes "correctPayment L G now n ids i p what w = (Inr (OpAdjust, x), w')" and "sel1 (paymentRow i p) (payments (wdb w)) = Some y"
    and "parentCountsTowardFolioBalance (py_status y)" and "money_text (py_amount y)"
  shows "\<exists>row. payments (wdb w') = payments (wdb w) @ [row] \<and> py_originalPaymentId row = Some i \<and> py_propertyId row = p
    \<and> text_val (py_amount row) = - text_val (py_amount y)"
proof -
  have f: "findPaymentRow i p v = (Inr y, v)" if "payments (wdb v) = payments (wdb w)" for v
    using assms(2) that by (simp add: findPaymentRow_def op_defs)
  have "adjustPayment L now n ids i p y w = (Inr x, w')"
    using assms(1) unfolding correctPayment_def bindS_run [of "findPaymentRow i p" w, OF f [OF refl]]
    by (auto simp: Let_def bindS_Inr_iff assertGenericAccessAllowed_def guardS_Inr_iff returnS_iff split: correctionOp.splits)
  then obtain locked a row w1 where tx: "adjustInTransaction L now n i p w = (Inr (locked, a, row), w1)"
    and rest: "(case row of
       None \<Rightarrow>
         bindS (postCharge L now ids False (the (py_folioId locked))
           (correctionCharge p i a (py_currencyCode locked) (toISOString now)) noPersistence) (\<lambda>posted.
         bindS (emitCorrected i p OpAdjust y (Some a)) (\<lambda>_. returnS (Inr posted)))
     | Some y' \<Rightarrow> bindS (emitCorrected i p OpAdjust y (Some a)) (\<lambda>_. returnS (Inl (safePaymentResponse y')))) w1 = (Inr x, w')"
    by (auto simp: adjustPayment_def bindS_Inr_iff guardS_Inr_iff transactionS_Inr_iff)
  from tx obtain z v where a: "fixedNeg L (py_amount y) = Inr a" and z: "addPayment L (adjustmentRow n now i p y a) w = (Inr z, v)"
      "recalculateFor L now (py_folioId y) p v = (Inr (), w1)" "row = Some z"
    unfolding adjustInTransaction_def bindS_run [of "findPaymentRow i p" w, OF f [OF refl]]
    using assms(3) by (auto simp: bindS_Inr_iff liftS_iff returnS_iff)
  have at: "decimal_text a = Some (- text_val (py_amount y))" using fixedNeg_text [OF assms(4) a] .
  from addPayment_cases [OF z(1)] obtain a' where a': "numeric12_2 L a = Inr a'" "z = (adjustmentRow n now i p y a)\<lparr>py_amount := a'\<rparr>"
      "v = w\<lparr>wdb := put_payment z (wdb w)\<rparr>"
    by (auto simp: adjustmentRow_def newPayment_def)
  have "text_val a' = - text_val (py_amount y)"
    using numeric12_2_money [OF _ a'(1)] at round_dp_scaled [OF scaled_minus [OF money_textD(2) [OF assms(4)]]] by (simp add: text_val_Some)
  moreover have "payments (wdb w1) = payments (wdb v)" by (rule doesD [OF recalculateFor_frame [OF blind_payments] z(2)])
  moreover have "payments (wdb w') = payments (wdb w1)"
  proof -
    have "keeps payments (bindS (emitCorrected i p OpAdjust y (Some a)) (\<lambda>_. returnS (Inl (safePaymentResponse z) :: safePayment + posted)))"
      by (intro keeps_rules read_frame)
    from doesD [OF this] rest z(3) show ?thesis by simp
  qed
  ultimately show ?thesis using a'(2,3) by (simp add: adjustmentRow_def newPayment_def)
qed

end

section \<open>Example data\<close>

definition demo_card :: payment where
  "demo_card = (newPayment ''y1'' 0 ''p'' (Some ''f1'') PmCreditCard ''100.00'' ''EUR'' PsCaptured)\<lparr>py_gatewayTransactionId := Some ''pi_1''\<rparr>"

definition demo_wire :: payment where
  "demo_wire = newPayment ''y2'' 0 ''p'' (Some ''f1'') PmBankTransfer ''100.00'' ''EUR'' PsCaptured"

definition demo_till :: "routing_db world" where
  "demo_till = demo_ledger\<lparr>wdb := (wdb demo_ledger)\<lparr>payments := [demo_card, demo_wire]\<rparr>\<rparr>"

definition demo_answer :: "(routing_db, gatewayResult) op" where
  "demo_answer = returnS \<lparr>gr_success = True, gr_transactionId = ''re_1'', gr_errorMessage = None\<rparr>"

definition demo_gateway :: "(rat, routing_db) gateway" where
  "demo_gateway = \<lparr>gw_authorize = \<lambda>_ _ _. demo_answer, gw_capture = \<lambda>_ _ _ _. demo_answer,
     gw_void = \<lambda>_ _. demo_answer, gw_refund = \<lambda>_ _ _ _. demo_answer\<rparr>"

lemma demo_tenders: "tenders_ok (wdb demo_till)"
  by (simp add: demo_till_def demo_ledger_def demo_card_def demo_wire_def newPayment_def tenders_ok_def tender_ok_def
      refunded_def refundChildren_def ledger_texts ledger_money)

lemma demo_fair: "calm demo_gateway" "fair_refunds n b demo_gateway" "prompt demo_gateway demo_till"
  by (auto simp: calm_def fair_refunds_def prompt_def demo_gateway_def demo_answer_def does_def returnS_def evolving.same
      demo_till_def demo_ledger_def demo_card_def demo_wire_def newPayment_def)

lemmas till_eval = demo_till_def demo_ledger_def demo_card_def demo_wire_def newPayment_def ledger_eval present_def
  findPaymentRow_def assertGenericAccessAllowed_def op_defs

lemma till_recalc:
  assumes "charges (wdb w) = [demo_charge]" and "\<forall>y\<in>set (payments (wdb w)). py_amount y = ''100.00'' \<or> py_amount y = ''-100.00''"
    and "length (payments (wdb w)) < 10"
  shows "\<exists>w'. recalculateBalance ref_numlib now ''f1'' ''p'' w = (Inr (), w')
    \<and> payments (wdb w') = payments (wdb w) \<and> charges (wdb w') = charges (wdb w)"
proof -
  let ?f = "folioPayments ''f1'' ''p'' (wdb w)"
  have amounts: "\<forall>y\<in>set ?f. text_val (py_amount y) = 100 \<or> text_val (py_amount y) = - 100"
    using assms(2) by (auto simp: folioPayments_def ledger_texts)
  then have sc: "scaled 2 (\<Sum>y\<leftarrow>?f. text_val (py_amount y))"
    by (intro scaled_sum_list) (auto simp: scaled_def)
  have "\<bar>\<Sum>y\<leftarrow>ys. (x y :: rat)\<bar> \<le> 100 * of_nat (length ys)" if "\<forall>y\<in>set ys. x y = 100 \<or> x y = - 100" for x and ys :: "payment list"
    using that by (induction ys) auto
  from this [OF amounts] have "\<bar>\<Sum>y\<leftarrow>?f. text_val (py_amount y)\<bar> \<le> 100 * of_nat (length ?f)" .
  moreover have "length ?f \<le> length (payments (wdb w))" by (simp add: folioPayments_def)
  ultimately have "\<bar>\<Sum>y\<leftarrow>?f. text_val (py_amount y)\<bar> < 1000" using assms(3) by linarith
  with sc show ?thesis
    using ref_recalc [of "''f1''" "''p''" w 100 "\<Sum>y\<leftarrow>?f. text_val (py_amount y)" now] assms(1)
    by (simp add: folioCharges_def demo_charge_def charge_value_def ledger_texts scaled_def retotal_def)
qed

lemma demo_prepare: "prepareRefund ref_numlib ''y1'' ''p'' (Some ''100.00'') None demo_till = (Inr (demo_card, 100, 100, None), demo_till)"
  by (simp add: prepareRefund_def till_eval replay_none refundChildren_def sumRefundChildren_def)

lemma demo_refund: "\<exists>sp w'. refundPayment ref_numlib demo_gateway 5 ''r1'' ''y1'' ''p'' (Some ''100.00'') None demo_till = (Inr sp, w')"
proof -
  let ?row = "refundRow ref_numlib ''r1'' 5 ''y1'' ''p'' None demo_card ''re_1'' 100"
  let ?w = "demo_till\<lparr>wdb := put_payment ?row (wdb demo_till)\<rparr>"
  have folio: "py_folioId demo_card = Some ''f1''" by (simp add: demo_card_def newPayment_def)
  have book: "bookRefund ref_numlib 5 ''r1'' ''y1'' ''p'' None 100 100 ''re_1'' demo_till = (Inr (?row, True), ?w)"
    by (simp add: bookRefund_def till_eval replay_none refundChildren_def sumRefundChildren_def addPayment_def storedPayment_def
        refundRow_def put_payment_def sameRequest_def)
  obtain w' where w': "recalculateBalance ref_numlib 5 ''f1'' ''p'' ?w = (Inr (), w')"
    by (rule exE [OF till_recalc [of ?w 5]]) (simp_all add: till_eval refundRow_def put_payment_def)
  show ?thesis
    unfolding refundPayment_def
    using demo_prepare book w' folio by (simp add: recalculateFor_def transactionS_def bindS_def demo_gateway_def demo_answer_def returnS_def guardS_def whenS_def emit_def)
qed

lemma demo_adjust:
  assumes "sel1 (paymentRow ''y2'' ''p'') (payments (wdb w)) = Some demo_wire" and "charges (wdb w) = [demo_charge]"
    and "\<forall>y\<in>set (payments (wdb w)). py_amount y = ''100.00'' \<or> py_amount y = ''-100.00''" and "length (payments (wdb w)) < 9"
  shows "\<exists>x w'. correctPayment ref_numlib demo_gateway 5 n ids ''y2'' ''p'' None w = (Inr (OpAdjust, x), w')
    \<and> charges (wdb w') = [demo_charge] \<and> (\<exists>row. py_amount row = ''-100.00'' \<and> payments (wdb w') = payments (wdb w) @ [row])"
proof -
  let ?row = "adjustmentRow n 5 ''y2'' ''p'' demo_wire ''-100.00''"
  let ?w = "w\<lparr>wdb := put_payment ?row (wdb w)\<rparr>"
  have f: "findPaymentRow ''y2'' ''p'' w = (Inr demo_wire, w)" using assms(1) by (simp add: findPaymentRow_def op_defs)
  have wire: "py_folioId demo_wire = Some ''f1''" "py_amount demo_wire = ''100.00''" "py_bookingRequestId demo_wire = None"
    "legalOp 5 demo_wire = OpAdjust" "parentCountsTowardFolioBalance (py_status demo_wire)"
    by (simp_all add: demo_wire_def newPayment_def legalOp_def isGatewayCard_def CARD_METHODS_def parentCountsTowardFolioBalance_def
        FOLIO_PARENT_PAYMENT_STATUSES_def)
  have neg: "fixedNeg ref_numlib ''100.00'' = Inr ''-100.00''" by (simp add: fixedNeg_def bindR_def ledger_eval)
  have row: "py_amount ?row = ''-100.00''" by (simp add: adjustmentRow_def newPayment_def)
  have add: "addPayment ref_numlib ?row w = (Inr ?row, ?w)"
    by (simp add: addPayment_def storedPayment_def op_defs adjustmentRow_def newPayment_def demo_wire_def sameRequest_def put_payment_def ledger_eval list_ex_iff)
  have "\<exists>w'. recalculateBalance ref_numlib 5 ''f1'' ''p'' ?w = (Inr (), w') \<and> payments (wdb w') = payments (wdb ?w) \<and> charges (wdb w') = charges (wdb ?w)"
    using assms(2-4) row by (intro till_recalc) (simp_all add: put_payment_def)
  then obtain w' where w': "recalculateBalance ref_numlib 5 ''f1'' ''p'' ?w = (Inr (), w')"
    and kept: "payments (wdb w') = payments (wdb w) @ [?row]" "charges (wdb w') = [demo_charge]"
    using assms(2) by (auto simp: put_payment_def)
  show ?thesis
    unfolding correctPayment_def adjustPayment_def adjustInTransaction_def bindS_run [of "findPaymentRow ''y2'' ''p''" w, OF f]
    using f neg add w' kept row wire
    by (simp add: recalculateFor_def transactionS_def op_defs assertGenericAccessAllowed_def emitCorrected_def)
qed

lemma demo_run: "\<exists>sp w'. refundPayment ref_numlib demo_gateway 5 ''r1'' ''y1'' ''p'' (Some ''100.00'') None demo_till = (Inr sp, w')
    \<and> (payment_step False ref_numlib)\<^sup>*\<^sup>* demo_till w'"
proof -
  obtain sp w' where r: "refundPayment ref_numlib demo_gateway 5 ''r1'' ''y1'' ''p'' (Some ''100.00'') None demo_till = (Inr sp, w')"
    using demo_refund by blast
  have "''r1'' \<notin> py_id ` set (payments (wdb demo_till))" "cents (Some ''100.00'')"
    by (simp_all add: till_eval cents_def ledger_money)
  with r show ?thesis using demo_fair(2) by (blast intro: r_into_rtranclp payment_step.refund)
qed

section \<open>Properties\<close>







text \<open>
  C24. Asking for more than what is left of a payment is refused before the processor is called,
  whatever the processor would do, and changes nothing.
\<close>

theorem refund_above_remaining_refused:
  assumes "numerics L dval" and "tenders_ok (wdb w)" and "sel1 (parentRow i p) (payments (wdb w)) = Some y" and "money_text s"
    and "text_val (py_amount y) < refunded i p (wdb w) + text_val s" and "0 < text_val s"
    and "py_status y \<in> {PsCaptured, PsSettled, PsPartiallyRefunded}" and "\<not> present (py_bookingRequestId y)"
    and "present (py_gatewayTransactionId y)"
  shows "\<exists>m. refundPayment L G now n i p (Some s) None w = (Inl (BadRequestException m), w)"
  by (rule numerics.refund_too_much [OF assms])

theorem refund_above_remaining_refused_witness:
  "\<exists>m. refundPayment ref_numlib demo_gateway 5 ''r1'' ''y1'' ''p'' (Some ''100.01'') None demo_till = (Inl (BadRequestException m), demo_till)"
proof (rule refund_above_remaining_refused [OF ref.numerics_axioms demo_tenders, where y = demo_card])
  have "money_text ''100.01''" "text_val ''100.01'' = 10001 / 100" by code_simp+
  then show "money_text ''100.01''" "0 < text_val ''100.01''"
    "text_val (py_amount demo_card) < refunded ''y1'' ''p'' (wdb demo_till) + text_val ''100.01''"
    by (simp_all add: refunded_def refundChildren_def till_eval)
qed (simp_all add: till_eval)





end
