(* ===== verification/PaymentBooks.thy ===== *)
theory PaymentBooks
  imports PaymentRuns
begin

text \<open>
  Payments and the books: an operation of the payment service that returns leaves the stored
  totals of every folio equal to the sums of its rows, and the balance moves by what was paid or
  given back. Together with the steps of the ledger they keep the books along every sequence.
\<close>

section \<open>Changed payments and the sums\<close>

definition folio_of :: "uuid option \<Rightarrow> uuid \<Rightarrow> (uuid \<times> uuid) set" where
  "folio_of f p = (case f of None \<Rightarrow> {} | Some i \<Rightarrow> {(i, p)})"

lemma books_payments:
  assumes "books db" and "folios db' = folios db" and "charges db' = charges db"
    and "list_all (payment_ok db) (payments db')" and "\<And>g q. (g, q) \<notin> S \<Longrightarrow> paymentTotal g q db' = paymentTotal g q db"
  shows "books_except S db'"
proof -
  have "charge_ok db' = charge_ok db" "payment_ok db' = payment_ok db"
    by (simp_all add: fun_eq_iff charge_ok_def payment_ok_def assms(2) split: option.split)
  moreover have "chargeTotal f p db' = chargeTotal f p db" for f p by (simp add: chargeTotal_def folioCharges_def assms(3))
  ultimately show ?thesis using assms by (auto simp: books_except_def rows_ok_def folio_balanced_def)
qed

lemma paymentTotal_upd:
  assumes "\<And>y. y \<in> set ys \<Longrightarrow> u y \<Longrightarrow> \<not> folioPaymentSumWhere f p y \<and> \<not> folioPaymentSumWhere f p (g y)"
  shows "(\<Sum>y\<leftarrow>filter (folioPaymentSumWhere f p) (upd u g ys). text_val (py_amount y))
    = (\<Sum>y\<leftarrow>filter (folioPaymentSumWhere f p) ys. text_val (py_amount y))"
  using assms by (induction ys) auto

lemma payment_ok_upd:
  assumes "list_all (payment_ok db) ys"
    and "\<And>y. py_amount (g y) = py_amount y \<and> py_folioId (g y) = py_folioId y \<and> py_propertyId (g y) = py_propertyId y"
  shows "list_all (payment_ok db) (upd u g ys)"
proof -
  have "payment_ok db (g y) = payment_ok db y" for y using assms(2) by (simp add: payment_ok_def split: option.split)
  then show ?thesis using assms(1) by (auto simp: list_all_iff set_upd)
qed

lemma payments_ok: "books db \<Longrightarrow> list_all (payment_ok db) (payments db)"
  by (simp add: books_except_def rows_ok_def)

lemma only_payment:
  assumes "distinct (map py_id ys)" and "x \<in> set ys" and "y \<in> set ys" and "py_id x = py_id y"
  shows "x = y"
  using assms by (simp add: distinct_map inj_on_def)

text \<open>The status of one payment changes: its folio is to be recalculated, unless it did not and does not count.\<close>

lemma upd_books:
  assumes "books db" and "distinct (map py_id (payments db))" and "x \<in> set (payments db)"
    and "db' = db\<lparr>payments := upd u g (payments db)\<rparr>" and "\<And>y. u y \<Longrightarrow> py_id y = py_id x"
    and g: "\<And>y. py_amount (g y) = py_amount y \<and> py_folioId (g y) = py_folioId y \<and> py_propertyId (g y) = py_propertyId y"
  shows "books_except (folio_of (py_folioId x) (py_propertyId x)) db'"
    and "\<lbrakk>\<not> countedPayment x; \<not> countedPayment (g x)\<rbrakk> \<Longrightarrow> books db'"
proof -
  have only: "y = x" if "y \<in> set (payments db)" "u y" for y
    using only_payment [OF assms(2) that(1) assms(3)] assms(5) [OF that(2)] by blast
  have ok: "list_all (payment_ok db) (upd u g (payments db))" by (rule payment_ok_upd [OF payments_ok [OF assms(1)] g])
  have tot: "paymentTotal f p db' = paymentTotal f p db"
    if "\<not> folioPaymentSumWhere f p x \<and> \<not> folioPaymentSumWhere f p (g x)" for f p
    unfolding paymentTotal_def folioPayments_def assms(4)
    by (simp, rule paymentTotal_upd) (use only that in blast)
  have same: "folios db' = folios db" "charges db' = charges db" "list_all (payment_ok db) (payments db')"
    using ok by (simp_all add: assms(4))
  show "books_except (folio_of (py_folioId x) (py_propertyId x)) db'"
    by (rule books_payments [OF assms(1) same], rule tot) (use g in \<open>auto simp: folio_of_def folioPaymentSumWhere_def\<close>)
  show "books db'" if "\<not> countedPayment x" "\<not> countedPayment (g x)"
    by (rule books_payments [OF assms(1) same], rule tot) (use that in \<open>auto simp: folioPaymentSumWhere_def\<close>)
qed

lemma put_books:
  assumes "books db" and "money_text (py_amount y)" and "\<And>f. py_folioId y = Some f \<Longrightarrow> (f, py_propertyId y) \<in> set (folio_keys db)"
  shows "books_except (folio_of (py_folioId y) (py_propertyId y)) (put_payment y db)"
    and "\<not> countedPayment y \<Longrightarrow> books (put_payment y db)"
proof -
  have ok: "list_all (payment_ok db) (payments (put_payment y db))"
    using payments_ok [OF assms(1)] assms(2,3) by (auto simp: payment_ok_def folio_known split: option.splits)
  show "books_except (folio_of (py_folioId y) (py_propertyId y)) (put_payment y db)"
    by (rule books_payments [OF assms(1) _ _ ok]) (auto simp: totals_pay folio_of_def folioPaymentSumWhere_def)
  show "books (put_payment y db)" if "\<not> countedPayment y"
    by (rule books_payments [OF assms(1) _ _ ok]) (use that in \<open>auto simp: totals_pay folioPaymentSumWhere_def\<close>)
qed

context numerics
begin

lemma recalculateFor_books:
  assumes "recalculateFor L now f p w = (Inr u, w')" and "books_except (folio_of f p) (wdb w)"
  shows "books (wdb w')" and "payments (wdb w') = payments (wdb w)" and "charges (wdb w') = charges (wdb w)"
proof -
  have "books (wdb w') \<and> charges (wdb w') = charges (wdb w)"
  proof (cases f)
    case None
    with assms show ?thesis by (simp_all add: recalculateFor_def folio_of_def returnS_iff)
  next
    case (Some i)
    then have run: "recalculateBalance L now i p w = (Inr u, w')" and ex: "books_except {(i, p)} (wdb w)"
      using assms by (simp_all add: recalculateFor_def folio_of_def)
    show ?thesis using recalc_books [OF run ex] by simp
  qed
  then show "books (wdb w')" "charges (wdb w') = charges (wdb w)" by simp_all
  show "payments (wdb w') = payments (wdb w)" by (rule doesD [OF recalculateFor_frame [OF blind_payments] assms(1)])
qed

lemma added_money:
  assumes "numeric12_2 L (py_amount y) = Inr a" and "decimal_text (py_amount y) \<noteq> None"
  shows "money_text (py_amount (y\<lparr>py_amount := a\<rparr>))" and "text_val a = round_dp 2 (text_val (py_amount y))"
  using numeric12_2_money [OF assms(2,1)] by simp_all

section \<open>The operations that return\<close>

text \<open>Taking a payment: the folio was open and owes what was paid less.\<close>

lemma record_books:
  assumes "recordPayment L now n dto w = (Inr sp, w')" and "books (wdb w)" and "decimal_text (cp_amount dto) \<noteq> None"
  shows "books (wdb w')" and "\<exists>f row. sel1 (folioRow (cp_folioId dto) (cp_propertyId dto)) (folios (wdb w)) = Some f \<and> fo_status f = FsOpen
    \<and> payments (wdb w') = payments (wdb w) @ [row] \<and> py_id row = n \<and> sp = safePaymentResponse row
    \<and> folioPaymentSumWhere (cp_folioId dto) (cp_propertyId dto) row \<and> text_val (py_amount row) = round_dp 2 (text_val (cp_amount dto))"
    and "charges (wdb w') = charges (wdb w)"
proof -
  obtain f ts row w1 w2 where f: "sel1 (folioRow (cp_folioId dto) (cp_propertyId dto)) (folios (wdb w)) = Some f" "fo_status f = FsOpen"
    and row: "addPayment L ((newPayment n now (cp_propertyId dto) (Some (cp_folioId dto)) (cp_method dto) (cp_amount dto)
        (cp_currencyCode dto) PsCaptured)\<lparr>py_gatewayProvider := cp_gatewayProvider dto,
        py_gatewayPaymentToken := cp_gatewayPaymentToken dto, py_gatewayTransactionId := cp_gatewayTransactionId dto,
        py_cardLastFour := cp_cardLastFour dto, py_cardBrand := cp_cardBrand dto, py_notes := cp_notes dto,
        py_processedAt := Some ts\<rparr>) w = (Inr row, w1)"
    and re: "recalculateBalance L now (cp_folioId dto) (cp_propertyId dto) w1 = (Inr (), w2)"
    and w': "wdb w' = wdb w2" "sp = safePaymentResponse row"
    using assms(1)
    by (clarsimp simp: recordPayment_def bindS_Inr_iff guardS_Inr_iff findFolio_iff emit_iff returnS_iff liftS_iff split: if_splits)
  from addPayment_cases [OF row] obtain a where a: "numeric12_2 L (cp_amount dto) = Inr a"
    and r: "py_id row = n" "py_amount row = a" "py_folioId row = Some (cp_folioId dto)" "py_propertyId row = cp_propertyId dto" "py_status row = PsCaptured"
    and w1: "w1 = w\<lparr>wdb := put_payment row (wdb w)\<rparr>"
    by (auto simp: newPayment_def)
  note money = numeric12_2_money [OF assms(3) a]
  have "books_except (folio_of (py_folioId row) (py_propertyId row)) (wdb w1)"
    using put_books(1) [OF assms(2), of row] money r findFolio_key [OF f(1)] by (simp add: w1)
  then have ex: "books_except (folio_of (Some (cp_folioId dto)) (cp_propertyId dto)) (wdb w1)" by (simp add: r)
  have "recalculateFor L now (Some (cp_folioId dto)) (cp_propertyId dto) w1 = (Inr (), w2)" using re by (simp add: recalculateFor_def)
  note done' = recalculateFor_books [OF this ex]
  show "books (wdb w')" "charges (wdb w') = charges (wdb w)" using done' w' by (simp_all add: w1)
  show "\<exists>f row. sel1 (folioRow (cp_folioId dto) (cp_propertyId dto)) (folios (wdb w)) = Some f \<and> fo_status f = FsOpen
    \<and> payments (wdb w') = payments (wdb w) @ [row] \<and> py_id row = n \<and> sp = safePaymentResponse row
    \<and> folioPaymentSumWhere (cp_folioId dto) (cp_propertyId dto) row \<and> text_val (py_amount row) = round_dp 2 (text_val (cp_amount dto))"
    using f done' w' r money by (simp add: w1 folioPaymentSumWhere_def countedPayment_def)
qed

text \<open>An authorized payment does not count yet.\<close>

lemma authorize_books:
  assumes "authorizePayment L G now n dto w = (Inr sp, w')" and "calm G" and "books (wdb w)" and "decimal_text (au_amount dto) \<noteq> None"
  shows "books (wdb w')"
proof -
  obtain f d res w1 ts row w2 where f: "sel1 (folioRow (au_folioId dto) (au_propertyId dto)) (folios (wdb w)) = Some f"
    and call: "gw_authorize G (au_gatewayPaymentToken dto) d (au_currencyCode dto) w = (Inr res, w1)"
    and row: "addPayment L ((authorization n now dto (gr_transactionId res) PsAuthorized)
          \<lparr>py_isPreAuthorization := True, py_preAuthExpiresAt := Some ts, py_notes := au_notes dto\<rparr>) w1 = (Inr row, w2)"
    and w': "wdb w' = wdb w2"
    using assms(1)
    by (clarsimp simp: authorizePayment_def bindS_Inr_iff guardS_Inr_iff findFolio_iff emit_iff returnS_iff liftS_iff throwS_iff split: if_splits)
  have w1: "wdb w1 = wdb w" using doesD [OF calmD(1) [OF assms(2), where g = "\<lambda>db. db"] call] by simp
  from addPayment_cases [OF row] obtain a where a: "numeric12_2 L (au_amount dto) = Inr a"
    and r: "py_amount row = a" "py_folioId row = Some (au_folioId dto)" "py_propertyId row = au_propertyId dto" "py_status row = PsAuthorized"
    and w2: "wdb w2 = put_payment row (wdb w1)"
    by (auto simp: authorization_def newPayment_def)
  have "books (put_payment row (wdb w))"
    using numeric12_2_money [OF assms(4) a] r findFolio_key [OF f]
    by (intro put_books(2) [OF assms(3)]) (simp_all add: countedPayment_def FOLIO_PARENT_PAYMENT_STATUSES_def)
  then show ?thesis by (simp add: w' w2 w1)
qed

lemma claim_Inr: "claimPayment what i p f w = (Inr z, w') \<Longrightarrow>
    \<exists>y. sel1 (\<lambda>y. paymentRow i p y \<and> py_status y = PsAuthorized) (payments (wdb w)) = Some y \<and> z = f y
      \<and> w' = w\<lparr>wdb := (wdb w)\<lparr>payments := upd (\<lambda>y. paymentRow i p y \<and> py_status y = PsAuthorized) f (payments (wdb w))\<rparr>\<rparr>"
  by (auto simp: claimPayment_def bindS_Inr_iff getS_iff updatePayment_def modifyS_iff returnS_iff someS_Inr_iff throwS_iff split: option.splits)

lemma capture_books:
  assumes "capturePayment L G now i p w = (Inr sp, w')" and "calm G" and "books (wdb w)" and "distinct (map py_id (payments (wdb w)))"
  shows "books (wdb w')"
proof -
  let ?f = "\<lambda>y. y\<lparr>py_status := PsCaptured, py_processedAt := Some now, py_updatedAt := now\<rparr>"
  obtain z w1 d res w2 w3 where z: "claimPayment ''capture'' i p ?f w = (Inr z, w1)"
    and call: "gw_capture G (py_gatewayTransactionId z) d (''cap_'' @ i) (py_currencyCode z) w1 = (Inr res, w2)"
    and re: "recalculateFor L now (py_folioId z) p w2 = (Inr (), w3)" and w': "wdb w' = wdb w3"
    using assms(1)
    by (clarsimp simp: capturePayment_def bindS_Inr_iff guardS_Inr_iff findPaymentRow_def getS_iff someS_Inr_iff assertGenericAccessAllowed_def
        emit_iff returnS_iff liftS_iff throwS_iff split: if_splits)
  obtain y where y: "sel1 (\<lambda>y. paymentRow i p y \<and> py_status y = PsAuthorized) (payments (wdb w)) = Some y" "z = ?f y"
    and w1: "w1 = w\<lparr>wdb := (wdb w)\<lparr>payments := upd (\<lambda>y. paymentRow i p y \<and> py_status y = PsAuthorized) ?f (payments (wdb w))\<rparr>\<rparr>"
    using claim_Inr [OF z] by blast
  then have db: "wdb w1 = (wdb w)\<lparr>payments := upd (\<lambda>y. paymentRow i p y \<and> py_status y = PsAuthorized) ?f (payments (wdb w))\<rparr>" by simp
  have m: "y \<in> set (payments (wdb w))" "py_id y = i" "py_propertyId y = p" using find_SomeD [OF y(1)] by simp_all
  have w2: "wdb w2 = wdb w1" using doesD [OF calmD(2) [OF assms(2), where g = "\<lambda>db. db"] call] by simp
  have "books_except (folio_of (py_folioId y) (py_propertyId y)) (wdb w1)"
    by (rule upd_books(1) [OF assms(3,4) m(1) db]) (use m in auto)
  then show ?thesis using recalculateFor_books(1) [OF re] y(2) m by (simp add: w' w2)
qed

lemma void_books:
  assumes "voidPayment G now i p w = (Inr sp, w')" and "calm G" and "books (wdb w)" and "distinct (map py_id (payments (wdb w)))"
  shows "books (wdb w')"
proof -
  let ?f = "\<lambda>y. y\<lparr>py_status := PsVoided, py_updatedAt := now\<rparr>"
  obtain z w1 res w2 where z: "claimPayment ''void'' i p ?f w = (Inr z, w1)"
    and call: "gw_void G (py_gatewayTransactionId z) (''void_'' @ i) w1 = (Inr res, w2)" and w': "wdb w' = wdb w2"
    using assms(1)
    by (clarsimp simp: voidPayment_def bindS_Inr_iff guardS_Inr_iff findPaymentRow_def getS_iff someS_Inr_iff assertGenericAccessAllowed_def
        emit_iff returnS_iff liftS_iff throwS_iff split: if_splits)
  obtain y where y: "sel1 (\<lambda>y. paymentRow i p y \<and> py_status y = PsAuthorized) (payments (wdb w)) = Some y" "z = ?f y"
    and w1: "w1 = w\<lparr>wdb := (wdb w)\<lparr>payments := upd (\<lambda>y. paymentRow i p y \<and> py_status y = PsAuthorized) ?f (payments (wdb w))\<rparr>\<rparr>"
    using claim_Inr [OF z] by blast
  then have db: "wdb w1 = (wdb w)\<lparr>payments := upd (\<lambda>y. paymentRow i p y \<and> py_status y = PsAuthorized) ?f (payments (wdb w))\<rparr>" by simp
  have m: "y \<in> set (payments (wdb w))" "py_id y = i" "py_status y = PsAuthorized" using find_SomeD [OF y(1)] by simp_all
  have w2: "wdb w2 = wdb w1" using doesD [OF calmD(3) [OF assms(2), where g = "\<lambda>db. db"] call] by simp
  have "books (wdb w1)"
    by (rule upd_books(2) [OF assms(3,4) m(1) db]) (use m in \<open>auto simp: countedPayment_def FOLIO_PARENT_PAYMENT_STATUSES_def\<close>)
  then show ?thesis by (simp add: w' w2)
qed

lemma voidTender_books:
  assumes "voidTender L now i p x w = (Inr sp, w')" and "books (wdb w)" and "distinct (map py_id (payments (wdb w)))"
  shows "books (wdb w')"
proof -
  let ?q = "\<lambda>y. paymentRow i p y \<and> py_status y = py_status x" and ?f = "\<lambda>y. y\<lparr>py_status := PsVoided, py_updatedAt := now\<rparr>"
  let ?w = "w\<lparr>wdb := (wdb w)\<lparr>payments := upd ?q ?f (payments (wdb w))\<rparr>\<rparr>"
  obtain y w2 where y: "sel1 ?q (payments (wdb w)) = Some y"
    and re: "recalculateFor L now (py_folioId y) p ?w = (Inr (), w2)" and w': "wdb w' = wdb w2"
    using assms(1)
    by (clarsimp simp: voidTender_def Let_def bindS_Inr_iff getS_iff updatePayment_def modifyS_iff someS_Inr_iff emit_iff returnS_iff)
  have m: "y \<in> set (payments (wdb w))" "py_id y = i" "py_propertyId y = p" using find_SomeD [OF y] by simp_all
  have "books_except (folio_of (py_folioId y) (py_propertyId y)) (wdb ?w)"
    by (rule upd_books(1) [OF assms(2,3) m(1), where u = ?q and g = ?f]) (use m in auto)
  then show ?thesis using recalculateFor_books(1) [OF re] m by (simp add: w')
qed

lemma refund_books:
  assumes "refundPayment L G now n i p amount key w = (Inr sp, w')" and "books (wdb w)" and "tenders_ok (wdb w)" and "cents amount"
    and "\<And>t a k c. keeps (\<lambda>db. db) (gw_refund G t a k c)"
  shows "books (wdb w')"
  using refund_Inr [OF assms(1)]
proof (elim disjE exE conjE)
  fix y tot ref w2 result row isNew w3
  assume prep: "prepareRefund L i p amount key w = (Inr (y, tot, ref, None), w)"
    and call: "gw_refund G (the (py_gatewayTransactionId y)) ref (nvl key (''ref_'' @ i @ ''_'' @ dec_toFixed L 2 tot)) (py_currencyCode y) w = (Inr result, w2)"
    and bk: "bookRefund L now n i p key tot ref (gr_transactionId result) w2 = (Inr (row, isNew), w3)"
    and fin: "if isNew then \<exists>w4. recalculateFor L now (py_folioId y) p w3 = (Inr (), w4) \<and> wdb w' = wdb w4 else w' = w3"
  let ?u = "text_val (nvl amount (py_amount y))" and ?r = "refunded i p (wdb w)"
  have u: "dval ref = Some ?u" "scaled 2 ?u" "0 < ?u" using prepare_value(1) [OF prep assms(3,4)] by blast+
  have tot: "sel1 (parentRow i p) (payments (wdb w)) = Some y" "dval tot = Some (?r + ?u)" "?r + ?u \<le> text_val (py_amount y)"
    using prepare_value(2) [OF prep assms(3,4) refl] by blast+
  have y: "y \<in> set (payments (wdb w))" "py_propertyId y = p" using find_SomeD [OF tot(1)] by simp_all
  have w2: "wdb w2 = wdb w" using doesD [OF assms(5) call] by simp
  have kids: "scaled 2 ?r" "0 \<le> ?r" using sum_children [OF assms(3), of i p] by auto
  have "tender_ok (wdb w) y" using assms(3) y(1) by (simp add: tenders_ok_def)
  then have big: "text_val (py_amount y) < 10 ^ 10" using money_textD(3) [of "py_amount y"] by (simp add: tender_ok_def)
  have "w3 = w2 \<and> \<not> isNew \<or> isNew \<and> wdb w3 = put_payment row (wdb w) \<and> py_propertyId row = p \<and> py_folioId row = py_folioId y \<and> money_text (py_amount row)"
    using book_cases [OF bk, unfolded w2, OF assms(3) tot(1,2) u(1) scaled_add [OF kids(1) u(2)] u(2,3)] kids tot(3) u(3) big by auto
  then show ?thesis
  proof (elim disjE conjE)
    assume "w3 = w2" "\<not> isNew"
    with fin w2 assms(2) show ?thesis by simp
  next
    assume row: "isNew" "wdb w3 = put_payment row (wdb w)" "py_propertyId row = p" "py_folioId row = py_folioId y" "money_text (py_amount row)"
    then obtain w4 where w4: "recalculateFor L now (py_folioId y) p w3 = (Inr (), w4)" "wdb w' = wdb w4" using fin by auto
    have "payment_ok (wdb w) y" using payments_ok [OF assms(2)] y(1) by (simp add: list_all_iff)
    then have "(f, p) \<in> set (folio_keys (wdb w))" if "py_folioId y = Some f" for f
      using that y(2) by (simp add: payment_ok_def folio_known)
    then have "books_except (folio_of (py_folioId y) p) (wdb w3)"
      using put_books(1) [OF assms(2) row(5)] row by simp
    from recalculateFor_books(1) [OF w4(1) this] w4(2) show ?thesis by simp
  qed
qed (use assms(2) in simp)

end

section \<open>The house: ledger and payments together\<close>

text \<open>A processor during whose calls nothing else happens.\<close>

definition undisturbed :: "('d, 'z folio_db_scheme) gateway \<Rightarrow> bool" where
  "undisturbed G \<longleftrightarrow> calm G \<and> (\<forall>t a k c. keeps (\<lambda>db. db) (gw_refund G t a k c))"

lemma undisturbed_fair: "undisturbed G \<Longrightarrow> calm G \<and> fair_refunds n b G \<and> keeps (\<lambda>db. db) (gw_refund G t a k c)"
  by (auto simp: undisturbed_def fair_refunds_def does_def evolving.same)

text \<open>
  The steps of the ledger that do not themselves book a payment, and the operations of the payment
  service that return. Corrections by adjustment are left out: see \<open>corrected_twice\<close>.
\<close>

inductive house_step :: "'d numlib \<Rightarrow> 'z routing_db_scheme world \<Rightarrow> 'z routing_db_scheme world \<Rightarrow> bool"
  for L :: "'d numlib" where
  ledger: "ledger_step L w w' \<Longrightarrow> payments (wdb w') = payments (wdb w) \<Longrightarrow> house_step L w w'"
| taking: "recordPayment L now n dto w = (Inr sp, w') \<Longrightarrow> n \<notin> py_id ` set (payments (wdb w))
    \<Longrightarrow> decimal_text (cp_amount dto) \<noteq> None \<Longrightarrow> 0 \<le> text_val (cp_amount dto) \<Longrightarrow> house_step L w w'"
| authorizing: "authorizePayment L G now n adto w = (Inr sp, w') \<Longrightarrow> n \<notin> py_id ` set (payments (wdb w)) \<Longrightarrow> undisturbed G
    \<Longrightarrow> decimal_text (au_amount adto) \<noteq> None \<Longrightarrow> 0 \<le> text_val (au_amount adto) \<Longrightarrow> house_step L w w'"
| capturing: "capturePayment L G now i p w = (Inr sp, w') \<Longrightarrow> undisturbed G \<Longrightarrow> house_step L w w'"
| voiding: "voidPayment (G :: ('d, 'z routing_db_scheme) gateway) now i p w = (Inr sp, w') \<Longrightarrow> undisturbed G \<Longrightarrow> house_step L w w'"
| refunding: "refundPayment L G now n i p amount key w = (Inr sp, w') \<Longrightarrow> n \<notin> py_id ` set (payments (wdb w))
    \<Longrightarrow> undisturbed G \<Longrightarrow> cents amount \<Longrightarrow> house_step L w w'"
| correcting: "correctPayment L G now n ids i p what w = (Inr (how, sp'), w') \<Longrightarrow> n \<notin> py_id ` set (payments (wdb w))
    \<Longrightarrow> undisturbed G \<Longrightarrow> how \<noteq> OpAdjust \<Longrightarrow> house_step L w w'"

context numerics
begin

lemma correct_Inr:
  assumes "correctPayment L G now n ids i p what w = (Inr (how, x), w')" and "how \<noteq> OpAdjust"
  shows "\<exists>y sp w1. sel1 (paymentRow i p) (payments (wdb w)) = Some y \<and> legalOp now y = how \<and> wdb w' = wdb w1
    \<and> (voidPayment G now i p w = (Inr sp, w1) \<or> voidTender L now i p y w = (Inr sp, w1)
       \<or> refundPayment L G now n i p None None w = (Inr sp, w1))"
proof -
  from assms(1) obtain y where y: "sel1 (paymentRow i p) (payments (wdb w)) = Some y"
    by (auto simp: correctPayment_def bindS_Inr_iff findPaymentRow_def getS_iff someS_Inr_iff)
  then have f: "findPaymentRow i p w = (Inr y, w)" by (simp add: findPaymentRow_def op_defs)
  note run = assms(1) [unfolded correctPayment_def bindS_run [of "findPaymentRow i p" w, OF f]]
  note iffs = bindS_Inr_iff assertGenericAccessAllowed_def guardS_Inr_iff Let_def emitCorrected_def emit_iff returnS_iff
  show ?thesis
  proof (cases "legalOp now y")
    case OpVoid
    with run y show ?thesis by (cases "py_status y = PsAuthorized \<and> isGatewayCard y") (auto simp: iffs, blast+)
  next
    case OpRefund
    with run y show ?thesis by (auto simp: iffs, blast+)
  qed (use run assms(2) in \<open>auto simp: iffs\<close>)
qed

lemma house_step_keeps:
  assumes "house_step L w w'" and "books (wdb w)" and "tenders_ok (wdb w)"
  shows "books (wdb w') \<and> tenders_ok (wdb w')"
proof -
  have ids: "distinct (map py_id (payments (wdb w)))" using assms(3) by (simp add: tenders_ok_def)
  have on: "tenders_ok (wdb w')" if "payment_step False L w w'"
    using payment_step_evolves [OF that] assms(3) by (simp add: evolves_def)
  from assms(1) show ?thesis
  proof cases
    case ledger
    then show ?thesis using ledger_step_inv [OF _ assms(2)] on [OF payment_step.elsewhere] by (simp add: ledger_inv_def)
  next
    case (taking now n dto sp)
    then show ?thesis using record_books(1) [OF _ assms(2)] on [OF payment_step.taken] by blast
  next
    case (authorizing G now n adto sp)
    then show ?thesis using authorize_books [OF _ _ assms(2)] on [OF payment_step.authorize] undisturbed_fair [of G] by blast
  next
    case (capturing G now i p sp)
    then show ?thesis using capture_books [OF _ _ assms(2) ids] on [OF payment_step.capture] undisturbed_fair [of G] by blast
  next
    case (voiding G now i p sp)
    then show ?thesis using void_books [OF _ _ assms(2) ids] on [OF payment_step.void] undisturbed_fair [of G] by blast
  next
    case (refunding G now n i p amount key sp)
    have "keeps (\<lambda>db. db) (gw_refund G t a k c)" for t a k c using undisturbed_fair [OF refunding(3)] by blast
    then have "books (wdb w')" by (rule refund_books [OF refunding(1) assms(2,3) refunding(4)])
    moreover have "tenders_ok (wdb w')"
      using undisturbed_fair [OF refunding(3)] by (intro on payment_step.refund [OF refunding(1,2) _ refunding(4)]) blast
    ultimately show ?thesis by blast
  next
    case (correcting G now n ids' i p what how sp')
    obtain y sp w1 where y: "sel1 (paymentRow i p) (payments (wdb w)) = Some y" "legalOp now y = how" and w1: "wdb w' = wdb w1"
      and run: "voidPayment G now i p w = (Inr sp, w1) \<or> voidTender L now i p y w = (Inr sp, w1) \<or> refundPayment L G now n i p None None w = (Inr sp, w1)"
      using correct_Inr [OF correcting(1,4)] by blast
    have G: "calm G" "keeps (\<lambda>db. db) (gw_refund G t a k c)" for t a k c using undisturbed_fair [OF correcting(3)] by blast+
    from run have "books (wdb w1)"
    proof (elim disjE)
      assume "refundPayment L G now n i p None None w = (Inr sp, w1)"
      then show ?thesis by (rule refund_books [OF _ assms(2,3) _ G(2)]) (simp add: cents_def)
    qed (rule void_books [OF _ G(1) assms(2) ids] voidTender_books [OF _ assms(2) ids]; assumption)+
    moreover have "tenders_ok (wdb w')"
      using correcting y undisturbed_fair [OF correcting(3)] by (intro on payment_step.correct [OF correcting(1,2)]) auto
    ultimately show ?thesis using w1 by simp
  qed
qed

lemma house_run_keeps: "(house_step L)\<^sup>*\<^sup>* w w' \<Longrightarrow> books (wdb w) \<Longrightarrow> tenders_ok (wdb w) \<Longrightarrow> books (wdb w') \<and> tenders_ok (wdb w')"
  by (induction rule: rtranclp_induct) (auto dest: house_step_keeps)

end

section \<open>Example data\<close>

definition demo_cash :: createPaymentDto where
  "demo_cash = \<lparr>cp_folioId = ''f1'', cp_propertyId = ''p'', cp_method = PmCash, cp_amount = ''100.00'', cp_currencyCode = ''EUR'',
     cp_gatewayProvider = None, cp_gatewayPaymentToken = None, cp_gatewayTransactionId = None, cp_cardLastFour = None,
     cp_cardBrand = None, cp_notes = None, cp_processedAt = None\<rparr>"

lemma demo_paid: "\<exists>sp w'. recordPayment ref_numlib 5 ''y9'' demo_cash demo_ledger = (Inr sp, w')"
proof -
  let ?row = "(newPayment ''y9'' 5 ''p'' (Some ''f1'') PmCash ''100.00'' ''EUR'' PsCaptured)\<lparr>py_processedAt := Some 5\<rparr>"
  let ?w = "demo_ledger\<lparr>wdb := put_payment ?row (wdb demo_ledger)\<rparr>"
  have f: "findFolio ''f1'' ''p'' demo_ledger = (Inr (demo_folio ''f1'' ''100.00''), demo_ledger)"
    by (simp add: findFolio_iff demo_ledger_def demo_folio_def)
  have add: "addPayment ref_numlib ?row demo_ledger = (Inr ?row, ?w)"
    by (simp add: addPayment_def storedPayment_def op_defs newPayment_def sameRequest_def put_payment_def ledger_eval list_ex_iff)
  obtain w' where w': "recalculateBalance ref_numlib 5 ''f1'' ''p'' ?w = (Inr (), w')"
    by (rule exE [OF till_recalc [of ?w 5]]) (simp_all add: demo_ledger_def newPayment_def)
  have eq: "((newPayment ''y9'' 5 ''p'' (Some ''f1'') PmCash ''100.00'' ''EUR'' PsCaptured)\<lparr>py_gatewayProvider := None,
        py_gatewayPaymentToken := None, py_gatewayTransactionId := None,
        py_cardLastFour := None, py_cardBrand := None, py_notes := None, py_processedAt := Some 5\<rparr>) = ?row"
    by (simp add: newPayment_def)
  have o: "fo_status (demo_folio ''f1'' ''100.00'') = FsOpen" by (simp add: demo_folio_def)
  show ?thesis
    unfolding recordPayment_def
    using f add w' o by (simp add: demo_cash_def CARD_METHODS_def bindS_run [of "findFolio ''f1'' ''p''" demo_ledger, OF f] eq
        bindS_run [of "addPayment ref_numlib ?row" demo_ledger, OF add] bindS_run [of "recalculateBalance ref_numlib 5 ''f1'' ''p''" ?w, OF w'] emit_def bindS_def returnS_def)
qed

section \<open>Properties\<close>



text \<open>
  C23. A payment that is recorded was paid on an open folio, which then owes exactly the rounded
  amount less; charges stay as they are and the books stay right.
\<close>

theorem payment_outcome:
  assumes "numerics L dval" and "recordPayment L now n dto w = (Inr sp, w')" and "books (wdb w)" and "decimal_text (cp_amount dto) \<noteq> None"
  shows "books (wdb w') \<and> charges (wdb w') = charges (wdb w)
    \<and> (\<exists>f. sel1 (folioRow (cp_folioId dto) (cp_propertyId dto)) (folios (wdb w)) = Some f \<and> fo_status f = FsOpen)
    \<and> paymentTotal (cp_folioId dto) (cp_propertyId dto) (wdb w')
        = paymentTotal (cp_folioId dto) (cp_propertyId dto) (wdb w) + round_dp 2 (text_val (cp_amount dto))
    \<and> text_val (sp_amount sp) = round_dp 2 (text_val (cp_amount dto))"
  using numerics.record_books [OF assms]
  by (auto simp: paymentTotal_def folioPayments_def safePaymentResponse_def)

theorem payment_outcome_witness:
  "\<exists>sp w'. recordPayment ref_numlib 5 ''y9'' demo_cash demo_ledger = (Inr sp, w') \<and> books (wdb w')
    \<and> paymentTotal ''f1'' ''p'' (wdb w') = 100"
proof -
  obtain sp w' where r: "recordPayment ref_numlib 5 ''y9'' demo_cash demo_ledger = (Inr sp, w')" using demo_paid by blast
  have dto: "decimal_text (cp_amount demo_cash) = Some 100" "text_val (cp_amount demo_cash) = 100" "cp_folioId demo_cash = ''f1''"
    "cp_propertyId demo_cash = ''p''" by (simp_all add: demo_cash_def ledger_texts)
  have "paymentTotal ''f1'' ''p'' (wdb demo_ledger) = 0" by (simp add: paymentTotal_def folioPayments_def demo_ledger_def)
  with payment_outcome [OF ref.numerics_axioms r demo_books] r dto show ?thesis by (auto simp: ledger_texts)
qed

end
