(* ===== verification/StayHistory.thy ===== *)
theory StayHistory
  imports Stay
begin

text \<open>
  The two guarantees over all runs of the reservation service: a physical room is never given to
  two stays, and every stay goes along the status table. The demonstration tables at the end are
  shared by the theories of the single operations.
\<close>

text \<open>
  C2. A physical room is never given to two stays at once: starting from tables in which it is
  not, after any sequence of operations of the service, with whatever results and with
  other services at work in between, two different live reservations of the same room
  do not share a night. Modifications that change the dates of a stay that has a room are
  excepted; they are treated in the theory \<open>Desk\<close>.
\<close>

theorem room_never_double_booked:
  assumes "(stay_step L)\<^sup>*\<^sup>* w w'" and "one_stay_per_room (reservations (wdb w))"
  shows "\<forall>x\<in>set (reservations (wdb w')). \<forall>y\<in>set (reservations (wdb w')).
     rv_id x \<noteq> rv_id y \<and> rv_propertyId x = rv_propertyId y \<and> rv_roomId x = rv_roomId y \<and> rv_roomId x \<noteq> None
     \<and> rv_status x \<notin> {RsCancelled, RsNoShow, RsCheckedOut} \<and> rv_status y \<notin> {RsCancelled, RsNoShow, RsCheckedOut}
     \<longrightarrow> rv_departureDate x \<le> rv_arrivalDate y \<or> rv_departureDate y \<le> rv_arrivalDate x"
proof -
  have "one_stay_per_room (reservations (wdb w'))"
    using stay_changes_invariant [OF stay_steps_changes [OF assms(1)] assms(2)] .
  then show ?thesis
    by (simp add: one_stay_per_room_def same_room_def live_def excludedStatuses_def overlaps_def not_less) blast
qed

lemma stay_change_rows:
  assumes "stay_change rows rows'" and "r \<in> set rows"
  shows "\<exists>r'\<in>set rows'. rv_id r' = rv_id r \<and> rv_propertyId r' = rv_propertyId r
     \<and> (rv_status r' = rv_status r \<or> stay.step (rv_status r) (rv_status r'))"
proof -
  have upd: "\<exists>r'\<in>set (upd q f rows). rv_id r' = rv_id r \<and> rv_propertyId r' = rv_propertyId r
      \<and> (rv_status r' = rv_status r \<or> stay.step (rv_status r) (rv_status r'))"
    if "\<And>x. q x \<Longrightarrow> rv_id (f x) = rv_id x \<and> rv_propertyId (f x) = rv_propertyId x
      \<and> (rv_status (f x) = rv_status x \<or> stay.step (rv_status x) (rv_status (f x)))" for q f
    using assms(2) that [of r] by (intro bexI [of _ "if q r then f r else r"]) (auto simp: set_upd)
  from assms(1) show ?thesis
  proof cases
    case unchanged
    with assms(2) show ?thesis by blast
  next
    case (booked b)
    with assms(2) show ?thesis by auto
  qed (use upd in \<open>auto simp: moves_status_def moves_into_def redates_def stay_key_def\<close>)
qed

lemma stay_changes_rows:
  assumes "stay_change\<^sup>*\<^sup>* rows rows'" and "r \<in> set rows"
  shows "\<exists>r'\<in>set rows'. rv_id r' = rv_id r \<and> rv_propertyId r' = rv_propertyId r
     \<and> (\<exists>ss. stay.path (rv_status r) ss \<and> rv_status r' = last (rv_status r # ss))"
  using assms(1)
proof (induction rule: rtranclp_induct)
  case base
  from assms(2) show ?case by (intro bexI [of _ r] conjI exI [of _ "[]"]) simp_all
next
  case (step rows1 rows2)
  then obtain r1 ss where r1: "r1 \<in> set rows1" "rv_id r1 = rv_id r" "rv_propertyId r1 = rv_propertyId r"
    and ss: "stay.path (rv_status r) ss" "rv_status r1 = last (rv_status r # ss)" by blast
  from stay_change_rows [OF step.hyps(2) r1(1)] obtain r2 where r2: "r2 \<in> set rows2" "rv_id r2 = rv_id r1"
      "rv_propertyId r2 = rv_propertyId r1" "rv_status r2 = rv_status r1 \<or> stay.step (rv_status r1) (rv_status r2)" by blast
  from r2(4) show ?case
  proof
    assume "rv_status r2 = rv_status r1"
    then have "rv_id r2 = rv_id r \<and> rv_propertyId r2 = rv_propertyId r \<and> stay.path (rv_status r) ss
        \<and> rv_status r2 = last (rv_status r # ss)"
      using r1(2,3) r2(2,3) ss by (simp only:)
    with r2(1) show ?thesis by blast
  next
    assume "stay.step (rv_status r1) (rv_status r2)"
    with ss have "stay.path (rv_status r) (ss @ [rv_status r2]) \<and> rv_status r2 = last (rv_status r # ss @ [rv_status r2])"
      by (simp add: stay.path_append)
    moreover have "rv_id r2 = rv_id r" "rv_propertyId r2 = rv_propertyId r" using r1(2,3) r2(2,3) by (simp_all only:)
    ultimately show ?thesis using r2(1) by blast
  qed
qed


text \<open>Two rooms; a stay assigned to the first, and a confirmed one for the same nights and one more.\<close>

definition demo_second :: reservation where
  "demo_second = (demo_stay RsConfirmed)\<lparr>rv_id := ''v2'', rv_departureDate := ''2024-03-01'', rv_nights := 2, rv_roomId := None\<rparr>"

definition demo_house :: "reservation list \<Rightarrow> folio_db world" where
  "demo_house rs = \<lparr>wdb = \<lparr>domainEventOutbox = [], auditLogs = [], roomTypes = [demo_type],
     rooms = [demo_room VacantClean, (demo_room VacantClean)\<lparr>ro_id := ''r2'', ro_number := ''102''\<rparr>],
     housekeepingTasks = [], maintenanceTickets = [], roomInventoryBlocks = [], properties = [demo_property],
     guests = [\<lparr>gu_id = ''g1'', gu_vipLevel = [], gu_isDnr = False, gu_dnrReason = None\<rparr>], bookings = [],
     reservations = rs, reservationGuests = [], ratePlans = [demo_plan], rateRestrictions = [],
     icalFeeds = [], icalBlocks = [], taxProfiles = [], taxRules = [], folios = [], charges = [], payments = []\<rparr>,
     wevents = []\<rparr>"

definition demo_env :: "folio_db stay_env" where
  "demo_env = \<lparr>en_clock = demo_clock, en_today = ''240228'', en_outbox = False, en_listeners = (\<lambda>_ _. Inr ()),
     en_cipher = None, en_settleCancellation = (\<lambda>_ _. returnS (''0.00'', True)), en_authorizePayment = (\<lambda>_. returnS ''pay''),
     en_ensurePackageComponents = (\<lambda>_ _. returnS ()), en_postOnceForReservation = (\<lambda>_ _. returnS ()),
     en_applyHeldDeposits = (\<lambda>_ _ _. returnS ()), en_capturePayment = (\<lambda>_ _. returnS ()), en_voidPayment = (\<lambda>_ _. returnS ())\<rparr>"

lemma demo_quiet: "quiet demo_env"
  by (simp add: quiet_def demo_env_def held.basic)

lemma demo_house_ready: "i \<in> {''r1'', ''r2''} \<Longrightarrow> ready_on i ''p'' ''2024-02-28'' (wdb (demo_house rs))"
  by (auto simp: ready_on_def demo_house_def demo_room_def day_2024)

lemma demo_assertReady:
  assumes "i \<in> {''r1'', ''r2''}"
  obtains rd where "assertReady demo_clock i ''p'' (Some ''2024-02-28'') (Some d) (demo_house rs) = (Inr rd, demo_house rs)"
  using assertReady_ok [OF demo_house_ready [OF assms], where sd = "Some ''2024-02-28''" and clk = demo_clock and dd = "Some d"] that
  by (auto simp: demo_house_def)

definition demo_assigned :: reservation where
  "demo_assigned = assigned demo_env ''r2'' demo_second"

lemma demo_assign: "assignRoom demo_env False ''v2'' ''p'' ''r2'' (demo_house [demo_stay RsAssigned, demo_second])
    = (Inr demo_assigned, demo_house [demo_stay RsAssigned, demo_assigned])"
proof -
  obtain rd where rd: "assertReady demo_clock ''r2'' ''p'' (Some ''2024-02-28'') (Some ''2024-03-01'')
      (demo_house [demo_stay RsAssigned, demo_second]) = (Inr rd, demo_house [demo_stay RsAssigned, demo_second])"
    using demo_assertReady by blast
  have r: "sel1 (reservationRow ''v2'' ''p'') [demo_stay RsAssigned, demo_second] = Some demo_second"
    by (simp add: demo_stay_def demo_second_def)
  show ?thesis using rd
    by (simp add: assignRoom_def transactionS_Inr_iff assignInTransaction_def step_iffs demo_house_def demo_second_def
        demo_stay_def demo_room_def demo_env_def roomConflict_def demo_assigned_def assigned_def)
qed

lemma demo_steps: "(stay_step ref_numlib)\<^sup>*\<^sup>* (demo_house [demo_stay RsAssigned, demo_second]) (demo_house [demo_stay RsAssigned, demo_assigned])"
  by (rule r_into_rtranclp) (rule stay_step.assign [OF demo_assign])

theorem room_never_double_booked_witness:
  "\<exists>w'. assignRoom demo_env False ''v2'' ''p'' ''r2'' (demo_house [demo_stay RsAssigned, demo_second]) = (Inr demo_assigned, w')
     \<and> (\<forall>x\<in>set (reservations (wdb w')). \<forall>y\<in>set (reservations (wdb w')). rv_id x \<noteq> rv_id y
         \<and> rv_propertyId x = rv_propertyId y \<and> rv_roomId x = rv_roomId y \<and> rv_roomId x \<noteq> None
         \<and> rv_status x \<notin> {RsCancelled, RsNoShow, RsCheckedOut} \<and> rv_status y \<notin> {RsCancelled, RsNoShow, RsCheckedOut}
         \<longrightarrow> rv_departureDate x \<le> rv_arrivalDate y \<or> rv_departureDate y \<le> rv_arrivalDate x)"
proof -
  have "one_stay_per_room (reservations (wdb (demo_house [demo_stay RsAssigned, demo_second])))"
    by (simp add: one_stay_per_room_def demo_house_def demo_stay_def demo_second_def same_room_def)
  from room_never_double_booked [OF demo_steps this] demo_assign
  show ?thesis by blast
qed


end
