(* ===== verification/Booking.thy ===== *)
theory Booking
  imports StayHistory
begin

text \<open>
  Booking: a new reservation never oversells its room type, and its confirmation number carries all
  the entropy it was made from.
\<close>

unbundle bit_operations_syntax

section \<open>Booking\<close>

lemma autoFolio_row:
  assumes "createAutoFolio today now i inTx r w = (Inr f, w')"
  shows "f \<in> set (folios (wdb w')) \<and> fo_propertyId f = rv_propertyId r \<and> fo_reservationId f = Some (rv_id r) \<and> fo_type f = FtGuest"
  using assms
  by (auto simp: createAutoFolio_def bindS_Inr_iff getS_iff returnS_iff split: option.splits dest!: createFolio_db find_SomeD)

lemma create_folio:
  assumes "createReservation L E ids entropy False dto opts w = (Inr (r, b, f), w')"
  shows "f \<in> set (folios (wdb w')) \<and> fo_propertyId f = rv_propertyId r \<and> fo_reservationId f = Some (rv_id r) \<and> fo_type f = FtGuest"
proof -
  obtain number nights w1 where run: "createInTransaction L E ids number nights dto opts w = (Inr (r, b, f), w1)"
    and w': "folios (wdb w') = folios (wdb w1)"
    using assms
    by (clarsimp simp: createReservation_def assertSamePropertyFk_def step_iffs transactionS_Inr_iff whenS_Inr_iff emit_iff
        split: option.splits)
  obtain w2 where "createAutoFolio (en_today E) (en_now E) (ids 3) True r w2 = (Inr f, w1)"
    using run by (clarsimp simp: createInTransaction_def insertReservation_def lockInventory_def step_iffs modifyS_iff)
  from autoFolio_row [OF this] w' show ?thesis by simp
qed


section \<open>Confirmation numbers\<close>

lemma crockford_low: "unat (b AND 0x1f) = unat b mod 32" for b :: "8 word"
proof -
  have "b AND 0x1f = take_bit 5 b" by (simp add: take_bit_eq_mask mask_eq_exp_minus_1)
  then have "unat (b AND 0x1f) = unat (b mod 32)" by (simp add: take_bit_eq_mod)
  then show ?thesis by (simp add: unat_mod_distrib)
qed

lemma crockford_high: "unat (drop_bit 5 b AND 0x1f) = unat b div 32" for b :: "8 word"
proof -
  have "unat b < 2 ^ 8" using unsigned_less [of b, where ?'a = nat] by simp
  then have "unat b div 32 < 32" by simp
  moreover have "unat (drop_bit 5 b) = unat b div 32" by (simp add: drop_bit_eq_div unat_div_distrib)
  ultimately show ?thesis by (simp only: crockford_low mod_less)
qed

lemma crockford_letters: "distinct CROCKFORD" "length CROCKFORD = 32"
  by (simp_all add: CROCKFORD_def)

lemma crockford_pair: "crockfordPair b = [CROCKFORD ! (unat b mod 32), CROCKFORD ! (unat b div 32)]"
  unfolding crockfordPair_def crockford_high by (simp only: crockford_low)

lemma crockford_inj:
  assumes "crockfordPair a = crockfordPair b"
  shows "a = b"
proof -
  have "unat a < 256" "unat b < 256" using unsigned_less [of a, where ?'a = nat] unsigned_less [of b, where ?'a = nat] by simp_all
  then have "unat a div 32 < 32" "unat b div 32 < 32" by simp_all
  with assms have "unat a mod 32 = unat b mod 32" "unat a div 32 = unat b div 32"
    unfolding crockford_pair by (simp_all add: nth_eq_iff_index_eq [OF crockford_letters(1)] crockford_letters(2))
  then have "unat a = unat b" by (metis div_mult_mod_eq)
  then show ?thesis by (simp only: word_unat_eq_iff)
qed

lemma crockford_pair_length: "length (crockfordPair b) = 2"
  by (simp add: crockfordPair_def)

lemma pairs_inj: "concat (map crockfordPair as) = concat (map crockfordPair bs) \<Longrightarrow> length as = length bs \<Longrightarrow> as = bs"
proof (induction as arbitrary: bs)
  case (Cons a as)
  then obtain c cs where bs: "bs = c # cs" by (cases bs) auto
  with Cons.prems(1) have "crockfordPair a = crockfordPair c \<and> concat (map crockfordPair as) = concat (map crockfordPair cs)"
    by (simp add: append_eq_append_conv crockford_pair_length)
  with crockford_inj Cons.IH [of cs] Cons.prems(2) bs show ?case by simp
qed simp

lemma pairs_length: "length (concat (map crockfordPair bs)) = 2 * length bs"
  by (induction bs) (simp_all add: crockford_pair_length)

text \<open>
  A confirmation number carries all the entropy it was made from: a source of 16 random bytes
  gives 37 letters, and different bytes give different confirmation numbers and tokens.
\<close>

theorem confirmation_number_injective:
  assumes "length as = 16" and "length bs = 16"
  shows "\<exists>s t. generateConfirmationNumber as = Inr s \<and> generateConfirmationToken as = Inr (drop 5 s) \<and> length s = 37
    \<and> take 5 s = ''HAIP-'' \<and> generateConfirmationNumber bs = Inr t \<and> (s = t \<longrightarrow> as = bs) \<and> (drop 5 s = drop 5 t \<longrightarrow> as = bs)"
  using assms pairs_inj [of as bs]
  by (simp add: generateConfirmationNumber_def generateConfirmationToken_def pairs_length)

theorem confirmation_number_injective_witness:
  "\<exists>s t. generateConfirmationNumber (replicate 16 0) = Inr s \<and> generateConfirmationNumber (replicate 16 255) = Inr t
     \<and> s \<noteq> t \<and> length s = 37"
  using confirmation_number_injective [of "replicate 16 0" "replicate 16 255"] by auto

definition demo_dto :: createReservationDto where
  "demo_dto = \<lparr>cr_propertyId = ''p'', cr_guestId = ''g1'', cr_arrivalDate = ''2024-02-28'', cr_departureDate = ''2024-03-01'',
     cr_roomTypeId = ''t1'', cr_ratePlanId = ''rp'', cr_totalAmount = ''100.00'', cr_currencyCode = ''EUR'', cr_adults = None,
     cr_children = None, cr_specialRequests = None, cr_source = ''direct'', cr_channelCode = None, cr_externalConfirmation = None\<rparr>"

definition demo_options :: createOptions where
  "demo_options = \<lparr>co_confirmationNumber = Some ''HAIP-1'', co_acceptedPricingSnapshot = None, co_idempotencyKey = None,
     co_integrationContext = None, co_bookingId = None\<rparr>"

abbreviation demo_one :: "folio_db world" where
  "demo_one \<equiv> demo_house [demo_stay RsAssigned]"

lemma iso_2024: "iso_pattern ''2024-02-28''" "iso_pattern ''2024-03-01''"
  by code_simp+

lemma demo_nightsBetween: "nightsBetween ''2024-02-28'' ''2024-03-01'' = Some 2"
  by (simp add: nightsBetween_def newDate_def iso_2024 parse_2024)

lemma demo_house_search: "searchAvailability ''p'' ''2024-02-28'' ''2024-03-01'' (Some ''t1'') noOptions (wdb demo_one)
    = Inr [demo_row ''2024-02-28'' 1 1, demo_row ''2024-02-29'' 0 2]"
  unfolding searchAvailability_eq [OF demo_nights]
  by (simp add: offered_def demo_house_def demo_type_def referenceRow_def leftOn_def sellableOn_def roomCount_def
      demo_room_def outOfUse_def plannedRooms_def noOptions_def overbookingPct_def demo_property_def demo_buffer
      soldOn_def holdsRoom_def demo_stay_def busyFeeds_def demo_row_def)

lemma demo_sells: "assertSellable None ''p'' ''rp'' ''2024-02-28'' ''2024-03-01'' (wdb demo_one) = Inr ()"
  by (simp add: assertSellable_def stayNights_def iso_2024 parse_2024 findRatePlan_def isDraft_def demo_house_def demo_plan_def
      addDaysIso_def days_2024 Let_def minLosOf_def maxLosOf_def truthy_def bad_def)

lemma demo_house_sel [simp]: "guests (wdb (demo_house rs)) = [\<lparr>gu_id = ''g1'', gu_vipLevel = [], gu_isDnr = False, gu_dnrReason = None\<rparr>]"
    "roomTypes (wdb (demo_house rs)) = [demo_type]" "ratePlans (wdb (demo_house rs)) = [demo_plan]" "bookings (wdb (demo_house rs)) = []"
    "reservations (wdb (demo_house rs)) = rs" "folios (wdb (demo_house rs)) = []" "properties (wdb (demo_house rs)) = [demo_property]"
    "roomInventoryBlocks (wdb (demo_house rs)) = []"
    "rooms (wdb (demo_house rs)) = [demo_room VacantClean, (demo_room VacantClean)\<lparr>ro_id := ''r2'', ro_number := ''102''\<rparr>]"
  by (simp_all add: demo_house_def)

definition demo_new :: reservation where
  "demo_new = newReservation (demo_ids 1) 0 (demo_ids 0) 2 ''100.00'' demo_dto demo_options"

lemma demo_full_stay: "assertFullStayAvailability [demo_row ''2024-02-28'' 1 1, demo_row ''2024-02-29'' 0 2] ''t1''
    ''2024-02-28'' ''2024-03-01'' = Inr ()"
  by (simp add: assertFullStayAvailability_def demo_nights demo_row_def)

lemma demo_autoFolio:
  fixes w :: "folio_db world"
  assumes "folios (wdb w) = []" and "reservations (wdb w) = [demo_stay RsAssigned, demo_new]"
    and "map (\<lambda>b. (bk_id b, bk_propertyId b)) (bookings (wdb w)) = [(demo_ids 0, ''p'')]"
  shows "\<exists>f w'. createAutoFolio ''240228'' 0 i True demo_new w = (Inr f, w')"
proof -
  have new: "rv_id demo_new = demo_ids 1" "rv_propertyId demo_new = ''p''" "rv_bookingId demo_new = demo_ids 0"
    by (simp_all add: demo_new_def newReservation_def demo_dto_def)
  have old: "rv_id (demo_stay RsAssigned) \<noteq> demo_ids 1" by (simp add: demo_stay_def demo_ids_def)
  have ids: "demo_ids k \<noteq> []" for k by (simp add: demo_ids_def)
  show ?thesis
    using assms new old ids
    by (auto simp: createAutoFolio_def createFolio_def step_iffs modifyS_iff map_eq_Cons_conv)
qed

lemma demo_dto_sel: "cr_propertyId demo_dto = ''p''" "cr_guestId demo_dto = ''g1''" "cr_arrivalDate demo_dto = ''2024-02-28''"
    "cr_departureDate demo_dto = ''2024-03-01''" "cr_roomTypeId demo_dto = ''t1''" "cr_totalAmount demo_dto = ''100.00''"
    "cr_currencyCode demo_dto = ''EUR''" "cr_externalConfirmation demo_dto = None" "cr_channelCode demo_dto = None"
    "co_bookingId demo_options = None" "co_idempotencyKey demo_options = None"
    "en_today demo_env = ''240228''" "en_now demo_env = 0"
  by (simp_all add: demo_dto_def demo_options_def demo_env_def demo_clock_def)

lemma demo_createTx: "\<exists>b f w'. createInTransaction ref_numlib demo_env demo_ids ''HAIP-1'' (Some 2) demo_dto demo_options demo_one
    = (Inr (demo_new, b, f), w')"
proof -
  have amount: "numeric12_2 ref_numlib ''100.00'' = Inr ''100.00''" by (simp add: ledger_eval)
  have new: "newReservation (demo_ids (Suc 0)) 0 (demo_ids 0) 2 ''100.00'' demo_dto demo_options = demo_new"
    by (simp add: demo_new_def)
  show ?thesis
    by (simp add: createInTransaction_def insertReservation_def lockInventory_def bookingFor_def step_iffs modifyS_iff demo_dto_sel
      demo_house_search demo_full_stay demo_type_def amount new) (rule demo_autoFolio; simp)
qed

lemma demo_create: "\<exists>b f w'. createReservation ref_numlib demo_env demo_ids [] False demo_dto demo_options demo_one = (Inr (demo_new, b, f), w')"
  using demo_createTx
  by (simp add: createReservation_def assertSamePropertyFk_def step_iffs transactionS_Inr_iff whenS_Inr_iff emit_iff demo_dto_def
      demo_options_def demo_nightsBetween demo_sells demo_type_def demo_plan_def)



end
