(* ===== verification/Desk.thy ===== *)
theory Desk
  imports Booking
begin

text \<open>
  The front desk: what a check-in finds and leaves, when a cancellation goes through, what a bulk
  action reports, and the gap in the modification of a stay.
\<close>

section \<open>Arrival\<close>

lemma complete_rooms:
  assumes "completeCheckIn L E ids p r u room e fee w = (Inr f, w')"
  shows "(\<exists>x. sel1 (roomRow (ro_id room) p) (rooms (wdb w')) = Some x \<and> ro_status x = Occupied)
    \<and> (\<exists>g\<in>set (folios (wdb w')). fo_id g = fo_id f \<and> fo_propertyId g = rv_propertyId u \<and> fo_reservationId g = Some (rv_id u) \<and> fo_type g = FtGuest)"
proof -
  obtain w1 x w2 w3 where occ: "markOccupied (en_clock E) (ro_id room) p w = (Inr x, w1)"
    and auto: "createAutoFolio (en_today E) (en_now E) (ids 4) True u w1 = (Inr f, w2)"
    and fee: "(case fee of None \<Rightarrow> returnS () | Some amount \<Rightarrow>
        bindS (postFee L E (\<lambda>k. ids (k + 5)) True (fo_id f) r ''Early check-in fee'' amount) (\<lambda>_. returnS ())) w2 = (Inr (), w3)"
    and out: "whenS (en_outbox E) (bindS (persist (ids 2) (en_now E) (statusChanged (ro_id room) p room Occupied) (ids 0)) (\<lambda>_.
         persist (ids 3) (en_now E) (checkInEvent p u (ro_id room) (fo_id f) e) (ids 1))) w3 = (Inr (), w')"
    using assms unfolding completeCheckIn_def by (clarsimp simp: bindS_Inr_iff returnS_iff)
  have room1: "sel1 (roomRow (ro_id room) p) (rooms (wdb w1)) = Some x \<and> ro_status x = Occupied"
    using transitionStatusTx_frame(2) [OF occ [unfolded markOccupied_def]] occ
    by (auto simp: markOccupied_def transitionStatusTx_iff with_status_def)
  have "rooms (wdb w') = rooms (wdb w3)"
    by (rule keeps_run [OF held.guarded [OF held.bind [OF persist_keeps(1) persist_keeps(1)]] out])
  moreover have "rooms (wdb w3) = rooms (wdb w2)"
    by (rule keeps_run [OF held.optional [OF held.basic(1) held.bind [OF fee_frame(1) [OF blind_views(4)] held.basic(1)]] fee])
  moreover have "rooms (wdb w2) = rooms (wdb w1)"
    by (rule keeps_run [OF create_frame(2) [OF blind_views(2)] auto])
  ultimately have rooms: "rooms (wdb w') = rooms (wdb w1)" by simp
  have "folio_owners (wdb w') = folio_owners (wdb w3)"
    by (rule keeps_run [OF held.guarded [OF held.bind [OF persist_keeps(2) persist_keeps(2)]] out])
  moreover have "folio_owners (wdb w3) = folio_owners (wdb w2)"
    by (rule keeps_run [OF held.optional [OF held.basic(1) held.bind [OF fee_frame(1) [OF blind_views(5)] held.basic(1)]] fee])
  ultimately have keys: "folio_owners (wdb w') = folio_owners (wdb w2)" by simp
  have "f \<in> set (folios (wdb w2))" "fo_propertyId f = rv_propertyId u" "fo_reservationId f = Some (rv_id u)" "fo_type f = FtGuest"
    using autoFolio_row [OF auto] by simp_all
  then have "(fo_id f, rv_propertyId u, Some (rv_id u), FtGuest, fo_status f) \<in> set (folio_owners (wdb w2))"
    unfolding folio_owners_def by force
  with keys have "(fo_id f, rv_propertyId u, Some (rv_id u), FtGuest, fo_status f) \<in> set (folio_owners (wdb w'))" by simp
  then have "\<exists>g\<in>set (folios (wdb w')). fo_id g = fo_id f \<and> fo_propertyId g = rv_propertyId u \<and> fo_reservationId g = Some (rv_id u) \<and> fo_type g = FtGuest"
    by (auto simp: folio_owners_def)
  with room1 rooms show ?thesis by simp
qed


definition demo_guest_folio :: folio where
  "demo_guest_folio = (demo_folio ''f1'' ''0.00'')\<lparr>fo_reservationId := Some ''v1''\<rparr>"

definition demo_desk :: "ReservationStatus \<Rightarrow> folio_db world" where
  "demo_desk s = (demo_house [demo_stay s])\<lparr>wdb := (wdb (demo_house [demo_stay s]))\<lparr>folios := [demo_guest_folio]\<rparr>\<rparr>"

lemma demo_desk_sel [simp]: "guests (wdb (demo_desk s)) = [\<lparr>gu_id = ''g1'', gu_vipLevel = [], gu_isDnr = False, gu_dnrReason = None\<rparr>]"
    "reservations (wdb (demo_desk s)) = [demo_stay s]" "folios (wdb (demo_desk s)) = [demo_guest_folio]"
    "properties (wdb (demo_desk s)) = [demo_property]" "roomInventoryBlocks (wdb (demo_desk s)) = []"
    "rooms (wdb (demo_desk s)) = [demo_room VacantClean, (demo_room VacantClean)\<lparr>ro_id := ''r2'', ro_number := ''102''\<rparr>]"
    "housekeepingTasks (wdb (demo_desk s)) = []" "maintenanceTickets (wdb (demo_desk s)) = []"
  by (simp_all add: demo_desk_def) (simp_all add: demo_house_def)

lemma demo_desk_ready: "ready_on ''r1'' ''p'' ''2024-02-28'' (wdb (demo_desk s))"
  by (simp add: ready_on_def demo_room_def day_2024)

lemma demo_room_found: "roomForCheckIn demo_env ''p'' (demo_stay RsAssigned) noCheckIn (demo_desk RsAssigned)
    = (Inr (demo_room VacantClean), demo_desk RsAssigned)"
proof -
  obtain rd where "assertReady demo_clock ''r1'' ''p'' None (Some ''2024-02-29'') (demo_desk RsAssigned) = (Inr rd, demo_desk RsAssigned)"
    using assertReady_ok [OF demo_desk_ready, where sd = None and clk = demo_clock and dd = "Some ''2024-02-29''"]
    by (auto simp: demo_property_def demo_clock_def)
  then show ?thesis
    by (simp add: roomForCheckIn_def noCheckIn_def groupItemDto_def step_iffs demo_stay_def demo_room_def demo_env_def roomConflict_def)
qed

lemma demo_checkIn: "\<exists>u f w'. checkInTx ref_numlib demo_env demo_ids ''v1'' ''p'' noCheckIn (demo_desk RsAssigned)
    = (Inr (demo_stay RsAssigned, u, f, demo_room VacantClean, False), w')"
proof -
  have st: "rv_id (demo_stay RsAssigned) = ''v1''" "rv_propertyId (demo_stay RsAssigned) = ''p''" "rv_status (demo_stay RsAssigned) = RsAssigned"
    "rv_guestId (demo_stay RsAssigned) = ''g1''"
    by (simp_all add: demo_stay_def)
  have early: "earlyCheckIn demo_env (Some demo_property) = (False, None)" by (simp add: earlyCheckIn_def demo_env_def demo_clock_def)
  have pty: "pr_id demo_property = ''p''" "\<not> pr_guestRegistrationRequired demo_property" by (simp_all add: demo_property_def)
  let ?u = "checkedIn demo_env noCheckIn ''r1'' False None (demo_stay RsAssigned)"
  let ?w = "(demo_desk RsAssigned)\<lparr>wdb := (wdb (demo_desk RsAssigned))\<lparr>reservations := [?u]\<rparr>\<rparr>"
  have occ: "\<exists>r' w'. markOccupied demo_clock ''r1'' ''p'' ?w = (Inr r', w') \<and> folios (wdb w') = [demo_guest_folio]"
  proof -
    have "transition_allowed demo_clock ''r1'' ''p'' Occupied (wdb ?w) (demo_room VacantClean)"
      by (simp add: transition_allowed_def ready_on_def demo_room_def demo_property_def demo_clock_def day_2024)
    then show ?thesis unfolding markOccupied_def transitionStatusTx_iff by fastforce
  qed
  have uid: "rv_id ?u = ''v1''" "rv_propertyId ?u = ''p''"
    using checkedIn_sel(1) [of demo_env noCheckIn "''r1''" False None "demo_stay RsAssigned"] st by (simp_all add: stay_key_def)
  have fo: "fo_propertyId demo_guest_folio = ''p''" "fo_reservationId demo_guest_folio = Some ''v1''" "fo_type demo_guest_folio = FtGuest"
    by (simp_all add: demo_guest_folio_def demo_folio_def)
  have "\<exists>f w'. completeCheckIn ref_numlib demo_env demo_ids ''p'' (demo_stay RsAssigned) ?u (demo_room VacantClean) False None ?w = (Inr f, w')"
    using occ uid fo
    by (auto simp: completeCheckIn_def bindS_Inr_iff createAutoFolio_def getS_iff returnS_iff whenS_Inr_iff demo_env_def demo_room_def)
  then show ?thesis
    using demo_room_found st early pty
    by (simp add: checkInTx_def step_iffs numericOptR_def demo_room_def)
qed


section \<open>Leaving before arrival\<close>

lemma claim_iff: "claimTransition i p froms f s w = (Inr y, w') \<longleftrightarrow>
    (\<exists>r. sel1 (\<lambda>r. reservationRow i p r \<and> rv_status r \<in> set froms) (reservations (wdb w)) = Some r \<and> y = f r
      \<and> w' = w\<lparr>wdb := (wdb w)\<lparr>reservations := upd (\<lambda>r. reservationRow i p r \<and> rv_status r \<in> set froms) f (reservations (wdb w))\<rparr>\<rparr>)"
  by (auto simp: claimTransition_def step_iffs throwS_iff split: option.splits)

lemma cancel_steps:
  assumes "cancel E i p dto w = (Inr (u, s), w')" and "quiet E"
  shows "\<exists>r f. sel1 (\<lambda>r. reservationRow i p r \<and> rv_status r \<in> {RsPending, RsConfirmed, RsAssigned}) (reservations (wdb w)) = Some r
    \<and> u = f r \<and> (\<forall>r. rv_id (f r) = rv_id r \<and> rv_propertyId (f r) = rv_propertyId r \<and> rv_status (f r) = RsCancelled)
    \<and> reservations (wdb w') = upd (\<lambda>r. reservationRow i p r \<and> rv_status r \<in> {RsPending, RsConfirmed, RsAssigned}) f (reservations (wdb w))"
proof -
  define f :: "reservation \<Rightarrow> reservation" where "f = (\<lambda>x. x\<lparr>rv_status := RsCancelled, rv_cancelledAt := Some (en_now E),
     rv_cancellationReason := (case resolveCancellationReason dto of None \<Rightarrow> rv_cancellationReason x | v \<Rightarrow> v),
     rv_updatedAt := en_now E\<rparr>)"
  obtain r w1 w2 where c: "claimTransition i p [RsPending, RsConfirmed, RsAssigned] f RsCancelled w = (Inr u, w1)"
    and s: "catchS (bindS (en_settleCancellation E r (rv_id u)) (\<lambda>v. returnS (Some v))) (\<lambda>_. returnS None) w1 = (Inr s, w2)"
    and w': "reservations (wdb w') = reservations (wdb w2)"
    using assms(1) unfolding f_def
    by (clarsimp simp: cancel_def Let_def bindS_Inr_iff findByIdRaw_iff liftS_iff emit_iff returnS_iff)
  have "reservations (wdb w2) = reservations (wdb w1)"
    by (rule keeps_run [OF held.catch [OF held.bind [OF quietD(1) [OF assms(2)] held.basic(1)] held.basic(1)] s])
  moreover obtain r1 where "sel1 (\<lambda>r. reservationRow i p r \<and> rv_status r \<in> set [RsPending, RsConfirmed, RsAssigned]) (reservations (wdb w)) = Some r1"
    "u = f r1" "reservations (wdb w1) = upd (\<lambda>r. reservationRow i p r \<and> rv_status r \<in> set [RsPending, RsConfirmed, RsAssigned]) f (reservations (wdb w))"
    using c unfolding claim_iff by auto
  moreover have "\<forall>r. rv_id (f r) = rv_id r \<and> rv_propertyId (f r) = rv_propertyId r \<and> rv_status (f r) = RsCancelled"
    by (simp add: f_def)
  ultimately show ?thesis using w' by (intro exI [of _ r1] exI [of _ f]) simp
qed

text \<open>
  C18. A cancellation is decided by the status alone: it goes through exactly for a stay that
  exists and is pending, confirmed or assigned, and leaves it cancelled, whatever happens to the
  settlement of its deposits and its penalty; a failing settlement neither undoes nor prevents it.
\<close>

theorem cancel_outcome:
  assumes "quiet E"
  shows "(\<exists>r. sel1 (reservationRow i p) (reservations (wdb w)) = Some r \<and> rv_status r \<in> {RsPending, RsConfirmed, RsAssigned}) \<longleftrightarrow>
    (\<exists>u s w'. cancel E i p dto w = (Inr (u, s), w') \<and> sel1 (reservationRow i p) (reservations (wdb w')) = Some u
       \<and> rv_status u = RsCancelled)"
proof -
  let ?live = "\<lambda>r. rv_status r \<in> {RsPending, RsConfirmed, RsAssigned}"
  have settle: "\<exists>s w2. catchS (bindS m (\<lambda>v. returnS (Some v))) (\<lambda>_. returnS None) w1 = (Inr s, w2)" for m :: "('b, 'c) op" and w1
    by (cases "m w1") (auto simp: catchS_def bindS_def returnS_def split: sum.splits)
  have table: "RsCancelled \<in> set (VALID_TRANSITIONS s) \<longleftrightarrow> s \<in> {RsPending, RsConfirmed, RsAssigned}" for s by (cases s) auto
  have claimed: "sel1 (\<lambda>r. reservationRow i p r \<and> ?live r) (reservations (wdb w)) = Some r"
    if "sel1 (reservationRow i p) (reservations (wdb w)) = Some r" "?live r" for r
    using find_strengthen [OF that(1), of ?live] that(2) by blast
  have runs: "(\<exists>x w'. cancel E i p dto w = (Inr x, w')) \<longleftrightarrow>
      (\<exists>r. sel1 (reservationRow i p) (reservations (wdb w)) = Some r \<and> ?live r)"
    unfolding cancel_def Let_def bindS_Inr_iff findByIdRaw_iff liftS_iff assertTransition_iff table claim_iff emit_iff returnS_iff
    using settle claimed by fastforce
  have row: "sel1 (reservationRow i p) (reservations (wdb w')) = Some u \<and> rv_status u = RsCancelled"
    if run: "cancel E i p dto w = (Inr (u, s), w')" for u s w'
  proof -
    obtain r f where r: "sel1 (\<lambda>r. reservationRow i p r \<and> ?live r) (reservations (wdb w)) = Some r" and u: "u = f r"
      and f: "\<forall>r. rv_id (f r) = rv_id r \<and> rv_propertyId (f r) = rv_propertyId r \<and> rv_status (f r) = RsCancelled"
      and w': "reservations (wdb w') = upd (\<lambda>r. reservationRow i p r \<and> ?live r) f (reservations (wdb w))"
      using cancel_steps [OF run assms] by blast
    obtain r0 where r0: "sel1 (reservationRow i p) (reservations (wdb w)) = Some r0" "?live r0" using runs run by blast
    have "r0 = r" using claimed [OF r0] r by simp
    with r0 f u w' find_SomeD [OF r] show ?thesis by (simp add: find_upd)
  qed
  show ?thesis
  proof
    assume "\<exists>r. sel1 (reservationRow i p) (reservations (wdb w)) = Some r \<and> ?live r"
    then obtain u s w' where "cancel E i p dto w = (Inr (u, s), w')" using runs by fast
    with row show "\<exists>u s w'. cancel E i p dto w = (Inr (u, s), w') \<and> sel1 (reservationRow i p) (reservations (wdb w')) = Some u
       \<and> rv_status u = RsCancelled" by blast
  next
    assume "\<exists>u s w'. cancel E i p dto w = (Inr (u, s), w') \<and> sel1 (reservationRow i p) (reservations (wdb w')) = Some u
       \<and> rv_status u = RsCancelled"
    then show "\<exists>r. sel1 (reservationRow i p) (reservations (wdb w)) = Some r \<and> ?live r" using runs by blast
  qed
qed

theorem cancel_outcome_witness:
  "\<exists>u s w'. cancel demo_env ''v1'' ''p'' \<lparr>cx_cancellationReason = None, cx_reason = None\<rparr> (demo_desk RsAssigned) = (Inr (u, s), w')
     \<and> rv_status u = RsCancelled"
proof -
  have "sel1 (reservationRow ''v1'' ''p'') (reservations (wdb (demo_desk RsAssigned))) = Some (demo_stay RsAssigned)"
    "rv_status (demo_stay RsAssigned) \<in> {RsPending, RsConfirmed, RsAssigned}"
    by (simp_all add: demo_stay_def)
  with cancel_outcome [OF demo_quiet] show ?thesis by blast
qed

section \<open>Many stays at once\<close>

lemma attempt_returns: "\<exists>e w'. attempt m w = (Inr e, w')"
  by (cases "m w") (auto simp: attempt_def catchS_def bindS_def returnS_def split: sum.splits)

lemma mapS_attempt: "\<exists>rs w'. mapS (\<lambda>i. bindS (attempt (m i)) (\<lambda>e. returnS (i, e))) is w = (Inr rs, w') \<and> map fst rs = is"
proof (induction "is" arbitrary: w)
  case Nil
  then show ?case by (simp add: returnS_def)
next
  case (Cons i js)
  obtain e w1 where "attempt (m i) w = (Inr e, w1)" using attempt_returns by blast
  moreover obtain rs w' where "mapS (\<lambda>i. bindS (attempt (m i)) (\<lambda>e. returnS (i, e))) js w1 = (Inr rs, w')" "map fst rs = js"
    using Cons.IH by blast
  ultimately show ?case by (intro exI [of _ "(i, e) # rs"] exI [of _ w']) (simp add: bindS_Inr_iff returnS_iff)
qed

text \<open>
  A bulk action never throws: it reports every reservation of the request exactly once and in order,
  whatever becomes of it, and the numbers of successes and failures add up to the total.
\<close>

theorem bulkAction_reports_all:
  "\<exists>rs n ok failed w'. bulkAction L E idss p is action why w = (Inr (rs, n, ok, failed), w')
     \<and> map fst rs = is \<and> n = length is \<and> ok + failed = n \<and> ok = length (filter (\<lambda>x. snd x = None) rs)"
proof -
  obtain rs w1 where "mapS (\<lambda>i. bindS (attempt (bulkOne L E (idss i) p action why i)) (\<lambda>e. returnS (i, e))) is w = (Inr rs, w1)"
    and ids: "map fst rs = is" using mapS_attempt [of "\<lambda>i. bulkOne L E (idss i) p action why i" "is" w] by blast
  then have run: "\<exists>w'. bulkAction L E idss p is action why w = (Inr (summary rs), w')"
    by (simp add: bulkAction_def bindS_Inr_iff emit_iff returnS_iff summary_def)
  have "length (filter (\<lambda>x. snd x = None) rs) + length (filter (\<lambda>x. snd x \<noteq> None) rs) = length rs"
    by (rule sum_length_filter_compl)
  moreover have "length rs = length is" using ids by auto
  ultimately show ?thesis using run ids by (auto simp: summary_def)
qed

section \<open>Changing a stay\<close>

text \<open>Two assigned stays of the same room, one after the other; the first is to stay a night longer.\<close>

definition demo_next :: reservation where
  "demo_next = (demo_stay RsAssigned)\<lparr>rv_id := ''v2'', rv_arrivalDate := ''2024-02-29'', rv_departureDate := ''2024-03-01''\<rparr>"

definition demo_longer :: modifyReservationDto where
  "demo_longer = \<lparr>mo_arrivalDate = None, mo_departureDate = Some ''2024-03-01'', mo_roomTypeId = None, mo_ratePlanId = None,
     mo_totalAmount = None, mo_adults = None, mo_children = None, mo_specialRequests = None, mo_doNotMove = None\<rparr>"

abbreviation demo_pair :: "folio_db world" where
  "demo_pair \<equiv> demo_house [demo_stay RsAssigned, demo_next]"

lemma demo_pair_search: "searchAvailability ''p'' ''2024-02-28'' ''2024-03-01'' (Some ''t1'') noOptions (wdb demo_pair)
    = Inr [demo_row ''2024-02-28'' 1 1, demo_row ''2024-02-29'' 1 1]"
  unfolding searchAvailability_eq [OF demo_nights]
  by (simp add: offered_def demo_house_def demo_type_def referenceRow_def leftOn_def sellableOn_def roomCount_def
      demo_room_def outOfUse_def plannedRooms_def noOptions_def overbookingPct_def demo_property_def demo_buffer
      soldOn_def holdsRoom_def demo_stay_def demo_next_def busyFeeds_def demo_row_def)

lemma demo_modify: "\<exists>m w'. modify ref_numlib demo_env ''v1'' ''p'' demo_longer demo_pair = (Inr m, w')
    \<and> reservations (wdb w') = [modified demo_env demo_longer (Some 2) None (demo_stay RsAssigned), demo_next]"
proof -
  have st: "rv_id (demo_stay RsAssigned) = ''v1''" "rv_propertyId (demo_stay RsAssigned) = ''p''" "rv_status (demo_stay RsAssigned) = RsAssigned"
    "rv_acceptedPricingSnapshot (demo_stay RsAssigned) = None" "rv_arrivalDate (demo_stay RsAssigned) = ''2024-02-28''"
    "rv_departureDate (demo_stay RsAssigned) = ''2024-02-29''" "rv_roomTypeId (demo_stay RsAssigned) = ''t1''"
    "rv_roomId (demo_stay RsAssigned) = Some ''r1''" "rv_id demo_next = ''v2''"
    by (simp_all add: demo_stay_def demo_next_def)
  have full: "assertFullStayAvailability (adjustedAvailability (demo_stay RsAssigned) False ''t1'' ''2024-02-28'' ''2024-03-01''
      [demo_row ''2024-02-28'' 1 1, demo_row ''2024-02-29'' 1 1]) ''t1'' ''2024-02-28'' ''2024-03-01'' = Inr ()"
    by (simp add: adjustedAvailability_def assertFullStayAvailability_def demo_nights demo_row_def st)
  have again: "recheckStay ''p'' (demo_stay RsAssigned) demo_longer demo_pair = (Inr (), demo_pair)"
    by (simp add: recheckStay_def step_iffs whenS_Inr_iff lockInventory_def lockRoom_iff assertInventoryAvailable_iff st demo_longer_def
        demo_type_def demo_room_def demo_pair_search changedText_def full asConflict_def)
  show ?thesis
    using again
    by (simp add: modify_def modifyInTransaction_def step_iffs whenS_Inr_iff transactionS_Inr_iff emit_iff findByIdRaw_iff st demo_longer_def
        nonModifiable_def changedText_def demo_nights) (rule exI [of _ False], simp)
qed


end
