(* ===== verification/Policy.thy ===== *)
theory Policy
  imports Doubles Booking Ledger
begin

text \<open>
  Cancellation policies: \<open>PolicyService\<close> of \<open>apps/api/src/modules/policy/policy.service.ts\<close> over the
  table \<open>cancellation_policies\<close>. A rate plan is linked to a policy or falls back to the default
  one; an evaluation decides at an instant whether a cancellation is free, what penalty is due
  and what becomes of the deposit. What an evaluation makes of a no-show is shown in
  \<open>AuditCharges\<close>. The dash in a text of the source is written as a hyphen.
\<close>

section \<open>Data\<close>

datatype penaltyType = PtNone | PtFirstNight | PtPercentage | PtFull

datatype depositHandling = DhRefundIfRefundable | DhAlwaysForfeit | DhAlwaysRefund

datatype DepositAction = DaRefund | DaForfeit

fun penaltyTypeName :: "penaltyType \<Rightarrow> string" where
  "penaltyTypeName PtNone = ''none''"
| "penaltyTypeName PtFirstNight = ''first_night''"
| "penaltyTypeName PtPercentage = ''percentage''"
| "penaltyTypeName PtFull = ''full''"

record cancellationPolicy =
  pol_id :: uuid
  pol_propertyId :: uuid
  pol_name :: string
  pol_code :: string
  pol_description :: "string option"
  pol_freeHours :: int
  pol_penaltyType :: penaltyType
  pol_penaltyPercentage :: "string option"
  pol_depositHandling :: depositHandling
  pol_isActive :: bool
  pol_createdAt :: millis
  pol_updatedAt :: millis

text \<open>The tables of the night audit come last in the chain of tables.\<close>

datatype auditRunStatus = ArRunning | ArCompleted | ArFailed | ArRolledBack

text \<open>
  The message of an error entry is kept by its parts: the fixed text as a constructor, the
  exception whose message is appended.
\<close>

datatype auditMessage = NoOpenFolio uuid | TariffFailed uuid exn | SettlementFailed uuid exn | NoShowFailed uuid exn
  | Reported string | RunFailed exn

record auditError =
  ae_message :: auditMessage
  ae_entity :: "uuid option"

record auditRun =
  ar_id :: uuid
  ar_propertyId :: uuid
  ar_businessDate :: date
  ar_status :: auditRunStatus
  ar_roomChargesPosted :: "string option"
  ar_taxChargesPosted :: "string option"
  ar_noShowsProcessed :: "string option"
  ar_summary :: "string option"
  ar_errors :: "auditError list option"
  ar_startedAt :: millis
  ar_completedAt :: "millis option"

record audit_db = routing_db +
  cancellationPolicies :: "cancellationPolicy list"
  auditRuns :: "auditRun list"

text \<open>Times: \<open>new Date(d + 'THH:MM:SSZ')\<close> for a calendar date and a time of day in milliseconds.\<close>

definition utcTime :: "date \<Rightarrow> millis \<Rightarrow> millis option" where
  "utcTime d t = map_option (\<lambda>n. (int n - 719528) * 86400000 + t) (if iso_pattern d then parse_utc d else None)"

section \<open>Policies\<close>

record createPolicyDto =
  cpo_propertyId :: uuid
  cpo_name :: string
  cpo_code :: string
  cpo_description :: "string option"
  cpo_freeHours :: "int option"
  cpo_penaltyType :: "penaltyType option"
  cpo_penaltyPercentage :: "string option"
  cpo_depositHandling :: "depositHandling option"
  cpo_isActive :: "bool option"

record updatePolicyDto =
  upo_name :: "string option"
  upo_code :: "string option"
  upo_description :: "string option"
  upo_freeHours :: "int option"
  upo_penaltyType :: "penaltyType option"
  upo_penaltyPercentage :: "string option"
  upo_depositHandling :: "depositHandling option"
  upo_isActive :: "bool option"

text \<open>
  \<open>Number(text)\<close> of the texts the validator admits, an optional sign before digits that may have
  a fraction: the double nearest to the value. \<open>None\<close> is \<open>NaN\<close>.
\<close>

definition numberText :: "string \<Rightarrow> rat option" where
  "numberText s =
     (let sign = (case s of c # _ \<Rightarrow> if c = CHR ''-'' \<or> c = CHR ''+'' then [c] else [] | [] \<Rightarrow> []);
          body = drop (length sign) s;
          digits = (case body of c # _ \<Rightarrow> if c = CHR ''.'' then CHR ''0'' # body else body | [] \<Rightarrow> [])
      in map_option (\<lambda>v. if sign = ''-'' then - fl v else fl v) (unsigned_text digits))"

definition assertPercentage :: "penaltyType \<Rightarrow> string option \<Rightarrow> unit result" where
  "assertPercentage ty percentage =
     (if ty = PtPercentage
      then (if \<not> present percentage
            then Inl (BadRequestException ''penaltyPercentage is required when penaltyType is percentage'')
            else case numberText (the percentage) of
                None \<Rightarrow> Inl (BadRequestException ''penaltyPercentage must be between 0 and 100'')
              | Some n \<Rightarrow> if n < 0 \<or> 100 < n
                  then Inl (BadRequestException ''penaltyPercentage must be between 0 and 100'') else Inr ())
      else Inr ())"

text \<open>The row as the columns hold it.\<close>

definition storedPolicy :: "'d numlib \<Rightarrow> cancellationPolicy \<Rightarrow> cancellationPolicy result" where
  "storedPolicy L x =
     bindR (numericOptR L 5 2 (pol_penaltyPercentage x)) (\<lambda>percentage.
     if length (pol_name x) \<le> 100 \<and> length (pol_code x) \<le> 20 \<and> \<bar>pol_freeHours x\<bar> < 2 ^ 31
     then Inr (x\<lparr>pol_penaltyPercentage := percentage\<rparr>) else Inl DatabaseError)"

definition createPolicy :: "'d numlib \<Rightarrow> millis \<Rightarrow> uuid \<Rightarrow> createPolicyDto \<Rightarrow> ('z audit_db_scheme, cancellationPolicy) op" where
  "createPolicy L now newId dto =
     bindS (case cpo_penaltyType dto of None \<Rightarrow> returnS ()
        | Some ty \<Rightarrow> liftS (assertPercentage ty (cpo_penaltyPercentage dto))) (\<lambda>_.
     bindS (liftS (storedPolicy L \<lparr>pol_id = newId, pol_propertyId = cpo_propertyId dto, pol_name = cpo_name dto,
        pol_code = cpo_code dto, pol_description = cpo_description dto, pol_freeHours = nvl (cpo_freeHours dto) 24,
        pol_penaltyType = nvl (cpo_penaltyType dto) PtFirstNight, pol_penaltyPercentage = cpo_penaltyPercentage dto,
        pol_depositHandling = nvl (cpo_depositHandling dto) DhRefundIfRefundable,
        pol_isActive = nvl (cpo_isActive dto) True, pol_createdAt = now, pol_updatedAt = now\<rparr>)) (\<lambda>row.
     bindS (getS (\<lambda>db. list_ex (\<lambda>q. pr_id q = cpo_propertyId dto) (properties db))) (\<lambda>known.
     bindS (guardS known DatabaseError) (\<lambda>_.
     bindS (modifyS (\<lambda>db. db\<lparr>cancellationPolicies := cancellationPolicies db @ [row]\<rparr>)) (\<lambda>_.
     bindS (emit ''cancellation_policy.created'' ''cancellation_policy'' (pol_id row) [(''code'', Some (pol_code row)),
        (''name'', Some (pol_name row)), (''penaltyType'', Some (penaltyTypeName (pol_penaltyType row)))]
        (Some (pol_propertyId row))) (\<lambda>_.
     returnS row))))))"

abbreviation policyRow :: "uuid \<Rightarrow> uuid \<Rightarrow> cancellationPolicy \<Rightarrow> bool" where
  "policyRow i p \<equiv> (\<lambda>x. pol_id x = i \<and> pol_propertyId x = p)"

definition findPolicy :: "uuid \<Rightarrow> uuid \<Rightarrow> ('z audit_db_scheme, cancellationPolicy) op" where
  "findPolicy i p =
     bindS (getS (\<lambda>db. sel1 (policyRow i p) (cancellationPolicies db))) (\<lambda>x.
     someS x (NotFoundException (''Cancellation policy '' @ i @ '' not found'')))"

record policyPage =
  pp_data :: "cancellationPolicy list"
  pp_total :: nat
  pp_page :: int
  pp_limit :: int

text \<open>Rows of one instant keep the order of the table; a negative limit or offset is refused by the database.\<close>

definition listPolicies :: "uuid \<Rightarrow> string option \<Rightarrow> int option \<Rightarrow> int option \<Rightarrow> ('z audit_db_scheme, policyPage) op" where
  "listPolicies p isActive pageArg limitArg =
     (let whereClause = (\<lambda>x. pol_propertyId x = p \<and> (isActive \<noteq> None \<longrightarrow> pol_isActive x = (isActive = Some ''true'')));
          page = nvl pageArg 1; limit = nvl limitArg 20; offset = (page - 1) * limit in
      bindS (guardS (0 \<le> limit \<and> 0 \<le> offset) DatabaseError) (\<lambda>_.
      bindS (getS (\<lambda>db. filter whereClause (cancellationPolicies db))) (\<lambda>rows.
      returnS \<lparr>pp_data = take (nat limit) (drop (nat offset) (sort_key pol_createdAt rows)), pp_total = length rows,
        pp_page = page, pp_limit = limit\<rparr>)))"

definition updatedPolicy :: "millis \<Rightarrow> updatePolicyDto \<Rightarrow> cancellationPolicy \<Rightarrow> cancellationPolicy" where
  "updatedPolicy now dto x = x\<lparr>pol_name := nvl (upo_name dto) (pol_name x), pol_code := nvl (upo_code dto) (pol_code x),
     pol_description := (case upo_description dto of None \<Rightarrow> pol_description x | v \<Rightarrow> v),
     pol_freeHours := nvl (upo_freeHours dto) (pol_freeHours x),
     pol_penaltyType := nvl (upo_penaltyType dto) (pol_penaltyType x),
     pol_penaltyPercentage := (case upo_penaltyPercentage dto of None \<Rightarrow> pol_penaltyPercentage x | v \<Rightarrow> v),
     pol_depositHandling := nvl (upo_depositHandling dto) (pol_depositHandling x),
     pol_isActive := nvl (upo_isActive dto) (pol_isActive x), pol_updatedAt := now\<rparr>"

definition updatePolicy :: "'d numlib \<Rightarrow> millis \<Rightarrow> uuid \<Rightarrow> uuid \<Rightarrow> updatePolicyDto \<Rightarrow> ('z audit_db_scheme, cancellationPolicy) op" where
  "updatePolicy L now i p dto =
     bindS (findPolicy i p) (\<lambda>existing.
     bindS (liftS (assertPercentage (nvl (upo_penaltyType dto) (pol_penaltyType existing))
        (case upo_penaltyPercentage dto of None \<Rightarrow> pol_penaltyPercentage existing | v \<Rightarrow> v))) (\<lambda>_.
     bindS (liftS (storedPolicy L (updatedPolicy now dto existing))) (\<lambda>updated.
     bindS (modifyS (\<lambda>db. db\<lparr>cancellationPolicies := upd (policyRow i p) (\<lambda>_. updated) (cancellationPolicies db)\<rparr>)) (\<lambda>_.
     bindS (emit ''cancellation_policy.updated'' ''cancellation_policy'' (pol_id updated)
        [(''code'', Some (pol_code updated)), (''name'', Some (pol_name updated))] (Some (pol_propertyId updated))) (\<lambda>_.
     returnS updated)))))"

definition softDelete :: "millis \<Rightarrow> uuid \<Rightarrow> uuid \<Rightarrow> ('z audit_db_scheme, cancellationPolicy) op" where
  "softDelete now i p =
     bindS (findPolicy i p) (\<lambda>existing.
     let f = (\<lambda>x. x\<lparr>pol_isActive := False, pol_updatedAt := now\<rparr>) in
     bindS (modifyS (\<lambda>db. db\<lparr>cancellationPolicies := upd (policyRow i p) f (cancellationPolicies db)\<rparr>)) (\<lambda>_.
     bindS (emit ''cancellation_policy.deleted'' ''cancellation_policy'' (pol_id existing)
        [(''code'', Some (pol_code existing))] (Some (pol_propertyId existing))) (\<lambda>_.
     returnS (f existing))))"

section \<open>Evaluation\<close>

definition resolvePolicyForRatePlan :: "uuid \<Rightarrow> uuid \<Rightarrow> ('z audit_db_scheme, ratePlan \<times> cancellationPolicy option) op" where
  "resolvePolicyForRatePlan p ratePlanId =
     bindS (getS (\<lambda>db. sel1 (\<lambda>x. rp_id x = ratePlanId \<and> rp_propertyId x = p) (ratePlans db))) (\<lambda>found.
     bindS (someS found (NotFoundException (''Rate plan '' @ ratePlanId @ '' not found''))) (\<lambda>plan.
     if present (rp_cancellationPolicyId plan)
     then bindS (getS (\<lambda>db. sel1 (\<lambda>x. policyRow (the (rp_cancellationPolicyId plan)) p x \<and> pol_isActive x)
            (cancellationPolicies db))) (\<lambda>policy. returnS (plan, policy))
     else returnS (plan, None)))"

text \<open>What the code reads of \<open>policy ?? DEFAULT_POLICY\<close>.\<close>

record policyTerms =
  pt_id :: "uuid option"
  pt_code :: "string option"
  pt_description :: "string option"
  pt_freeHours :: int
  pt_penaltyType :: penaltyType
  pt_penaltyPercentage :: "string option"
  pt_depositHandling :: depositHandling

definition DEFAULT_POLICY :: policyTerms where
  "DEFAULT_POLICY = \<lparr>pt_id = None, pt_code = None,
     pt_description = Some ''Free cancellation up to 24 hours before check-in. First night charge after.'',
     pt_freeHours = 24, pt_penaltyType = PtFirstNight, pt_penaltyPercentage = None,
     pt_depositHandling = DhRefundIfRefundable\<rparr>"

definition termsOf :: "cancellationPolicy option \<Rightarrow> policyTerms" where
  "termsOf policy = (case policy of None \<Rightarrow> DEFAULT_POLICY
     | Some x \<Rightarrow> \<lparr>pt_id = Some (pol_id x), pt_code = Some (pol_code x), pt_description = pol_description x,
         pt_freeHours = pol_freeHours x, pt_penaltyType = pol_penaltyType x,
         pt_penaltyPercentage = pol_penaltyPercentage x, pt_depositHandling = pol_depositHandling x\<rparr>)"

definition formatDescription :: "int \<Rightarrow> penaltyType \<Rightarrow> string option \<Rightarrow> string" where
  "formatDescription freeHours ty percentage =
     (if ty = PtFull \<and> freeHours = 0 then ''Non-refundable - full charge applies on cancel or no-show.''
      else ''Free cancellation up to '' @ showInt freeHours @ '' hours before check-in. ''
        @ (case ty of PtFirstNight \<Rightarrow> ''First night charge'' | PtPercentage \<Rightarrow> nvl percentage ''0'' @ ''% charge''
           | PtFull \<Rightarrow> ''Full charge'' | PtNone \<Rightarrow> ''No penalty'') @ '' after.'')"

record policySummary =
  ps_type :: string
  ps_penaltyType :: penaltyType
  ps_description :: string
  ps_freeHours :: int
  ps_policyId :: "uuid option"
  ps_policyCode :: "string option"

definition getPolicySummary :: "uuid \<Rightarrow> uuid \<Rightarrow> ('z audit_db_scheme, policySummary) op" where
  "getPolicySummary p ratePlanId =
     bindS (resolvePolicyForRatePlan p ratePlanId) (\<lambda>(_, policy).
     let x = termsOf policy in
     returnS \<lparr>ps_type = (if pt_penaltyType x = PtFull \<and> pt_freeHours x = 0 then ''non_refundable'' else ''tiered''),
       ps_penaltyType = pt_penaltyType x,
       ps_description = nvl (pt_description x) (formatDescription (pt_freeHours x) (pt_penaltyType x) (pt_penaltyPercentage x)),
       ps_freeHours = pt_freeHours x, ps_policyId = pt_id x, ps_policyCode = pt_code x\<rparr>)"

record CancellationEvaluation =
  ce_withinFreeWindow :: bool
  ce_penaltyAmount :: string
  ce_depositAction :: DepositAction
  ce_policyDescription :: string
  ce_policyId :: "uuid option"
  ce_policyCode :: "string option"
  ce_penaltyType :: penaltyType

text \<open>\<open>ei_now\<close>: the instant of the input, whose time value \<open>None\<close> stands for the invalid date.\<close>

record evaluateInput =
  ei_propertyId :: uuid
  ei_ratePlanId :: uuid
  ei_arrivalDate :: date
  ei_totalAmount :: string
  ei_nights :: int
  ei_now :: "millis option option"

text \<open>
  \<open>hoursUntilCheckIn >= freeHours\<close>: the quotient of two integral doubles by 3600000 is compared with
  an integer below \<open>2 ^ 31\<close>, where rounding cannot cross an integer; a comparison with \<open>NaN\<close> fails.
\<close>

definition hoursLeft :: "date \<Rightarrow> millis option \<Rightarrow> int \<Rightarrow> bool" where
  "hoursLeft arrivalDate now hours = (case (utcTime arrivalDate 54000000, now) of
     (Some checkInAt, Some t) \<Rightarrow> 3600000 * hours \<le> checkInAt - t
   | _ \<Rightarrow> False)"

definition resolveDepositAction :: "depositHandling \<Rightarrow> bool \<Rightarrow> DepositAction" where
  "resolveDepositAction handling withinFreeWindow =
     (if handling = DhAlwaysForfeit then DaForfeit else if handling = DhAlwaysRefund then DaRefund
      else if withinFreeWindow then DaRefund else DaForfeit)"

definition penaltyOf :: "'d numlib \<Rightarrow> policyTerms \<Rightarrow> 'd \<Rightarrow> int \<Rightarrow> 'd result" where
  "penaltyOf L x totalDec nights = (case pt_penaltyType x of
     PtNone \<Rightarrow> Inr (dec_int L 0)
   | PtFirstNight \<Rightarrow> Inr (dec_div L totalDec (dec_int L (if 0 < nights then nights else 1)))
   | PtPercentage \<Rightarrow> bindR (newDecimal L (nvl (pt_penaltyPercentage x) ''0'')) (\<lambda>pct.
       Inr (dec_times L totalDec (dec_div L pct (dec_int L 100))))
   | PtFull \<Rightarrow> Inr totalDec)"

definition evaluateCancellation :: "'d numlib \<Rightarrow> millis \<Rightarrow> evaluateInput \<Rightarrow> ('z audit_db_scheme, CancellationEvaluation) op" where
  "evaluateCancellation L clockNow input =
     (let now = nvl (ei_now input) (Some clockNow) in
      bindS (resolvePolicyForRatePlan (ei_propertyId input) (ei_ratePlanId input)) (\<lambda>(_, policy).
      let x = termsOf policy; freeHours = pt_freeHours x;
          withinFreeWindow = (0 < freeHours \<and> hoursLeft (ei_arrivalDate input) now freeHours) in
      bindS (liftS (newDecimal L (ei_totalAmount input))) (\<lambda>totalDec.
      bindS (if withinFreeWindow then returnS (dec_int L 0) else liftS (penaltyOf L x totalDec (ei_nights input))) (\<lambda>penalty.
      returnS \<lparr>ce_withinFreeWindow = withinFreeWindow, ce_penaltyAmount = dec_toFixed L 2 penalty,
        ce_depositAction = resolveDepositAction (pt_depositHandling x) withinFreeWindow,
        ce_policyDescription = nvl (pt_description x)
          (formatDescription freeHours (pt_penaltyType x) (pt_penaltyPercentage x)),
        ce_policyId = pt_id x, ce_policyCode = pt_code x, ce_penaltyType = pt_penaltyType x\<rparr>))))"

end
