(* ===== verification/NightAudit.thy ===== *)
theory NightAudit
  imports Policy Stay
begin

text \<open>
  The night audit: \<open>NightAuditService\<close> of \<open>apps/api/src/modules/night-audit/night-audit.service.ts\<close> with
  \<open>common/database/accepted-pricing-lock.ts\<close>. For a business date it posts the room charges of the
  stays in house, turns missing guests into no-shows, moves the statuses of the stays on and locks
  the charges of the day. The steps run one after the other; an error of one stay is written into
  the list of errors, any other error marks the run as failed.
\<close>

section \<open>The services it is constructed with\<close>

record settlement =
  sm_reservationId :: uuid
  sm_propertyId :: uuid
  sm_currencyCode :: string
  sm_evaluation :: CancellationEvaluation
  sm_penaltyDescription :: string
  sm_additionalFeeAmount :: "string option"
  sm_additionalFeeDescription :: string

text \<open>
  \<open>ad_dateOf\<close> is the cast \<open>::date\<close> of a timestamp in the time zone of the database session,
  \<open>ad_shiftDays\<close> is \<open>setDate(getDate() + n)\<close> in the time zone of the server. The other fields are the
  services the audit only calls: the per-night extras (with the errors they report), the
  settlement of deposits, the housekeeping tasks and the revenue summary (the JSON it stores).
\<close>

record 'db audit_env =
  ad_dateOf :: "millis \<Rightarrow> date"
  ad_shiftDays :: "int \<Rightarrow> millis \<Rightarrow> millis"
  ad_postPerNight :: "uuid \<Rightarrow> date \<Rightarrow> ('db, (uuid option \<times> string) list) op"
  ad_settle :: "settlement \<Rightarrow> ('db, unit) op"
  ad_stayoverTasks :: "uuid \<Rightarrow> date \<Rightarrow> ('db, unit) op"
  ad_revenueSummary :: "uuid \<Rightarrow> date \<Rightarrow> ('db, string) op"

definition addDays :: "'db audit_env \<Rightarrow> date \<Rightarrow> int \<Rightarrow> date result" where
  "addDays A d n = (case utcTime d 0 of None \<Rightarrow> Inl RangeError
     | Some t \<Rightarrow> Inr (take 10 (toISOString (ad_shiftDays A n t))))"

definition withAcceptedPricingLock :: "bool \<Rightarrow> uuid \<Rightarrow> uuid \<Rightarrow> ('z stay_db_scheme, 'a) op \<Rightarrow> ('z stay_db_scheme, 'a) op" where
  "withAcceptedPricingLock inTx p i work =
     (let execute = bindS (getS (\<lambda>db. sel1 (reservationRow i p) (reservations db))) (\<lambda>locked.
        bindS (guardS (locked \<noteq> None)
          (Error (''Reservation '' @ i @ '' not found for accepted-pricing lock''))) (\<lambda>_. work))
      in if inTx then execute else transactionS execute)"

section \<open>Audit runs\<close>

definition auditRow :: "uuid \<Rightarrow> date \<Rightarrow> auditRun \<Rightarrow> bool" where
  "auditRow p d r \<longleftrightarrow> ar_propertyId r = p \<and> ar_businessDate r = d"

definition newAuditRun :: "uuid \<Rightarrow> millis \<Rightarrow> uuid \<Rightarrow> date \<Rightarrow> auditRun" where
  "newAuditRun newId now p d = \<lparr>ar_id = newId, ar_propertyId = p, ar_businessDate = d, ar_status = ArRunning,
     ar_roomChargesPosted = None, ar_taxChargesPosted = None, ar_noShowsProcessed = None, ar_summary = None,
     ar_errors = None, ar_startedAt = now, ar_completedAt = None\<rparr>"

text \<open>
  An insert meets the column of type \<open>date\<close>, the reference to the property, and the unique index on
  property and date.
\<close>

definition auditRunInsertable :: "uuid \<Rightarrow> date \<Rightarrow> 'z audit_db_scheme \<Rightarrow> bool" where
  "auditRunInsertable p d db \<longleftrightarrow> isCanonicalCalendarDate d \<and> list_ex (\<lambda>q. pr_id q = p) (properties db)"

definition findCompletedAudit :: "uuid \<Rightarrow> date \<Rightarrow> ('z audit_db_scheme, auditRun option) op" where
  "findCompletedAudit p d = getS (\<lambda>db. sel1 (\<lambda>r. auditRow p d r \<and> ar_status r = ArCompleted) (auditRuns db))"

definition createAuditRun :: "millis \<Rightarrow> uuid \<Rightarrow> uuid \<Rightarrow> date \<Rightarrow> ('z audit_db_scheme, auditRun) op" where
  "createAuditRun now newId p d =
     bindS (getS (\<lambda>db. auditRunInsertable p d db \<and> \<not> list_ex (auditRow p d) (auditRuns db))) (\<lambda>fits.
     bindS (guardS fits DatabaseError) (\<lambda>_.
     let row = newAuditRun newId now p d in
     bindS (modifyS (\<lambda>db. db\<lparr>auditRuns := auditRuns db @ [row]\<rparr>)) (\<lambda>_. returnS row)))"

text \<open>The second component: whether the row was there before (\<open>_preexisting\<close>).\<close>

definition createOrGetAuditRun :: "millis \<Rightarrow> uuid \<Rightarrow> uuid \<Rightarrow> date \<Rightarrow> ('z audit_db_scheme, auditRun \<times> bool) op" where
  "createOrGetAuditRun now newId p d =
     bindS (getS (auditRunInsertable p d)) (\<lambda>fits.
     bindS (guardS fits DatabaseError) (\<lambda>_.
     bindS (getS (\<lambda>db. list_ex (auditRow p d) (auditRuns db))) (\<lambda>conflict.
     if \<not> conflict
     then (let row = newAuditRun newId now p d in
       bindS (modifyS (\<lambda>db. db\<lparr>auditRuns := auditRuns db @ [row]\<rparr>)) (\<lambda>_. returnS (row, False)))
     else
       bindS (getS (\<lambda>db. sel1 (auditRow p d) (auditRuns db))) (\<lambda>found.
       bindS (someS found (ConflictException (''Night audit row conflict for '' @ d @ '' but no existing row visible''))) (\<lambda>existing.
       returnS (existing, True))))))"

record auditOutcome =
  ao_roomChargesPosted :: string
  ao_taxChargesPosted :: string
  ao_noShowsProcessed :: string
  ao_summary :: string
  ao_errors :: "auditError list"

definition completeAuditRun :: "'d numlib \<Rightarrow> millis \<Rightarrow> uuid \<Rightarrow> auditOutcome \<Rightarrow> ('z audit_db_scheme, auditRun option) op" where
  "completeAuditRun L now i data =
     bindS (liftS (numeric12_2 L (ao_roomChargesPosted data))) (\<lambda>room.
     bindS (liftS (numeric12_2 L (ao_taxChargesPosted data))) (\<lambda>tax.
     bindS (liftS (numericR L 4 0 (ao_noShowsProcessed data))) (\<lambda>noShows.
     let f = (\<lambda>r. r\<lparr>ar_status := ArCompleted, ar_roomChargesPosted := Some room, ar_taxChargesPosted := Some tax,
           ar_noShowsProcessed := Some noShows, ar_summary := Some (ao_summary data),
           ar_errors := (if ao_errors data \<noteq> [] then Some (ao_errors data) else None), ar_completedAt := Some now\<rparr>) in
     bindS (modifyS (\<lambda>db. db\<lparr>auditRuns := upd (\<lambda>r. ar_id r = i) f (auditRuns db)\<rparr>)) (\<lambda>_.
     getS (\<lambda>db. sel1 (\<lambda>r. ar_id r = i) (auditRuns db))))))"

definition failAuditRun :: "millis \<Rightarrow> uuid \<Rightarrow> exn \<Rightarrow> ('z audit_db_scheme, unit) op" where
  "failAuditRun now i e = modifyS (\<lambda>db. db\<lparr>auditRuns := upd (\<lambda>r. ar_id r = i)
     (\<lambda>r. r\<lparr>ar_status := ArFailed, ar_errors := Some [\<lparr>ae_message = RunFailed e, ae_entity = None\<rparr>],
            ar_completedAt := Some now\<rparr>) (auditRuns db)\<rparr>)"

definition listAuditRuns :: "uuid \<Rightarrow> ('z audit_db_scheme, auditRun list) op" where
  "listAuditRuns p = getS (\<lambda>db. rev (sort_key ar_businessDate (rev (filter (\<lambda>r. ar_propertyId r = p) (auditRuns db)))))"

definition getAuditRun :: "uuid \<Rightarrow> uuid \<Rightarrow> ('z audit_db_scheme, auditRun) op" where
  "getAuditRun i p =
     bindS (getS (\<lambda>db. sel1 (\<lambda>r. ar_id r = i \<and> ar_propertyId r = p) (auditRuns db))) (\<lambda>run.
     someS run (NotFoundException (''Audit run '' @ i @ '' not found'')))"

section \<open>Room tariffs\<close>

record 'd tariffTotals =
  tt_totalRoom :: 'd
  tt_totalTax :: 'd
  tt_count :: nat
  tt_errors :: "auditError list"

text \<open>The sum of the amounts of the tax charges, from zero.\<close>

fun sumAmounts :: "'d numlib \<Rightarrow> 'd \<Rightarrow> charge list \<Rightarrow> 'd result" where
  "sumAmounts L acc [] = Inr acc"
| "sumAmounts L acc (c # cs) = bindR (newDecimal L (ch_amount c)) (\<lambda>x. sumAmounts L (dec_plus L acc x) cs)"

definition addTariff :: "'d numlib \<Rightarrow> string \<Rightarrow> charge list \<Rightarrow> 'd tariffTotals \<Rightarrow> 'd tariffTotals result" where
  "addTariff L rate taxCharges st =
     bindR (sumAmounts L (dec_int L 0) taxCharges) (\<lambda>tax.
     bindR (newDecimal L rate) (\<lambda>room.
     Inr (st\<lparr>tt_totalRoom := dec_plus L (tt_totalRoom st) room, tt_totalTax := dec_plus L (tt_totalTax st) tax,
            tt_count := tt_count st + 1\<rparr>)))"

definition noteError :: "auditMessage \<Rightarrow> uuid \<Rightarrow> 'd tariffTotals \<Rightarrow> 'd tariffTotals" where
  "noteError msg i st = st\<lparr>tt_errors := tt_errors st @ [\<lparr>ae_message = msg, ae_entity = Some i\<rparr>]\<rparr>"

text \<open>The open guest folio of a stay.\<close>

definition openGuestFolio :: "uuid \<Rightarrow> uuid \<Rightarrow> 'z folio_db_scheme \<Rightarrow> folio option" where
  "openGuestFolio i p db = sel1 (\<lambda>f. fo_reservationId f = Some i \<and> fo_propertyId f = p \<and> fo_type f = FtGuest
     \<and> fo_status f = FsOpen) (folios db)"

text \<open>What is posted: \<open>new Date(businessDate + 'T00:00:00Z').toISOString()\<close> is its service date.\<close>

definition tariffDto :: "uuid \<Rightarrow> date \<Rightarrow> string \<Rightarrow> string \<Rightarrow> uuid \<Rightarrow> millis \<Rightarrow> createChargeDto" where
  "tariffDto p d amount currencyCode guestId midnight = \<lparr>cc_propertyId = p, cc_type = CtRoom,
     cc_description = ''Room tariff - '' @ d, cc_amount = amount, cc_currencyCode = currencyCode,
     cc_taxAmount = None, cc_taxRate = None, cc_taxCode = None, cc_serviceDate = toISOString midnight,
     cc_postedBy = None, cc_guestId = Some guestId, cc_numberOfNights = None, cc_nightNumber = None,
     cc_skipTaxCalculation = False, cc_provenance = False\<rparr>"

definition tariffKey :: "uuid \<Rightarrow> date \<Rightarrow> string" where
  "tariffKey i d = ''accepted-pricing:reservation:'' @ i @ '':night:'' @ d"

text \<open>The body that runs under the lock; \<open>None\<close> is its \<open>null\<close>, \<open>Inl\<close> the missing folio.\<close>

definition acceptedTariff :: "'d numlib \<Rightarrow> millis \<Rightarrow> (nat \<Rightarrow> uuid) \<Rightarrow> uuid \<Rightarrow> date \<Rightarrow> uuid
    \<Rightarrow> ('z folio_db_scheme, (unit + folio \<times> string \<times> snapshotOutcome) option) op" where
  "acceptedTariff L now ids p d i =
     bindS (getS (\<lambda>db. sel1 (\<lambda>r. reservationRow i p r \<and> inHouse (rv_status r)) (reservations db))) (\<lambda>current.
     case current of None \<Rightarrow> returnS None | Some r \<Rightarrow>
     (case rv_acceptedPricingSnapshot r of None \<Rightarrow> returnS None | Some pricing \<Rightarrow>
     (case sel1 (\<lambda>n. apn_date n = d) (ap_nights pricing) of None \<Rightarrow> returnS None | Some night \<Rightarrow>
       bindS (getS (openGuestFolio (rv_id r) p)) (\<lambda>found.
       case found of None \<Rightarrow> returnS (Some (Inl ())) | Some folio \<Rightarrow>
         bindS (liftS (case utcTime d 0 of None \<Rightarrow> Inl RangeError | Some t \<Rightarrow> Inr t)) (\<lambda>midnight.
         bindS (postChargeFromSnapshotWithOutcome L now ids True (fo_id folio)
            (tariffDto p d (apn_roomAmount night) (ap_currencyCode pricing) (rv_guestId r) midnight) (apn_taxAmount night)
            (case ap_adjustment pricing of None \<Rightarrow> None
             | Some a \<Rightarrow> if adj_serviceDate a = d then Some (adj_amount a, adj_reason a) else None)
            (Some (tariffKey (rv_id r) d))) (\<lambda>outcome.
         returnS (Some (Inr (folio, apn_roomAmount night, outcome)))))))))"

definition liveRate :: "'d numlib \<Rightarrow> reservation \<Rightarrow> 'z folio_db_scheme \<Rightarrow> string result" where
  "liveRate L r db = (case sel1 (\<lambda>x. rp_id x = rv_ratePlanId r) (ratePlans db) of
     Some plan \<Rightarrow> Inr (rp_baseAmount plan)
   | None \<Rightarrow> bindR (newDecimal L (rv_totalAmount r)) (\<lambda>t. Inr (dec_toFixed L 2 (dec_div L t (dec_int L (rv_nights r))))))"

text \<open>The preflight of the live rate: a room charge of the date on the folio.\<close>

definition tariffPosted :: "'db audit_env \<Rightarrow> uuid \<Rightarrow> uuid \<Rightarrow> date \<Rightarrow> charge \<Rightarrow> bool" where
  "tariffPosted A f p d c \<longleftrightarrow> ch_folioId c = Some f \<and> ch_propertyId c = p \<and> ch_type c = CtRoom \<and> \<not> ch_isReversal c
     \<and> ad_dateOf A (ch_serviceDate c) = d"

definition postTariff :: "'d numlib \<Rightarrow> millis \<Rightarrow> ('z folio_db_scheme) audit_env \<Rightarrow> (nat \<Rightarrow> uuid) \<Rightarrow> uuid \<Rightarrow> date \<Rightarrow> reservation
    \<Rightarrow> 'd tariffTotals \<Rightarrow> ('z folio_db_scheme, 'd tariffTotals) op" where
  "postTariff L now A ids p d r st =
     (if rv_acceptedPricingSnapshot r \<noteq> None
      then bindS (withAcceptedPricingLock False p (rv_id r) (acceptedTariff L now ids p d (rv_id r))) (\<lambda>lockedPost.
        case lockedPost of
          None \<Rightarrow> returnS st
        | Some (Inl _) \<Rightarrow> returnS (noteError (NoOpenFolio (rv_id r)) (rv_id r) st)
        | Some (Inr (folio, rate, outcome)) \<Rightarrow>
            bindS (emitSnapshotChargeWebhooks (fo_id folio) p outcome) (\<lambda>_.
            if \<not> so_wasCreated outcome then returnS st
            else liftS (addTariff L rate (so_taxCharges outcome) st)))
      else
        bindS (getS (openGuestFolio (rv_id r) p)) (\<lambda>found.
        case found of None \<Rightarrow> returnS (noteError (NoOpenFolio (rv_id r)) (rv_id r) st)
        | Some folio \<Rightarrow>
            bindS (getS (\<lambda>db. sel1 (tariffPosted A (fo_id folio) p d) (charges db))) (\<lambda>existing.
            if existing \<noteq> None then returnS st else
            bindS (getS (liveRate L r)) (\<lambda>rateResult.
            bindS (liftS rateResult) (\<lambda>rate.
            bindS (liftS (case utcTime d 0 of None \<Rightarrow> Inl RangeError | Some t \<Rightarrow> Inr t)) (\<lambda>midnight.
            bindS (postCharge L now ids False (fo_id folio)
               (tariffDto p d rate (rv_currencyCode r) (rv_guestId r) midnight) noPersistence) (\<lambda>(_, taxCharges, _).
            liftS (addTariff L rate taxCharges st))))))))"

definition noTariffs :: "'d numlib \<Rightarrow> 'd tariffTotals" where
  "noTariffs L = \<lparr>tt_totalRoom = dec_int L 0, tt_totalTax = dec_int L 0, tt_count = 0, tt_errors = []\<rparr>"

text \<open>Each stay has its own supply of new identifiers.\<close>

definition postRoomTariffs :: "'d numlib \<Rightarrow> millis \<Rightarrow> ('z folio_db_scheme) audit_env \<Rightarrow> (uuid \<Rightarrow> nat \<Rightarrow> uuid) \<Rightarrow> uuid \<Rightarrow> date
    \<Rightarrow> ('z folio_db_scheme, string \<times> string \<times> nat \<times> auditError list) op" where
  "postRoomTariffs L now A ids p d =
     bindS (getS (\<lambda>db. filter (\<lambda>r. rv_propertyId r = p \<and> inHouse (rv_status r)) (reservations db))) (\<lambda>inHouseReservations.
     bindS (foldS (\<lambda>r st. catchS (postTariff L now A (ids (rv_id r)) p d r st)
          (\<lambda>e. returnS (noteError (TariffFailed (rv_id r) e) (rv_id r) st))) inHouseReservations (noTariffs L)) (\<lambda>st.
     returnS (dec_toFixed L 2 (tt_totalRoom st), dec_toFixed L 2 (tt_totalTax st), tt_count st, tt_errors st)))"

section \<open>No-shows\<close>

record noShowTally =
  ns_count :: nat
  ns_reservationIds :: "uuid list"
  ns_errors :: "auditError list"

definition noShowCandidates :: "uuid \<Rightarrow> date \<Rightarrow> 'z stay_db_scheme \<Rightarrow> reservation list" where
  "noShowCandidates p d db = filter (\<lambda>r. rv_propertyId r = p \<and> rv_arrivalDate r \<le> d
     \<and> rv_status r \<in> {RsConfirmed, RsAssigned}) (reservations db)"

text \<open>\<open>now.getUTCHours()\<close>\<close>

definition utcHours :: "millis \<Rightarrow> int" where
  "utcHours now = now div 3600000 mod 24"

definition noShowEligible :: "millis \<Rightarrow> date \<Rightarrow> int option \<Rightarrow> reservation \<Rightarrow> bool" where
  "noShowEligible now d cutoffHour r \<longleftrightarrow> rv_arrivalDate r < d
     \<or> (case cutoffHour of None \<Rightarrow> True | Some h \<Rightarrow> h \<le> utcHours now)"

definition noShowInput :: "uuid \<Rightarrow> reservation \<Rightarrow> evaluateInput" where
  "noShowInput p r = \<lparr>ei_propertyId = p, ei_ratePlanId = rv_ratePlanId r, ei_arrivalDate = rv_arrivalDate r,
     ei_totalAmount = rv_totalAmount r, ei_nights = rv_nights r, ei_now = Some (utcTime (rv_arrivalDate r) 86399000)\<rparr>"

definition settleNoShow :: "'d numlib \<Rightarrow> millis \<Rightarrow> ('z audit_db_scheme) audit_env \<Rightarrow> uuid \<Rightarrow> string option \<Rightarrow> reservation
    \<Rightarrow> ('z audit_db_scheme, unit) op" where
  "settleNoShow L now A p fee r =
     bindS (evaluateCancellation L now (noShowInput p r)) (\<lambda>evaluation.
     ad_settle A \<lparr>sm_reservationId = rv_id r, sm_propertyId = p, sm_currencyCode = rv_currencyCode r,
       sm_evaluation = evaluation, sm_penaltyDescription = ''No-show penalty'', sm_additionalFeeAmount = fee,
       sm_additionalFeeDescription = ''No-show fee''\<rparr>)"

definition noShowError :: "auditMessage \<Rightarrow> uuid \<Rightarrow> noShowTally \<Rightarrow> noShowTally" where
  "noShowError msg i st = st\<lparr>ns_errors := ns_errors st @ [\<lparr>ae_message = msg, ae_entity = Some i\<rparr>]\<rparr>"

definition processNoShow :: "'d numlib \<Rightarrow> ('z audit_db_scheme) stay_env \<Rightarrow> ('z audit_db_scheme) audit_env \<Rightarrow> uuid \<Rightarrow> string option
    \<Rightarrow> reservation \<Rightarrow> noShowTally \<Rightarrow> ('z audit_db_scheme, noShowTally) op" where
  "processNoShow L E A p fee r st =
     bindS (markNoShow E (rv_id r) p) (\<lambda>_.
     let st1 = st\<lparr>ns_reservationIds := ns_reservationIds st @ [rv_id r], ns_count := ns_count st + 1\<rparr> in
     bindS (catchS (bindS (settleNoShow L (en_now E) A p fee r) (\<lambda>_. returnS st1))
        (\<lambda>e. returnS (noShowError (SettlementFailed (rv_id r) e) (rv_id r) st1))) (\<lambda>st2.
     bindS (whenS (present (rv_roomId r))
        (updateReservation (reservationRow (rv_id r) p) (\<lambda>x. x\<lparr>rv_roomId := None, rv_updatedAt := en_now E\<rparr>))) (\<lambda>_.
     returnS st2)))"

definition processNoShows :: "'d numlib \<Rightarrow> ('z audit_db_scheme) stay_env \<Rightarrow> ('z audit_db_scheme) audit_env \<Rightarrow> uuid \<Rightarrow> date
    \<Rightarrow> ('z audit_db_scheme, noShowTally) op" where
  "processNoShows L E A p d =
     bindS (getS (noShowCandidates p d)) (\<lambda>candidates.
     bindS (getS (\<lambda>db. sel1 (\<lambda>q. pr_id q = p) (properties db))) (\<lambda>property.
     let fee = (case property of None \<Rightarrow> None | Some q \<Rightarrow> pr_noShowFeeAmount q);
         cutoffHour = (case property of None \<Rightarrow> None | Some q \<Rightarrow> pr_noShowCutoffHour q) in
     foldS (\<lambda>r st. catchS (processNoShow L E A p fee r st)
         (\<lambda>e. returnS (noShowError (NoShowFailed (rv_id r) e) (rv_id r) st)))
       (filter (noShowEligible (en_now E) d cutoffHour) candidates)
       \<lparr>ns_count = 0, ns_reservationIds = [], ns_errors = []\<rparr>))"

section \<open>Statuses and locks\<close>

definition advanceStayovers :: "millis \<Rightarrow> 'db audit_env \<Rightarrow> uuid \<Rightarrow> date \<Rightarrow> ('z stay_db_scheme, nat) op" where
  "advanceStayovers now A p d =
     (let q = (\<lambda>r. rv_propertyId r = p \<and> rv_status r = RsCheckedIn
           \<and> (case rv_checkedInAt r of None \<Rightarrow> False | Some t \<Rightarrow> ad_dateOf A t < d)) in
      bindS (getS (\<lambda>db. length (filter q (reservations db)))) (\<lambda>n.
      bindS (updateReservation q (\<lambda>r. r\<lparr>rv_status := RsStayover, rv_updatedAt := now\<rparr>)) (\<lambda>_. returnS n)))"

definition markDueOuts :: "millis \<Rightarrow> 'db audit_env \<Rightarrow> uuid \<Rightarrow> date \<Rightarrow> ('z stay_db_scheme, nat) op" where
  "markDueOuts now A p d =
     bindS (liftS (addDays A d 1)) (\<lambda>nextDay.
     let q = (\<lambda>r. rv_propertyId r = p \<and> rv_status r = RsStayover \<and> rv_departureDate r = nextDay) in
     bindS (getS (\<lambda>db. length (filter q (reservations db)))) (\<lambda>n.
     bindS (updateReservation q (\<lambda>r. r\<lparr>rv_status := RsDueOut, rv_updatedAt := now\<rparr>)) (\<lambda>_. returnS n)))"

definition lockedOn :: "'db audit_env \<Rightarrow> uuid \<Rightarrow> date \<Rightarrow> charge \<Rightarrow> bool" where
  "lockedOn A p d c \<longleftrightarrow> ch_propertyId c = p \<and> \<not> ch_isLocked c \<and> ad_dateOf A (ch_serviceDate c) \<le> d"

definition lockChargesForDate :: "'db audit_env \<Rightarrow> uuid \<Rightarrow> date \<Rightarrow> ('z folio_db_scheme, nat) op" where
  "lockChargesForDate A p d =
     bindS (liftS (case utcTime d 43200000 of None \<Rightarrow> Inl RangeError | Some t \<Rightarrow> Inr t)) (\<lambda>auditDate.
     bindS (getS (\<lambda>db. length (filter (lockedOn A p d) (charges db)))) (\<lambda>n.
     bindS (modifyS (\<lambda>db. db\<lparr>charges := upd (lockedOn A p d)
        (\<lambda>c. c\<lparr>ch_isLocked := True, ch_lockedByAuditDate := Some auditDate\<rparr>) (charges db)\<rparr>)) (\<lambda>_. returnS n)))"

section \<open>The audit\<close>

text \<open>The steps between the two events, up to the completed row.\<close>

definition auditDay :: "'d numlib \<Rightarrow> ('z audit_db_scheme) stay_env \<Rightarrow> ('z audit_db_scheme) audit_env \<Rightarrow> (uuid \<Rightarrow> nat \<Rightarrow> uuid)
    \<Rightarrow> uuid \<Rightarrow> date \<Rightarrow> uuid \<Rightarrow> ('z audit_db_scheme, auditRun option) op" where
  "auditDay L E A ids p d runId =
     bindS (postRoomTariffs L (en_now E) A ids p d) (\<lambda>(totalRoom, totalTax, _, tariffErrors).
     bindS (ad_postPerNight A p d) (\<lambda>serviceErrors.
     bindS (processNoShows L E A p d) (\<lambda>noShowResult.
     bindS (liftS (addDays A d 1)) (\<lambda>nextDay.
     bindS (ad_stayoverTasks A p nextDay) (\<lambda>_.
     bindS (advanceStayovers (en_now E) A p d) (\<lambda>_.
     bindS (markDueOuts (en_now E) A p d) (\<lambda>_.
     bindS (lockChargesForDate A p d) (\<lambda>_.
     bindS (ad_revenueSummary A p d) (\<lambda>summary.
     bindS (completeAuditRun L (en_now E) runId \<lparr>ao_roomChargesPosted = totalRoom, ao_taxChargesPosted = totalTax,
        ao_noShowsProcessed = show_nat (ns_count noShowResult), ao_summary = summary,
        ao_errors = tariffErrors @ ns_errors noShowResult
          @ map (\<lambda>(i, m). \<lparr>ae_message = Reported m, ae_entity = i\<rparr>) serviceErrors\<rparr>) (\<lambda>completed.
     bindS (emit ''audit.completed'' ''audit_run'' runId [(''businessDate'', Some d), (''summary'', Some summary)]
        (Some p)) (\<lambda>_.
     returnS completed)))))))))))"

text \<open>The result: whether the audit had run already, and its row.\<close>

definition runAudit :: "'d numlib \<Rightarrow> ('z audit_db_scheme) stay_env \<Rightarrow> ('z audit_db_scheme) audit_env \<Rightarrow> uuid \<Rightarrow> (uuid \<Rightarrow> nat \<Rightarrow> uuid)
    \<Rightarrow> uuid \<Rightarrow> date \<Rightarrow> ('z audit_db_scheme, bool \<times> auditRun option) op" where
  "runAudit L E A newId ids p d =
     bindS (createOrGetAuditRun (en_now E) newId p d) (\<lambda>(auditRun, preexisting).
     if preexisting then
       bindS (guardS (ar_status auditRun \<noteq> ArCompleted)
          (ConflictException (''Night audit for '' @ d @ '' already completed''))) (\<lambda>_.
       returnS (True, Some auditRun))
     else
       bindS (emit ''audit.started'' ''audit_run'' (ar_id auditRun) [(''businessDate'', Some d)] (Some p)) (\<lambda>_.
       catchS (bindS (auditDay L E A ids p d (ar_id auditRun)) (\<lambda>completed. returnS (False, completed)))
         (\<lambda>e. bindS (failAuditRun (en_now E) (ar_id auditRun) e) (\<lambda>_. throwS e))))"

end
