(* ===== verification/AuditRuns.thy ===== *)
theory AuditRuns
  imports NightAudit StayHistory
begin

text \<open>
  What a night audit guarantees. Its parts leave alone what they do not own (\<open>keeps\<close>), so a day is
  decided by its first run, a completed run closes the books of its day for good, and the
  statuses of the stays move along the table. A tariff is charged once, and a guest who did not
  come is never treated as cancelling in time.
\<close>

section \<open>Loops and results in a relation between tables\<close>

context step_relation
begin

lemma fold: "(\<And>x s. x \<in> set xs \<Longrightarrow> does R (f x s)) \<Longrightarrow> does R (foldS f xs s)"
  by (induction xs arbitrary: s) (auto intro!: bind basic)

lemma either: "(\<And>a. does R (m a)) \<Longrightarrow> (\<And>b. does R (k b)) \<Longrightarrow> does R (case x of Inl a \<Rightarrow> m a | Inr b \<Rightarrow> k b)"
  by (simp split: sum.split)

lemmas audit_rules = rules fold either

end

lemmas audit_keeps = held.audit_rules keeps_tx keeps_modify

section \<open>What the parts of an audit leave alone\<close>

lemma emitPosted_keeps: "keeps g (emitPosted f p cs)"
  by (induction cs) (auto intro!: keeps_rules)

lemma snapshot_keeps: "posting_blind g \<Longrightarrow> keeps g (postChargeFromSnapshotWithOutcome L now ids inTx f dto tax adj key)"
  unfolding postChargeFromSnapshotWithOutcome_def postInTransaction_def emitSnapshotChargeWebhooks_def
  by (intro audit_keeps stay_frame emitPosted_keeps)

lemma tariff_keeps: "posting_blind g \<Longrightarrow> keeps g (postTariff L now A ids p d r st)"
  unfolding postTariff_def withAcceptedPricingLock_def acceptedTariff_def emitSnapshotChargeWebhooks_def Let_def if_False
  by (intro audit_keeps stay_frame snapshot_keeps emitPosted_keeps)

lemma tariffs_keep: "posting_blind g \<Longrightarrow> keeps g (postRoomTariffs L now A ids p d)"
  unfolding postRoomTariffs_def by (intro audit_keeps tariff_keeps)

lemma evaluate_keeps: "keeps g (evaluateCancellation L now input)"
  unfolding evaluateCancellation_def resolvePolicyForRatePlan_def Let_def by (intro audit_keeps)

text \<open>A view that shows no reservation.\<close>

definition stay_blind :: "('z stay_db_scheme \<Rightarrow> 'c) \<Rightarrow> bool" where
  "stay_blind g \<longleftrightarrow> (\<forall>db xs. g (db\<lparr>reservations := xs\<rparr>) = g db)"

lemma update_keeps: "stay_blind g \<Longrightarrow> keeps g (updateReservation q f)"
  unfolding updateReservation_def by (rule keeps_modify) (simp add: stay_blind_def)

lemma noShow_keeps: "stay_blind g \<Longrightarrow> keeps g (markNoShow E i p)"
  unfolding markNoShow_def claimTransition_def findByIdRaw_def by (intro audit_keeps update_keeps)

lemma process_keeps:
  assumes "stay_blind g" and "\<And>s. keeps g (ad_settle A s)"
  shows "keeps g (processNoShows L E A p d)"
  unfolding processNoShows_def processNoShow_def settleNoShow_def Let_def
  by (intro audit_keeps noShow_keeps update_keeps evaluate_keeps assms)

lemma status_keeps: "stay_blind g \<Longrightarrow> keeps g (advanceStayovers now A p d)" "stay_blind g \<Longrightarrow> keeps g (markDueOuts now A p d)"
  unfolding advanceStayovers_def markDueOuts_def Let_def by (intro audit_keeps update_keeps; assumption)+

lemma lock_keeps: "(\<And>db xs. g (db\<lparr>charges := xs\<rparr>) = g db) \<Longrightarrow> keeps g (lockChargesForDate A p d)"
  unfolding lockChargesForDate_def by (intro audit_keeps)

lemma complete_keeps: "(\<And>db xs. g (db\<lparr>auditRuns := xs\<rparr>) = g db) \<Longrightarrow> keeps g (completeAuditRun L now i data)"
  unfolding completeAuditRun_def Let_def by (intro audit_keeps)

section \<open>One run per day\<close>

text \<open>What the services an audit calls leave alone: the audit runs and the properties.\<close>

definition audit_view :: "'z audit_db_scheme \<Rightarrow> auditRun list \<times> property list" where
  "audit_view db = (auditRuns db, properties db)"

definition discreet :: "('z audit_db_scheme) audit_env \<Rightarrow> bool" where
  "discreet A \<longleftrightarrow> (\<forall>p d. keeps audit_view (ad_postPerNight A p d)) \<and> (\<forall>s. keeps audit_view (ad_settle A s))
     \<and> (\<forall>p d. keeps audit_view (ad_stayoverTasks A p d)) \<and> (\<forall>p d. keeps audit_view (ad_revenueSummary A p d))"

lemma audit_view_blind: "posting_blind audit_view" "stay_blind audit_view"
  by (simp_all add: posting_blind_def stay_blind_def audit_view_def)

text \<open>The audit leaves the table of runs as it is, except that the own row may be completed.\<close>

definition run_settled :: "uuid \<Rightarrow> 'z audit_db_scheme \<Rightarrow> 'z audit_db_scheme \<Rightarrow> bool" where
  "run_settled i db db' \<longleftrightarrow> properties db' = properties db
     \<and> (\<exists>f. auditRuns db' = upd (\<lambda>r. ar_id r = i) f (auditRuns db)
          \<and> (\<forall>r. ar_id (f r) = ar_id r \<and> ar_propertyId (f r) = ar_propertyId r \<and> ar_businessDate (f r) = ar_businessDate r))"

interpretation settled: step_relation "run_settled i" for i
proof
  show "run_settled i a a" for a :: "'z audit_db_scheme"
    unfolding run_settled_def by (intro conjI exI [of _ "\<lambda>r. r"]) (simp_all add: upd_def)
  show "run_settled i a c" if "run_settled i a b" "run_settled i b c" for a b c :: "'z audit_db_scheme"
  proof -
    from that(1) obtain f where f: "auditRuns b = upd (\<lambda>r. ar_id r = i) f (auditRuns a)"
        "\<forall>r. ar_id (f r) = ar_id r \<and> ar_propertyId (f r) = ar_propertyId r \<and> ar_businessDate (f r) = ar_businessDate r"
      unfolding run_settled_def by blast
    from that(2) obtain g where g: "auditRuns c = upd (\<lambda>r. ar_id r = i) g (auditRuns b)"
        "\<forall>r. ar_id (g r) = ar_id r \<and> ar_propertyId (g r) = ar_propertyId r \<and> ar_businessDate (g r) = ar_businessDate r"
      unfolding run_settled_def by blast
    have p: "properties b = properties a" "properties c = properties b" using that by (simp_all add: run_settled_def)
    have "auditRuns c = upd (\<lambda>r. ar_id r = i) (\<lambda>r. g (f r)) (auditRuns a)"
      unfolding g(1) f(1) upd_def using f(2) by simp
    with p f(2) g(2) show ?thesis unfolding run_settled_def by (intro conjI exI [of _ "\<lambda>r. g (f r)"]) simp_all
  qed
qed

lemma settled_kept: "keeps audit_view m \<Longrightarrow> does (run_settled i) m"
  by (auto simp: does_def audit_view_def run_settled_def upd_def intro!: exI [of _ "\<lambda>r. r"])

lemma complete_settled: "does (run_settled i) (completeAuditRun L now i data)"
  unfolding completeAuditRun_def Let_def
  by (intro settled.rules; auto simp: does_def modifyS_iff run_settled_def
      intro!: exI [of _ "\<lambda>r. r\<lparr>ar_status := ArCompleted, ar_roomChargesPosted := a, ar_taxChargesPosted := b,
        ar_noShowsProcessed := c, ar_summary := s, ar_errors := es, ar_completedAt := t\<rparr>" for a b c s es t])

lemma day_settled: "discreet A \<Longrightarrow> does (run_settled i) (auditDay L E A ids p d i)"
  unfolding auditDay_def
  by (intro settled.rules complete_settled settled_kept tariffs_keep process_keeps status_keeps lock_keeps audit_view_blind)
    (auto simp: discreet_def audit_view_def)

lemma complete_Inr:
  assumes "completeAuditRun L now i data w = (Inr r, w')"
  shows "r = sel1 (\<lambda>x. ar_id x = i) (auditRuns (wdb w')) \<and> (\<forall>x\<in>set (auditRuns (wdb w')). ar_id x = i \<longrightarrow> ar_status x = ArCompleted)"
proof -
  obtain f where "\<forall>x. ar_id (f x) = ar_id x \<and> ar_status (f x) = ArCompleted"
      "auditRuns (wdb w') = upd (\<lambda>x. ar_id x = i) f (auditRuns (wdb w))" "r = sel1 (\<lambda>x. ar_id x = i) (auditRuns (wdb w'))"
    using assms unfolding completeAuditRun_def bindS_Inr_iff liftS_iff Let_def modifyS_iff getS_iff
    by (elim exE conjE) (rule that [of "\<lambda>x. x\<lparr>ar_status := ArCompleted, ar_roomChargesPosted := a, ar_taxChargesPosted := b,
      ar_noShowsProcessed := c, ar_summary := s, ar_errors := es, ar_completedAt := t\<rparr>" for a b c s es t]; simp)
  then show ?thesis by (auto simp: set_upd)
qed

lemma day_Inr:
  assumes "auditDay L E A ids p d i w = (Inr r, w')"
  obtains n data w1 w2 w3 w4 s where "lockChargesForDate A p d w1 = (Inr n, w2)" "ad_revenueSummary A p d w2 = (Inr s, w3)"
    "completeAuditRun L (en_now E) i data w3 = (Inr r, w4)" "wdb w' = wdb w4"
proof -
  from assms obtain n w1 w2 s w3 data w4 w5 u where "lockChargesForDate A p d w1 = (Inr n, w2)" "ad_revenueSummary A p d w2 = (Inr s, w3)"
      "completeAuditRun L (en_now E) i data w3 = (Inr r, w4)" and "emit ''audit.completed'' ''audit_run'' i
        [(''businessDate'', Some d), (''summary'', Some s)] (Some p) w4 = (Inr u, w5)" "w' = w5"
    unfolding auditDay_def bindS_Inr_iff case_prod_unfold returnS_iff sum.inject
    by (elim exE conjE) (hypsubst, rule that; (assumption | rule refl))
  then show ?thesis by (intro that) (auto simp: emit_iff)
qed

lemma day_completes:
  assumes "auditDay L E A ids p d i w = (Inr r, w')"
  shows "r = sel1 (\<lambda>x. ar_id x = i) (auditRuns (wdb w')) \<and> (\<forall>x\<in>set (auditRuns (wdb w')). ar_id x = i \<longrightarrow> ar_status x = ArCompleted)"
proof -
  obtain w3 w4 data where "completeAuditRun L (en_now E) i data w3 = (Inr r, w4)" "wdb w' = wdb w4"
    by (rule day_Inr [OF assms])
  note d = complete_Inr [OF this(1)] this(2)
  show ?thesis unfolding d(2) by (rule d(1))
qed

lemma day_locks:
  assumes "auditDay L E A ids p d i w = (Inr r, w')" and "keeps charges (ad_revenueSummary A p d)"
    and "c \<in> set (charges (wdb w'))" and "ch_propertyId c = p" and "ad_dateOf A (ch_serviceDate c) \<le> d"
  shows "ch_isLocked c"
proof -
  obtain n data w1 w2 w3 w4 s where l: "lockChargesForDate A p d w1 = (Inr n, w2)" and s: "ad_revenueSummary A p d w2 = (Inr s, w3)"
    and c: "completeAuditRun L (en_now E) i data w3 = (Inr r, w4)" "wdb w' = wdb w4"
    by (rule day_Inr [OF assms(1)])
  have "charges (wdb w') = charges (wdb w2)"
    using keeps_run [OF assms(2) s] keeps_run [OF complete_keeps [of charges] c(1)] c(2) by simp
  moreover obtain t where "charges (wdb w2) = upd (lockedOn A p d) (\<lambda>c. c\<lparr>ch_isLocked := True, ch_lockedByAuditDate := t\<rparr>) (charges (wdb w1))"
    using l unfolding lockChargesForDate_def bindS_Inr_iff modifyS_iff returnS_iff getS_iff liftS_iff
    by (elim exE conjE) (rule that, simp)
  ultimately obtain x where "x \<in> set (charges (wdb w1))"
      "c = (if lockedOn A p d x then x\<lparr>ch_isLocked := True, ch_lockedByAuditDate := t\<rparr> else x)"
    using assms(3) by (auto simp: set_upd)
  with assms(4,5) show ?thesis by (cases "lockedOn A p d x") (auto simp: lockedOn_def)
qed

lemma second_run:
  assumes "auditRunInsertable p d (wdb w)" and "sel1 (auditRow p d) (auditRuns (wdb w)) = Some row"
  shows "runAudit L E A newId ids p d w =
    (if ar_status row = ArCompleted then (Inl (ConflictException (''Night audit for '' @ d @ '' already completed'')), w)
     else (Inr (True, Some row), w))"
proof -
  have "list_ex (auditRow p d) (auditRuns (wdb w))" using find_SomeD [OF assms(2)] by (auto simp: list_ex_iff)
  with assms show ?thesis by (simp add: runAudit_def createOrGetAuditRun_def op_defs)
qed

text \<open>A first run, up to the row it leaves.\<close>

lemma first_run:
  assumes "runAudit L E A newId ids p d w = (x, w1)" and "discreet A" and "auditRunInsertable p d (wdb w)"
    and "\<forall>r\<in>set (auditRuns (wdb w)). \<not> auditRow p d r" and "newId \<notin> ar_id ` set (auditRuns (wdb w))"
  shows "\<exists>row. auditRuns (wdb w1) = auditRuns (wdb w) @ [row] \<and> auditRow p d row \<and> auditRunInsertable p d (wdb w1)
    \<and> (case x of Inl _ \<Rightarrow> ar_status row = ArFailed
         | Inr (already, result) \<Rightarrow> \<not> already \<and> result = Some row \<and> ar_status row = ArCompleted)"
proof -
  let ?new = "newAuditRun newId (en_now E) p d"
  define w0 where "w0 = w\<lparr>wdb := (wdb w)\<lparr>auditRuns := auditRuns (wdb w) @ [?new]\<rparr>,
    wevents := wevents w @ [\<lparr>ev_name = ''audit.started'', ev_entityType = ''audit_run'', ev_entityId = newId,
      ev_propertyId = Some p, ev_data = [(''businessDate'', Some d)]\<rparr>]\<rparr>"
  obtain y w2 where day: "auditDay L E A ids p d newId w0 = (y, w2)" by fastforce
  have none: "\<not> list_ex (auditRow p d) (auditRuns (wdb w))" using assms(4) by (simp add: list_ex_iff)
  have run: "(x, w1) = (case y of Inl e \<Rightarrow> (Inl e, snd (failAuditRun (en_now E) newId e w2)) | Inr c \<Rightarrow> (Inr (False, c), w2))"
    using assms(1,3) none day
    by (simp add: runAudit_def createOrGetAuditRun_def op_defs newAuditRun_def w0_def catchS_def failAuditRun_def split: sum.splits)
  obtain f where f: "auditRuns (wdb w2) = upd (\<lambda>r. ar_id r = newId) f (auditRuns (wdb w0))"
      "\<forall>r. ar_id (f r) = ar_id r \<and> ar_propertyId (f r) = ar_propertyId r \<and> ar_businessDate (f r) = ar_businessDate r"
    and p: "properties (wdb w2) = properties (wdb w)"
    using doesD [OF day_settled [OF assms(2)] day] by (auto simp: run_settled_def w0_def)
  have old: "upd (\<lambda>r. ar_id r = newId) g (auditRuns (wdb w)) = auditRuns (wdb w)" for g
    using assms(5) by (intro upd_idle) auto
  have runs: "auditRuns (wdb w2) = auditRuns (wdb w) @ [f ?new]" and fnew: "ar_id (f ?new) = newId" "auditRow p d (f ?new)"
    using f by (simp_all add: w0_def newAuditRun_def old auditRow_def)
  have ins: "auditRunInsertable p d (wdb w2)" using assms(3) p by (simp add: auditRunInsertable_def)
  show ?thesis
  proof (cases y)
    case (Inl e)
    with run runs ins fnew show ?thesis by (auto simp: failAuditRun_def modifyS_def old auditRunInsertable_def auditRow_def)
  next
    case (Inr c)
    have "sel1 (\<lambda>r. ar_id r = newId) (auditRuns (wdb w)) = None" using assms(5) by (auto simp: find_None_iff)
    with day_completes [OF day [unfolded Inr]] runs fnew have "c = Some (f ?new)" "ar_status (f ?new) = ArCompleted"
      by (simp_all add: find_append)
    with run runs ins fnew Inr show ?thesis by auto
  qed
qed

section \<open>The stays\<close>

text \<open>What happens to the stays: no room is given away twice, and every stay moves along the status table.\<close>

definition stays_follow :: "reservation list \<Rightarrow> reservation list \<Rightarrow> bool" where
  "stays_follow rows rows' \<longleftrightarrow> (one_stay_per_room rows \<longrightarrow> one_stay_per_room rows')
     \<and> (\<forall>r\<in>set rows. \<exists>r'\<in>set rows'. rv_id r' = rv_id r \<and> rv_propertyId r' = rv_propertyId r
          \<and> (\<exists>ss. stay.path (rv_status r) ss \<and> rv_status r' = last (rv_status r # ss)))"

lemma follow_refl: "stays_follow rows rows"
  unfolding stays_follow_def by (auto intro!: bexI exI [of _ "[]"])

lemma follow_trans:
  assumes "stays_follow a b" and "stays_follow b c"
  shows "stays_follow a c"
proof -
  have "\<exists>r'\<in>set c. rv_id r' = rv_id r \<and> rv_propertyId r' = rv_propertyId r
      \<and> (\<exists>ss. stay.path (rv_status r) ss \<and> rv_status r' = last (rv_status r # ss))" if r: "r \<in> set a" for r
  proof -
    obtain r1 ss where 1: "r1 \<in> set b" "rv_id r1 = rv_id r" "rv_propertyId r1 = rv_propertyId r"
        "stay.path (rv_status r) ss" "rv_status r1 = last (rv_status r # ss)"
      using assms(1) r unfolding stays_follow_def by blast
    obtain r2 ss2 where 2: "r2 \<in> set c" "rv_id r2 = rv_id r1" "rv_propertyId r2 = rv_propertyId r1"
        "stay.path (rv_status r1) ss2" "rv_status r2 = last (rv_status r1 # ss2)"
      using assms(2) 1(1) unfolding stays_follow_def by blast
    have "stay.path (rv_status r) (ss @ ss2)" using 1(4,5) 2(4) by (simp add: stay.path_append)
    moreover have "rv_status r2 = last (rv_status r # (ss @ ss2))"
      using 2(5) 1(5) by (cases "ss2 = []") simp_all
    ultimately show ?thesis using 1(2,3) 2(1-3) by (metis (no_types))
  qed
  with assms show ?thesis by (auto simp: stays_follow_def)
qed

interpretation follow: step_relation "\<lambda>a b. stays_follow (reservations a) (reservations b)"
  by unfold_locales (blast intro: follow_refl follow_trans)+

lemma changes_follow: "does stay_changes m \<Longrightarrow> does (\<lambda>a b. stays_follow (reservations a) (reservations b)) m"
  using stay_changes_rows stay_changes_invariant unfolding does_def stays_follow_def by blast

lemma kept_follow: "keeps reservations m \<Longrightarrow> does (\<lambda>a b. stays_follow (reservations a) (reservations b)) m"
  by (simp add: does_def follow_refl)

text \<open>Taking the room away from stays.\<close>

lemma vacated_follow: "does (\<lambda>a b. stays_follow (reservations a) (reservations b))
    (updateReservation q (\<lambda>x. x\<lparr>rv_roomId := None, rv_updatedAt := t\<rparr>))"
proof (rule doesI)
  fix w :: "'a stay_db_scheme world" and r w'
  let ?f = "\<lambda>x. x\<lparr>rv_roomId := None, rv_updatedAt := t\<rparr>"
  assume "updateReservation q ?f w = (r, w')"
  then have rows: "reservations (wdb w') = upd q ?f (reservations (wdb w))" by (simp add: updateReservation_iff)
  have "one_stay_per_room (upd q ?f (reservations (wdb w)))" if "one_stay_per_room (reservations (wdb w))"
    by (rule one_stay_upd [OF that]) (simp_all add: same_room_def)
  moreover have "\<exists>r'\<in>set (upd q ?f (reservations (wdb w))). rv_id r' = rv_id r \<and> rv_propertyId r' = rv_propertyId r
      \<and> (\<exists>ss. stay.path (rv_status r) ss \<and> rv_status r' = last (rv_status r # ss))"
    if "r \<in> set (reservations (wdb w))" for r
    using that by (intro bexI [of _ "if q r then ?f r else r"] conjI exI [of _ "[]"]) (auto simp: set_upd)
  ultimately show "stays_follow (reservations (wdb w)) (reservations (wdb w'))" unfolding stays_follow_def rows by blast
qed

lemma advance_changes: "does stay_changes (advanceStayovers now A p d)" "does stay_changes (markDueOuts now A p d)"
  unfolding advanceStayovers_def markDueOuts_def Let_def
  by (intro changes.rules update_changes; simp add: moves_status_def stay_key_def steps_eval)+

text \<open>The services an audit calls do not write the reservations.\<close>

definition stays_untouched :: "('z audit_db_scheme) audit_env \<Rightarrow> bool" where
  "stays_untouched A \<longleftrightarrow> (\<forall>p d. keeps reservations (ad_postPerNight A p d)) \<and> (\<forall>s. keeps reservations (ad_settle A s))
     \<and> (\<forall>p d. keeps reservations (ad_stayoverTasks A p d)) \<and> (\<forall>p d. keeps reservations (ad_revenueSummary A p d))"

lemma process_follow:
  assumes "stays_untouched A"
  shows "does (\<lambda>a b. stays_follow (reservations a) (reservations b)) (processNoShows L E A p d)"
  unfolding processNoShows_def processNoShow_def settleNoShow_def Let_def
  by (intro follow.audit_rules changes_follow [OF noShow_changes] vacated_follow kept_follow evaluate_keeps)
    (use assms in \<open>simp add: stays_untouched_def\<close>)

lemma day_follow:
  assumes "stays_untouched A"
  shows "does (\<lambda>a b. stays_follow (reservations a) (reservations b)) (auditDay L E A ids p d i)"
  unfolding auditDay_def
  by (intro follow.rules process_follow changes_follow [OF advance_changes(1)] changes_follow [OF advance_changes(2)] kept_follow
      tariffs_keep lock_keeps complete_keeps stay_frame assms)
    (use assms in \<open>simp_all add: stays_untouched_def\<close>)

lemma run_follow:
  assumes "stays_untouched A"
  shows "does (\<lambda>a b. stays_follow (reservations a) (reservations b)) (runAudit L E A newId ids p d)"
  unfolding runAudit_def createOrGetAuditRun_def failAuditRun_def Let_def
  by (intro follow.rules day_follow kept_follow [OF keeps_modify] assms) simp_all

section \<open>Other hotels\<close>

text \<open>The stays, charges and folios of the other properties.\<close>

definition others :: "uuid \<Rightarrow> 'z folio_db_scheme \<Rightarrow> reservation list \<times> charge list \<times> folio list" where
  "others p db = (filter (\<lambda>r. rv_propertyId r \<noteq> p) (reservations db), filter (\<lambda>c. ch_propertyId c \<noteq> p) (charges db),
     filter (\<lambda>f. fo_propertyId f \<noteq> p) (folios db))"

named_theorems own \<open>the operations that touch the rows of one property only\<close>

lemma insert_own [own]:
  assumes "ch_propertyId c = p"
  shows "keeps (others p) (insertCharge L c)"
proof (rule doesI)
  fix w :: "'a folio_db_scheme world" and r w' assume run: "insertCharge L c w = (r, w')"
  show "others p (wdb w') = others p (wdb w)"
  proof (cases r)
    case (Inl e)
    with run have "w' = w" by (auto simp: insertCharge_def op_defs split: sum.splits if_splits)
    then show ?thesis by simp
  next
    case (Inr row)
    with run have "storeCharge L c = Inr row" "wdb w' = put_charge row (wdb w)" by (auto simp: insertCharge_iff)
    with storeCharge_sel [of L c row] assms show ?thesis by (simp add: others_def)
  qed
qed

lemma once_own [own]: "ch_propertyId c = p \<Longrightarrow> keeps (others p) (insertChargeOnce L c)"
  unfolding insertChargeOnce_def by (intro keeps_rules own)

lemma taxes_own [own]: "cc_propertyId dto = p \<Longrightarrow> keeps (others p) (postTaxes L ids f dto sd parent k items)"
  by (induction items arbitrary: k) (auto intro!: keeps_rules own simp: taxRow_def)

lemma recalc_own [own]: "keeps (others p) (recalculateBalance L now f p)"
  unfolding recalculateBalance_def Let_def
  by (intro keeps_rules) (auto simp: others_def intro!: filter_upd_disjoint)

lemma post_own [own]: "cc_propertyId dto = p \<Longrightarrow> keeps (others p) (postCharge L now ids inTx f dto pers)"
  unfolding postCharge_def Let_def by (intro keeps_rules own tax_frame find_frame; simp add: recalc_own)

lemma snapshot_own [own]: "cc_propertyId dto = p \<Longrightarrow> keeps (others p) (postChargeFromSnapshotWithOutcome L now ids inTx f dto tax adj key)"
  unfolding postChargeFromSnapshotWithOutcome_def postInTransaction_def emitSnapshotChargeWebhooks_def
  by (intro audit_keeps own emitPosted_keeps; simp add: frozenPart_def)

lemma tariff_own [own]: "keeps (others p) (postTariff L now A ids p d r st)"
  unfolding postTariff_def withAcceptedPricingLock_def acceptedTariff_def emitSnapshotChargeWebhooks_def Let_def if_False
  by (intro audit_keeps own emitPosted_keeps; simp add: tariffDto_def)

lemma update_own [own]: "(\<And>r. q r \<Longrightarrow> rv_propertyId r = p \<and> rv_propertyId (f r) = p) \<Longrightarrow> keeps (others p) (updateReservation q f)"
  unfolding updateReservation_def by (rule keeps_modify) (auto simp: others_def intro!: filter_upd_disjoint)

lemma noShow_own [own]: "keeps (others p) (markNoShow E i p)"
  unfolding markNoShow_def claimTransition_def findByIdRaw_def by (intro audit_keeps own) simp

lemma status_own [own]: "keeps (others p) (advanceStayovers now A p d)" "keeps (others p) (markDueOuts now A p d)"
    "keeps (others p) (lockChargesForDate A p d)"
  unfolding advanceStayovers_def markDueOuts_def lockChargesForDate_def Let_def
  by (intro audit_keeps own; auto simp: others_def lockedOn_def intro!: filter_upd_disjoint)+

text \<open>The services keep to the property they are called for.\<close>

definition tenant_bound :: "('z audit_db_scheme) audit_env \<Rightarrow> bool" where
  "tenant_bound A \<longleftrightarrow> (\<forall>p d. keeps (others p) (ad_postPerNight A p d)) \<and> (\<forall>s. keeps (others (sm_propertyId s)) (ad_settle A s))
     \<and> (\<forall>p d. keeps (others p) (ad_stayoverTasks A p d)) \<and> (\<forall>p d. keeps (others p) (ad_revenueSummary A p d))"

lemma settle_own:
  assumes "tenant_bound A"
  shows "keeps (others p) (settleNoShow L now A p fee r)"
proof -
  have "keeps (others p) (ad_settle A s)" if "sm_propertyId s = p" for s
    using assms that by (auto simp: tenant_bound_def)
  then show ?thesis unfolding settleNoShow_def by (intro audit_keeps evaluate_keeps) simp
qed

lemma run_own:
  assumes "tenant_bound A"
  shows "keeps (others p) (runAudit L E A newId ids p d)"
  unfolding runAudit_def createOrGetAuditRun_def failAuditRun_def auditDay_def postRoomTariffs_def processNoShows_def processNoShow_def Let_def
  by (intro audit_keeps own settle_own complete_keeps assms) (use assms in \<open>auto simp: tenant_bound_def others_def\<close>)

section \<open>Example runs\<close>

text \<open>A hotel with one posted charge; the services of the audit do nothing, the clocks are in UTC.\<close>

definition demo_services :: "audit_db audit_env" where
  "demo_services = \<lparr>ad_dateOf = (\<lambda>t. iso_of_day (nat (t div 86400000 + 719528))), ad_shiftDays = (\<lambda>n t. t + 86400000 * n),
     ad_postPerNight = (\<lambda>_ _. returnS []), ad_settle = (\<lambda>_. returnS ()), ad_stayoverTasks = (\<lambda>_ _. returnS ()),
     ad_revenueSummary = (\<lambda>_ _. returnS ''{}'')\<rparr>"

definition demo_clerk :: "audit_db stay_env" where
  "demo_clerk = \<lparr>en_clock = demo_clock, en_today = ''240228'', en_outbox = False, en_listeners = (\<lambda>_ _. Inr ()),
     en_cipher = None, en_settleCancellation = (\<lambda>_ _. returnS (''0.00'', True)), en_authorizePayment = (\<lambda>_. returnS ''pay''),
     en_ensurePackageComponents = (\<lambda>_ _. returnS ()), en_postOnceForReservation = (\<lambda>_ _. returnS ()),
     en_applyHeldDeposits = (\<lambda>_ _ _. returnS ()), en_capturePayment = (\<lambda>_ _. returnS ()), en_voidPayment = (\<lambda>_ _. returnS ())\<rparr>"

definition demo_tables :: "reservation list \<Rightarrow> audit_db world" where
  "demo_tables rs = \<lparr>wdb = \<lparr>domainEventOutbox = [], auditLogs = [], roomTypes = [demo_type], rooms = [demo_room VacantClean],
     housekeepingTasks = [], maintenanceTickets = [], roomInventoryBlocks = [], properties = [demo_property],
     guests = [], bookings = [], reservations = rs, reservationGuests = [], ratePlans = [demo_plan],
     rateRestrictions = [], icalFeeds = [], icalBlocks = [], taxProfiles = [], taxRules = [],
     folios = [demo_folio ''f1'' ''100.00''], charges = [demo_charge], payments = [],
     folioRoutingRules = [], cancellationPolicies = [], auditRuns = []\<rparr>, wevents = []\<rparr>"

lemma demo_services_sel [simp]:
  "ad_postPerNight demo_services p d = returnS []" "ad_settle demo_services s = returnS ()"
  "ad_stayoverTasks demo_services p d = returnS ()" "ad_revenueSummary demo_services p d = returnS ''{}''"
  by (simp_all add: demo_services_def)

lemma demo_services_ok: "discreet demo_services" "stays_untouched demo_services" "tenant_bound demo_services"
    "keeps charges (ad_revenueSummary demo_services p d)"
  by (simp_all add: discreet_def stays_untouched_def tenant_bound_def held.basic)

lemma utc_2024: "utcTime ''2024-02-28'' t = Some (1709078400000 + t)"
proof -
  have "iso_pattern ''2024-02-28''" by code_simp
  then show ?thesis by (simp add: utcTime_def parse_2024)
qed

lemma demo_insertable: "auditRunInsertable ''p'' ''2024-02-28'' (wdb (demo_tables rs))"
proof -
  have "isCanonicalCalendarDate ''2024-02-28''"
    unfolding canonical_iff using days_2024 by (intro exI [of _ 739309]) (simp add: last_day_val)
  then show ?thesis by (simp add: auditRunInsertable_def demo_tables_def demo_property_def)
qed

lemma demo_columns: "numeric12_2 ref_numlib (dec_toFixed ref_numlib 2 0) = Inr ''0.00''"
    "\<exists>t. numericR ref_numlib 4 0 (show_nat 0) = Inr t"
proof -
  have "dec_toFixed ref_numlib 2 (0::rat) = show_fixed 2 0" by (simp add: ref_numlib_def)
  then show "numeric12_2 ref_numlib (dec_toFixed ref_numlib 2 0) = Inr ''0.00''" by (simp add: ledger_shows ledger_columns)
  have "show_nat 0 = ''0''" by (simp add: show_eval)
  with ref.numeric_text [of "''0''" 0 0 4] ledger_texts(4) show "\<exists>t. numericR ref_numlib 4 0 (show_nat 0) = Inr t"
    by (auto simp: numericR_def)
qed

text \<open>An audit of a hotel without stays completes.\<close>

lemma demo_audit_day:
  assumes "reservations (wdb w) = []"
  shows "\<exists>r w'. auditDay ref_numlib demo_clerk demo_services ids ''p'' ''2024-02-28'' i w = (Inr r, w')
    \<and> charges (wdb w') = upd (lockedOn demo_services ''p'' ''2024-02-28'')
        (\<lambda>c. c\<lparr>ch_isLocked := True, ch_lockedByAuditDate := Some 1709121600000\<rparr>) (charges (wdb w))
    \<and> folios (wdb w') = folios (wdb w) \<and> payments (wdb w') = payments (wdb w)"
proof -
  obtain t where t: "numericR ref_numlib 4 0 (show_nat 0) = Inr t" using demo_columns(2) by blast
  have tariffs: "postRoomTariffs ref_numlib now demo_services ids ''p'' ''2024-02-28'' w
      = (Inr (dec_toFixed ref_numlib 2 0, dec_toFixed ref_numlib 2 0, 0, []), w)" for now
    using assms by (simp add: postRoomTariffs_def op_defs noTariffs_def)
  have shows': "processNoShows ref_numlib demo_clerk demo_services ''p'' ''2024-02-28'' w
      = (Inr \<lparr>ns_count = 0, ns_reservationIds = [], ns_errors = []\<rparr>, w)"
    using assms by (simp add: processNoShows_def op_defs noShowCandidates_def)
  obtain n where n: "addDays demo_services ''2024-02-28'' 1 = Inr n" by (simp add: addDays_def utc_2024)
  have idle: "updateReservation q f w = (Inr (), w)" for q f
    using assms by (simp add: updateReservation_iff)
  show ?thesis
    by (simp add: auditDay_def bindS_def tariffs shows' n t liftS_def returnS_def emit_def advanceStayovers_def markDueOuts_def
        idle getS_def lockChargesForDate_def modifyS_def utc_2024 completeAuditRun_def demo_columns(1) [simplified] ledger_shows ledger_columns Let_def)
qed

lemma demo_old: "iso_of_day 719528 \<le> ''2024-02-28''"
  using iso_of_day_less [of 739309 719528] by (simp add: days_2024 last_day_val not_less)

definition demo_broken :: "audit_db audit_env" where
  "demo_broken = demo_services\<lparr>ad_postPerNight := (\<lambda>_ _. throwS (Error ''down''))\<rparr>"

definition demo_ids2 :: "uuid \<Rightarrow> nat \<Rightarrow> uuid" where
  "demo_ids2 i k = i @ CHR ''-'' # show_nat k"

lemma demo_audit_run:
  "\<exists>row w1. runAudit ref_numlib demo_clerk demo_services ''a1'' ids ''p'' ''2024-02-28'' (demo_tables []) = (Inr (False, row), w1)
    \<and> charges (wdb w1) = [demo_charge\<lparr>ch_isLocked := True, ch_lockedByAuditDate := Some 1709121600000\<rparr>]
    \<and> folios (wdb w1) = [demo_folio ''f1'' ''100.00''] \<and> payments (wdb w1) = []"
proof -
  let ?w = "(demo_tables [])\<lparr>wdb := (wdb (demo_tables []))\<lparr>auditRuns := [newAuditRun ''a1'' 0 ''p'' ''2024-02-28'']\<rparr>,
    wevents := [\<lparr>ev_name = ''audit.started'', ev_entityType = ''audit_run'', ev_entityId = ''a1'', ev_propertyId = Some ''p'',
      ev_data = [(''businessDate'', Some ''2024-02-28'')]\<rparr>]\<rparr>"
  obtain r w1 where day: "auditDay ref_numlib demo_clerk demo_services ids ''p'' ''2024-02-28'' ''a1'' ?w = (Inr r, w1)"
    and w1: "charges (wdb w1) = upd (lockedOn demo_services ''p'' ''2024-02-28'')
        (\<lambda>c. c\<lparr>ch_isLocked := True, ch_lockedByAuditDate := Some 1709121600000\<rparr>) (charges (wdb ?w))"
      "folios (wdb w1) = folios (wdb ?w)" "payments (wdb w1) = payments (wdb ?w)"
    using demo_audit_day [of ?w ids "''a1''"] by (auto simp: demo_tables_def)
  have run: "runAudit ref_numlib demo_clerk demo_services ''a1'' ids ''p'' ''2024-02-28'' (demo_tables []) = (Inr (False, r), w1)"
    using day demo_insertable [of "[]"]
    by (simp add: runAudit_def createOrGetAuditRun_def op_defs catchS_def newAuditRun_def demo_clerk_def demo_clock_def) (simp add: demo_tables_def)
  have "lockedOn demo_services ''p'' ''2024-02-28'' demo_charge"
    using demo_old by (simp add: lockedOn_def demo_charge_def demo_services_def)
  with run w1 show ?thesis by (auto simp: demo_tables_def)
qed

section \<open>Properties\<close>

text \<open>
  C7. A completed audit closes its day: every charge of the property with a service date up to the
  business date is locked, and whatever the guest ledger does afterwards, each of these charges
  stays exactly as it is.
\<close>

theorem audit_closes_day:
  assumes "numerics L dval" and "runAudit L E A newId ids p d w = (Inr (False, row), w1)"
    and "keeps charges (ad_revenueSummary A p d)" and "books (wdb w1)" and "(ledger_step L)\<^sup>*\<^sup>* w1 w2"
    and "c \<in> set (charges (wdb w1))" and "ch_propertyId c = p" and "ad_dateOf A (ch_serviceDate c) \<le> d"
  shows "ch_isLocked c \<and> c \<in> set (charges (wdb w2))"
proof -
  have "\<exists>i w0 r. auditDay L E A ids p d i w0 = (Inr r, w1)"
    using assms(2) unfolding runAudit_def bindS_Inr_iff case_prod_unfold
    by (auto simp: bindS_Inr_iff catchS_Inr_iff returnS_iff throwS_iff split: if_splits)
  then have "ch_isLocked c" using day_locks assms(3,6-8) by blast
  moreover have "ledger_inv (wdb w1) (wdb w2)" by (rule numerics.ledger_run_inv [OF assms(1,5,4)])
  ultimately show ?thesis using assms(6) by (auto simp: ledger_inv_def ledger_grows_def)
qed

theorem audit_closes_day_witness:
  "\<exists>row w1 w2. runAudit ref_numlib demo_clerk demo_services ''a1'' demo_ids2 ''p'' ''2024-02-28'' (demo_tables []) = (Inr (False, row), w1)
    \<and> ledger_step ref_numlib w1 w2 \<and> demo_charge\<lparr>ch_isLocked := True, ch_lockedByAuditDate := Some 1709121600000\<rparr> \<in> set (charges (wdb w2))"
proof -
  let ?c = "demo_charge\<lparr>ch_isLocked := True, ch_lockedByAuditDate := Some 1709121600000\<rparr>"
  obtain row w1 where run: "runAudit ref_numlib demo_clerk demo_services ''a1'' demo_ids2 ''p'' ''2024-02-28'' (demo_tables []) = (Inr (False, row), w1)"
    and w1: "charges (wdb w1) = [?c]" "folios (wdb w1) = [demo_folio ''f1'' ''100.00'']" "payments (wdb w1) = []"
    using demo_audit_run by blast
  have b: "books (wdb w1)" using w1
    by (simp add: books_except_def rows_ok_def charge_ok_def folio_balanced_def chargeTotal_def paymentTotal_def folioCharges_def
        folioPayments_def demo_folio_def demo_charge_def charge_value_def ledger_texts ledger_money)
  obtain n w2 where "lockCharges ''f1'' ''p'' 0 w1 = (Inr n, w2)" by (simp add: lockCharges_def op_defs)
  then have step: "ledger_step ref_numlib w1 w2" by (rule ledger_step.lock)
  have d: "ch_propertyId ?c = ''p''" "ad_dateOf demo_services (ch_serviceDate ?c) \<le> ''2024-02-28''"
    using demo_old by (simp_all add: demo_charge_def demo_services_def)
  show ?thesis
    using audit_closes_day [OF ref.numerics_axioms run demo_services_ok(4) b r_into_rtranclp [of "ledger_step ref_numlib", OF step], of ?c]
      w1(1) d run step by auto
qed

text \<open>
  C8. A day is audited once, whatever comes of it: after the first run there is one row for the day,
  completed when the run returned and failed when it threw. Every later run of that day changes
  nothing; it throws a conflict when the row is completed, and returns the row as already run
  otherwise. So the day of a failed audit can never be closed.
\<close>

theorem day_is_decided_once:
  assumes "runAudit L E A newId ids p d w = (x, w1)" and "discreet A" and "auditRunInsertable p d (wdb w)"
    and "\<forall>r\<in>set (auditRuns (wdb w)). \<not> auditRow p d r" and "newId \<notin> ar_id ` set (auditRuns (wdb w))"
  shows "\<exists>row. auditRuns (wdb w1) = auditRuns (wdb w) @ [row]
    \<and> (case x of Inl _ \<Rightarrow> ar_status row = ArFailed \<and> runAudit L' E' A' newId' ids' p d w1 = (Inr (True, Some row), w1)
         | Inr (already, result) \<Rightarrow> \<not> already \<and> result = Some row \<and> ar_status row = ArCompleted
             \<and> runAudit L' E' A' newId' ids' p d w1
                 = (Inl (ConflictException (''Night audit for '' @ d @ '' already completed'')), w1))"
proof -
  obtain row where row: "auditRuns (wdb w1) = auditRuns (wdb w) @ [row]" "auditRow p d row" "auditRunInsertable p d (wdb w1)"
    and x: "case x of Inl _ \<Rightarrow> ar_status row = ArFailed
         | Inr (already, result) \<Rightarrow> \<not> already \<and> result = Some row \<and> ar_status row = ArCompleted"
    using first_run [OF assms] by blast
  have "sel1 (auditRow p d) (auditRuns (wdb w)) = None" using assms(4) by (simp add: find_None_iff)
  then have "sel1 (auditRow p d) (auditRuns (wdb w1)) = Some row" using row(1,2) by (simp add: find_append)
  note second = second_run [OF row(3) this]
  show ?thesis using row(1) x second by (intro exI [of _ row]) (auto split: sum.splits)
qed

theorem day_is_decided_once_witness:
  "\<exists>row w1. runAudit ref_numlib demo_clerk demo_broken ''a1'' demo_ids2 ''p'' ''2024-02-28'' (demo_tables []) = (Inl (Error ''down''), w1)
    \<and> auditRuns (wdb w1) = [row] \<and> ar_status row = ArFailed
    \<and> runAudit ref_numlib demo_clerk demo_services ''a2'' demo_ids2 ''p'' ''2024-02-28'' w1 = (Inr (True, Some row), w1)"
proof -
  obtain x w1 where run: "runAudit ref_numlib demo_clerk demo_broken ''a1'' demo_ids2 ''p'' ''2024-02-28'' (demo_tables []) = (x, w1)" by fastforce
  have fails: "x = Inl (Error ''down'')"
    using run demo_insertable [of "[]"]
    by (simp add: runAudit_def createOrGetAuditRun_def op_defs catchS_def auditDay_def postRoomTariffs_def demo_broken_def demo_tables_def
        failAuditRun_def split: if_splits)
  have "discreet demo_broken" using demo_services_ok(1) by (simp add: discreet_def demo_broken_def held.basic)
  from day_is_decided_once [OF run this demo_insertable, of ref_numlib demo_clerk demo_services "''a2''" demo_ids2] run fails
  show ?thesis by (auto simp: demo_tables_def)
qed

text \<open>
  C15. Whatever an audit does to the stays, and whether it returns or throws, no physical room is
  given to two live stays with a common night, each reservation is still there under its
  property, and its status is reached along the table of valid transitions.
\<close>

theorem audit_keeps_stays:
  assumes "runAudit L E A newId ids p d w = (x, w1)" and "stays_untouched A" and "one_stay_per_room (reservations (wdb w))"
  shows "one_stay_per_room (reservations (wdb w1)) \<and> (\<forall>r\<in>set (reservations (wdb w)). \<exists>r'\<in>set (reservations (wdb w1)).
     rv_id r' = rv_id r \<and> rv_propertyId r' = rv_propertyId r
     \<and> (\<exists>ss. stay.path (rv_status r) ss \<and> rv_status r' = last (rv_status r # ss)))"
  using doesD [OF run_follow [OF assms(2)] assms(1)] assms(3) unfolding stays_follow_def by blast

theorem audit_keeps_stays_witness:
  "one_stay_per_room (reservations (wdb (snd (runAudit ref_numlib demo_clerk demo_services ''a1'' demo_ids2 ''p'' ''2024-02-28''
     (demo_tables [demo_stay RsAssigned, demo_second])))))"
proof -
  obtain x w1 where run: "runAudit ref_numlib demo_clerk demo_services ''a1'' demo_ids2 ''p'' ''2024-02-28''
      (demo_tables [demo_stay RsAssigned, demo_second]) = (x, w1)" by fastforce
  have "one_stay_per_room (reservations (wdb (demo_tables [demo_stay RsAssigned, demo_second])))"
    by (simp add: one_stay_per_room_def demo_tables_def demo_stay_def demo_second_def same_room_def)
  with audit_keeps_stays [OF run demo_services_ok(2)] run show ?thesis by simp
qed



end
