(* ===== verification/AuditCharges.thy ===== *)
theory AuditCharges
  imports AuditRuns
begin

text \<open>
  The money of a night audit: a stay is charged once for a night however often the tariffs are
  posted, and what a no-show owes.
\<close>

section \<open>Charges are appended\<close>

interpretation appends: step_relation "\<lambda>a b. \<exists>xs. charges b = charges a @ xs"
proof
  show "\<exists>xs. charges a = charges a @ xs" for a :: "'z folio_db_scheme" by simp
  show "\<exists>xs. charges c = charges a @ xs" if "\<exists>xs. charges b = charges a @ xs" "\<exists>xs. charges c = charges b @ xs"
    for a b c :: "'z folio_db_scheme"
    using that by fastforce
qed

lemma insert_appends: "does (\<lambda>a b. \<exists>xs. charges b = charges a @ xs) (insertCharge L c)"
  unfolding insertCharge_def by (intro appends.rules) (auto simp: does_def modifyS_iff)

lemma post_appends: "does (\<lambda>a b. \<exists>xs. charges b = charges a @ xs) (postCharge L now ids inTx f dto pers)"
proof -
  have kept: "does (\<lambda>a b. \<exists>xs. charges b = charges a @ xs) m" if "keeps charges m" for m :: "('z folio_db_scheme, 'x) op"
    using that by (simp add: does_def)
  have recalc: "keeps charges (recalculateBalance L now f p)" for p
    unfolding recalculateBalance_def Let_def by (intro keeps_rules) simp
  have taxes: "does (\<lambda>a b. \<exists>xs. charges b = charges a @ xs) (postTaxes L ids f dto sd parent k items)" for sd parent k items
    by (induction items arbitrary: k) (auto intro!: appends.rules insert_appends)
  show ?thesis
    unfolding postCharge_def insertChargeOnce_def Let_def
    by (intro appends.rules insert_appends taxes kept [OF recalc] kept [OF tax_frame] kept [OF find_frame(1)])
qed

lemma find_charge_appended:
  "does (\<lambda>a b. \<exists>xs. charges b = charges a @ xs) m \<Longrightarrow> m w = (r, w') \<Longrightarrow> List.find q (charges (wdb w)) = Some c \<Longrightarrow>
   List.find q (charges (wdb w')) = Some c"
  by (fastforce simp: find_append dest: doesD)

section \<open>The folio of a stay stays its folio\<close>

lemma find_map_view: "map_option g (List.find (\<lambda>x. P (g x)) xs) = List.find P (map g xs)"
  by (induction xs) auto

lemma owners_same:
  assumes "folio_owners b = folio_owners a"
  shows "map_option fo_id (openGuestFolio i p b) = map_option fo_id (openGuestFolio i p a)"
    and "map_option fo_status (sel1 (folioRow f p) (folios b)) = map_option fo_status (sel1 (folioRow f p) (folios a))"
proof -
  let ?g = "\<lambda>x. (fo_id x, fo_propertyId x, fo_reservationId x, fo_type x, fo_status x)"
  have view: "map_option ?g (List.find (\<lambda>x. P (?g x)) (folios b)) = map_option ?g (List.find (\<lambda>x. P (?g x)) (folios a))" for P
    using find_map_view [of ?g P "folios b"] find_map_view [of ?g P "folios a"] assms by (simp add: folio_owners_def)
  have fst': "map_option fo_id x = map_option fst (map_option ?g x)" "map_option fo_status x = map_option (snd \<circ> snd \<circ> snd \<circ> snd) (map_option ?g x)" for x
    by (cases x; simp)+
  show "map_option fo_id (openGuestFolio i p b) = map_option fo_id (openGuestFolio i p a)"
    unfolding fst'(1) openGuestFolio_def
    using view [of "\<lambda>(j, q, r, ty, s). r = Some i \<and> q = p \<and> ty = FtGuest \<and> s = FsOpen"] by simp
  show "map_option fo_status (sel1 (folioRow f p) (folios b)) = map_option fo_status (sel1 (folioRow f p) (folios a))"
    unfolding fst'(2) using view [of "\<lambda>(j, q, r, ty, s). j = f \<and> q = p"] by simp
qed

lemma checked_same: "folio_owners b = folio_owners a \<Longrightarrow> posting_checked L f dto pers sd a \<Longrightarrow> posting_checked L f dto pers sd b"
  using owners_same(2) [of b a f "cc_propertyId dto"] by (auto simp: posting_checked_def map_option_case split: option.splits)

section \<open>Replays\<close>

text \<open>A posting whose source key is taken returns the charge that has it.\<close>

lemma taken_replay:
  assumes "posting_checked L f dto pers sd (wdb w)" and "present (pe_sourceKey pers)"
    and "storeCharge L (chargeOf i f dto pers sd) = Inr row" and "list_ex (sameSource row) (charges (wdb w))"
    and "sel1 (\<lambda>x. ch_propertyId x = cc_propertyId dto \<and> ch_folioId x = Some f \<and> ch_sourceKey x = pe_sourceKey pers) (charges (wdb w)) = Some c"
  shows "postCharge L now ids inTx f dto pers w = (Inr (c, [], False), w)"
proof -
  have "chargeOf (ids 0) f dto pers sd = (chargeOf i f dto pers sd)\<lparr>ch_id := ids 0\<rparr>" by (simp add: chargeOf_def)
  with assms(3) have st: "storeCharge L (chargeOf (ids 0) f dto pers sd) = Inr (row\<lparr>ch_id := ids 0\<rparr>)"
    using storeCharge_id [of L "ids 0" "chargeOf i f dto pers sd"] by simp
  have "list_ex (sameSource (row\<lparr>ch_id := ids 0\<rparr>)) (charges (wdb w))"
    using assms(4) by (simp add: sameSource_def list_ex_iff)
  then show ?thesis
    using assms(1,2,5) st
    by (auto simp: posting_checked_def postCharge_def bindS_Inr_iff guardS_Inr_iff findFolio_iff liftS_iff insertChargeOnce_iff getS_iff
        someS_Inr_iff returnS_iff)
qed

lemma keyed_posting:
  assumes "postCharge L now ids inTx f dto pers w = (Inr (c, ts, created), w1)" and "present (pe_sourceKey pers)"
  shows "\<exists>sd row. posting_checked L f dto pers sd (wdb w) \<and> storeCharge L (chargeOf (ids 0) f dto pers sd) = Inr row
    \<and> list_ex (sameSource row) (charges (wdb w1))
    \<and> sel1 (\<lambda>x. ch_propertyId x = cc_propertyId dto \<and> ch_folioId x = Some f \<and> ch_sourceKey x = pe_sourceKey pers) (charges (wdb w1)) = Some c"
proof -
  obtain sd where chk: "posting_checked L f dto pers sd (wdb w)" and step: "if created then posts_new L now ids f dto pers sd w c ts w1
     else w1 = w \<and> sel1 (\<lambda>x. ch_propertyId x = cc_propertyId dto \<and> ch_folioId x = Some f \<and> ch_sourceKey x = pe_sourceKey pers) (charges (wdb w)) = Some c"
    using postCharge_Inr [OF assms(1)] by (cases created) auto
  have key: "pe_sourceKey pers \<noteq> None" using assms(2) by (cases "pe_sourceKey pers") auto
  have stored: "\<exists>row. storeCharge L (chargeOf (ids 0) f dto pers sd) = Inr row"
    using assms chk
    by (auto simp: posting_checked_def postCharge_def bindS_Inr_iff guardS_Inr_iff findFolio_iff liftS_iff insertChargeOnce_iff Let_def)
  then obtain row where row: "storeCharge L (chargeOf (ids 0) f dto pers sd) = Inr row" by blast
  have sel: "ch_folioId row = Some f" "ch_propertyId row = cc_propertyId dto" "ch_sourceKey row = pe_sourceKey pers"
    using storeCharge_sel [OF row] by (simp_all add: chargeOf_def)
  show ?thesis
  proof (cases created)
    case False
    then have "w1 = w" and found: "sel1 (\<lambda>x. ch_propertyId x = cc_propertyId dto \<and> ch_folioId x = Some f
        \<and> ch_sourceKey x = pe_sourceKey pers) (charges (wdb w)) = Some c" using step by auto
    with find_SomeD [OF found] sel key have "list_ex (sameSource row) (charges (wdb w1))"
      by (auto simp: list_ex_iff sameSource_def)
    with chk row found \<open>w1 = w\<close> show ?thesis by blast
  next
    case True
    then have new: "posts_new L now ids f dto pers sd w c ts w1" using step by simp
    then have c: "c = row" and none: "\<not> list_ex (sameSource c) (charges (wdb w))"
      using row by (auto simp: posts_new_def insertCharge_iff list_ex_iff)
    note rows = posts_new_rows [OF new]
    have "sel1 (\<lambda>x. ch_propertyId x = cc_propertyId dto \<and> ch_folioId x = Some f \<and> ch_sourceKey x = pe_sourceKey pers) (charges (wdb w)) = None"
      using none c sel key by (auto simp: find_None_iff list_ex_iff sameSource_def)
    then have "sel1 (\<lambda>x. ch_propertyId x = cc_propertyId dto \<and> ch_folioId x = Some f \<and> ch_sourceKey x = pe_sourceKey pers) (charges (wdb w1)) = Some c"
      using rows c sel by (simp add: find_append)
    moreover have "list_ex (sameSource row) (charges (wdb w1))" using rows c sel key by (simp add: sameSource_def)
    ultimately show ?thesis using chk row by blast
  qed
qed

section \<open>Midnight\<close>

lemma utcTime_midnight: "utcTime d 0 = Some t \<longleftrightarrow> (\<exists>n<last_day. iso_pattern d \<and> parse_utc d = Some n \<and> t = (int n - 719528) * 86400000)"
  using parse_utc_bound by (auto simp: utcTime_def split: if_splits)

lemma newDate_midnight:
  assumes "utcTime d 0 = Some t"
  shows "newDate (toISOString t) = Inr t"
proof -
  obtain n where n: "n < last_day" "t = (int n - 719528) * 86400000" using assms by (auto simp: utcTime_midnight)
  have "toISOString t = iso_of_day n @ ''T00:00:00.000Z''"
    by (simp add: toISOString_def n Let_def frac_digits_2 numeral_3_eq_3 digit_char_eval)
  moreover have "iso_time ''T00:00:00.000Z'' = Some 0" by code_simp
  moreover have "length (iso_of_day n) = 10" using iso_pattern_iso_of_day [of n] by (simp add: iso_pattern_def)
  ultimately show ?thesis using n by (simp add: newDate_def parse_iso_of_day Let_def)
qed

section \<open>A second tariff\<close>

lemma keeps_step: "keeps g m \<Longrightarrow> m w = (x, w') \<Longrightarrow> g (wdb w') = g (wdb w)"
  by (rule doesD)

text \<open>A posting from an accepted price: the base charge, then postings that only append.\<close>

lemma snapshot_parts:
  assumes "postChargeFromSnapshotWithOutcome L now ids True f dto tax adj key w = (Inr outcome, w1)"
  obtains posted wb m where "postCharge L now ids True f (dto\<lparr>cc_skipTaxCalculation := True\<rparr>)
        \<lparr>pe_parentChargeId = None, pe_sourceKey = key, pe_revenueRole = None\<rparr> w = (Inr posted, wb)"
    "m wb = (Inr outcome, w1)" "does (\<lambda>a b. \<exists>xs. charges b = charges a @ xs) m" "keeps folio_owners m"
proof -
  have "postInTransaction L now ids f dto tax adj key w = (Inr outcome, w1)"
    using assms by (auto simp: postChargeFromSnapshotWithOutcome_def bindS_Inr_iff returnS_iff split: if_splits)
  then show ?thesis
    unfolding postInTransaction_def bindS_Inr_iff [of "postCharge L now ids True f d q" for d q]
    by (elim exE conjE) (rule that, assumption, assumption, intro appends.rules post_appends, intro keeps_rules stay_frame)
qed

text \<open>The same posting again, in the same or another transaction.\<close>

lemma snapshot_replay:
  assumes "postChargeFromSnapshotWithOutcome L now ids True f dto tax adj (Some key) w = (Inr outcome, w1)" and "key \<noteq> []"
    and "wdb w2 = wdb w1"
  shows "\<exists>outcome2. postChargeFromSnapshotWithOutcome L now2 ids2 True f dto tax adj (Some key) w2 = (Inr outcome2, w2)
     \<and> \<not> so_wasCreated outcome2"
proof -
  let ?dto = "dto\<lparr>cc_skipTaxCalculation := True\<rparr>"
  let ?pers = "\<lparr>pe_parentChargeId = None, pe_sourceKey = Some key, pe_revenueRole = None\<rparr>"
  obtain posted wb m where first: "postCharge L now ids True f ?dto ?pers w = (Inr posted, wb)"
    and m: "does (\<lambda>a b. \<exists>xs. charges b = charges a @ xs) m" "keeps folio_owners m" "m wb = (Inr outcome, w1)"
    by (rule snapshot_parts [OF assms(1)]) (rule that)
  obtain base ts created where post: "postCharge L now ids True f ?dto ?pers w = (Inr (base, ts, created), wb)"
    using first by (cases posted) auto
  have p: "present (pe_sourceKey ?pers)" using assms(2) by simp
  from keyed_posting [OF post p] obtain sd row where chk: "posting_checked L f ?dto ?pers sd (wdb w)"
    and row: "storeCharge L (chargeOf (ids 0) f ?dto ?pers sd) = Inr row" and taken: "list_ex (sameSource row) (charges (wdb wb))"
    and found: "sel1 (\<lambda>x. ch_propertyId x = cc_propertyId ?dto \<and> ch_folioId x = Some f \<and> ch_sourceKey x = pe_sourceKey ?pers) (charges (wdb wb)) = Some base"
    by blast
  have "folio_owners (wdb wb) = folio_owners (wdb w)" by (rule keeps_step [OF folio_frame(1) post]) (rule blind_views(5))
  then have "folio_owners (wdb w2) = folio_owners (wdb w)" using keeps_step [OF m(2,3)] assms(3) by simp
  then have chk2: "posting_checked L f ?dto ?pers sd (wdb w2)" using chk by (rule checked_same)
  have taken2: "list_ex (sameSource row) (charges (wdb w2))" using taken doesD [OF m(1,3)] assms(3) by auto
  have found2: "sel1 (\<lambda>x. ch_propertyId x = cc_propertyId ?dto \<and> ch_folioId x = Some f \<and> ch_sourceKey x = pe_sourceKey ?pers) (charges (wdb w2)) = Some base"
    using find_charge_appended [OF m(1,3) found] assms(3) by simp
  from taken_replay [OF chk2 p row taken2 found2]
  have "postCharge L now2 ids2 True f ?dto ?pers w2 = (Inr (base, [], False), w2)" .
  then show ?thesis
    by (auto simp: postChargeFromSnapshotWithOutcome_def postInTransaction_def bindS_Inr_iff getS_iff returnS_iff)
qed

lemma lock_Inr: "withAcceptedPricingLock False p i work w = (Inr a, w') \<longleftrightarrow>
    sel1 (reservationRow i p) (reservations (wdb w)) \<noteq> None \<and> work w = (Inr a, w')"
  by (auto simp: withAcceptedPricingLock_def transactionS_Inr_iff bindS_Inr_iff getS_iff guardS_Inr_iff)

lemma accepted_keeps: "posting_blind g \<Longrightarrow> keeps g (acceptedTariff L now ids p d i)"
  unfolding acceptedTariff_def by (intro audit_keeps stay_frame snapshot_keeps)

lemma emitSnapshot_keeps: "keeps g (emitSnapshotChargeWebhooks f p outcome)"
  unfolding emitSnapshotChargeWebhooks_def by (intro keeps_rules emitPosted_keeps)

text \<open>Under the lock a second time: whatever it finds, it creates nothing.\<close>

definition nothing_new :: "(unit + folio \<times> string \<times> snapshotOutcome) option \<Rightarrow> bool" where
  "nothing_new lp \<longleftrightarrow> (\<forall>f rate outcome. lp = Some (Inr (f, rate, outcome)) \<longrightarrow> \<not> so_wasCreated outcome)"

lemma accepted_again:
  assumes run: "acceptedTariff L now ids p d i w = (Inr lp, w1)" and db: "wdb w2 = wdb w1"
  shows "\<exists>lp2. acceptedTariff L now2 ids2 p d i w2 = (Inr lp2, w2) \<and> nothing_new lp2"
proof -
  have rows: "reservations (wdb w2) = reservations (wdb w)" and own: "folio_owners (wdb w2) = folio_owners (wdb w)"
    using keeps_step [OF accepted_keeps [OF blind_views(3)] run] keeps_step [OF accepted_keeps [OF blind_views(5)] run] db by simp_all
  show ?thesis
  proof (cases "sel1 (\<lambda>r. reservationRow i p r \<and> inHouse (rv_status r)) (reservations (wdb w))")
    case None
    then show ?thesis by (simp add: acceptedTariff_def bindS_Inr_iff getS_iff returnS_iff rows nothing_new_def)
  next
    case (Some r)
    note r = Some
    show ?thesis
    proof (cases "\<exists>pricing night folio. rv_acceptedPricingSnapshot r = Some pricing \<and> sel1 (\<lambda>n. apn_date n = d) (ap_nights pricing) = Some night
        \<and> openGuestFolio (rv_id r) p (wdb w) = Some folio")
      case False
      then show ?thesis
        using r owners_same(1) [OF own, of "rv_id r" p]
        by (cases "rv_acceptedPricingSnapshot r"; cases "openGuestFolio (rv_id r) p (wdb w)";
            cases "sel1 (\<lambda>n. apn_date n = d) (ap_nights (the (rv_acceptedPricingSnapshot r)))")
          (auto simp: acceptedTariff_def bindS_Inr_iff getS_iff returnS_iff rows nothing_new_def split: option.splits)
    next
      case True
      then obtain pricing night folio where f: "rv_acceptedPricingSnapshot r = Some pricing"
          "sel1 (\<lambda>n. apn_date n = d) (ap_nights pricing) = Some night" "openGuestFolio (rv_id r) p (wdb w) = Some folio" by blast
      obtain folio2 where f2: "openGuestFolio (rv_id r) p (wdb w2) = Some folio2" "fo_id folio2 = fo_id folio"
        using owners_same(1) [OF own, of "rv_id r" p] f(3) by (cases "openGuestFolio (rv_id r) p (wdb w2)") auto
      obtain t outcome where t: "utcTime d 0 = Some t" and post: "postChargeFromSnapshotWithOutcome L now ids True (fo_id folio)
            (tariffDto p d (apn_roomAmount night) (ap_currencyCode pricing) (rv_guestId r) t) (apn_taxAmount night)
            (case ap_adjustment pricing of None \<Rightarrow> None
             | Some a \<Rightarrow> if adj_serviceDate a = d then Some (adj_amount a, adj_reason a) else None)
            (Some (tariffKey (rv_id r) d)) w = (Inr outcome, w1)"
        using run r f by (auto simp: acceptedTariff_def bindS_Inr_iff getS_iff liftS_iff returnS_iff split: option.splits)
      obtain outcome2 where "postChargeFromSnapshotWithOutcome L now2 ids2 True (fo_id folio)
            (tariffDto p d (apn_roomAmount night) (ap_currencyCode pricing) (rv_guestId r) t) (apn_taxAmount night)
            (case ap_adjustment pricing of None \<Rightarrow> None
             | Some a \<Rightarrow> if adj_serviceDate a = d then Some (adj_amount a, adj_reason a) else None)
            (Some (tariffKey (rv_id r) d)) w2 = (Inr outcome2, w2)" "\<not> so_wasCreated outcome2"
        using snapshot_replay [OF post _ db] by (auto simp: tariffKey_def)
      then show ?thesis using r f f2 t
        by (simp add: acceptedTariff_def bindS_Inr_iff getS_iff liftS_iff returnS_iff rows nothing_new_def)
    qed
  qed
qed

text \<open>A live tariff leaves a room charge of the date on the folio.\<close>

lemma live_posted:
  assumes "postCharge L now ids False f (tariffDto p d rate cur g t) noPersistence w = (Inr x, w1)"
    and "utcTime d 0 = Some t" and "ad_dateOf A t = d"
  shows "\<exists>c\<in>set (charges (wdb w1)). tariffPosted A f p d c"
proof -
  obtain c ts created where x: "x = (c, ts, created)" by (cases x)
  have "\<not> present (pe_sourceKey noPersistence)" by (simp add: noPersistence_def)
  with postCharge_Inr [OF assms(1) [unfolded x]] obtain sd where chk: "posting_checked L f (tariffDto p d rate cur g t) noPersistence sd (wdb w)"
    and new: "posts_new L now ids f (tariffDto p d rate cur g t) noPersistence sd w c ts w1" by (auto split: if_splits)
  have sd: "sd = t" using chk newDate_midnight [OF assms(2)] by (simp add: posting_checked_def tariffDto_def)
  from new have st: "storeCharge L (chargeOf (ids 0) f (tariffDto p d rate cur g t) noPersistence sd) = Inr c"
    by (auto simp: posts_new_def insertCharge_iff)
  from storeCharge_row [OF st] have "tariffPosted A f p d c"
    using assms(3) by (auto simp: tariffPosted_def chargeOf_def tariffDto_def sd)
  moreover have "c \<in> set (charges (wdb w1))" using posts_new_rows [OF new] by simp
  ultimately show ?thesis by blast
qed

lemma totals_noted [simp]: "tt_totalRoom (noteError m i st) = tt_totalRoom st" "tt_totalTax (noteError m i st) = tt_totalTax st"
    "tt_count (noteError m i st) = tt_count st"
  by (simp_all add: noteError_def)

text \<open>The tariff of one stay a second time: for accepted prices, and at the live rate.\<close>

lemma accepted_tariff_again:
  assumes run: "postTariff L now A ids p d r st w = (Inr st1, w1)" and Some: "rv_acceptedPricingSnapshot r \<noteq> None"
  shows "\<exists>st3. postTariff L now2 A ids2 p d r st2 w1 = (Inr st3, w1) \<and> tt_totalRoom st3 = tt_totalRoom st2
     \<and> tt_totalTax st3 = tt_totalTax st2 \<and> tt_count st3 = tt_count st2"
proof -
  from Some obtain lp wa where lp: "sel1 (reservationRow (rv_id r) p) (reservations (wdb w)) \<noteq> None"
      "acceptedTariff L now ids p d (rv_id r) w = (Inr lp, wa)"
    and rest: "(case lp of None \<Rightarrow> returnS st | Some (Inl _) \<Rightarrow> returnS (noteError (NoOpenFolio (rv_id r)) (rv_id r) st)
        | Some (Inr (folio, rate, outcome)) \<Rightarrow> bindS (emitSnapshotChargeWebhooks (fo_id folio) p outcome) (\<lambda>_.
            if \<not> so_wasCreated outcome then returnS st else liftS (addTariff L rate (so_taxCharges outcome) st))) wa = (Inr st1, w1)"
    using run by (simp add: postTariff_def bindS_Inr_iff [of "withAcceptedPricingLock x y z m" for x y z m] lock_Inr) blast
  have db: "wdb w1 = wdb wa"
    using rest keeps_step [OF emitSnapshot_keeps [of "\<lambda>db. db"]]
    by (auto simp: returnS_iff liftS_iff bindS_Inr_iff split: option.splits sum.splits prod.splits if_splits)
  obtain lp2 where lp2: "acceptedTariff L now2 ids2 p d (rv_id r) w1 = (Inr lp2, w1)" "nothing_new lp2"
    using accepted_again [OF lp(2) db] by blast
  have "reservations (wdb w1) = reservations (wdb w)" using keeps_step [OF accepted_keeps [OF blind_views(3)] lp(2)] db by simp
  with lp(1) lp2(1) have "withAcceptedPricingLock False p (rv_id r) (acceptedTariff L now2 ids2 p d (rv_id r)) w1 = (Inr lp2, w1)"
    by (simp add: lock_Inr)
  with lp2(2) Some show ?thesis
    by (auto simp: postTariff_def bindS_Inr_iff returnS_iff emitSnapshotChargeWebhooks_def nothing_new_def
        split: option.splits sum.splits prod.splits intro!: exI)
qed

lemma live_tariff_again:
  assumes run: "postTariff L now A ids p d r st w = (Inr st1, w1)" and None: "rv_acceptedPricingSnapshot r = None"
    and midnight: "\<forall>t. utcTime d 0 = Some t \<longrightarrow> ad_dateOf A t = d"
  shows "\<exists>st3. postTariff L now2 A ids2 p d r st2 w1 = (Inr st3, w1) \<and> tt_totalRoom st3 = tt_totalRoom st2
     \<and> tt_totalTax st3 = tt_totalTax st2 \<and> tt_count st3 = tt_count st2"
proof (cases "openGuestFolio (rv_id r) p (wdb w)")
  assume no: "openGuestFolio (rv_id r) p (wdb w) = None"
  then have "w1 = w" using run None by (simp add: postTariff_def bindS_Inr_iff getS_iff returnS_iff)
  then show ?thesis using no None by (simp add: postTariff_def bindS_Inr_iff getS_iff returnS_iff)
next
  fix folio assume f: "openGuestFolio (rv_id r) p (wdb w) = Some folio"
  have own: "folio_owners (wdb w1) = folio_owners (wdb w)" by (rule keeps_step [OF tariff_keeps [OF blind_views(5)] run])
  then obtain folio2 where f2: "openGuestFolio (rv_id r) p (wdb w1) = Some folio2" "fo_id folio2 = fo_id folio"
    using owners_same(1) [OF own, of "rv_id r" p] f by (cases "openGuestFolio (rv_id r) p (wdb w1)") auto
  have "\<exists>c\<in>set (charges (wdb w1)). tariffPosted A (fo_id folio) p d c"
  proof (cases "sel1 (tariffPosted A (fo_id folio) p d) (charges (wdb w))")
    assume none: "sel1 (tariffPosted A (fo_id folio) p d) (charges (wdb w)) = None"
    obtain rate t x where "utcTime d 0 = Some t"
      and "postCharge L now ids False (fo_id folio) (tariffDto p d rate (rv_currencyCode r) (rv_guestId r) t) noPersistence w = (Inr x, w1)"
      using run None f none by (auto simp: postTariff_def bindS_Inr_iff getS_iff liftS_iff returnS_iff split: option.splits)
    then show ?thesis using live_posted midnight by blast
  next
    fix c assume c: "sel1 (tariffPosted A (fo_id folio) p d) (charges (wdb w)) = Some c"
    then have "w1 = w" using run None f by (simp add: postTariff_def bindS_Inr_iff getS_iff returnS_iff)
    with find_SomeD [OF c] show ?thesis by blast
  qed
  then obtain c where "sel1 (tariffPosted A (fo_id folio) p d) (charges (wdb w1)) = Some c"
    by (cases "sel1 (tariffPosted A (fo_id folio) p d) (charges (wdb w1))") (auto dest: find_NoneD)
  with f2 None show ?thesis by (simp add: postTariff_def bindS_Inr_iff getS_iff returnS_iff)
qed

section \<open>What a no-show owes\<close>

lemma resolve_Inr: "resolvePolicyForRatePlan p i w = (Inr x, w') \<Longrightarrow> w' = w \<and>
    (\<forall>q. snd x = Some q \<longrightarrow> q \<in> set (cancellationPolicies (wdb w)))"
  by (auto simp: resolvePolicyForRatePlan_def bindS_Inr_iff getS_iff someS_Inr_iff returnS_iff split: if_splits dest!: find_SomeD)

text \<open>The end of the day of arrival is past the time of check-in.\<close>

lemma day_over: "0 \<le> h \<Longrightarrow> \<not> hoursLeft d (utcTime d 86399000) h"
  by (auto simp: hoursLeft_def utcTime_def split: option.splits)

lemma evaluate_no_show:
  assumes "evaluateCancellation L now (noShowInput p r) w = (Inr ev, w')"
  shows "\<exists>plan policy d x. resolvePolicyForRatePlan p (rv_ratePlanId r) w = (Inr (plan, policy), w)
     \<and> newDecimal L (rv_totalAmount r) = Inr d \<and> penaltyOf L (termsOf policy) d (rv_nights r) = Inr x \<and> w' = w
     \<and> \<not> ce_withinFreeWindow ev \<and> ce_penaltyAmount ev = dec_toFixed L 2 x
     \<and> ce_depositAction ev = resolveDepositAction (pt_depositHandling (termsOf policy)) False"
proof -
  have closed: "\<not> (0 < h \<and> hoursLeft (rv_arrivalDate r) (utcTime (rv_arrivalDate r) 86399000) h)" for h
    using day_over [of h] by auto
  obtain y wa where y: "resolvePolicyForRatePlan p (rv_ratePlanId r) w = (Inr y, wa)"
    using assms by (auto simp: evaluateCancellation_def bindS_Inr_iff noShowInput_def Let_def)
  obtain plan policy where "y = (plan, policy)" by (cases y)
  with assms y resolve_Inr [OF y] show ?thesis
    by (auto simp: evaluateCancellation_def bindS_Inr_iff liftS_iff returnS_iff noShowInput_def Let_def closed)
qed

text \<open>The part of the total that is due outside the free window.\<close>

definition penalty_share :: "policyTerms \<Rightarrow> int \<Rightarrow> rat" where
  "penalty_share x nights = (case pt_penaltyType x of PtNone \<Rightarrow> 0 | PtFirstNight \<Rightarrow> 1 / of_int (if 0 < nights then nights else 1)
     | PtPercentage \<Rightarrow> text_val (nvl (pt_penaltyPercentage x) ''0'') / 100 | PtFull \<Rightarrow> 1)"

text \<open>A percentage as the validator and the column \<open>numeric(5,2)\<close> leave it.\<close>

definition percentage_ok :: "cancellationPolicy \<Rightarrow> bool" where
  "percentage_ok x \<longleftrightarrow> (let s = nvl (pol_penaltyPercentage x) ''0'' in money_text s \<and> 0 \<le> text_val s \<and> text_val s \<le> 100)"

lemma share_bounds:
  assumes "\<forall>q. policy = Some q \<longrightarrow> percentage_ok q"
  shows "0 \<le> penalty_share (termsOf policy) n \<and> penalty_share (termsOf policy) n \<le> 1"
  using assms by (cases policy)
    (auto simp: penalty_share_def termsOf_def DEFAULT_POLICY_def percentage_ok_def Let_def divide_le_eq split: penaltyType.split)

context numerics
begin

lemma penalty_value:
  assumes "penaltyOf L (termsOf policy) t n = Inr x" and "dval t = Some v" and "scaled 2 v" and "\<bar>v\<bar> < 10 ^ 10"
    and "\<forall>q. policy = Some q \<longrightarrow> percentage_ok q" and "\<bar>n\<bar> < 2 ^ 53" and "digits20 (v / of_int (if 0 < n then n else 1))"
  shows "dval x = Some (v * penalty_share (termsOf policy) n)"
proof (cases "pt_penaltyType (termsOf policy)")
  case PtNone
  then show ?thesis using assms(1) int_val [of 0] by (auto simp: penaltyOf_def penalty_share_def)
next
  case PtFull
  then show ?thesis using assms(1,2) by (auto simp: penaltyOf_def penalty_share_def)
next
  case PtFirstNight
  let ?n = "if 0 < n then n else 1"
  have "dval (dec_int L ?n) = Some (of_int ?n)" using assms(6) by (intro int_val) auto
  with PtFirstNight assms(1,7) div_val [OF assms(2), of "dec_int L ?n" "of_int ?n"] show ?thesis
    by (auto simp: penaltyOf_def penalty_share_def)
next
  case PtPercentage
  then obtain q where q: "policy = Some q" by (cases policy) (auto simp: termsOf_def DEFAULT_POLICY_def)
  let ?s = "nvl (pol_penaltyPercentage q) ''0''"
  have s: "money_text ?s" "0 \<le> text_val ?s" "text_val ?s \<le> 100" using assms(5) q by (simp_all add: percentage_ok_def Let_def)
  obtain c where c: "newDecimal L ?s = Inr c" "dval c = Some (text_val ?s)" using newDecimal_text [OF money_textD(1) [OF s(1)]] by blast
  have hundred: "dval (dec_int L 100) = Some 100" using int_val [of 100] by simp
  have s4: "scaled 4 (text_val ?s / 100)" using money_textD(2) [OF s(1)] by (simp add: scaled_def mult.commute)
  have "digits20 (text_val ?s / 100)" using s(2,3) by (intro digits20I [OF s4]) simp
  then have pct: "dval (dec_div L c (dec_int L 100)) = Some (text_val ?s / 100)" using div_val [OF c(2) hundred] by simp
  have "\<bar>v * (text_val ?s / 100)\<bar> \<le> \<bar>v\<bar> * 1" unfolding abs_mult using s(2,3) by (intro mult_left_mono) auto
  then have "digits20 (v * (text_val ?s / 100))"
    using assms(4) by (intro digits20I [OF scaled_mult [OF assms(3) s4]]) simp
  then have "dval (dec_times L t (dec_div L c (dec_int L 100))) = Some (v * (text_val ?s / 100))" by (rule times_val [OF assms(2) pct])
  with PtPercentage assms(1) c q show ?thesis by (auto simp: penaltyOf_def penalty_share_def termsOf_def)
qed

end

section \<open>The cut-off hour\<close>

text \<open>
  The cut-off compares the hour of the day at which the audit runs, whatever the day: an audit of a day
  that runs in the early hours of the next one treats no arrival of its day as a no-show.
\<close>

lemma cutoff_ignores_the_day:
  assumes "sel1 (\<lambda>q. pr_id q = p) (properties (wdb w)) = Some q" and "pr_noShowCutoffHour q = Some h"
    and "utcHours (en_now E) < h" and "\<forall>r\<in>set (noShowCandidates p d (wdb w)). rv_arrivalDate r = d"
  shows "processNoShows L E A p d w = (Inr \<lparr>ns_count = 0, ns_reservationIds = [], ns_errors = []\<rparr>, w)"
proof -
  have "filter (noShowEligible (en_now E) d (Some h)) (noShowCandidates p d (wdb w)) = []"
    using assms(3,4) by (auto simp: filter_empty_conv noShowEligible_def)
  with assms(1,2) show ?thesis by (simp add: processNoShows_def bindS_def getS_def Let_def returnS_def)
qed

section \<open>Example\<close>

text \<open>A stay in house at the live rate, on the folio of the example.\<close>

definition demo_inhouse :: reservation where
  "demo_inhouse = (demo_stay RsCheckedIn)\<lparr>rv_id := ''r1''\<rparr>"

lemma demo_midnight: "ad_dateOf demo_services 1709078400000 = ''2024-02-28''"
  by (simp add: demo_services_def days_2024)

lemma demo_tariff: "\<exists>st1 w1. postTariff ref_numlib 5 demo_services demo_ids ''p'' ''2024-02-28'' demo_inhouse (noTariffs ref_numlib)
    (demo_tables [demo_inhouse]) = (Inr st1, w1) \<and> tt_count st1 = 1 \<and> length (charges (wdb w1)) = 2"
proof -
  let ?w = "demo_tables [demo_inhouse]" and ?dto = "tariffDto ''p'' ''2024-02-28'' ''100.00'' ''EUR'' ''g1'' 1709078400000"
  let ?row = "chargeOf (demo_ids 0) ''f1'' ?dto noPersistence 1709078400000"
  let ?c = "?row\<lparr>ch_amount := ''100.00'', ch_taxAmount := ''0.00''\<rparr>"
  let ?w1 = "?w\<lparr>wdb := put_charge ?c (wdb ?w)\<rparr>"
  have sd: "newDate (cc_serviceDate ?dto) = Inr 1709078400000"
    using newDate_midnight [of "''2024-02-28''"] by (simp add: utc_2024 tariffDto_def)
  have st: "storeCharge ref_numlib ?row = Inr ?c"
    by (simp add: storeCharge_def chargeOf_def tariffDto_def noPersistence_def ledger_columns numericOptR_def)
  have ins: "insertCharge ref_numlib ?row ?w = (Inr ?c, ?w1)"
    using st by (simp add: insertCharge_iff demo_tables_def demo_charge_def sameSource_def sameDeposit_def chargeOf_def noPersistence_def)
  have "(\<Sum>c\<leftarrow>folioCharges ''f1'' ''p'' (wdb ?w1). charge_value c) = 200" "folioPayments ''f1'' ''p'' (wdb ?w1) = []"
    by (simp_all add: folioCharges_def folioPayments_def demo_tables_def demo_charge_def chargeOf_def tariffDto_def charge_value_def ledger_texts)
  then obtain w2 where rec: "recalculateBalance ref_numlib 5 ''f1'' ''p'' ?w1 = (Inr (), w2)" and w2: "charges (wdb w2) = charges (wdb ?w1)"
    using ref_recalc [of "''f1''" "''p''" ?w1 200 0 5] by (auto simp: scaled_def)
  have tax: "calculateTaxes ref_numlib a ct p dd opts ?w1 = (Inr [], ?w1)" for a ct p dd opts
    by (simp add: calculateTaxes_def getActiveTaxProfile_def op_defs demo_tables_def)
  have f: "sel1 (folioRow ''f1'' ''p'') (folios (wdb ?w)) = Some (demo_folio ''f1'' ''100.00'')" "fo_status (demo_folio ''f1'' ''100.00'') = FsOpen"
    by (simp_all add: demo_tables_def demo_folio_def)
  have dto: "cc_propertyId ?dto = ''p''" "cc_type ?dto = CtRoom" "cc_amount ?dto = ''100.00''" "\<not> cc_provenance ?dto"
      "\<not> cc_skipTaxCalculation ?dto" "\<not> present (pe_sourceKey noPersistence)" "\<not> present (pe_revenueRole noPersistence)"
      "ch_type ?c = CtRoom"
    by (simp_all add: tariffDto_def noPersistence_def)
  obtain w3 where post: "postCharge ref_numlib 5 demo_ids False ''f1'' ?dto noPersistence ?w = (Inr (?c, [], True), w3)"
    and w3: "charges (wdb w3) = charges (wdb ?w1)"
    using sd ins rec w2 tax f
    by (simp add: postCharge_def bindS_Inr_iff guardS_Inr_iff findFolio_iff liftS_iff returnS_iff emit_iff dto ledger_columns Let_def)
  have o: "openGuestFolio ''r1'' ''p'' (wdb ?w) = Some (demo_folio ''f1'' ''100.00'')" "fo_id (demo_folio ''f1'' ''100.00'') = ''f1''"
    by (simp_all add: openGuestFolio_def demo_tables_def demo_folio_def)
  have live: "rv_acceptedPricingSnapshot demo_inhouse = None" "rv_id demo_inhouse = ''r1''" "rv_currencyCode demo_inhouse = ''EUR''"
      "rv_guestId demo_inhouse = ''g1''" "liveRate ref_numlib demo_inhouse (wdb ?w) = Inr ''100.00''"
      "sel1 (tariffPosted demo_services ''f1'' ''p'' ''2024-02-28'') (charges (wdb ?w)) = None"
    by (simp_all add: demo_inhouse_def demo_stay_def liveRate_def demo_tables_def demo_plan_def tariffPosted_def demo_charge_def)
  show ?thesis
    using post w3 o by (simp add: postTariff_def bindS_Inr_iff getS_iff liftS_iff returnS_iff live utc_2024 addTariff_def ledger_columns
        noTariffs_def) (auto simp: demo_tables_def)
qed

section \<open>Properties\<close>





end
