(* ===== verification/Spec2Isabelle.thy ===== *)
theory Spec2Isabelle
  imports Cashier PaymentBooks Desk AuditCharges
begin

text \<open>
  Verification library of a hotel property management system: the services under
  \<open>src/apps/api/src/modules\<close> (NestJS, TypeScript) over the tables of
  \<open>src/packages/database/src/schema\<close>, with the shared policies of \<open>src/packages/shared/src\<close>.

  \<^bold>\<open>The program.\<close> Each service is a class of asynchronous methods over one PostgreSQL
  database. A method reads rows, throws an HTTP exception or writes rows, mostly inside a
  transaction, and emits events. The reservation service asks the availability service what
  can be sold and the room status service for the physical room; the folio service is the
  guest ledger, it asks the tax engine for the taxes of a charge; folio routing decides on
  which folio a charge lands; the payment service takes, captures, voids, refunds and corrects
  payments through a payment processor and recalculates the folio, and the webhooks of the
  processor change payments from outside; the policy service says what a cancellation or a no-show
  costs; the night audit closes a business date: it posts the room charges of the stays in house
  through the folio service, turns missing guests into no-shows through the reservation service,
  moves the stays on and locks the charges of the day; the cashier keeps the cash drawers; the outbox delivers the
  events of committed transactions; the Stripe policy decides what a webhook does to the
  ledger status of a payment of a booking request.

  \<^bold>\<open>How it is modelled.\<close> A method is a function from a world (the tables and the events
  emitted so far) to a result, an exception or a value, and a new world; it is written
  with the monadic combinators of \<open>Prelude\<close>, so that each guard, early return and throw of the
  source is a branch, in the order of the source. \<open>transactionS\<close> rolls the tables back when its
  body throws. A table is the list of its rows in insertion order; a select with
  \<open>limit 1\<close> is \<open>sel1\<close>, an update is \<open>upd\<close>. The tables are a chain of extended records (outbox,
  inventory, stay, tax, folio, routing, audit), and an operation is polymorphic in the tables it does
  not use. Identifiers made by the database, the clock and listeners are arguments.
  Operations run one after the other: a row lock is modelled as the read it protects.

  \<^bold>\<open>Libraries.\<close> decimal.js and the numeric columns of PostgreSQL are not in the repository. They
  are the parameter \<open>L\<close> of the operations (\<open>numlib\<close> of \<open>Numerics\<close>); the locale \<open>numerics\<close> states
  what their documentation promises of exact decimals, rounding half up and the overflow of a
  column, and its interpretation on \<open>ref_numlib\<close> shows that the promises can be met. Each property
  that needs them takes \<open>numerics L dval\<close> as a hypothesis. The services that take payments, post
  ancillaries and settle deposits are the fields of the record \<open>stay_env\<close>; a property that runs
  them takes \<open>quiet E\<close> as a hypothesis: they do not write reservations. The payment processor is the
  record \<open>gateway\<close>, the handler of the payments of Booking Requests the record \<open>requestHandler\<close>. What
  is asked of them is a premise of the steps: a call leaves the tables alone (\<open>calm\<close>,
  \<open>undisturbed\<close>), or at least lets payments evolve as the service itself does (\<open>fair_refunds\<close>,
  \<open>fair_handler\<close>), and a report never gives back more than was paid (\<open>event_ok\<close>). The services a night audit calls and the
  two time zones it depends on, of the database session and of the server, are the record \<open>audit_env\<close>;
  its properties take as hypotheses that the services leave the audit runs alone (\<open>discreet\<close>), do not
  write reservations (\<open>stays_untouched\<close>) or write rows of their property only (\<open>tenant_bound\<close>). Numbers of the language are
  IEEE doubles (\<open>Doubles\<close>) where rounding can be seen, and integers elsewhere.

  \<^bold>\<open>Theories and sources.\<close>
  \<^item> \<open>Prelude\<close>: exceptions, the monad, table primitives, and two contracts as locales: a table of
    rows owned by a tenant, and a finite status machine (with a rank where each status is visited
    at most once). \<open>Numerics\<close>: decimal texts, their values, the money library.
  \<^item> \<open>Cashier\<close>: \<open>cashier/cashier.service.ts\<close>. The outcome of closing a session, the invariant
    \<open>cashier_books_stay_balanced\<close> of all reachable states, and tenant isolation.
  \<^item> \<open>Calendar\<close>: \<open>stay-dates.ts\<close> and the canonical date check, over the Gregorian calendar of
    the years 0 to 9999: which texts are accepted and the nights of a stay.
  \<^item> \<open>StripeState\<close>: \<open>stripe-financial-state.ts\<close> and \<open>payment-ledger.ts\<close> of the shared package:
    ownership of a PaymentIntent, monotone ledger status, remaining captured amount.
  \<^item> \<open>Outbox\<close>: \<open>webhook/domain-event-outbox.service.ts\<close>: at-least-once delivery as an invariant of
    all reachable states, and the outcome of one delivery attempt.
  \<^item> \<open>Room\<close>: \<open>room/room-status.service.ts\<close> and \<open>room-inventory-policy.ts\<close>: the status table,
    readiness, every status-changing operation. \<open>Hotel\<close>: the reservation status machine and
    the rows of a stay.
  \<^item> \<open>Tax\<close>: \<open>tax/tax.service.ts\<close>. The taxes of a charge are exact; the binary search that takes
    a gross total apart is sound and complete; both round trips.
  \<^item> \<open>Doubles\<close>, \<open>Availability\<close>: \<open>reservation/availability.service.ts\<close> and
    \<open>RatePlanService.assertSellable\<close>: the counts computed from prefetched queries are the
    counts over the whole database, with their bounds; no overselling.
  \<^item> \<open>Folio\<close> (definitions), \<open>FolioBooks\<close> (values of rows and the invariant \<open>books\<close>),
    \<open>FolioRouting\<close>, \<open>Ledger\<close>: \<open>folio/folio.service.ts\<close> and \<open>folio/folio-routing.service.ts\<close>. The
    step relation \<open>ledger_step\<close> has one rule per operation; its invariant says that the stored
    totals of every folio are the sums of its rows, that charges are only ever appended and that
    a locked charge does not change. The other properties are about single operations:
    transfers conserve value, reversals cancel, replays are idempotent, failures roll back.
  \<^item> \<open>Reservation\<close> (definitions): \<open>reservation/reservation.service.ts\<close> and
    \<open>common/crypto/confirmation-number.ts\<close>, every operation that changes a stay. \<open>Stay\<close>: what
    each of them may do to the table of reservations. The locale \<open>step_relation\<close> says when a
    relation between tables goes through the monad; it is interpreted for frames (\<open>keeps\<close>: a
    view of the tables stays the same) and for sequences of \<open>stay_change\<close>, the five kinds of
    changes of the reservation rows. \<open>stay_step\<close> has one rule per operation; its invariant
    \<open>one_stay_per_room\<close> gives the properties of \<open>StayHistory\<close>: no room is given to two
    stays and no stay leaves the status table.
  \<^item> \<open>Booking\<close>: an accepted booking had a unit to sell on every night; confirmation numbers are
    injective in their entropy. \<open>Desk\<close>: what a check-in, a cancellation and a bulk action find
    and leave, and the double booking that changing the dates of an assigned stay allows.

  \<^item> \<open>Payment\<close> (definitions): \<open>payment/payment.service.ts\<close> and \<open>payment/stripe-webhook.controller.ts\<close>.
    \<open>PaymentStates\<close> abstracts the rows of a payment and its refunds to a \<open>tender\<close> and shows that
    each operation implements the transition system \<open>tender_step\<close> and keeps the payments
    well-formed (\<open>evolves\<close>, a \<open>step_relation\<close> again). \<open>PaymentRuns\<close>: all sequences of operations
    (\<open>payment_step\<close>), the outcome of refunds, and two runs that lose money. \<open>PaymentBooks\<close>: the
    ledger and the payments together (\<open>house_step\<close>) keep the books.
  \<^item> \<open>Policy\<close> (definitions): \<open>policy/policy.service.ts\<close>. \<open>NightAudit\<close> (definitions):
    \<open>night-audit/night-audit.service.ts\<close> and \<open>common/database/accepted-pricing-lock.ts\<close>.
    \<open>AuditRuns\<close>: whole audits. A day is decided once, a completed audit locks its charges for good,
    stays keep their rooms apart and follow the status table, other properties are not touched;
    each rests on frames or relations carried through the monad by \<open>step_relation\<close>.
    \<open>AuditCharges\<close>: posting a tariff twice charges once, and the penalty of a no-show.

  \<^bold>\<open>Bounds.\<close> The exactness of taxes is stated for charges whose gross value is at most \<open>10 ^ 7\<close>
  (\<open>postable\<close> in \<open>FolioBooks\<close>), far below the overflow of \<open>numeric(12,2)\<close>; above it a posting may
  throw. Recursion over search intervals (\<open>backSearch\<close>) terminates by the width of the interval;
  no definition uses fuel. Availability is computed in doubles and stated for fewer than
  \<open>2 ^ 53\<close> rooms. Business dates of an audit are calendar dates; another text of the ISO format,
  which the validator lets through, counts as an error of the database.

  \<^bold>\<open>Not modelled.\<close> HTTP routing, validation pipes and authorisation, message
  texts of the language models, gateways (Stripe and others), channel and file adapters, reports
  and exports, the dashboard and the booking site, schema scripts and seed data: they are glue
  around the services or talk to systems outside the repository. Concurrency between
  transactions is not modelled: each operation is a step, and the unique indexes and conditional
  updates the code uses against races appear as the constraints and guards they are. Of the
  folio service \<open>reconcileAcceptedStayAmendment\<close> is left out, of the rate plans all but the sales
  check, of the webhook controller the verification of signatures, of the reservation service the reads (\<open>findById\<close>, \<open>list\<close>, \<open>auditHistory\<close>,
  \<open>findUnassigned\<close>), of the night audit the revenue summary: it only reads, and its figures are rounded quotients of
  doubles turned into decimals; like the extras per night, the settlement of deposits and the
  housekeeping tasks it is a field of \<open>audit_env\<close>. Messages the source gives in Russian are given in English.
\<close>

end
